(* ===== verification/Cohort_State.thy ===== *)
theory Cohort_State
  imports Q0_Prelude
begin

text \<open>
  \<^verbatim>\<open>internal/cohort/state.go\<close>: the lifecycle states, the fault taxonomy and the phases, each
  with the rendering of its \<^verbatim>\<open>String\<close> method; and the error values of the repository with the
  parts of Go's \<^verbatim>\<open>errors\<close> package it uses (\<^verbatim>\<open>Is\<close> and \<^verbatim>\<open>As\<close> follow the chain of wrapped
  errors). Go's integer enumerations are datatypes with the source's constants; the phases
  and fault classes are ordered as their integers are (\<open>linorder\<close> instances).
\<close>

section \<open>Lifecycle states\<close>

datatype lifecycle_state =
    StateUnknown
  | StateAbsent
  | StateLaunching
  | StateRunning
  | StateStopped
  | StateHibernated
  | StateDraining
  | StateFailed

fun lifecycle_string :: "lifecycle_state \<Rightarrow> string" where
  "lifecycle_string StateAbsent = ''absent''"
| "lifecycle_string StateLaunching = ''launching''"
| "lifecycle_string StateRunning = ''running''"
| "lifecycle_string StateStopped = ''stopped''"
| "lifecycle_string StateHibernated = ''hibernated''"
| "lifecycle_string StateDraining = ''draining''"
| "lifecycle_string StateFailed = ''failed''"
| "lifecycle_string StateUnknown = ''unknown''"

datatype stop_mode = StopWarm | StopHibernate

section \<open>Faults\<close>

datatype fault_class =
    FaultRetryableConsistency
  | FaultThrottle
  | FaultCapacityExhausted
  | FaultTerminal
  | FaultAmbiguous

fun fault_class_string :: "fault_class \<Rightarrow> string" where
  "fault_class_string FaultRetryableConsistency = ''retryable-consistency''"
| "fault_class_string FaultThrottle = ''throttle''"
| "fault_class_string FaultCapacityExhausted = ''capacity-exhausted''"
| "fault_class_string FaultTerminal = ''terminal''"
| "fault_class_string FaultAmbiguous = ''ambiguous''"

record fault =
  f_class :: fault_class
  f_code :: string
  f_retryable :: bool
  f_message :: string

definition mk_fault :: "fault_class \<Rightarrow> string \<Rightarrow> string \<Rightarrow> fault" where
  "mk_fault cl code msg = \<lparr>f_class = cl, f_code = code, f_retryable = False, f_message = msg\<rparr>"

lemma mk_fault_sel [simp]:
  "f_class (mk_fault cl code msg) = cl"
  "f_code (mk_fault cl code msg) = code"
  "f_retryable (mk_fault cl code msg) = False"
  "f_message (mk_fault cl code msg) = msg"
  by (simp_all add: mk_fault_def)

section \<open>Phases\<close>

datatype phase =
    PhaseLaunchAcked
  | PhaseRunning
  | PhaseEnrolled
  | PhaseCohortBarrier
  | PhaseCohortAssembly
  | PhaseReady

fun phase_string :: "phase \<Rightarrow> string" where
  "phase_string PhaseLaunchAcked = ''launch-acked''"
| "phase_string PhaseRunning = ''running''"
| "phase_string PhaseEnrolled = ''enrolled''"
| "phase_string PhaseCohortBarrier = ''cohort-barrier''"
| "phase_string PhaseCohortAssembly = ''cohort-assembly''"
| "phase_string PhaseReady = ''ready''"

text \<open>The integer a phase constant stands for (\<^verbatim>\<open>iota\<close>), and the order it gives.\<close>

fun phase_index :: "phase \<Rightarrow> nat" where
  "phase_index PhaseLaunchAcked = 0"
| "phase_index PhaseRunning = 1"
| "phase_index PhaseEnrolled = 2"
| "phase_index PhaseCohortBarrier = 3"
| "phase_index PhaseCohortAssembly = 4"
| "phase_index PhaseReady = 5"

lemma phase_index_inj: "phase_index p = phase_index q \<Longrightarrow> p = q"
  by (cases p; cases q) simp_all

instantiation phase :: linorder
begin

definition less_eq_phase :: "phase \<Rightarrow> phase \<Rightarrow> bool" where
  "less_eq_phase p q \<longleftrightarrow> phase_index p \<le> phase_index q"

definition less_phase :: "phase \<Rightarrow> phase \<Rightarrow> bool" where
  "less_phase p q \<longleftrightarrow> phase_index p < phase_index q"

instance
  by standard (auto simp: less_eq_phase_def less_phase_def intro: phase_index_inj)

end

lemma phase_string_inj: "phase_string p = phase_string q \<Longrightarrow> p = q"
  by (cases p; cases q) simp_all

lemma fault_class_string_inj: "fault_class_string p = fault_class_string q \<Longrightarrow> p = q"
  by (cases p; cases q) simp_all

section \<open>Error values\<close>

text \<open>
  The error values the code makes or inspects: the two context errors, errors built from
  text, errors that wrap another (\<^verbatim>\<open>fmt.Errorf\<close> with \<^verbatim>\<open>%w\<close> as its last verb: the text before
  it and the wrapped error), joined errors, network and URL errors, structured AWS API
  errors (code and message), the AWS layer's \<^verbatim>\<open>FaultError\<close>, and the not-found values of the
  stores and of S3.
\<close>

datatype ctx_err = CtxCanceled | CtxDeadlineExceeded

fun ctx_err_text :: "ctx_err \<Rightarrow> string" where
  "ctx_err_text CtxCanceled = ''context canceled''"
| "ctx_err_text CtxDeadlineExceeded = ''context deadline exceeded''"

datatype go_error =
    CtxErr ctx_err
  | ErrText string
  | ErrWrap string go_error
  | ErrJoin "go_error list"
  | NetErr string
  | UrlErr string go_error
  | ApiErr string string
  | FaultErr fault
  | ErrNotFound string
  | ErrNoHold string
  | ErrNotExist
  | S3NotFound

fun error_text :: "go_error \<Rightarrow> string" where
  "error_text (CtxErr c) = ctx_err_text c"
| "error_text (ErrText s) = s"
| "error_text (ErrWrap s e) = s @ error_text e"
| "error_text (ErrJoin es) = join_with nl (map error_text es)"
| "error_text (NetErr s) = s"
| "error_text (UrlErr s e) = s @ '': '' @ error_text e"
| "error_text (ApiErr code msg) = ''api error '' @ code @ '': '' @ msg"
| "error_text (FaultErr f) =
     fault_class_string (f_class f) @ ''/'' @ f_code f @ '': '' @ f_message f"
| "error_text (ErrNotFound i) = ''recordstore: no record for entity: '' @ i"
| "error_text (ErrNoHold i) = ''slurm: no hold for entity: '' @ i"
| "error_text ErrNotExist = ''file does not exist''"
| "error_text S3NotFound = ''NotFound''"

text \<open>\<^verbatim>\<open>errors.Is\<close> for a context error, along the chain of wrapped errors.\<close>

fun is_ctx_err :: "ctx_err \<Rightarrow> go_error \<Rightarrow> bool" where
  "is_ctx_err c (CtxErr d) = (c = d)"
| "is_ctx_err c (ErrWrap _ e) = is_ctx_err c e"
| "is_ctx_err c (UrlErr _ e) = is_ctx_err c e"
| "is_ctx_err c (ErrJoin es) = list_ex (is_ctx_err c) es"
| "is_ctx_err c _ = False"

text \<open>\<^verbatim>\<open>errors.Is(err, ErrNoHold)\<close>; the sentinel carries the entity that \<^verbatim>\<open>Get\<close> wraps around it.\<close>

fun is_no_hold :: "go_error \<Rightarrow> bool" where
  "is_no_hold (ErrNoHold _) = True"
| "is_no_hold (ErrWrap _ e) = is_no_hold e"
| "is_no_hold (UrlErr _ e) = is_no_hold e"
| "is_no_hold (ErrJoin es) = list_ex is_no_hold es"
| "is_no_hold _ = False"

text \<open>\<^verbatim>\<open>errors.As\<close>: the first value of a type in the chain.\<close>

fun find_some :: "('a \<Rightarrow> 'b option) \<Rightarrow> 'a list \<Rightarrow> 'b option" where
  "find_some f [] = None"
| "find_some f (x # xs) = (case f x of None \<Rightarrow> find_some f xs | Some y \<Rightarrow> Some y)"

lemma find_some_cong [fundef_cong]:
  "xs = ys \<Longrightarrow> (\<And>x. x \<in> set ys \<Longrightarrow> f x = g x) \<Longrightarrow> find_some f xs = find_some g ys"
  by (induction ys arbitrary: xs) (auto split: option.split)

fun as_api_err :: "go_error \<Rightarrow> (string \<times> string) option" where
  "as_api_err (ApiErr code msg) = Some (code, msg)"
| "as_api_err (ErrWrap _ e) = as_api_err e"
| "as_api_err (UrlErr _ e) = as_api_err e"
| "as_api_err (ErrJoin es) = find_some as_api_err es"
| "as_api_err _ = None"

fun as_fault_err :: "go_error \<Rightarrow> fault option" where
  "as_fault_err (FaultErr f) = Some f"
| "as_fault_err (ErrWrap _ e) = as_fault_err e"
| "as_fault_err (UrlErr _ e) = as_fault_err e"
| "as_fault_err (ErrJoin es) = find_some as_fault_err es"
| "as_fault_err _ = None"

text \<open>
  \<^verbatim>\<open>errors.As\<close> for \<^verbatim>\<open>net.Error\<close> and \<^verbatim>\<open>*url.Error\<close>. A URL error is a \<^verbatim>\<open>net.Error\<close> as well, and so
  is \<^verbatim>\<open>context.DeadlineExceeded\<close>.
\<close>

fun is_transport_err :: "go_error \<Rightarrow> bool" where
  "is_transport_err (NetErr _) = True"
| "is_transport_err (UrlErr _ _) = True"
| "is_transport_err (CtxErr c) = (c = CtxDeadlineExceeded)"
| "is_transport_err (ErrWrap _ e) = is_transport_err e"
| "is_transport_err (ErrJoin es) = list_ex is_transport_err es"
| "is_transport_err _ = False"

fun is_sentinel :: "go_error \<Rightarrow> go_error \<Rightarrow> bool" where
  "is_sentinel s (ErrWrap p e) = (ErrWrap p e = s \<or> is_sentinel s e)"
| "is_sentinel s e = (e = s)"

text \<open>How a program ends: its exit code and what it prints to standard error.\<close>

record exit_report =
  xr_code :: int
  xr_stderr :: string

definition exits_well :: exit_report where
  "exits_well = \<lparr>xr_code = 0, xr_stderr = ''''\<rparr>"

definition exit_failed :: "string \<Rightarrow> go_error \<Rightarrow> exit_report" where
  "exit_failed prog e = \<lparr>xr_code = 1, xr_stderr = prog @ '': '' @ error_text e @ nl\<rparr>"

end
