(* ===== verification/Sha256.thy ===== *)
theory Sha256
  imports Q0_Prelude "HOL-Library.Word"
begin

text \<open>
  SHA-256 as Go's \<^verbatim>\<open>crypto/sha256\<close> computes it (FIPS 180-4), and \<^verbatim>\<open>encoding/hex\<close>. The
  repository uses the digest in idempotency tokens and content hashes; the model states it
  on 32-bit words, so that a token is a value and not a parameter. What the proofs use of it is
  that it returns 32 bytes.
\<close>

unbundle bit_operations_syntax

type_synonym w32 = "32 word"

definition rotr32 :: "nat \<Rightarrow> w32 \<Rightarrow> w32" where
  "rotr32 n x = drop_bit n x OR push_bit (32 - n) x"

definition sha_ch :: "w32 \<Rightarrow> w32 \<Rightarrow> w32 \<Rightarrow> w32" where
  "sha_ch x y z = (x AND y) XOR ((NOT x) AND z)"

definition sha_maj :: "w32 \<Rightarrow> w32 \<Rightarrow> w32 \<Rightarrow> w32" where
  "sha_maj x y z = (x AND y) XOR (x AND z) XOR (y AND z)"

definition big_sigma0 :: "w32 \<Rightarrow> w32" where
  "big_sigma0 x = rotr32 2 x XOR rotr32 13 x XOR rotr32 22 x"

definition big_sigma1 :: "w32 \<Rightarrow> w32" where
  "big_sigma1 x = rotr32 6 x XOR rotr32 11 x XOR rotr32 25 x"

definition small_sigma0 :: "w32 \<Rightarrow> w32" where
  "small_sigma0 x = rotr32 7 x XOR rotr32 18 x XOR drop_bit 3 x"

definition small_sigma1 :: "w32 \<Rightarrow> w32" where
  "small_sigma1 x = rotr32 17 x XOR rotr32 19 x XOR drop_bit 10 x"

text \<open>
  The round constants are the first 32 bits of the fractional parts of the cube roots of the
  first 64 primes, the initial state those of the square roots of the first eight. Both are
  computed here from that description, by the greatest integer root, bit by bit.
\<close>

definition primes_below :: "nat \<Rightarrow> nat list" where
  "primes_below n = [p \<leftarrow> [2..<n]. list_all (\<lambda>d. p mod d \<noteq> 0) [2..<p]]"

fun int_root :: "nat \<Rightarrow> nat \<Rightarrow> nat \<Rightarrow> nat \<Rightarrow> nat" where
  "int_root k n 0 r = r"
| "int_root k n (Suc b) r = int_root k n b (if (r + 2 ^ b) ^ k \<le> n then r + 2 ^ b else r)"

definition root_fraction :: "nat \<Rightarrow> nat \<Rightarrow> w32" where
  "root_fraction k p = word_of_nat (int_root k (p * 2 ^ (32 * k)) 40 0)"

definition sha_k :: "w32 list" where
  "sha_k = map (root_fraction 3) (primes_below 312)"

definition sha_h0 :: "w32 list" where
  "sha_h0 = map (root_fraction 2) (primes_below 20)"

text \<open>Padding to a multiple of 64 bytes: \<^verbatim>\<open>0x80\<close>, zeros, the bit length in eight bytes.\<close>

fun be_bytes :: "nat \<Rightarrow> nat \<Rightarrow> nat list" where
  "be_bytes 0 n = []"
| "be_bytes (Suc k) n = be_bytes k (n div 256) @ [n mod 256]"

definition sha_pad :: "nat list \<Rightarrow> nat list" where
  "sha_pad m =
     (let l = length m; z = (55 + 64 - l mod 64) mod 64
      in m @ [128] @ replicate z 0 @ be_bytes 8 (8 * l))"

fun words_of_bytes :: "nat list \<Rightarrow> w32 list" where
  "words_of_bytes (a # b # c # d # xs) =
     of_nat (((a * 256 + b) * 256 + c) * 256 + d) # words_of_bytes xs"
| "words_of_bytes _ = []"

text \<open>The message schedule, built as a list of the last words in reverse.\<close>

fun sha_extend :: "nat \<Rightarrow> w32 list \<Rightarrow> w32 list" where
  "sha_extend 0 rw = rw"
| "sha_extend (Suc k) rw =
     sha_extend k ((small_sigma1 (rw ! 1) + rw ! 6 + small_sigma0 (rw ! 14) + rw ! 15) # rw)"

fun sha_rounds :: "w32 list \<Rightarrow> w32 list \<Rightarrow> w32 list \<Rightarrow> w32 list" where
  "sha_rounds (k # ks) (w # ws) [a, b, c, d, e, f, g, h] =
     (let t1 = h + big_sigma1 e + sha_ch e f g + k + w;
          t2 = big_sigma0 a + sha_maj a b c
      in sha_rounds ks ws [t1 + t2, a, b, c, d + t1, e, f, g])"
| "sha_rounds _ _ st = st"

definition sha_block :: "w32 list \<Rightarrow> w32 list \<Rightarrow> w32 list" where
  "sha_block hs blk =
     map2 (+) hs (sha_rounds sha_k (rev (sha_extend 48 (rev blk))) hs)"

fun sha_blocks :: "nat \<Rightarrow> w32 list \<Rightarrow> w32 list \<Rightarrow> w32 list" where
  "sha_blocks 0 hs ws = hs"
| "sha_blocks (Suc n) hs ws = sha_blocks n (sha_block hs (take 16 ws)) (drop 16 ws)"

definition sha256 :: "string \<Rightarrow> string" where
  "sha256 s =
     (let ws = words_of_bytes (sha_pad (map of_char s))
      in map char_of (concat (map (\<lambda>w. be_bytes 4 (unat w))
           (sha_blocks (length ws div 16) sha_h0 ws))))"

text \<open>\<^verbatim>\<open>hex.EncodeToString\<close>.\<close>

definition hex_digit :: "nat \<Rightarrow> char" where
  "hex_digit d = (if d < 10 then char_of (48 + d) else char_of (87 + d))"

definition hex_encode :: "string \<Rightarrow> string" where
  "hex_encode s = concat (map (\<lambda>c. [hex_digit ((of_char c :: nat) div 16), hex_digit (of_char c mod 16)]) s)"

section \<open>Sizes and alphabet\<close>

lemma length_be_bytes [simp]: "length (be_bytes k n) = k"
  by (induction k arbitrary: n) auto

lemma length_sha_rounds: "length st = 8 \<Longrightarrow> length (sha_rounds ks ws st) = 8"
  by (induction ks ws st rule: sha_rounds.induct) (auto simp: Let_def)

lemma length_sha_block: "length hs = 8 \<Longrightarrow> length (sha_block hs blk) = 8"
  by (simp add: sha_block_def length_sha_rounds)

lemma length_sha_blocks: "length hs = 8 \<Longrightarrow> length (sha_blocks n hs ws) = 8"
  by (induction n arbitrary: hs ws) (auto simp: length_sha_block)

lemma length_concat_const:
  "(\<And>x. x \<in> set xs \<Longrightarrow> length (f x) = k) \<Longrightarrow> length (concat (map f xs)) = k * length xs"
  by (induction xs) auto

lemma primes_below_20: "primes_below 20 = [2, 3, 5, 7, 11, 13, 17, 19]"
  by code_simp

lemma length_sha256 [simp]: "length (sha256 s) = 32"
proof -
  have "length sha_h0 = 8" by (simp add: sha_h0_def primes_below_20)
  then show ?thesis
    by (simp add: sha256_def Let_def length_sha_blocks length_concat_const [where k = 4])
qed

definition is_hex_char :: "char \<Rightarrow> bool" where
  "is_hex_char c \<longleftrightarrow>
     (48 \<le> (of_char c :: nat) \<and> (of_char c :: nat) \<le> 57) \<or>
     (97 \<le> (of_char c :: nat) \<and> (of_char c :: nat) \<le> 102)"

lemma is_hex_digit: "d < 16 \<Longrightarrow> is_hex_char (hex_digit d)"
  by (auto simp: is_hex_char_def hex_digit_def)

lemma of_char_div_16: "(of_char (c :: char) :: nat) div 16 < 16"
  using nat_of_char_less_256 [of c] by (simp add: div_less_iff_less_mult)

lemma hex_encode_chars: "c \<in> set (hex_encode s) \<Longrightarrow> is_hex_char c"
  using of_char_div_16 by (auto simp: hex_encode_def intro!: is_hex_digit)

lemma length_hex_encode [simp]: "length (hex_encode s) = 2 * length s"
  by (simp add: hex_encode_def length_concat_const [where k = 2])

end
