(* ===== verification/Cohort_Entity.thy ===== *)
theory Cohort_Entity
  imports Cohort_State Sha256
begin

text \<open>
  \<^verbatim>\<open>internal/cohort/entity.go\<close>, \<^verbatim>\<open>token.go\<close>, \<^verbatim>\<open>cohort.go\<close> and \<^verbatim>\<open>backoff.go\<close>: named entities and
  their intents, the capacity rungs, observations and readiness, cohorts with their phase
  budgets and validating constructors, the idempotency token, and the backoff policy.
  \<^verbatim>\<open>EntityID\<close>, \<^verbatim>\<open>CohortID\<close> and \<^verbatim>\<open>Generation\<close> are strings. A constructor that returns an error
  is an \<open>Inl\<close>.
\<close>

section \<open>Tokens\<close>

type_synonym entity_id = string
type_synonym cohort_id = string
type_synonym generation = string

definition nul :: char where "nul = CHR 0x00"

definition token_input :: "string \<Rightarrow> string \<Rightarrow> string \<Rightarrow> string" where
  "token_input cluster entity gen = cluster @ [nul] @ entity @ [nul] @ gen"

definition token :: "string \<Rightarrow> string \<Rightarrow> string \<Rightarrow> string" where
  "token cluster entity gen = ''q0-'' @ hex_encode (take 16 (sha256 (token_input cluster entity gen)))"

lemma append_sep_inj:
  "c \<notin> set a \<Longrightarrow> c \<notin> set b \<Longrightarrow> a @ c # x = b @ c # y \<Longrightarrow> a = b \<and> x = y"
  by (induction a arbitrary: b) (auto simp: Cons_eq_append_conv)

lemma token_input_inj:
  assumes "nul \<notin> set c" "nul \<notin> set c'" "nul \<notin> set e" "nul \<notin> set e'"
    and "token_input c e g = token_input c' e' g'"
  shows "c = c' \<and> e = e' \<and> g = g'"
proof -
  have "c @ nul # (e @ nul # g) = c' @ nul # (e' @ nul # g')"
    using assms(5) by (simp add: token_input_def)
  then have c: "c = c'" and "e @ nul # g = e' @ nul # g'"
    using append_sep_inj [OF assms(1,2)] by auto
  then show ?thesis using append_sep_inj [OF assms(3,4)] by auto
qed

lemma length_token: "length (token c e g) = 35"
  by (simp add: token_def)

section \<open>Rungs and intents\<close>

datatype capacity_model = CapacityOnDemand | CapacitySpot | CapacityReserved

fun capacity_model_index :: "capacity_model \<Rightarrow> nat" where
  "capacity_model_index CapacityOnDemand = 0"
| "capacity_model_index CapacitySpot = 1"
| "capacity_model_index CapacityReserved = 2"

record rung =
  r_instance_type :: string
  r_avail_zone :: string
  r_capacity_model :: capacity_model
  r_account_id :: string
  r_warm_start :: bool

record entity_intent =
  i_id :: entity_id
  i_generation :: generation
  i_cohort :: cohort_id
  i_rung :: rung
  i_fallback_chain :: "rung list"
  i_token :: string

definition validate_rung :: "rung \<Rightarrow> go_error option" where
  "validate_rung r =
     (if r_instance_type r = '''' then Some (ErrText ''InstanceType must not be empty'') else None)"

text \<open>The loop over the chain: the index and error of the first invalid rung.\<close>

fun first_bad_rung :: "nat \<Rightarrow> rung list \<Rightarrow> (nat \<times> go_error) option" where
  "first_bad_rung i [] = None"
| "first_bad_rung i (r # rs) =
     (case validate_rung r of Some e \<Rightarrow> Some (i, e) | None \<Rightarrow> first_bad_rung (Suc i) rs)"

definition new_entity_intent ::
  "string \<Rightarrow> entity_id \<Rightarrow> generation \<Rightarrow> cohort_id \<Rightarrow> rung \<Rightarrow> rung list \<Rightarrow> string \<Rightarrow> go_error + entity_intent"
where
  "new_entity_intent cluster eid gen cid rung chain tok =
     (if eid = '''' then Inl (ErrText ''cohort: EntityIntent.ID must not be empty'')
      else (case validate_rung rung of
        Some e \<Rightarrow> Inl (ErrText (''cohort: EntityIntent.Rung: '' @ error_text e))
      | None \<Rightarrow>
          (case first_bad_rung 0 chain of
             Some (i, e) \<Rightarrow>
               Inl (ErrWrap (''cohort: EntityIntent.FallbackChain['' @ show_nat i @ '']: '') e)
           | None \<Rightarrow>
               Inr \<lparr>i_id = eid, i_generation = gen, i_cohort = cid, i_rung = rung,
                    i_fallback_chain = chain,
                    i_token = (if tok = '''' then token cluster eid gen else tok)\<rparr>)))"

section \<open>Observations and readiness\<close>

record observation =
  o_id :: entity_id
  o_generation :: generation
  o_state :: lifecycle_state
  o_provider_id :: string
  o_rung :: rung
  o_address :: string
  o_observed_at :: time

definition zero_rung :: rung where
  "zero_rung = \<lparr>r_instance_type = '''', r_avail_zone = '''', r_capacity_model = CapacityOnDemand,
     r_account_id = '''', r_warm_start = False\<rparr>"

definition zero_observation :: observation where
  "zero_observation = \<lparr>o_id = '''', o_generation = '''', o_state = StateUnknown, o_provider_id = '''',
     o_rung = zero_rung, o_address = '''', o_observed_at = 0\<rparr>"

record readiness =
  rd_enrolled :: bool
  rd_operational :: bool
  rd_detail :: string

definition readiness_ok :: "readiness \<Rightarrow> bool" where
  "readiness_ok r \<longleftrightarrow> rd_enrolled r \<and> rd_operational r"

section \<open>Budgets and cohorts\<close>

record phase_budget =
  b_launch_acked :: duration
  b_running :: duration
  b_enrolled :: duration
  b_cohort_barrier :: duration
  b_cohort_assembly :: duration

definition default_budget :: phase_budget where
  "default_budget =
     \<lparr>b_launch_acked = 15 * second, b_running = 5 * minute, b_enrolled = 3 * minute,
      b_cohort_barrier = 90 * second, b_cohort_assembly = 60 * second\<rparr>"

definition apply_default_budget :: "phase_budget \<Rightarrow> phase_budget" where
  "apply_default_budget b =
     (let d = default_budget;
          b = (if b_launch_acked b = 0 then b\<lparr>b_launch_acked := b_launch_acked d\<rparr> else b);
          b = (if b_running b = 0 then b\<lparr>b_running := b_running d\<rparr> else b);
          b = (if b_enrolled b = 0 then b\<lparr>b_enrolled := b_enrolled d\<rparr> else b);
          b = (if b_cohort_barrier b = 0 then b\<lparr>b_cohort_barrier := b_cohort_barrier d\<rparr> else b);
          b = (if b_cohort_assembly b = 0 then b\<lparr>b_cohort_assembly := b_cohort_assembly d\<rparr> else b)
      in b)"

record cohort =
  c_id :: cohort_id
  c_members :: "entity_intent list"
  c_budget :: phase_budget
  c_min_viable :: int
  c_no_assembly :: bool

definition validate_intent :: "entity_intent \<Rightarrow> go_error option" where
  "validate_intent m =
     (if i_id m = '''' then Some (ErrText ''cohort: EntityIntent.ID must not be empty'')
      else (case validate_rung (i_rung m) of
        Some e \<Rightarrow> Some (ErrWrap (''cohort: EntityIntent '' @ go_quote (i_id m) @ '' Rung: '') e)
      | None \<Rightarrow>
          (case first_bad_rung 0 (i_fallback_chain m) of
             Some (i, e) \<Rightarrow> Some (ErrWrap (''cohort: EntityIntent '' @ go_quote (i_id m) @
                              '' FallbackChain['' @ show_nat i @ '']: '') e)
           | None \<Rightarrow> None)))"

fun first_invalid :: "entity_intent list \<Rightarrow> go_error option" where
  "first_invalid [] = None"
| "first_invalid (m # ms) =
     (case validate_intent m of Some e \<Rightarrow> Some e | None \<Rightarrow> first_invalid ms)"

definition new_serial_cohort :: "cohort_id \<Rightarrow> entity_intent \<Rightarrow> phase_budget \<Rightarrow> go_error + cohort" where
  "new_serial_cohort cid m b =
     (case validate_intent m of
        Some e \<Rightarrow> Inl e
      | None \<Rightarrow> Inr \<lparr>c_id = cid, c_members = [m], c_budget = apply_default_budget b,
                    c_min_viable = 1, c_no_assembly = False\<rparr>)"

definition new_mpi_cohort :: "cohort_id \<Rightarrow> entity_intent list \<Rightarrow> phase_budget \<Rightarrow> go_error + cohort" where
  "new_mpi_cohort cid ms b =
     (if length ms = 0 then Inl (ErrText ''cohort: NewMPICohort requires at least one member'')
      else (case first_invalid ms of
        Some e \<Rightarrow> Inl e
      | None \<Rightarrow> Inr \<lparr>c_id = cid, c_members = ms, c_budget = apply_default_budget b,
                    c_min_viable = int (length ms), c_no_assembly = False\<rparr>))"

definition new_partial_cohort ::
  "cohort_id \<Rightarrow> entity_intent list \<Rightarrow> phase_budget \<Rightarrow> int \<Rightarrow> 'asm option \<Rightarrow> go_error + cohort"
where
  "new_partial_cohort cid ms b min_viable asm =
     (if length ms = 0 then Inl (ErrText ''cohort: NewPartialCohort requires at least one member'')
      else if min_viable \<le> 0 \<or> min_viable > int (length ms) then
        Inl (ErrText (''cohort: NewPartialCohort minViable '' @ show_int min_viable @
             '' out of range [1, '' @ show_nat (length ms) @ '']''))
      else if asm \<noteq> None then
        Inl (ErrText (''cohort: NewPartialCohort does not support an assembly phase; '' @
             ''assembly requires full membership '' @ em_dash @
             '' use NewMPICohort for all-or-nothing collectives''))
      else (case first_invalid ms of
        Some e \<Rightarrow> Inl e
      | None \<Rightarrow> Inr \<lparr>c_id = cid, c_members = ms, c_budget = apply_default_budget b,
                    c_min_viable = min_viable, c_no_assembly = True\<rparr>))"

definition is_collective :: "cohort \<Rightarrow> bool" where
  "is_collective c \<longleftrightarrow> length (c_members c) > 1"

text \<open>\<^verbatim>\<open>Reconcile\<close> reads a zero \<open>MinViable\<close> as full membership.\<close>

definition effective_min_viable :: "cohort \<Rightarrow> int" where
  "effective_min_viable c =
     (if c_min_viable c = 0 then int (length (c_members c)) else c_min_viable c)"

section \<open>What a validated cohort is\<close>

definition valid_rung :: "rung \<Rightarrow> bool" where
  "valid_rung r \<longleftrightarrow> r_instance_type r \<noteq> ''''"

definition valid_intent :: "entity_intent \<Rightarrow> bool" where
  "valid_intent m \<longleftrightarrow> i_id m \<noteq> '''' \<and> valid_rung (i_rung m) \<and> list_all valid_rung (i_fallback_chain m)"

definition full_budget :: "phase_budget \<Rightarrow> bool" where
  "full_budget b \<longleftrightarrow> b_launch_acked b \<noteq> 0 \<and> b_running b \<noteq> 0 \<and> b_enrolled b \<noteq> 0 \<and>
     b_cohort_barrier b \<noteq> 0 \<and> b_cohort_assembly b \<noteq> 0"

definition wf_cohort :: "cohort \<Rightarrow> bool" where
  "wf_cohort c \<longleftrightarrow> c_members c \<noteq> [] \<and> list_all valid_intent (c_members c) \<and> full_budget (c_budget c) \<and>
     1 \<le> c_min_viable c \<and> c_min_viable c \<le> int (length (c_members c))"

lemma validate_rung_None: "validate_rung r = None \<longleftrightarrow> valid_rung r"
  by (simp add: validate_rung_def valid_rung_def)

lemma first_bad_rung_None: "first_bad_rung i rs = None \<longleftrightarrow> list_all valid_rung rs"
  by (induction rs arbitrary: i) (auto simp: validate_rung_None [symmetric] split: option.splits)

lemma validate_intent_None: "validate_intent m = None \<longleftrightarrow> valid_intent m"
  by (auto simp: validate_intent_def valid_intent_def validate_rung_None [symmetric]
      first_bad_rung_None [of 0, symmetric] split: option.splits)

lemma first_invalid_None: "first_invalid ms = None \<longleftrightarrow> list_all valid_intent ms"
  by (induction ms) (auto simp: validate_intent_None [symmetric] split: option.splits)

lemma full_budget_apply_default: "full_budget (apply_default_budget b)"
  by (simp add: full_budget_def apply_default_budget_def default_budget_def duration_units Let_def)

lemma apply_default_keeps: "full_budget b \<Longrightarrow> apply_default_budget b = b"
  by (simp add: full_budget_def apply_default_budget_def Let_def)

lemma new_entity_intent_Inr:
  "new_entity_intent cl eid gen cid r chain tok = Inr m \<longleftrightarrow>
     eid \<noteq> '''' \<and> valid_rung r \<and> list_all valid_rung chain \<and>
     m = \<lparr>i_id = eid, i_generation = gen, i_cohort = cid, i_rung = r, i_fallback_chain = chain,
          i_token = (if tok = '''' then token cl eid gen else tok)\<rparr>"
  by (auto simp: new_entity_intent_def validate_rung_None [symmetric]
      first_bad_rung_None [of 0, symmetric] split: option.splits)

lemma new_entity_intent_valid:
  "new_entity_intent cl eid gen cid r chain tok = Inr m \<Longrightarrow> valid_intent m"
  by (auto simp: new_entity_intent_Inr valid_intent_def)

lemma new_serial_cohort_Inr:
  "new_serial_cohort cid m b = Inr c \<longleftrightarrow>
     valid_intent m \<and> c = \<lparr>c_id = cid, c_members = [m], c_budget = apply_default_budget b,
                           c_min_viable = 1, c_no_assembly = False\<rparr>"
  by (auto simp: new_serial_cohort_def validate_intent_None [symmetric] split: option.splits)

lemma new_mpi_cohort_Inr:
  "new_mpi_cohort cid ms b = Inr c \<longleftrightarrow>
     ms \<noteq> [] \<and> list_all valid_intent ms \<and>
     c = \<lparr>c_id = cid, c_members = ms, c_budget = apply_default_budget b,
          c_min_viable = int (length ms), c_no_assembly = False\<rparr>"
  by (auto simp: new_mpi_cohort_def first_invalid_None [symmetric] split: option.splits)

lemma new_partial_cohort_Inr:
  "new_partial_cohort cid ms b mv asm = Inr c \<longleftrightarrow>
     ms \<noteq> [] \<and> 1 \<le> mv \<and> mv \<le> int (length ms) \<and> asm = None \<and> list_all valid_intent ms \<and>
     c = \<lparr>c_id = cid, c_members = ms, c_budget = apply_default_budget b,
          c_min_viable = mv, c_no_assembly = True\<rparr>"
proof (cases "ms = [] \<or> mv \<le> 0 \<or> mv > int (length ms) \<or> asm \<noteq> None")
  case True
  then show ?thesis by (auto simp: new_partial_cohort_def)
next
  case False
  then have "new_partial_cohort cid ms b mv asm =
      (case first_invalid ms of Some e \<Rightarrow> Inl e
       | None \<Rightarrow> Inr \<lparr>c_id = cid, c_members = ms, c_budget = apply_default_budget b,
                    c_min_viable = mv, c_no_assembly = True\<rparr>)"
    by (simp add: new_partial_cohort_def)
  with False show ?thesis
    by (auto simp: first_invalid_None [symmetric] split: option.splits)
qed

lemmas cohort_constructors = new_serial_cohort_Inr new_mpi_cohort_Inr new_partial_cohort_Inr

lemma constructed_wf:
  "new_serial_cohort cid m b = Inr c \<Longrightarrow> wf_cohort c"
  "new_mpi_cohort cid ms b = Inr c \<Longrightarrow> wf_cohort c"
  "new_partial_cohort cid ms b mv asm = Inr c \<Longrightarrow> wf_cohort c"
  by (auto simp: cohort_constructors wf_cohort_def full_budget_apply_default Suc_le_eq
      simp flip: length_greater_0_conv)

section \<open>Backoff\<close>

text \<open>
  \<^verbatim>\<open>BackoffPolicy.Duration\<close>. The draw of \<^verbatim>\<open>rand.Float64\<close> in [0, 1) is the argument \<open>u\<close>. From
  attempt 1024 on, \<^verbatim>\<open>math.Pow(2, attempt)\<close> is infinite, so the product is an infinity or (for a
  zero base) not a number, and the guard takes the cap.
\<close>

record backoff_policy =
  p_base :: duration
  p_cap :: duration
  p_jitter :: rat

definition default_backoff_policy :: backoff_policy where
  "default_backoff_policy = \<lparr>p_base = 100 * millisecond, p_cap = 30 * second, p_jitter = 1 / 4\<rparr>"

definition backoff_duration :: "backoff_policy \<Rightarrow> int \<Rightarrow> rat \<Rightarrow> duration" where
  "backoff_duration p attempt u =
     (let a = (if attempt < 0 then 0 else nat attempt)
      in if 1024 \<le> a then p_cap p + trunc_rat (of_int (p_cap p) * p_jitter p * u)
         else (let raw = of_int (p_base p) * 2 ^ a :: rat
               in if raw \<ge> of_int (p_cap p)
                  then p_cap p + trunc_rat (of_int (p_cap p) * p_jitter p * u)
                  else (let d = trunc_rat raw
                        in d + trunc_rat (of_int d * p_jitter p * u))))"

definition backoff_base :: "backoff_policy \<Rightarrow> int \<Rightarrow> duration" where
  "backoff_base p attempt = backoff_duration p attempt 0"

lemma trunc_jitter_bounds:
  assumes "0 \<le> d" "0 \<le> j" "0 \<le> u" "u < 1"
  shows "0 \<le> trunc_rat (of_int d * j * u)" and "of_int (trunc_rat (of_int d * j * u)) \<le> of_int d * j"
proof -
  have nn: "0 \<le> of_int d * j * u" using assms by simp
  then show "0 \<le> trunc_rat (of_int d * j * u)" by (rule trunc_rat_nonneg)
  have "of_int (trunc_rat (of_int d * j * u)) \<le> of_int d * j * u"
    using nn by (rule trunc_rat_le)
  also have "\<dots> \<le> of_int d * j * 1"
    using assms by (intro mult_left_mono) auto
  finally show "of_int (trunc_rat (of_int d * j * u)) \<le> of_int d * j" by simp
qed

lemma backoff_duration_shape:
  assumes "0 \<le> p_base p" "0 \<le> p_cap p"
  shows "\<exists>d. 0 \<le> d \<and> d \<le> p_cap p \<and>
           (\<forall>u. backoff_duration p attempt u = d + trunc_rat (of_int d * p_jitter p * u))"
proof -
  let ?a = "if attempt < 0 then 0 else nat attempt"
  let ?raw = "of_int (p_base p) * 2 ^ ?a :: rat"
  show ?thesis
  proof (cases "1024 \<le> ?a \<or> ?raw \<ge> of_int (p_cap p)")
    case True
    then show ?thesis
      using assms by (intro exI [of _ "p_cap p"]) (auto simp: backoff_duration_def Let_def)
  next
    case False
    have raw: "?raw = of_int (p_base p * 2 ^ ?a)" by simp
    have "?raw < of_int (p_cap p)" using False by simp
    then have "p_base p * 2 ^ ?a < p_cap p" unfolding raw of_int_less_iff .
    moreover have "trunc_rat ?raw = p_base p * 2 ^ ?a" unfolding raw by (rule trunc_rat_of_int)
    ultimately show ?thesis
      using assms False by (intro exI [of _ "p_base p * 2 ^ ?a"]) (auto simp: backoff_duration_def Let_def)
  qed
qed

end
