(* ===== verification/Cohort_Explain.thy ===== *)
theory Cohort_Explain
  imports Cohort_Entity
begin

text \<open>
  \<^verbatim>\<open>internal/cohort/explain.go\<close>: the record every reconciled entity carries, the predicates on
  it, and its one-line and multi-line renderings. The time zone dependent rendering of a time
  (\<^verbatim>\<open>Format(time.RFC3339)\<close>) is the argument \<open>rfc3339\<close>.
\<close>

record attempt =
  a_rung :: rung
  a_phase :: phase
  a_fault :: "fault option"
  a_at :: time

record cohort_cancel_info =
  cc_culprit_id :: entity_id
  cc_culprit_fault :: fault
  cc_culprit_phase :: phase
  cc_at :: time
  cc_survivor_phase :: phase

record parent_cancel_info =
  pc_survivor_phase :: phase
  pc_cause :: string

record entity_record =
  er_entity :: entity_id
  er_generation :: generation
  er_cohort :: cohort_id
  er_reached_phase :: phase
  er_attempts :: "attempt list"
  er_terminal :: "fault option"
  er_cohort_cancelled :: "cohort_cancel_info option"
  er_parent_cancelled :: "parent_cancel_info option"
  er_started_at :: time
  er_finished_at :: time

definition succeeded :: "entity_record \<Rightarrow> bool" where
  "succeeded r \<longleftrightarrow> er_terminal r = None \<and> er_cohort_cancelled r = None \<and>
     er_parent_cancelled r = None \<and> er_reached_phase r = PhaseReady"

definition was_cohort_cancelled :: "entity_record \<Rightarrow> bool" where
  "was_cohort_cancelled r \<longleftrightarrow> er_cohort_cancelled r \<noteq> None"

definition was_parent_cancelled :: "entity_record \<Rightarrow> bool" where
  "was_parent_cancelled r \<longleftrightarrow> er_parent_cancelled r \<noteq> None"

definition fault_label :: "fault \<Rightarrow> string" where
  "fault_label f = fault_class_string (f_class f) @ ''/'' @ f_code f"

definition summary :: "entity_record \<Rightarrow> string" where
  "summary r =
     (if succeeded r then ''ready ('' @ show_nat (length (er_attempts r)) @ '' attempt(s))''
      else (case er_cohort_cancelled r of
        Some cc \<Rightarrow>
          ''cohort-cancelled at phase='' @ phase_string (cc_survivor_phase cc) @ '' '' @ em_dash @
          '' culprit='' @ cc_culprit_id cc @ '' '' @ fault_label (cc_culprit_fault cc) @
          '' at phase='' @ phase_string (cc_culprit_phase cc)
      | None \<Rightarrow>
          (case er_parent_cancelled r of
             Some pc \<Rightarrow>
               ''parent-cancelled at phase='' @ phase_string (pc_survivor_phase pc) @
               '' ('' @ pc_cause pc @ '')''
           | None \<Rightarrow>
               (case er_terminal r of
                  Some f \<Rightarrow>
                    fault_label f @ '' at phase='' @ phase_string (er_reached_phase r) @
                    '' after '' @ show_nat (length (er_attempts r)) @ '' rung(s)''
                | None \<Rightarrow> ''incomplete at phase='' @ phase_string (er_reached_phase r)))))"

definition explain_attempt :: "(time \<Rightarrow> string) \<Rightarrow> nat \<Rightarrow> attempt \<Rightarrow> string" where
  "explain_attempt rfc3339 i a =
     (let rung = r_instance_type (a_rung a) @ ''/'' @ r_avail_zone (a_rung a) @ ''/'' @
                 show_nat (capacity_model_index (r_capacity_model (a_rung a)))
      in (case a_fault a of
            Some f \<Rightarrow>
              ''  ['' @ show_nat (i + 1) @ ''] '' @ rung @ ''  reached='' @ phase_string (a_phase a) @
              ''  -> '' @ fault_label f @ ''  ('' @ rfc3339 (a_at a) @ '')'' @ nl
          | None \<Rightarrow>
              ''  ['' @ show_nat (i + 1) @ ''] '' @ rung @ ''  reached='' @ phase_string (a_phase a) @
              ''  -> ok  ('' @ rfc3339 (a_at a) @ '')'' @ nl))"

fun explain_attempts :: "(time \<Rightarrow> string) \<Rightarrow> nat \<Rightarrow> attempt list \<Rightarrow> string" where
  "explain_attempts rfc3339 i [] = ''''"
| "explain_attempts rfc3339 i (a # as) =
     explain_attempt rfc3339 i a @ explain_attempts rfc3339 (Suc i) as"

definition explain :: "(time \<Rightarrow> string) \<Rightarrow> entity_record \<Rightarrow> string" where
  "explain rfc3339 r =
     (let out = ''entity '' @ er_entity r @ ''  cohort='' @ er_cohort r @
                ''  generation='' @ er_generation r @ nl @
                ''  outcome: '' @ summary r @ nl
      in (case er_cohort_cancelled r of
            Some cc \<Rightarrow>
              out @ ''  cohort fast-failed at '' @ rfc3339 (cc_at cc) @ nl @
              ''  culprit: entity='' @ cc_culprit_id cc @ '' fault='' @ fault_label (cc_culprit_fault cc) @
              '' phase='' @ phase_string (cc_culprit_phase cc) @ nl @
              ''  this entity was at phase='' @ phase_string (cc_survivor_phase cc) @ '' when cancelled'' @ nl
          | None \<Rightarrow>
              (case er_parent_cancelled r of
                 Some pc \<Rightarrow>
                   out @ ''  parent context cancelled ('' @ pc_cause pc @ ''); this entity was at phase='' @
                   phase_string (pc_survivor_phase pc) @ nl
               | None \<Rightarrow> out @ explain_attempts rfc3339 0 (er_attempts r))))"

section \<open>The four outcomes\<close>

text \<open>Exactly one of the four outcomes of the comment on \<^verbatim>\<open>Record\<close> holds.\<close>

definition outcome_count :: "entity_record \<Rightarrow> nat" where
  "outcome_count r =
     of_bool (succeeded r) + of_bool (was_cohort_cancelled r) + of_bool (was_parent_cancelled r) +
     of_bool (er_terminal r \<noteq> None)"

definition one_outcome :: "entity_record \<Rightarrow> bool" where
  "one_outcome r \<longleftrightarrow> outcome_count r = 1"

lemma one_outcomeI_terminal:
  "er_terminal r = Some f \<Longrightarrow> er_cohort_cancelled r = None \<Longrightarrow> er_parent_cancelled r = None \<Longrightarrow> one_outcome r"
  by (simp add: one_outcome_def outcome_count_def succeeded_def was_cohort_cancelled_def was_parent_cancelled_def)

lemma one_outcomeI_cohort:
  "er_terminal r = None \<Longrightarrow> er_cohort_cancelled r = Some i \<Longrightarrow> er_parent_cancelled r = None \<Longrightarrow> one_outcome r"
  by (simp add: one_outcome_def outcome_count_def succeeded_def was_cohort_cancelled_def was_parent_cancelled_def)

lemma one_outcomeI_parent:
  "er_terminal r = None \<Longrightarrow> er_cohort_cancelled r = None \<Longrightarrow> er_parent_cancelled r = Some i \<Longrightarrow> one_outcome r"
  by (simp add: one_outcome_def outcome_count_def succeeded_def was_cohort_cancelled_def was_parent_cancelled_def)

lemma one_outcomeI_ready:
  "er_terminal r = None \<Longrightarrow> er_cohort_cancelled r = None \<Longrightarrow> er_parent_cancelled r = None \<Longrightarrow>
   er_reached_phase r = PhaseReady \<Longrightarrow> one_outcome r"
  by (simp add: one_outcome_def outcome_count_def succeeded_def was_cohort_cancelled_def was_parent_cancelled_def)

section \<open>What the renderings do not show\<close>

text \<open>The record with another message in its terminal fault.\<close>

definition with_terminal_message :: "entity_record \<Rightarrow> string \<Rightarrow> entity_record" where
  "with_terminal_message r msg =
     r\<lparr>er_terminal := map_option (\<lambda>f. f\<lparr>f_message := msg\<rparr>) (er_terminal r)\<rparr>"

lemma with_terminal_message_sel [simp]:
  "er_entity (with_terminal_message r msg) = er_entity r"
  "er_generation (with_terminal_message r msg) = er_generation r"
  "er_cohort (with_terminal_message r msg) = er_cohort r"
  "er_reached_phase (with_terminal_message r msg) = er_reached_phase r"
  "er_attempts (with_terminal_message r msg) = er_attempts r"
  "er_cohort_cancelled (with_terminal_message r msg) = er_cohort_cancelled r"
  "er_parent_cancelled (with_terminal_message r msg) = er_parent_cancelled r"
  "er_terminal (with_terminal_message r msg) =
     map_option (\<lambda>f. f\<lparr>f_message := msg\<rparr>) (er_terminal r)"
  by (simp_all add: with_terminal_message_def)

lemma summary_with_message: "summary (with_terminal_message r msg) = summary r"
proof -
  have "succeeded (with_terminal_message r msg) = succeeded r"
    by (simp add: succeeded_def)
  moreover have "fault_label (f\<lparr>f_message := msg\<rparr>) = fault_label f" for f
    by (simp add: fault_label_def)
  ultimately show ?thesis
    unfolding summary_def
    by (cases "er_terminal r"; cases "er_cohort_cancelled r"; cases "er_parent_cancelled r") simp_all
qed

lemma explain_with_message: "explain fmt (with_terminal_message r msg) = explain fmt r"
  by (simp only: explain_def summary_with_message with_terminal_message_sel)

end
