(* ===== verification/Cohort_Tracker.thy ===== *)
theory Cohort_Tracker
  imports Cohort_Explain
begin

text \<open>
  \<^verbatim>\<open>internal/cohort/reconcile.go\<close>, one entity: the tracker and its methods, the three phase loops
  \<^verbatim>\<open>doLaunch\<close>, \<^verbatim>\<open>waitRunning\<close>, \<^verbatim>\<open>waitEnrolled\<close> (one definition for one pass through the loop body),
  \<^verbatim>\<open>advanceRung\<close>, and \<^verbatim>\<open>reconcileEntity\<close>, which runs them under one deadline each.

  A provider or domain port is a reply: an \<open>io_event\<close> carries what the ports return to the
  calls of one loop pass, the time of the context check, the time after the call, and the random
  draw of the backoff. The calls themselves are the \<open>effect\<close>s a pass emits, in order. The port
  values that the code tests against nil are booleans of \<open>ports\<close>.
\<close>

section \<open>The tracker\<close>

record tracker =
  t_intent :: entity_intent
  t_phase :: phase
  t_enrolled :: bool
  t_attempts :: "attempt list"
  t_terminal :: "fault option"
  t_cohort_cancelled :: "cohort_cancel_info option"
  t_parent_cancelled :: "parent_cancel_info option"
  t_obs :: observation
  t_started_at :: time

definition new_tracker :: "time \<Rightarrow> entity_intent \<Rightarrow> tracker" where
  "new_tracker now m =
     \<lparr>t_intent = m, t_phase = PhaseLaunchAcked, t_enrolled = False, t_attempts = [],
      t_terminal = None, t_cohort_cancelled = None, t_parent_cancelled = None,
      t_obs = zero_observation, t_started_at = now\<rparr>"

definition add_attempt :: "rung \<Rightarrow> phase \<Rightarrow> fault option \<Rightarrow> time \<Rightarrow> tracker \<Rightarrow> tracker" where
  "add_attempt r p f now t =
     t\<lparr>t_attempts := t_attempts t @ [\<lparr>a_rung = r, a_phase = p, a_fault = f, a_at = now\<rparr>]\<rparr>"

definition set_terminal :: "phase \<Rightarrow> fault \<Rightarrow> tracker \<Rightarrow> tracker" where
  "set_terminal p f t = t\<lparr>t_phase := p, t_terminal := Some f\<rparr>"

definition set_phase :: "phase \<Rightarrow> tracker \<Rightarrow> tracker" where
  "set_phase p t = t\<lparr>t_phase := p\<rparr>"

definition is_terminal :: "tracker \<Rightarrow> bool" where
  "is_terminal t \<longleftrightarrow> t_terminal t \<noteq> None"

definition set_enrolled :: "tracker \<Rightarrow> tracker" where
  "set_enrolled t = t\<lparr>t_enrolled := True\<rparr>"

definition has_final_outcome :: "tracker \<Rightarrow> bool" where
  "has_final_outcome t \<longleftrightarrow>
     t_terminal t \<noteq> None \<or> t_cohort_cancelled t \<noteq> None \<or> t_parent_cancelled t \<noteq> None"

definition set_cohort_cancelled :: "cohort_cancel_info \<Rightarrow> tracker \<Rightarrow> tracker" where
  "set_cohort_cancelled info t = t\<lparr>t_cohort_cancelled := Some (info\<lparr>cc_survivor_phase := t_phase t\<rparr>)\<rparr>"

definition set_parent_cancelled :: "string \<Rightarrow> tracker \<Rightarrow> tracker" where
  "set_parent_cancelled cause t =
     t\<lparr>t_parent_cancelled := Some \<lparr>pc_survivor_phase = t_phase t, pc_cause = cause\<rparr>\<rparr>"

definition record_deadline :: "phase \<Rightarrow> time \<Rightarrow> tracker \<Rightarrow> tracker" where
  "record_deadline p now t =
     (let f = mk_fault FaultTerminal ''PhaseBudgetExceeded''
                (''phase '' @ phase_string p @ '' budget exceeded'')
      in set_terminal p f (add_attempt (i_rung (t_intent t)) p (Some f) now t))"

definition build_record :: "tracker \<Rightarrow> cohort_id \<Rightarrow> time \<Rightarrow> entity_record" where
  "build_record t cid now =
     \<lparr>er_entity = i_id (t_intent t), er_generation = i_generation (t_intent t), er_cohort = cid,
      er_reached_phase = t_phase t, er_attempts = t_attempts t, er_terminal = t_terminal t,
      er_cohort_cancelled = t_cohort_cancelled t, er_parent_cancelled = t_parent_cancelled t,
      er_started_at = t_started_at t, er_finished_at = now\<rparr>"

lemmas tracker_defs =
  new_tracker_def add_attempt_def set_terminal_def set_phase_def is_terminal_def set_enrolled_def
  set_cohort_cancelled_def set_parent_cancelled_def record_deadline_def Let_def

section \<open>Ports, replies and effects\<close>

record ports =
  port_classify :: "go_error \<Rightarrow> fault"
  port_enroller :: bool
  port_assembler :: bool
  port_limiter :: bool

record io_event =
  ev_at :: time
  ev_done :: time
  ev_rand :: rat
  ev_launch :: "go_error + observation"
  ev_observe :: "go_error + observation list"
  ev_enroll :: "go_error + readiness"

datatype effect =
    CallLaunch entity_intent
  | CallStart entity_id
  | CallObserve entity_id
  | CallIsEnrolled entity_id "go_error + readiness"
  | CallTerminate entity_id
  | CallAssemble "observation list"
  | LimiterBackoff duration
  | Sleep duration

definition max_consistency_retries :: nat where "max_consistency_retries = 5"
definition poll_interval :: duration where "poll_interval = 100 * millisecond"

datatype 'a iter = Again 'a | Return bool

section \<open>The fallback chain\<close>

fun next_rung :: "rung \<Rightarrow> rung list \<Rightarrow> rung option" where
  "next_rung cur (r # s # rs) = (if r = cur then Some s else next_rung cur (s # rs))"
| "next_rung cur _ = None"

definition advance_rung :: "entity_intent \<Rightarrow> rung list \<Rightarrow> entity_intent option" where
  "advance_rung m chain = map_option (\<lambda>r. m\<lparr>i_rung := r\<rparr>) (next_rung (i_rung m) chain)"

lemma next_rung_mem: "next_rung cur chain = Some r \<Longrightarrow> r \<in> set chain"
  by (induction cur chain rule: next_rung.induct) (auto split: if_splits)

lemma next_rung_nth:
  "distinct chain \<Longrightarrow> Suc k < length chain \<Longrightarrow> next_rung (chain ! k) chain = Some (chain ! Suc k)"
proof (induction "chain ! k" chain arbitrary: k rule: next_rung.induct)
  case (1 r s rs)
  then show ?case
    by (cases k) (auto simp: nth_Cons split: nat.splits)
qed auto

lemma next_rung_last:
  "distinct chain \<Longrightarrow> Suc k = length chain \<Longrightarrow> next_rung (chain ! k) chain = None"
proof (induction "chain ! k" chain arbitrary: k rule: next_rung.induct)
  case (1 r s rs)
  then obtain j where k: "k = Suc j" by (cases k) auto
  have "r \<noteq> (s # rs) ! j"
    using 1(2,3) k nth_mem [of j "s # rs"] by auto
  with 1 k show ?case by auto
qed auto

section \<open>Phase 1: doLaunch\<close>

definition launch_fault ::
  "ports \<Rightarrow> io_event \<Rightarrow> nat \<Rightarrow> tracker \<Rightarrow> fault \<Rightarrow> nat iter \<times> tracker \<times> effect list"
where
  "launch_fault P ev n t f =
     (let rung = i_rung (t_intent t);
          failed = (\<lambda>g. set_terminal PhaseLaunchAcked g
                          (add_attempt rung PhaseLaunchAcked (Some g) (ev_done ev) t))
      in (case f_class f of
        FaultRetryableConsistency \<Rightarrow>
          (if n + 1 > max_consistency_retries then (Return False, failed f, [])
           else (Again (n + 1), t, [Sleep (backoff_duration default_backoff_policy (int (n + 1)) (ev_rand ev))]))
      | FaultThrottle \<Rightarrow>
          (let d = backoff_duration default_backoff_policy 0 (ev_rand ev)
           in (Again n, t, (if port_limiter P then [LimiterBackoff d] else []) @ [Sleep d]))
      | FaultCapacityExhausted \<Rightarrow>
          (let t1 = add_attempt rung PhaseLaunchAcked (Some f) (ev_done ev) t
           in (case advance_rung (t_intent t1) (i_fallback_chain (t_intent t1)) of
                 None \<Rightarrow> (Return False, set_terminal PhaseLaunchAcked f t1, [])
               | Some m \<Rightarrow> (Again 0, t1\<lparr>t_intent := m\<rparr>, [])))
      | FaultAmbiguous \<Rightarrow>
          (let g = f\<lparr>f_code := ''AmbiguousReachedReconciler'',
                     f_message := ''BUG: FaultAmbiguous escaped substrate.Client '' @ em_dash @
                                  '' Step 3 regression''\<rparr>
           in (Return False, failed g, []))
      | FaultTerminal \<Rightarrow> (Return False, failed f, [])))"

definition do_launch_iter ::
  "ports \<Rightarrow> ctx_err option \<Rightarrow> io_event \<Rightarrow> nat \<Rightarrow> tracker \<Rightarrow> nat iter \<times> tracker \<times> effect list"
where
  "do_launch_iter P ctx ev n t =
     (case ctx of
        Some CtxCanceled \<Rightarrow> (Return False, t, [])
      | Some CtxDeadlineExceeded \<Rightarrow> (Return False, record_deadline PhaseLaunchAcked (ev_done ev) t, [])
      | None \<Rightarrow>
          (let call = (if r_warm_start (i_rung (t_intent t)) then CallStart (i_id (t_intent t))
                       else CallLaunch (t_intent t))
           in (case ev_launch ev of
                 Inr obs \<Rightarrow>
                   (Return True,
                    add_attempt (i_rung (t_intent t)) PhaseLaunchAcked None (ev_done ev) (t\<lparr>t_obs := obs\<rparr>),
                    [call])
               | Inl err \<Rightarrow>
                   (case launch_fault P ev n t (port_classify P err) of
                      (r, t', effs) \<Rightarrow> (r, t', call # effs)))))"

section \<open>Phase 2: waitRunning\<close>

definition wait_running_iter ::
  "ports \<Rightarrow> ctx_err option \<Rightarrow> io_event \<Rightarrow> nat \<Rightarrow> tracker \<Rightarrow> nat iter \<times> tracker \<times> effect list"
where
  "wait_running_iter P ctx ev n t =
     (case ctx of
        Some CtxCanceled \<Rightarrow> (Return False, t, [])
      | Some CtxDeadlineExceeded \<Rightarrow> (Return False, record_deadline PhaseRunning (ev_done ev) t, [])
      | None \<Rightarrow>
          (let call = CallObserve (i_id (t_intent t));
               failed = (\<lambda>t f. set_terminal PhaseRunning f
                          (add_attempt (i_rung (t_intent t)) PhaseRunning (Some f) (ev_done ev) t))
           in (case ev_observe ev of
                 Inl err \<Rightarrow>
                   (let f = port_classify P err
                    in if f_class f = FaultTerminal then (Return False, failed t f, [call])
                       else (Again (n + 1), t,
                             [call, Sleep (backoff_duration default_backoff_policy (int n) (ev_rand ev))]))
               | Inr [] \<Rightarrow> (Again n, t, [call, Sleep poll_interval])
               | Inr (ob # obs) \<Rightarrow>
                   (let t1 = t\<lparr>t_obs := ob\<rparr>
                    in (case o_state ob of
                          StateRunning \<Rightarrow> (Return True, t1, [call])
                        | StateFailed \<Rightarrow>
                            (Return False, failed t1 (mk_fault FaultTerminal ''InstanceFailed''
                               (''instance entered state '' @ lifecycle_string (o_state ob) @ '' during phase 2'')),
                             [call])
                        | StateDraining \<Rightarrow>
                            (Return False, failed t1 (mk_fault FaultTerminal ''InstanceFailed''
                               (''instance entered state '' @ lifecycle_string (o_state ob) @ '' during phase 2'')),
                             [call])
                        | _ \<Rightarrow> (Again n, t1, [call, Sleep poll_interval]))))))"

section \<open>Phase 3: waitEnrolled\<close>

definition wait_enrolled_iter ::
  "ports \<Rightarrow> ctx_err option \<Rightarrow> io_event \<Rightarrow> tracker \<Rightarrow> unit iter \<times> tracker \<times> effect list"
where
  "wait_enrolled_iter P ctx ev t =
     (case ctx of
        Some CtxCanceled \<Rightarrow> (Return True, t, [])
      | Some CtxDeadlineExceeded \<Rightarrow> (Return True, record_deadline PhaseEnrolled (ev_done ev) t, [])
      | None \<Rightarrow>
          (if port_enroller P
           then (let call = CallIsEnrolled (i_id (t_intent t)) (ev_enroll ev)
                 in (case ev_enroll ev of
                       Inr rd \<Rightarrow>
                         (if readiness_ok rd
                          then (Return True, t\<lparr>t_obs := (t_obs t)\<lparr>o_address := rd_detail rd\<rparr>\<rparr>, [call])
                          else (Again (), t, [call, Sleep poll_interval]))
                     | Inl err \<Rightarrow> (Again (), t, [call, Sleep poll_interval])))
           else (Return True, t, [])))"

section \<open>reconcileEntity\<close>

text \<open>
  The goroutine's position: before its first statement, in one of the loops (with the loop's
  counter), after \<^verbatim>\<open>reconcileEntity\<close> has returned, and after the gate bookkeeping that follows it.
  The deadline is that of the phase context in force.
\<close>

datatype pc = PcStart | PcLaunch nat | PcRunning nat | PcEnrolled | PcReturned | PcDone

record entity =
  e_tr :: tracker
  e_pc :: pc
  e_deadline :: time

text \<open>
  \<^verbatim>\<open>ctx.Err()\<close> of a phase context: whichever came first of the cancellation of the context it is
  derived from (with its error and time) and its own deadline.
\<close>

definition phase_ctx :: "(ctx_err \<times> time) option \<Rightarrow> time \<Rightarrow> time \<Rightarrow> ctx_err option" where
  "phase_ctx cancelled deadline now =
     (case cancelled of
        Some (e, tc) \<Rightarrow> (if deadline < tc then Some CtxDeadlineExceeded else Some e)
      | None \<Rightarrow> (if deadline \<le> now then Some CtxDeadlineExceeded else None))"

definition entity_start :: "phase_budget \<Rightarrow> time \<Rightarrow> entity \<Rightarrow> entity" where
  "entity_start b now e = e\<lparr>e_pc := PcLaunch 0, e_deadline := now + b_launch_acked b\<rparr>"

definition entity_iter ::
  "ports \<Rightarrow> phase_budget \<Rightarrow> (ctx_err \<times> time) option \<Rightarrow> io_event \<Rightarrow> entity \<Rightarrow> entity \<times> effect list"
where
  "entity_iter P b cancelled ev e =
     (let ctx = phase_ctx cancelled (e_deadline e) (ev_at ev)
      in (case e_pc e of
        PcLaunch n \<Rightarrow>
          (case do_launch_iter P ctx ev n (e_tr e) of
             (Again n', t, effs) \<Rightarrow> (e\<lparr>e_tr := t, e_pc := PcLaunch n'\<rparr>, effs)
           | (Return ok, t, effs) \<Rightarrow>
               (if ok then (e\<lparr>e_tr := set_phase PhaseRunning t, e_pc := PcRunning 0,
                              e_deadline := ev_done ev + b_running b\<rparr>, effs)
                else (e\<lparr>e_tr := t, e_pc := PcReturned\<rparr>, effs)))
      | PcRunning n \<Rightarrow>
          (case wait_running_iter P ctx ev n (e_tr e) of
             (Again n', t, effs) \<Rightarrow> (e\<lparr>e_tr := t, e_pc := PcRunning n'\<rparr>, effs)
           | (Return ok, t, effs) \<Rightarrow>
               (if ok then (e\<lparr>e_tr := set_phase PhaseEnrolled t, e_pc := PcEnrolled,
                              e_deadline := ev_done ev + b_enrolled b\<rparr>, effs)
                else (e\<lparr>e_tr := t, e_pc := PcReturned\<rparr>, effs)))
      | PcEnrolled \<Rightarrow>
          (case wait_enrolled_iter P ctx ev (e_tr e) of
             (Again _, t, effs) \<Rightarrow> (e\<lparr>e_tr := t\<rparr>, effs)
           | (Return _, t, effs) \<Rightarrow>
               (e\<lparr>e_tr := (if is_terminal t then t else set_enrolled t), e_pc := PcReturned\<rparr>, effs))
      | _ \<Rightarrow> (e, [])))"

definition in_loop :: "pc \<Rightarrow> bool" where
  "in_loop p = (case p of PcLaunch _ \<Rightarrow> True | PcRunning _ \<Rightarrow> True | PcEnrolled \<Rightarrow> True | _ \<Rightarrow> False)"

text \<open>The passes of one goroutine in sequence, with the context's cancellation fixed.\<close>

fun run_entity ::
  "ports \<Rightarrow> phase_budget \<Rightarrow> (ctx_err \<times> time) option \<Rightarrow> io_event list \<Rightarrow> entity \<Rightarrow> entity \<times> effect list"
where
  "run_entity P b c [] e = (e, [])"
| "run_entity P b c (ev # evs) e =
     (case entity_iter P b c ev e of
        (e1, effs1) \<Rightarrow> (case run_entity P b c evs e1 of (e2, effs2) \<Rightarrow> (e2, effs1 @ effs2)))"

end
