(* ===== verification/Cohort_Loop.thy ===== *)
theory Cohort_Loop
  imports Cohort_Tracker
begin

text \<open>
  What one entity's loops of \<^verbatim>\<open>internal/cohort/reconcile.go\<close> keep and guarantee: the invariant of
  \<^verbatim>\<open>reconcileEntity\<close> at every position, what a pass does when its context is done, how long the
  loops can run, and how the fallback chain and the consistency retries are used.
\<close>

section \<open>The invariant of one entity\<close>

text \<open>
  The tracker's intent is the declared one on a rung of the declared set, every recorded attempt is
  on such a rung, and a terminal fault is the one of the last attempt, at the phase it stopped in.
\<close>

definition rungs_of :: "entity_intent \<Rightarrow> rung set" where
  "rungs_of m = insert (i_rung m) (set (i_fallback_chain m))"

definition on_intent :: "entity_intent \<Rightarrow> tracker \<Rightarrow> bool" where
  "on_intent m t \<longleftrightarrow> (\<exists>r\<in>rungs_of m. t_intent t = m\<lparr>i_rung := r\<rparr>) \<and>
     (\<forall>a\<in>set (t_attempts t). a_rung a \<in> rungs_of m) \<and>
     t_cohort_cancelled t = None \<and> t_parent_cancelled t = None"

definition blamed :: "tracker \<Rightarrow> bool" where
  "blamed t \<longleftrightarrow> (\<exists>f as a. t_terminal t = Some f \<and> t_attempts t = as @ [a] \<and> a_fault a = Some f \<and>
     a_phase a = t_phase t)"

definition live_at :: "entity_intent \<Rightarrow> phase \<Rightarrow> tracker \<Rightarrow> bool" where
  "live_at m p t \<longleftrightarrow> on_intent m t \<and> t_phase t = p \<and> t_terminal t = None \<and> \<not> t_enrolled t"

definition stopped_at :: "entity_intent \<Rightarrow> phase \<Rightarrow> tracker \<Rightarrow> bool" where
  "stopped_at m p t \<longleftrightarrow> on_intent m t \<and> t_phase t = p \<and> \<not> t_enrolled t \<and> (t_terminal t = None \<or> blamed t)"

definition entity_inv :: "entity_intent \<Rightarrow> entity \<Rightarrow> bool" where
  "entity_inv m e \<longleftrightarrow>
     (case e_pc e of
        PcStart \<Rightarrow> live_at m PhaseLaunchAcked (e_tr e)
      | PcLaunch _ \<Rightarrow> live_at m PhaseLaunchAcked (e_tr e)
      | PcRunning _ \<Rightarrow> live_at m PhaseRunning (e_tr e)
      | PcEnrolled \<Rightarrow> live_at m PhaseEnrolled (e_tr e)
      | _ \<Rightarrow> on_intent m (e_tr e) \<and> t_phase (e_tr e) \<le> PhaseEnrolled \<and>
             (t_terminal (e_tr e) = None \<or> blamed (e_tr e)) \<and>
             (t_enrolled (e_tr e) \<longrightarrow> t_terminal (e_tr e) = None \<and> t_phase (e_tr e) = PhaseEnrolled))"

lemma phase_le_simps [simp]:
  "PhaseLaunchAcked \<le> p" "PhaseRunning \<le> PhaseEnrolled" "p \<le> PhaseReady"
  by (cases p; simp add: less_eq_phase_def)+

lemma on_intent_rung: "on_intent m t \<Longrightarrow> i_rung (t_intent t) \<in> rungs_of m"
  by (auto simp: on_intent_def)

lemma on_intent_id: "on_intent m t \<Longrightarrow> i_id (t_intent t) = i_id m"
  by (auto simp: on_intent_def)

lemma on_intent_chain: "on_intent m t \<Longrightarrow> i_fallback_chain (t_intent t) = i_fallback_chain m"
  by (auto simp: on_intent_def)

lemma on_intent_attempt:
  "on_intent m t \<Longrightarrow> on_intent m (add_attempt (i_rung (t_intent t)) p f now t)"
  by (auto simp: on_intent_def add_attempt_def)

lemma on_intent_frame [simp]:
  "on_intent m (t\<lparr>t_obs := ob\<rparr>) = on_intent m t"
  "on_intent m (set_phase p t) = on_intent m t"
  "on_intent m (set_terminal p f t) = on_intent m t"
  "on_intent m (set_enrolled t) = on_intent m t"
  by (simp_all add: on_intent_def set_phase_def set_terminal_def set_enrolled_def)

lemma live_at_frame [simp]: "live_at m p (t\<lparr>t_obs := ob\<rparr>) = live_at m p t"
  by (simp add: live_at_def)

lemma live_at_set_phase: "live_at m p t \<Longrightarrow> live_at m q (set_phase q t)"
  by (simp add: live_at_def) (simp add: set_phase_def)

lemma live_at_attempt: "live_at m p t \<Longrightarrow> live_at m p (add_attempt (i_rung (t_intent t)) q f now t)"
  by (simp add: live_at_def on_intent_attempt) (simp add: add_attempt_def)

lemma live_at_stopped: "live_at m p t \<Longrightarrow> stopped_at m p t"
  by (simp add: live_at_def stopped_at_def)

lemma stopped_at_failed:
  "live_at m q t \<Longrightarrow> stopped_at m p (set_terminal p f (add_attempt (i_rung (t_intent t)) p (Some f) now t))"
  by (auto simp: live_at_def stopped_at_def on_intent_attempt)
    (auto simp: set_terminal_def add_attempt_def blamed_def)

lemma stopped_at_deadline: "live_at m q t \<Longrightarrow> stopped_at m p (record_deadline p now t)"
  by (simp add: record_deadline_def Let_def stopped_at_failed)

lemma live_at_advance:
  assumes "live_at m p t" "advance_rung (t_intent t) (i_fallback_chain (t_intent t)) = Some m'"
  shows "live_at m p (t\<lparr>t_intent := m'\<rparr>)"
proof -
  obtain r r0 where r: "next_rung (i_rung (t_intent t)) (i_fallback_chain (t_intent t)) = Some r"
    and m': "m' = (t_intent t)\<lparr>i_rung := r\<rparr>" and r0: "t_intent t = m\<lparr>i_rung := r0\<rparr>"
    using assms by (auto simp: live_at_def on_intent_def advance_rung_def)
  have "r \<in> rungs_of m"
    using next_rung_mem [OF r] r0 by (simp add: rungs_of_def)
  with assms(1) m' r0 show ?thesis
    by (auto simp: live_at_def on_intent_def)
qed

lemma advance_after_attempt [simp]:
  "t_intent (add_attempt r p f now t) = t_intent t"
  by (simp add: add_attempt_def)

lemma launch_fault_inv:
  assumes t: "live_at m PhaseLaunchAcked t" and res: "launch_fault P ev n t f = (r, t', effs)"
  shows "case r of Again _ \<Rightarrow> live_at m PhaseLaunchAcked t' | Return ok \<Rightarrow> \<not> ok \<and> stopped_at m PhaseLaunchAcked t'"
proof (cases "f_class f")
  case FaultCapacityExhausted
  show ?thesis
  proof (cases "advance_rung (t_intent t) (i_fallback_chain (t_intent t))")
    case None
    with res t FaultCapacityExhausted show ?thesis
      by (auto simp: launch_fault_def Let_def intro: stopped_at_failed)
  next
    case (Some m')
    let ?t1 = "add_attempt (i_rung (t_intent t)) PhaseLaunchAcked (Some f) (ev_done ev) t"
    have "live_at m PhaseLaunchAcked ?t1" using t by (rule live_at_attempt)
    from live_at_advance [OF this, of m'] Some have "live_at m PhaseLaunchAcked (?t1\<lparr>t_intent := m'\<rparr>)"
      by simp
    with res Some FaultCapacityExhausted show ?thesis
      by (auto simp: launch_fault_def Let_def)
  qed
qed (use res t in \<open>auto simp: launch_fault_def Let_def intro: stopped_at_failed split: if_splits\<close>)

lemma do_launch_iter_inv:
  assumes t: "live_at m PhaseLaunchAcked t" and res: "do_launch_iter P ctx ev n t = (r, t', effs)"
  shows "case r of Again _ \<Rightarrow> live_at m PhaseLaunchAcked t'
         | Return ok \<Rightarrow> (if ok then live_at m PhaseLaunchAcked t' else stopped_at m PhaseLaunchAcked t')"
proof (cases ctx)
  case (Some c)
  with res t show ?thesis
    by (cases c) (auto simp: do_launch_iter_def live_at_stopped stopped_at_deadline)
next
  case None
  show ?thesis
  proof (cases "ev_launch ev")
    case (Inr obs)
    with None res t live_at_attempt [of m PhaseLaunchAcked "t\<lparr>t_obs := obs\<rparr>" PhaseLaunchAcked]
    show ?thesis by (auto simp: do_launch_iter_def Let_def)
  next
    case (Inl err)
    obtain r2 t2 e2 where *: "launch_fault P ev n t (port_classify P err) = (r2, t2, e2)"
      by (metis prod_cases3)
    with res None Inl have "r = r2" "t' = t2" by (auto simp: do_launch_iter_def Let_def)
    with launch_fault_inv [OF t *] show ?thesis by (auto split: iter.splits)
  qed
qed

lemma wait_running_iter_inv:
  assumes t: "live_at m PhaseRunning t" and res: "wait_running_iter P ctx ev n t = (r, t', effs)"
  shows "case r of Again _ \<Rightarrow> live_at m PhaseRunning t'
         | Return ok \<Rightarrow> (if ok then live_at m PhaseRunning t' else stopped_at m PhaseRunning t')"
proof -
  have failed: "stopped_at m PhaseRunning (set_terminal PhaseRunning f
      (add_attempt (i_rung (t_intent t)) PhaseRunning (Some f) now (t\<lparr>t_obs := ob\<rparr>)))" for f now ob
    using stopped_at_failed [of m PhaseRunning "t\<lparr>t_obs := ob\<rparr>"] t by simp
  show ?thesis
    using res t stopped_at_failed [OF t, of PhaseRunning]
    by (auto simp: wait_running_iter_def Let_def live_at_stopped stopped_at_deadline failed
        split: option.splits ctx_err.splits sum.splits list.splits lifecycle_state.splits if_splits)
qed

lemma wait_enrolled_iter_inv:
  assumes t: "live_at m PhaseEnrolled t" and res: "wait_enrolled_iter P ctx ev t = (r, t', effs)"
  shows "case r of Again _ \<Rightarrow> live_at m PhaseEnrolled t' | Return _ \<Rightarrow> stopped_at m PhaseEnrolled t'"
  using res t
  by (auto simp: wait_enrolled_iter_def Let_def live_at_stopped stopped_at_deadline
      split: option.splits ctx_err.splits sum.splits if_splits)

lemma entity_inv_start: "e_pc e = PcStart \<Longrightarrow> entity_inv m e \<Longrightarrow> entity_inv m (entity_start b now e)"
  by (simp add: entity_inv_def entity_start_def)

lemma entity_inv_returned:
  "stopped_at m p t \<Longrightarrow> p \<le> PhaseEnrolled \<Longrightarrow> entity_inv m (e\<lparr>e_tr := t, e_pc := PcReturned\<rparr>)"
  by (auto simp: entity_inv_def stopped_at_def)

lemma entity_inv_enrolled:
  "stopped_at m PhaseEnrolled t \<Longrightarrow>
   entity_inv m (e\<lparr>e_tr := (if is_terminal t then t else set_enrolled t), e_pc := PcReturned\<rparr>)"
  by (auto simp: entity_inv_def stopped_at_def is_terminal_def) (auto simp: set_enrolled_def)

lemma entity_inv_iter:
  assumes "entity_inv m e"
  shows "entity_inv m (fst (entity_iter P b c ev e))"
proof (cases "e_pc e")
  case (PcLaunch n)
  then have t: "live_at m PhaseLaunchAcked (e_tr e)" using assms by (simp add: entity_inv_def)
  obtain r t' effs where it: "do_launch_iter P (phase_ctx c (e_deadline e) (ev_at ev)) ev n (e_tr e) = (r, t', effs)"
    by (metis prod_cases3)
  show ?thesis
    using PcLaunch it do_launch_iter_inv [OF t it]
    by (cases r) (auto simp: entity_iter_def intro: entity_inv_returned,
        auto simp: entity_inv_def intro: live_at_set_phase)
next
  case (PcRunning n)
  then have t: "live_at m PhaseRunning (e_tr e)" using assms by (simp add: entity_inv_def)
  obtain r t' effs where it: "wait_running_iter P (phase_ctx c (e_deadline e) (ev_at ev)) ev n (e_tr e) = (r, t', effs)"
    by (metis prod_cases3)
  show ?thesis
    using PcRunning it wait_running_iter_inv [OF t it]
    by (cases r) (auto simp: entity_iter_def intro: entity_inv_returned,
        auto simp: entity_inv_def intro: live_at_set_phase)
next
  case PcEnrolled
  then have t: "live_at m PhaseEnrolled (e_tr e)" using assms by (simp add: entity_inv_def)
  obtain r t' effs where it: "wait_enrolled_iter P (phase_ctx c (e_deadline e) (ev_at ev)) ev (e_tr e) = (r, t', effs)"
    by (metis prod_cases3)
  show ?thesis
  proof (cases r)
    case (Again u)
    with PcEnrolled it wait_enrolled_iter_inv [OF t it] show ?thesis
      by (simp add: entity_iter_def entity_inv_def)
  next
    case (Return ok)
    with PcEnrolled it wait_enrolled_iter_inv [OF t it] show ?thesis
      by (simp add: entity_iter_def entity_inv_enrolled)
  qed
qed (use assms in \<open>simp_all add: entity_iter_def\<close>)

lemma run_entity_Cons:
  "fst (run_entity P b c (ev # evs) e) = fst (run_entity P b c evs (fst (entity_iter P b c ev e)))"
  "snd (run_entity P b c (ev # evs) e) =
     snd (entity_iter P b c ev e) @ snd (run_entity P b c evs (fst (entity_iter P b c ev e)))"
  by (simp_all split: prod.split)

lemma entity_inv_run: "entity_inv m e \<Longrightarrow> entity_inv m (fst (run_entity P b c evs e))"
proof (induction evs arbitrary: e)
  case (Cons ev evs)
  show ?case
    unfolding run_entity_Cons by (intro Cons.IH entity_inv_iter Cons.prems)
qed simp

section \<open>Passes outside the loops, and passes with a done context\<close>

lemma entity_iter_not_in_loop: "\<not> in_loop (e_pc e) \<Longrightarrow> entity_iter P b c ev e = (e, [])"
  by (cases "e_pc e") (simp_all add: in_loop_def entity_iter_def)

lemma run_entity_not_in_loop: "\<not> in_loop (e_pc e) \<Longrightarrow> run_entity P b c evs e = (e, [])"
  by (induction evs) (simp_all add: entity_iter_not_in_loop)

lemma done_pass_returns:
  assumes "in_loop (e_pc e)" "phase_ctx c (e_deadline e) (ev_at ev) \<noteq> None"
  shows "e_pc (fst (entity_iter P b c ev e)) = PcReturned" and "snd (entity_iter P b c ev e) = []"
  using assms
  by (auto simp: in_loop_def entity_iter_def do_launch_iter_def wait_running_iter_def wait_enrolled_iter_def
      split: pc.splits ctx_err.splits option.splits)

text \<open>A pass past the phase deadline stops the entity with the budget fault of that phase.\<close>

fun phase_of_pc :: "pc \<Rightarrow> phase" where
  "phase_of_pc (PcRunning _) = PhaseRunning"
| "phase_of_pc PcEnrolled = PhaseEnrolled"
| "phase_of_pc _ = PhaseLaunchAcked"

lemma deadline_pass:
  assumes "in_loop (e_pc e)" "phase_ctx c (e_deadline e) (ev_at ev) = Some CtxDeadlineExceeded"
  shows "entity_iter P b c ev e =
     (e\<lparr>e_tr := record_deadline (phase_of_pc (e_pc e)) (ev_done ev) (e_tr e), e_pc := PcReturned\<rparr>, [])"
proof -
  have "is_terminal (record_deadline p now t)" for p now t
    by (simp add: tracker_defs)
  with assms show ?thesis
    by (auto simp: in_loop_def entity_iter_def do_launch_iter_def wait_running_iter_def
        wait_enrolled_iter_def split: pc.splits)
qed

text \<open>A cancelled context leaves the entity without a terminal fault.\<close>

lemma cancelled_pass:
  assumes "in_loop (e_pc e)" "phase_ctx c (e_deadline e) (ev_at ev) = Some CtxCanceled"
  shows "entity_iter P b c ev e =
     (e\<lparr>e_tr := (if e_pc e = PcEnrolled \<and> \<not> is_terminal (e_tr e) then set_enrolled (e_tr e) else e_tr e),
        e_pc := PcReturned\<rparr>, [])"
  using assms
  by (auto simp: in_loop_def entity_iter_def do_launch_iter_def wait_running_iter_def
        wait_enrolled_iter_def split: pc.splits)

section \<open>The loops end\<close>

text \<open>
  Passes of which each takes at least \<open>d\<close> (a provider call, or the sleep that ends it), starting
  at \<open>\<tau>\<close>.
\<close>

fun paced :: "duration \<Rightarrow> time \<Rightarrow> io_event list \<Rightarrow> bool" where
  "paced d \<tau> [] = True"
| "paced d \<tau> (ev # evs) = (\<tau> \<le> ev_at ev \<and> ev_at ev + d \<le> ev_done ev \<and> paced d (ev_done ev) evs)"

text \<open>Time left at \<open>\<tau>\<close> in the current phase and in the phases after it.\<close>

definition time_left :: "duration \<Rightarrow> phase_budget \<Rightarrow> time \<Rightarrow> entity \<Rightarrow> int" where
  "time_left d b \<tau> e =
     (case e_pc e of
        PcLaunch _ \<Rightarrow> max 0 (e_deadline e - \<tau> + d) + (b_running b + d) + (b_enrolled b + d)
      | PcRunning _ \<Rightarrow> max 0 (e_deadline e - \<tau> + d) + (b_enrolled b + d)
      | PcEnrolled \<Rightarrow> max 0 (e_deadline e - \<tau> + d)
      | _ \<Rightarrow> 0)"

definition positive_budget :: "phase_budget \<Rightarrow> bool" where
  "positive_budget b \<longleftrightarrow> 0 < b_launch_acked b \<and> 0 < b_running b \<and> 0 < b_enrolled b"

lemma time_left_nonneg: "positive_budget b \<Longrightarrow> 0 < d \<Longrightarrow> 0 \<le> time_left d b \<tau> e"
  by (auto simp: time_left_def positive_budget_def split: pc.split)

lemma time_left_decreases:
  assumes "in_loop (e_pc e)" "positive_budget b" "0 < d" "\<tau> \<le> ev_at ev" "ev_at ev + d \<le> ev_done ev"
    and live: "phase_ctx c (e_deadline e) (ev_at ev) = None"
  shows "\<not> in_loop (e_pc (fst (entity_iter P b c ev e))) \<or>
    time_left d b (ev_done ev) (fst (entity_iter P b c ev e)) \<le> time_left d b \<tau> e - d"
proof -
  have dl: "ev_at ev < e_deadline e"
    using live by (auto simp: phase_ctx_def split: option.splits prod.splits if_splits)
  show ?thesis
    using assms(1-5) dl
    by (auto simp: in_loop_def entity_iter_def time_left_def positive_budget_def
        split: pc.split iter.split prod.split)
qed

lemma run_entity_returns:
  assumes "positive_budget b" "0 < d"
  shows "in_loop (e_pc e) \<Longrightarrow> paced d \<tau> evs \<Longrightarrow> time_left d b \<tau> e < d * int (length evs) \<Longrightarrow>
    e_pc (fst (run_entity P b c evs e)) = PcReturned"
proof (induction evs arbitrary: e \<tau>)
  case Nil
  then show ?case using time_left_nonneg [OF assms, of \<tau> e] by simp
next
  case (Cons ev evs)
  let ?e1 = "fst (entity_iter P b c ev e)"
  have returned: "\<not> in_loop (e_pc ?e1) \<Longrightarrow> e_pc ?e1 = PcReturned"
    using Cons.prems(1)
    by (auto simp: in_loop_def entity_iter_def split: pc.splits iter.splits prod.splits if_splits)
  show ?case
  proof (cases "phase_ctx c (e_deadline e) (ev_at ev) = None \<and> in_loop (e_pc ?e1)")
    case True
    with time_left_decreases [of e b d \<tau> ev c P] Cons.prems assms
    have "time_left d b (ev_done ev) ?e1 \<le> time_left d b \<tau> e - d" by auto
    with Cons.prems(3) have "time_left d b (ev_done ev) ?e1 < d * int (length evs)"
      by (simp add: algebra_simps)
    with True Cons.prems(2) show ?thesis
      unfolding run_entity_Cons by (intro Cons.IH [of _ "ev_done ev"]) simp_all
  next
    case False
    then have "\<not> in_loop (e_pc ?e1)"
      using done_pass_returns(1) [OF Cons.prems(1)] by (auto simp: in_loop_def)
    with returned show ?thesis
      by (simp add: run_entity_Cons run_entity_not_in_loop del: run_entity.simps)
  qed
qed

section \<open>The fallback chain\<close>

definition launch_call :: "entity_intent \<Rightarrow> effect" where
  "launch_call m = (if r_warm_start (i_rung m) then CallStart (i_id m) else CallLaunch m)"

text \<open>A pass that reaches the provider, whose reply is classified as \<open>cl\<close>.\<close>

definition fails_as :: "ports \<Rightarrow> (ctx_err \<times> time) option \<Rightarrow> time \<Rightarrow> fault_class \<Rightarrow> io_event \<Rightarrow> bool" where
  "fails_as P c dl cl ev \<longleftrightarrow> phase_ctx c dl (ev_at ev) = None \<and>
     (case ev_launch ev of Inl err \<Rightarrow> f_class (port_classify P err) = cl | Inr _ \<Rightarrow> False)"

definition reply_fault :: "ports \<Rightarrow> io_event \<Rightarrow> fault" where
  "reply_fault P ev = (case ev_launch ev of Inl err \<Rightarrow> port_classify P err | Inr _ \<Rightarrow> mk_fault FaultTerminal [] [])"

lemma failing_pass:
  assumes "e_pc e = PcLaunch n" "fails_as P c (e_deadline e) cl ev"
    "launch_fault P ev n (e_tr e) (reply_fault P ev) = (r, t, effs)"
  shows "entity_iter P b c ev e =
     (case r of Again n' \<Rightarrow> e\<lparr>e_tr := t, e_pc := PcLaunch n'\<rparr>
      | Return ok \<Rightarrow> (if ok then e\<lparr>e_tr := set_phase PhaseRunning t, e_pc := PcRunning 0,
                              e_deadline := ev_done ev + b_running b\<rparr>
                     else e\<lparr>e_tr := t, e_pc := PcReturned\<rparr>),
      launch_call (t_intent (e_tr e)) # effs)"
  using assms
  by (auto simp: entity_iter_def do_launch_iter_def fails_as_def reply_fault_def launch_call_def Let_def
      split: sum.splits iter.split)

lemma reply_fault_class: "fails_as P c dl cl ev \<Longrightarrow> f_class (reply_fault P ev) = cl"
  by (auto simp: fails_as_def reply_fault_def split: sum.splits)

lemma capacity_pass:
  assumes "e_pc e = PcLaunch n" "fails_as P c (e_deadline e) FaultCapacityExhausted ev"
  shows "entity_iter P b c ev e =
     (case next_rung (i_rung (t_intent (e_tr e))) (i_fallback_chain (t_intent (e_tr e))) of
        None \<Rightarrow> e\<lparr>e_tr := set_terminal PhaseLaunchAcked (reply_fault P ev)
                   (add_attempt (i_rung (t_intent (e_tr e))) PhaseLaunchAcked (Some (reply_fault P ev)) (ev_done ev) (e_tr e)),
                  e_pc := PcReturned\<rparr>
      | Some r \<Rightarrow> e\<lparr>e_tr := (add_attempt (i_rung (t_intent (e_tr e))) PhaseLaunchAcked (Some (reply_fault P ev)) (ev_done ev) (e_tr e))
                      \<lparr>t_intent := (t_intent (e_tr e))\<lparr>i_rung := r\<rparr>\<rparr>,
                   e_pc := PcLaunch 0\<rparr>,
      [launch_call (t_intent (e_tr e))])"
proof (cases "next_rung (i_rung (t_intent (e_tr e))) (i_fallback_chain (t_intent (e_tr e)))")
  case None
  then show ?thesis
    using failing_pass [OF assms] reply_fault_class [OF assms(2)]
    by (simp add: launch_fault_def Let_def advance_rung_def)
next
  case (Some r)
  then show ?thesis
    using failing_pass [OF assms] reply_fault_class [OF assms(2)]
    by (simp add: launch_fault_def Let_def advance_rung_def)
qed

lemma chain_run:
  assumes "distinct chain"
  shows "\<lbrakk>e_pc e = PcLaunch n; i_fallback_chain (t_intent (e_tr e)) = chain; k < length chain;
      i_rung (t_intent (e_tr e)) = chain ! k; length evs = length chain - k;
      list_all (fails_as P c (e_deadline e) FaultCapacityExhausted) evs\<rbrakk> \<Longrightarrow>
    snd (run_entity P b c evs e) = map (\<lambda>r. launch_call ((t_intent (e_tr e))\<lparr>i_rung := r\<rparr>)) (drop k chain) \<and>
    e_pc (fst (run_entity P b c evs e)) = PcReturned \<and>
    t_terminal (e_tr (fst (run_entity P b c evs e))) = Some (reply_fault P (last evs)) \<and>
    map a_rung (t_attempts (e_tr (fst (run_entity P b c evs e)))) =
      map a_rung (t_attempts (e_tr e)) @ drop k chain"
proof (induction evs arbitrary: e n k)
  case Nil
  then show ?case by simp
next
  case (Cons ev evs)
  let ?m = "t_intent (e_tr e)"
  let ?t1 = "add_attempt (i_rung ?m) PhaseLaunchAcked (Some (reply_fault P ev)) (ev_done ev) (e_tr e)"
  have ev: "fails_as P c (e_deadline e) FaultCapacityExhausted ev" using Cons.prems by simp
  have drop: "drop k chain = chain ! k # drop (Suc k) chain"
    using Cons.prems(3) by (simp add: Cons_nth_drop_Suc)
  have same: "launch_call (?m\<lparr>i_rung := chain ! k\<rparr>) = launch_call ?m" using Cons.prems(4) by (metis entity_intent.surjective entity_intent.update_convs(4))
  show ?case
  proof (cases "Suc k < length chain")
    case False
    then have k: "Suc k = length chain" using Cons.prems(3) by simp
    then have [simp]: "evs = []" using Cons.prems(5) by (cases evs) auto
    have "next_rung (i_rung ?m) (i_fallback_chain ?m) = None"
      using next_rung_last [OF assms k] Cons.prems(2,4) by simp
    then have it: "entity_iter P b c ev e =
        (e\<lparr>e_tr := set_terminal PhaseLaunchAcked (reply_fault P ev) ?t1, e_pc := PcReturned\<rparr>, [launch_call ?m])"
      using capacity_pass [OF Cons.prems(1) ev] by simp
    show ?thesis
      unfolding run_entity_Cons it fst_conv snd_conv drop
      using k Cons.prems(4) by (simp add: same) (simp add: set_terminal_def add_attempt_def)
  next
    case True
    let ?e1 = "e\<lparr>e_tr := ?t1\<lparr>t_intent := ?m\<lparr>i_rung := chain ! Suc k\<rparr>\<rparr>, e_pc := PcLaunch 0\<rparr>"
    have "next_rung (i_rung ?m) (i_fallback_chain ?m) = Some (chain ! Suc k)"
      using next_rung_nth [OF assms True] Cons.prems(2,4) by simp
    then have it: "entity_iter P b c ev e = (?e1, [launch_call ?m])"
      using capacity_pass [OF Cons.prems(1) ev] by simp
    have "evs \<noteq> []" using True Cons.prems(5) by auto
    have att: "map a_rung (t_attempts (e_tr ?e1)) = map a_rung (t_attempts (e_tr e)) @ [chain ! k]"
      using Cons.prems(4) by (simp add: add_attempt_def)
    have IH: "snd (run_entity P b c evs ?e1) = map (\<lambda>r. launch_call ((t_intent (e_tr ?e1))\<lparr>i_rung := r\<rparr>)) (drop (Suc k) chain) \<and>
        e_pc (fst (run_entity P b c evs ?e1)) = PcReturned \<and>
        t_terminal (e_tr (fst (run_entity P b c evs ?e1))) = Some (reply_fault P (last evs)) \<and>
        map a_rung (t_attempts (e_tr (fst (run_entity P b c evs ?e1)))) =
          map a_rung (t_attempts (e_tr ?e1)) @ drop (Suc k) chain"
      by (rule Cons.IH [of _ 0]) (use True Cons.prems in simp_all)
    show ?thesis
      using IH \<open>evs \<noteq> []\<close>
      unfolding run_entity_Cons it fst_conv snd_conv drop att
      by (simp add: same)
  qed
qed

text \<open>
  A set of rungs that \<^verbatim>\<open>advanceRung\<close> maps into itself is never left, however often the capacity
  is exhausted: the loop keeps calling the provider on these rungs only.
\<close>

definition rung_trap :: "rung list \<Rightarrow> rung set \<Rightarrow> bool" where
  "rung_trap chain S \<longleftrightarrow> (\<forall>r\<in>S. \<exists>r'\<in>S. next_rung r chain = Some r')"

lemma trap_run:
  assumes "rung_trap chain S"
  shows "\<lbrakk>e_pc e = PcLaunch n; i_fallback_chain (t_intent (e_tr e)) = chain;
      i_rung (t_intent (e_tr e)) \<in> S; t_terminal (e_tr e) = None;
      list_all (fails_as P c (e_deadline e) FaultCapacityExhausted) evs\<rbrakk> \<Longrightarrow>
    (\<exists>n. e_pc (fst (run_entity P b c evs e)) = PcLaunch n) \<and>
    t_terminal (e_tr (fst (run_entity P b c evs e))) = None \<and>
    set (snd (run_entity P b c evs e)) \<subseteq> (\<lambda>r. launch_call ((t_intent (e_tr e))\<lparr>i_rung := r\<rparr>)) ` S \<and>
    length (snd (run_entity P b c evs e)) = length evs"
proof (induction evs arbitrary: e n)
  case (Cons ev evs)
  let ?m = "t_intent (e_tr e)"
  obtain r where r: "r \<in> S" "next_rung (i_rung ?m) (i_fallback_chain ?m) = Some r"
    using assms Cons.prems(2,3) by (auto simp: rung_trap_def)
  let ?e1 = "fst (entity_iter P b c ev e)"
  have it: "snd (entity_iter P b c ev e) = [launch_call ?m]"
    "e_pc ?e1 = PcLaunch 0" "t_intent (e_tr ?e1) = ?m\<lparr>i_rung := r\<rparr>" "e_deadline ?e1 = e_deadline e"
    "t_terminal (e_tr ?e1) = None"
    using capacity_pass [OF Cons.prems(1), of P c ev b] r Cons.prems(4,5) by (simp_all add: add_attempt_def)
  have here: "launch_call ?m \<in> (\<lambda>r. launch_call (?m\<lparr>i_rung := r\<rparr>)) ` S"
    using Cons.prems(3) by (intro image_eqI [of _ _ "i_rung ?m"]) simp_all
  show ?case
    using Cons.IH [of ?e1 0] it r Cons.prems here by (simp add: run_entity_Cons del: run_entity.simps)
qed auto

section \<open>Consistency retries\<close>

lemma consistency_pass:
  assumes "e_pc e = PcLaunch n" "fails_as P c (e_deadline e) FaultRetryableConsistency ev"
  shows "entity_iter P b c ev e =
     (if n \<ge> max_consistency_retries
      then (e\<lparr>e_tr := set_terminal PhaseLaunchAcked (reply_fault P ev)
                 (add_attempt (i_rung (t_intent (e_tr e))) PhaseLaunchAcked (Some (reply_fault P ev)) (ev_done ev) (e_tr e)),
               e_pc := PcReturned\<rparr>, [launch_call (t_intent (e_tr e))])
      else (e\<lparr>e_pc := PcLaunch (Suc n)\<rparr>,
            [launch_call (t_intent (e_tr e)),
             Sleep (backoff_duration default_backoff_policy (int (Suc n)) (ev_rand ev))]))"
  using failing_pass [OF assms] reply_fault_class [OF assms(2)]
  by (simp add: launch_fault_def Let_def)

definition is_launch :: "effect \<Rightarrow> bool" where
  "is_launch x = (case x of CallLaunch _ \<Rightarrow> True | CallStart _ \<Rightarrow> True | _ \<Rightarrow> False)"

lemma is_launch_call [simp]: "is_launch (launch_call m)" "\<not> is_launch (Sleep d)"
  by (simp_all add: is_launch_def launch_call_def)

lemma consistency_run:
  "\<lbrakk>e_pc e = PcLaunch n; list_all (fails_as P c (e_deadline e) FaultRetryableConsistency) evs;
    n \<le> max_consistency_retries; length evs = Suc max_consistency_retries - n\<rbrakk> \<Longrightarrow>
   e_pc (fst (run_entity P b c evs e)) = PcReturned \<and>
   t_terminal (e_tr (fst (run_entity P b c evs e))) = Some (reply_fault P (last evs)) \<and>
   t_intent (e_tr (fst (run_entity P b c evs e))) = t_intent (e_tr e) \<and>
   filter is_launch (snd (run_entity P b c evs e)) = replicate (length evs) (launch_call (t_intent (e_tr e)))"
proof (induction evs arbitrary: e n)
  case (Cons ev evs)
  show ?case
  proof (cases "n = max_consistency_retries")
    case True
    then have [simp]: "evs = []" using Cons.prems(4) by (cases evs) auto
    show ?thesis
      using consistency_pass [OF Cons.prems(1), of P c ev b] Cons.prems(2) True
      by (simp add: set_terminal_def)
  next
    case False
    then have "evs \<noteq> []" "n < max_consistency_retries"
      "Suc max_consistency_retries - n = Suc (max_consistency_retries - n)"
      using Cons.prems(3,4) by auto
    let ?e1 = "e\<lparr>e_pc := PcLaunch (Suc n)\<rparr>"
    have it: "entity_iter P b c ev e = (?e1, [launch_call (t_intent (e_tr e)),
             Sleep (backoff_duration default_backoff_policy (int (Suc n)) (ev_rand ev))])"
      using consistency_pass [OF Cons.prems(1), of P c ev b] Cons.prems(2) \<open>n < max_consistency_retries\<close> by simp
    show ?thesis
      using Cons.IH [of ?e1 "Suc n"] Cons.prems \<open>n < max_consistency_retries\<close> \<open>evs \<noteq> []\<close>
        \<open>Suc max_consistency_retries - n = Suc (max_consistency_retries - n)\<close>
      by (simp add: run_entity_Cons it del: run_entity.simps)
  qed
qed simp

end
