(* ===== verification/Cohort_Reconcile.thy ===== *)
theory Cohort_Reconcile
  imports Cohort_Loop
begin

text \<open>
  \<^verbatim>\<open>Reconcile\<close> of \<^verbatim>\<open>internal/cohort/reconcile.go\<close>: the goroutines of a cohort as a step relation over
  their shared state (the fast-fail context, the failure count and the culprit), and the
  classification that follows \<^verbatim>\<open>eg.Wait\<close>. A goroutine moves by its start, one pass of a loop at a
  time (a pass reads the shared state once, at its context check), and the bookkeeping after
  \<^verbatim>\<open>reconcileEntity\<close>, which the code runs under a mutex. The parent context may end at any time.
\<close>

section \<open>The shared state and its moves\<close>

record culprit_info =
  cu_id :: entity_id
  cu_fault :: fault
  cu_phase :: phase
  cu_at :: time

definition no_culprit :: culprit_info where
  "no_culprit = \<lparr>cu_id = '''', cu_fault = mk_fault FaultRetryableConsistency '''' '''',
     cu_phase = PhaseLaunchAcked, cu_at = 0\<rparr>"

record cohort_state =
  s_ents :: "entity list"
  s_failed :: nat
  s_culprit :: culprit_info
  s_fastfail :: "(ctx_err \<times> time) option"
  s_parent :: "ctx_err option"
  s_now :: time
  s_log :: "(nat \<times> effect) list"

definition init_state :: "time \<Rightarrow> cohort \<Rightarrow> cohort_state" where
  "init_state now c =
     \<lparr>s_ents = map (\<lambda>m. \<lparr>e_tr = new_tracker now m, e_pc = PcStart, e_deadline = now\<rparr>) (c_members c),
      s_failed = 0, s_culprit = no_culprit, s_fastfail = None, s_parent = None, s_now = now, s_log = []\<rparr>"

text \<open>The body of the goroutine after \<^verbatim>\<open>reconcileEntity\<close>, for entity \<open>i\<close>.\<close>

definition gate_bookkeeping :: "cohort \<Rightarrow> nat \<Rightarrow> time \<Rightarrow> cohort_state \<Rightarrow> cohort_state" where
  "gate_bookkeeping c i now s =
     (let tr = e_tr (s_ents s ! i)
      in if is_terminal tr then
           (let failed = s_failed s + 1;
                satisfiable = int (length (s_ents s)) - int failed \<ge> effective_min_viable c;
                s1 = s\<lparr>s_failed := failed\<rparr>
            in if \<not> satisfiable \<and> cu_id (s_culprit s) = '''' then
                 s1\<lparr>s_culprit := \<lparr>cu_id = i_id (t_intent tr), cu_fault = the (t_terminal tr),
                                   cu_phase = t_phase tr, cu_at = now\<rparr>,
                    s_fastfail := (case s_fastfail s of None \<Rightarrow> Some (CtxCanceled, now) | Some x \<Rightarrow> Some x)\<rparr>
               else s1)
         else s)"

datatype move =
    MoveStart nat time
  | MovePass nat io_event
  | MoveFinish nat time
  | MoveParentDone ctx_err time

inductive cohort_step :: "ports \<Rightarrow> cohort \<Rightarrow> cohort_state \<Rightarrow> move \<Rightarrow> cohort_state \<Rightarrow> bool"
  for P :: ports and c :: cohort
where
  step_start:
    "\<lbrakk>i < length (s_ents s); e_pc (s_ents s ! i) = PcStart; s_now s \<le> now;
      e' = entity_start (c_budget c) now (s_ents s ! i)\<rbrakk> \<Longrightarrow>
     cohort_step P c s (MoveStart i now) (s\<lparr>s_ents := (s_ents s)[i := e'], s_now := now\<rparr>)"
| step_pass:
    "\<lbrakk>i < length (s_ents s); in_loop (e_pc (s_ents s ! i)); s_now s \<le> ev_at ev;
      entity_iter P (c_budget c) (s_fastfail s) ev (s_ents s ! i) = (e', effs)\<rbrakk> \<Longrightarrow>
     cohort_step P c s (MovePass i ev)
       (s\<lparr>s_ents := (s_ents s)[i := e'], s_now := ev_at ev, s_log := s_log s @ map (Pair i) effs\<rparr>)"
| step_finish:
    "\<lbrakk>i < length (s_ents s); e_pc (s_ents s ! i) = PcReturned; s_now s \<le> now;
      e' = (s_ents s ! i)\<lparr>e_pc := PcDone\<rparr>; s1 = gate_bookkeeping c i now s\<rbrakk> \<Longrightarrow>
     cohort_step P c s (MoveFinish i now) (s1\<lparr>s_ents := (s_ents s)[i := e'], s_now := now\<rparr>)"
| step_parent:
    "\<lbrakk>s_parent s = None; s_now s \<le> now\<rbrakk> \<Longrightarrow>
     cohort_step P c s (MoveParentDone err now)
       (s\<lparr>s_parent := Some err,
          s_fastfail := (case s_fastfail s of None \<Rightarrow> Some (err, now) | Some x \<Rightarrow> Some x),
          s_now := now\<rparr>)"

inductive_cases cohort_step_cases: "cohort_step P c s mv s'"

inductive_simps cohort_step_simps:
  "cohort_step P c s (MoveStart i now) s'"
  "cohort_step P c s (MovePass i ev) s'"
  "cohort_step P c s (MoveFinish i now) s'"
  "cohort_step P c s (MoveParentDone err now) s'"

text \<open>The same moves as a function, for running a cohort on given moves.\<close>

definition exec_move :: "ports \<Rightarrow> cohort \<Rightarrow> move \<Rightarrow> cohort_state \<Rightarrow> cohort_state option" where
  "exec_move P c mv s =
     (case mv of
        MoveStart i now \<Rightarrow>
          (if i < length (s_ents s) \<and> e_pc (s_ents s ! i) = PcStart \<and> s_now s \<le> now then
             Some (s\<lparr>s_ents := (s_ents s)[i := entity_start (c_budget c) now (s_ents s ! i)], s_now := now\<rparr>)
           else None)
      | MovePass i ev \<Rightarrow>
          (if i < length (s_ents s) \<and> in_loop (e_pc (s_ents s ! i)) \<and> s_now s \<le> ev_at ev then
             (case entity_iter P (c_budget c) (s_fastfail s) ev (s_ents s ! i) of
                (e', effs) \<Rightarrow>
                  Some (s\<lparr>s_ents := (s_ents s)[i := e'], s_now := ev_at ev,
                          s_log := s_log s @ map (Pair i) effs\<rparr>))
           else None)
      | MoveFinish i now \<Rightarrow>
          (if i < length (s_ents s) \<and> e_pc (s_ents s ! i) = PcReturned \<and> s_now s \<le> now then
             Some ((gate_bookkeeping c i now s)
                     \<lparr>s_ents := (s_ents s)[i := (s_ents s ! i)\<lparr>e_pc := PcDone\<rparr>], s_now := now\<rparr>)
           else None)
      | MoveParentDone err now \<Rightarrow>
          (if s_parent s = None \<and> s_now s \<le> now then
             Some (s\<lparr>s_parent := Some err,
                     s_fastfail := (case s_fastfail s of None \<Rightarrow> Some (err, now) | Some x \<Rightarrow> Some x),
                     s_now := now\<rparr>)
           else None))"

lemma exec_move_step: "exec_move P c mv s = Some s' \<longleftrightarrow> cohort_step P c s mv s'"
  by (cases mv) (auto simp: exec_move_def cohort_step_simps split: prod.splits if_splits)

fun exec_moves :: "ports \<Rightarrow> cohort \<Rightarrow> move list \<Rightarrow> cohort_state \<Rightarrow> cohort_state option" where
  "exec_moves P c [] s = Some s"
| "exec_moves P c (mv # mvs) s =
     (case exec_move P c mv s of None \<Rightarrow> None | Some s1 \<Rightarrow> exec_moves P c mvs s1)"

inductive reachable :: "ports \<Rightarrow> cohort \<Rightarrow> time \<Rightarrow> cohort_state \<Rightarrow> bool"
  for P :: ports and c :: cohort and t0 :: time
where
  reach_init: "reachable P c t0 (init_state t0 c)"
| reach_step: "reachable P c t0 s \<Longrightarrow> cohort_step P c s mv s' \<Longrightarrow> reachable P c t0 s'"

lemma exec_moves_reachable:
  "reachable P c t0 s \<Longrightarrow> exec_moves P c mvs s = Some s' \<Longrightarrow> reachable P c t0 s'"
  by (induction mvs arbitrary: s)
    (auto simp: exec_move_step split: option.splits intro: reach_step)

text \<open>\<^verbatim>\<open>eg.Wait\<close> returns when every goroutine has.\<close>

definition all_done :: "cohort_state \<Rightarrow> bool" where
  "all_done s \<longleftrightarrow> list_all (\<lambda>e. e_pc e = PcDone) (s_ents s)"

section \<open>After Wait\<close>

record outcome =
  out_cohort :: cohort_id
  out_ready :: bool
  out_records :: "entity_id \<rightharpoonup> entity_record"

definition surviving :: "tracker list \<Rightarrow> entity_id list" where
  "surviving trs =
     map (\<lambda>t. i_id (t_intent t)) (filter (\<lambda>t. \<not> is_terminal t \<and> o_provider_id (t_obs t) \<noteq> '''') trs)"

text \<open>\<^verbatim>\<open>Drain\<close>: a \<^verbatim>\<open>Terminate\<close> per id, the error of the last one that failed.\<close>

fun drain :: "(entity_id \<Rightarrow> go_error option) \<Rightarrow> go_error option \<Rightarrow> entity_id list \<Rightarrow> effect list \<times> go_error option" where
  "drain reply last_err [] = ([], last_err)"
| "drain reply last_err (i # ids) =
     (case drain reply (case reply i of Some e \<Rightarrow> Some e | None \<Rightarrow> last_err) ids of
        (effs, e) \<Rightarrow> (CallTerminate i # effs, e))"

text \<open>The loop that writes the records, tracker by tracker, into the outcome's map.\<close>

fun build_records ::
  "cohort_id \<Rightarrow> (nat \<Rightarrow> time) \<Rightarrow> nat \<Rightarrow> tracker list \<Rightarrow> (entity_id \<rightharpoonup> entity_record) \<Rightarrow> (entity_id \<rightharpoonup> entity_record)"
where
  "build_records cid fin k [] m = m"
| "build_records cid fin k (t # ts) m =
     build_records cid fin (Suc k) ts (m(i_id (t_intent t) \<mapsto> build_record t cid (fin k)))"

definition mark_parent :: "string \<Rightarrow> tracker \<Rightarrow> tracker" where
  "mark_parent cause t = (if is_terminal t then t else set_parent_cancelled cause t)"

definition mark_survivor :: "culprit_info \<Rightarrow> tracker \<Rightarrow> tracker" where
  "mark_survivor cu t =
     (if is_terminal t then t
      else if cu_id cu \<noteq> '''' then
        set_cohort_cancelled \<lparr>cc_culprit_id = cu_id cu, cc_culprit_fault = cu_fault cu,
          cc_culprit_phase = cu_phase cu, cc_at = cu_at cu, cc_survivor_phase = PhaseLaunchAcked\<rparr> t
      else set_parent_cancelled ''context canceled'' t)"

definition mark_terminal :: "phase \<Rightarrow> fault \<Rightarrow> tracker \<Rightarrow> tracker" where
  "mark_terminal p f t = (if is_terminal t then t else set_terminal p f t)"

definition mark_ready :: "tracker \<Rightarrow> tracker" where
  "mark_ready t = (if is_terminal t then t else set_phase PhaseReady t)"

definition disallowed_fault :: fault where
  "disallowed_fault = mk_fault FaultTerminal ''AssemblyDisallowed''
     (''partial cohort has NoAssembly=true but Reconciler has a non-nil Assembler; '' @
      ''use NewMPICohort for assembly'')"

definition assembly_fault :: "go_error \<Rightarrow> fault" where
  "assembly_fault err = mk_fault FaultTerminal ''AssemblyFailed'' (error_text err)"

text \<open>
  The trackers as the code leaves them before it builds the records, the readiness it reports, and
  the calls it makes. \<open>asm\<close> is the assembler's reply, \<open>trm\<close> the provider's to \<^verbatim>\<open>Terminate\<close>.
\<close>

definition classify_cohort ::
  "ports \<Rightarrow> cohort \<Rightarrow> (observation list \<Rightarrow> go_error option) \<Rightarrow> (entity_id \<Rightarrow> go_error option) \<Rightarrow>
   cohort_state \<Rightarrow> bool \<times> tracker list \<times> effect list"
where
  "classify_cohort P c asm trm s =
     (let trs = map e_tr (s_ents s);
          drained = (if length (surviving trs) > 0 then fst (drain trm None (surviving trs)) else []);
          enrolled_count = length (filter t_enrolled trs)
      in (case s_parent s of
            Some err \<Rightarrow> (False, map (mark_parent (ctx_err_text err)) trs, drained)
          | None \<Rightarrow>
              (if \<not> int enrolled_count \<ge> effective_min_viable c then
                 (False, map (mark_survivor (s_culprit s)) trs, drained)
               else if c_no_assembly c \<and> port_assembler P then
                 (False, map (mark_terminal PhaseCohortBarrier disallowed_fault) trs, [])
               else if is_collective c \<and> port_assembler P then
                 (let members = map t_obs (filter t_enrolled trs)
                  in (case asm members of
                        Some err \<Rightarrow>
                          (False, map (mark_terminal PhaseCohortAssembly (assembly_fault err)) trs,
                           [CallAssemble members])
                      | None \<Rightarrow> (True, map mark_ready trs, [CallAssemble members])))
               else (True, map mark_ready trs, []))))"

definition reconcile_outcome ::
  "ports \<Rightarrow> cohort \<Rightarrow> (observation list \<Rightarrow> go_error option) \<Rightarrow> (entity_id \<Rightarrow> go_error option) \<Rightarrow>
   (nat \<Rightarrow> time) \<Rightarrow> cohort_state \<Rightarrow> outcome"
where
  "reconcile_outcome P c asm trm fin s =
     (case classify_cohort P c asm trm s of
        (ready, trs, _) \<Rightarrow>
          \<lparr>out_cohort = c_id c, out_ready = ready,
           out_records = build_records (c_id c) fin 0 trs Map.empty\<rparr>)"

text \<open>
  \<^verbatim>\<open>Reconcile\<close> along given moves: the outcome, the calls of the goroutines and the calls after
  \<^verbatim>\<open>Wait\<close>. \<open>None\<close> when the moves are not a complete run.
\<close>

definition reconcile ::
  "ports \<Rightarrow> cohort \<Rightarrow> time \<Rightarrow> move list \<Rightarrow> (observation list \<Rightarrow> go_error option) \<Rightarrow>
   (entity_id \<Rightarrow> go_error option) \<Rightarrow> (nat \<Rightarrow> time) \<Rightarrow> (outcome \<times> (nat \<times> effect) list \<times> effect list) option"
where
  "reconcile P c t0 mvs asm trm fin =
     (case exec_moves P c mvs (init_state t0 c) of
        None \<Rightarrow> None
      | Some s \<Rightarrow>
          (if all_done s then
             Some (reconcile_outcome P c asm trm fin s, s_log s, snd (snd (classify_cohort P c asm trm s)))
           else None))"

end
