(* ===== verification/Cohort_Outcome.thy ===== *)
theory Cohort_Outcome
  imports Cohort_Reconcile
begin

text \<open>
  The invariant of a reconciling cohort, by rule induction over its moves, and what it gives after
  \<^verbatim>\<open>Wait\<close>: the failure count, when the shared context is cancelled and by whom, who counts as
  enrolled, and that the goroutines are never stuck.
\<close>

section \<open>One pass, for the cohort\<close>

definition says_enrolled :: "effect \<Rightarrow> bool" where
  "says_enrolled x = (case x of CallIsEnrolled _ (Inr rd) \<Rightarrow> readiness_ok rd | _ \<Rightarrow> False)"

lemma phase_ctx_canceled: "phase_ctx c dl now = Some CtxCanceled \<Longrightarrow> c \<noteq> None"
  by (auto simp: phase_ctx_def split: option.splits if_splits)

lemma set_enrolled_sel [simp]:
  "t_enrolled (set_enrolled t)" "is_terminal (set_enrolled t) = is_terminal t"
  by (simp_all add: set_enrolled_def is_terminal_def)

lemma is_terminal_simps [simp]:
  "is_terminal (set_terminal p f t)"
  "is_terminal (record_deadline p now t)"
  "is_terminal (add_attempt r p g now t) = is_terminal t"
  "is_terminal (t\<lparr>t_obs := ob\<rparr>) = is_terminal t"
  "is_terminal (t\<lparr>t_intent := m\<rparr>) = is_terminal t"
  "is_terminal (set_phase p t) = is_terminal t"
  by (simp_all add: tracker_defs)

lemma launch_fault_return:
  "launch_fault P ev n t f = (Return ok, t', effs) \<Longrightarrow> is_terminal t' \<and> \<not> ok"
  by (auto simp: launch_fault_def Let_def split: fault_class.splits if_splits option.splits)

lemma do_launch_return_False:
  "do_launch_iter P ctx ev n t = (Return False, t', effs) \<Longrightarrow> is_terminal t' \<or> ctx = Some CtxCanceled"
  by (auto simp: do_launch_iter_def Let_def split: option.splits ctx_err.splits sum.splits prod.splits
      dest: launch_fault_return)

lemma wait_running_return_False:
  "wait_running_iter P ctx ev n t = (Return False, t', effs) \<Longrightarrow> is_terminal t' \<or> ctx = Some CtxCanceled"
  by (auto simp: wait_running_iter_def Let_def split: option.splits ctx_err.splits sum.splits prod.splits
      list.splits lifecycle_state.splits if_splits)

lemma wait_enrolled_return:
  "wait_enrolled_iter P ctx ev t = (Return ok, t', effs) \<Longrightarrow>
     is_terminal t' \<or> ctx = Some CtxCanceled \<or> \<not> port_enroller P \<or> list_ex says_enrolled effs"
  by (auto simp: wait_enrolled_iter_def Let_def says_enrolled_def split: option.splits ctx_err.splits
      sum.splits prod.splits if_splits)

lemma pass_returned:
  assumes "in_loop (e_pc e)" "entity_iter P b c ev e = (e', effs)" "e_pc e' = PcReturned"
  shows "is_terminal (e_tr e') \<or> c \<noteq> None \<or>
     t_enrolled (e_tr e') \<and> (\<not> port_enroller P \<or> list_ex says_enrolled effs)"
proof (cases "e_pc e")
  case (PcLaunch n)
  with assms(2,3) show ?thesis
    by (auto simp: entity_iter_def split: iter.splits prod.splits if_splits
        dest!: do_launch_return_False phase_ctx_canceled)
next
  case (PcRunning n)
  with assms(2,3) show ?thesis
    by (auto simp: entity_iter_def split: iter.splits prod.splits if_splits
        dest!: wait_running_return_False phase_ctx_canceled)
next
  case PcEnrolled
  with assms(2,3) show ?thesis
    by (auto simp: entity_iter_def split: iter.splits prod.splits if_splits
        dest!: wait_enrolled_return phase_ctx_canceled)
qed (use assms(1) in \<open>simp_all add: in_loop_def\<close>)

lemma pass_pc:
  assumes "in_loop (e_pc e)" "entity_iter P b c ev e = (e', effs)"
  shows "in_loop (e_pc e') \<or> e_pc e' = PcReturned"
  using assms by (auto simp: entity_iter_def in_loop_def split: pc.splits iter.splits prod.splits if_splits)

lemma in_loop_not_enrolled: "entity_inv m e \<Longrightarrow> in_loop (e_pc e) \<Longrightarrow> \<not> t_enrolled (e_tr e)"
  by (auto simp: entity_inv_def in_loop_def live_at_def split: pc.splits)

lemma launch_fault_no_launch:
  "launch_fault P ev n t f = (r, t', effs) \<Longrightarrow> x \<in> set effs \<Longrightarrow> \<not> is_launch x"
  by (auto simp: launch_fault_def Let_def is_launch_def split: fault_class.splits if_splits option.splits)

lemma pass_launches:
  assumes "entity_iter P b c ev e = (e', effs)" "x \<in> set effs" "is_launch x"
  shows "x = launch_call (t_intent (e_tr e))"
  using assms
  by (auto simp: entity_iter_def do_launch_iter_def wait_running_iter_def wait_enrolled_iter_def Let_def
      launch_call_def is_launch_def [of "CallObserve _"] is_launch_def [of "CallIsEnrolled _ _"]
      is_launch_def [of "Sleep _"]
      split: pc.splits iter.splits prod.splits if_splits option.splits ctx_err.splits sum.splits
        list.splits lifecycle_state.splits
      dest: launch_fault_no_launch)

section \<open>The invariant\<close>

definition failed_entity :: "entity \<Rightarrow> bool" where
  "failed_entity e \<longleftrightarrow> e_pc e = PcDone \<and> is_terminal (e_tr e)"

text \<open>The entity is enrolled because the enroller said so, or there is none.\<close>

definition attested :: "ports \<Rightarrow> cohort_state \<Rightarrow> nat \<Rightarrow> bool" where
  "attested P s i \<longleftrightarrow> \<not> port_enroller P \<or> (\<exists>x. (i, x) \<in> set (s_log s) \<and> says_enrolled x)"

definition entity_at :: "ports \<Rightarrow> cohort \<Rightarrow> cohort_state \<Rightarrow> nat \<Rightarrow> bool" where
  "entity_at P c s i \<longleftrightarrow> entity_inv (c_members c ! i) (s_ents s ! i) \<and>
     (e_pc (s_ents s ! i) \<in> {PcReturned, PcDone} \<longrightarrow>
        is_terminal (e_tr (s_ents s ! i)) \<or> s_fastfail s \<noteq> None \<or>
        t_enrolled (e_tr (s_ents s ! i)) \<and> attested P s i)"

lemma attested_mono: "attested P s i \<Longrightarrow> set (s_log s) \<subseteq> set (s_log s') \<Longrightarrow> attested P s' i"
  by (auto simp: attested_def)

lemma entity_at_mono:
  "\<lbrakk>entity_at P c s i; s_ents s' ! i = s_ents s ! i; set (s_log s) \<subseteq> set (s_log s');
    s_fastfail s \<noteq> None \<longrightarrow> s_fastfail s' \<noteq> None\<rbrakk> \<Longrightarrow> entity_at P c s' i"
  unfolding entity_at_def using attested_mono [of P s i s'] by metis

definition gate_open :: "cohort \<Rightarrow> cohort_state \<Rightarrow> bool" where
  "gate_open c s \<longleftrightarrow> int (length (s_ents s)) - int (s_failed s) \<ge> effective_min_viable c"

definition culprit_ok :: "cohort \<Rightarrow> cohort_state \<Rightarrow> bool" where
  "culprit_ok c s \<longleftrightarrow> (\<exists>i<length (s_ents s). failed_entity (s_ents s ! i) \<and>
     cu_id (s_culprit s) = i_id (c_members c ! i) \<and>
     t_terminal (e_tr (s_ents s ! i)) = Some (cu_fault (s_culprit s)) \<and>
     t_phase (e_tr (s_ents s ! i)) = cu_phase (s_culprit s))"

definition cohort_inv :: "ports \<Rightarrow> cohort \<Rightarrow> cohort_state \<Rightarrow> bool" where
  "cohort_inv P c s \<longleftrightarrow>
     length (s_ents s) = length (c_members c) \<and>
     (\<forall>i<length (s_ents s). entity_at P c s i) \<and>
     s_failed s = length (filter failed_entity (s_ents s)) \<and>
     (cu_id (s_culprit s) \<noteq> '''' \<longleftrightarrow> \<not> gate_open c s) \<and>
     (cu_id (s_culprit s) \<noteq> '''' \<longrightarrow> culprit_ok c s) \<and>
     (s_fastfail s \<noteq> None \<longleftrightarrow> s_parent s \<noteq> None \<or> cu_id (s_culprit s) \<noteq> '''')"

lemma cohort_inv_init:
  assumes "effective_min_viable c \<le> int (length (c_members c))"
  shows "cohort_inv P c (init_state t0 c)"
proof -
  have "\<not> failed_entity \<lparr>e_tr = new_tracker t0 m, e_pc = PcStart, e_deadline = t0\<rparr>" for m
    by (simp add: failed_entity_def)
  then have "filter failed_entity (s_ents (init_state t0 c)) = []"
    by (simp add: init_state_def)
  moreover have "entity_at P c (init_state t0 c) i" if "i < length (c_members c)" for i
    using that
    by (simp add: entity_at_def init_state_def entity_inv_def live_at_def on_intent_def new_tracker_def rungs_of_def)
  ultimately show ?thesis
    using assms by (simp add: cohort_inv_def gate_open_def) (simp add: init_state_def no_culprit_def)
qed

lemma culprit_ok_keep:
  assumes "culprit_ok c s" "\<not> failed_entity (s_ents s ! i)" "s_culprit s' = s_culprit s"
    "s_ents s' = (s_ents s)[i := e']"
  shows "culprit_ok c s'"
proof -
  obtain j where j: "j < length (s_ents s)" "failed_entity (s_ents s ! j)"
    "cu_id (s_culprit s) = i_id (c_members c ! j)"
    "t_terminal (e_tr (s_ents s ! j)) = Some (cu_fault (s_culprit s))"
    "t_phase (e_tr (s_ents s ! j)) = cu_phase (s_culprit s)"
    using assms(1) by (auto simp: culprit_ok_def)
  then have "j \<noteq> i" using assms(2) by auto
  with j assms show ?thesis by (auto simp: culprit_ok_def intro!: exI [of _ j])
qed

text \<open>A move that neither finishes a goroutine nor cancels anything keeps the invariant.\<close>

lemma cohort_inv_quiet:
  assumes inv: "cohort_inv P c s" and i: "i < length (s_ents s)"
    and e: "\<not> failed_entity (s_ents s ! i)" "\<not> failed_entity e'"
    and s': "s_ents s' = (s_ents s)[i := e']" "s_failed s' = s_failed s" "s_culprit s' = s_culprit s"
      "s_fastfail s' = s_fastfail s" "s_parent s' = s_parent s" "set (s_log s) \<subseteq> set (s_log s')"
    and new: "entity_at P c s' i"
  shows "cohort_inv P c s'"
proof -
  have "entity_at P c s' j" if j: "j < length (s_ents s)" for j
  proof (cases "j = i")
    case False
    with inv j s' show ?thesis
      by (intro entity_at_mono [of P c s j s']) (auto simp: cohort_inv_def)
  qed (use new in simp)
  moreover have "length (filter failed_entity (s_ents s')) = length (filter failed_entity (s_ents s))"
    using count_filter_update [OF i, of failed_entity e'] e s' by simp
  moreover have "cu_id (s_culprit s) \<noteq> '''' \<Longrightarrow> culprit_ok c s'"
    using inv culprit_ok_keep [OF _ e(1) s'(3,1)] by (simp add: cohort_inv_def)
  ultimately show ?thesis
    using inv s' by (simp add: cohort_inv_def gate_open_def)
qed

lemma cohort_inv_step:
  assumes inv: "cohort_inv P c s" and step: "cohort_step P c s mv s'"
    and ids: "list_all valid_intent (c_members c)"
  shows "cohort_inv P c s'"
  using step
proof cases
  case (step_start i now e')
  have "entity_inv (c_members c ! i) e'"
    using inv step_start by (auto simp: cohort_inv_def entity_at_def intro: entity_inv_start)
  moreover have "e_pc e' = PcLaunch 0" by (simp add: step_start entity_start_def)
  ultimately show ?thesis
    using step_start
    by (intro cohort_inv_quiet [OF inv, of i e']) (auto simp: failed_entity_def entity_at_def)
next
  case (step_pass i ev e' effs)
  have e: "entity_inv (c_members c ! i) (s_ents s ! i)"
    using inv step_pass by (simp add: cohort_inv_def entity_at_def)
  have e': "entity_inv (c_members c ! i) e'"
    using entity_inv_iter [OF e, of P "c_budget c" "s_fastfail s" ev] step_pass by simp
  have pc: "in_loop (e_pc e') \<or> e_pc e' = PcReturned"
    using pass_pc step_pass by blast
  have ret: "e_pc e' = PcReturned \<Longrightarrow> is_terminal (e_tr e') \<or> s_fastfail s \<noteq> None \<or>
      t_enrolled (e_tr e') \<and> (\<not> port_enroller P \<or> list_ex says_enrolled effs)"
    using pass_returned step_pass by blast
  have "entity_at P c s' i"
    using e' pc ret step_pass
    by (auto simp: entity_at_def attested_def in_loop_def list_ex_iff)
  then show ?thesis
    using step_pass pc
    by (intro cohort_inv_quiet [OF inv, of i e']) (auto simp: failed_entity_def in_loop_def)
next
  case (step_parent now err)
  have "entity_at P c s' j" if "j < length (s_ents s)" for j
    using inv that step_parent
    by (intro entity_at_mono [of P c s j s']) (auto simp: cohort_inv_def split: option.split)
  then show ?thesis
    using inv step_parent
    by (auto simp: cohort_inv_def gate_open_def culprit_ok_def split: option.split)
next
  case (step_finish i now e' s1)
  let ?e = "s_ents s ! i"
  have i: "i < length (s_ents s)" and len: "length (s_ents s) = length (c_members c)"
    using inv step_finish by (simp_all add: cohort_inv_def)
  have notfailed: "\<not> failed_entity ?e" using step_finish by (simp add: failed_entity_def)
  have s': "s_ents s' = (s_ents s)[i := e']" "s_log s' = s_log s" "s_parent s' = s_parent s"
    "s_failed s' = s_failed s1" "s_culprit s' = s_culprit s1" "s_fastfail s' = s_fastfail s1"
    using step_finish by (auto simp: gate_bookkeeping_def Let_def)
  have failed': "failed_entity e' = is_terminal (e_tr ?e)"
    using step_finish by (simp add: failed_entity_def)
  have at: "entity_at P c s' j" if j: "j < length (s_ents s)" for j
  proof (cases "j = i")
    case False
    with inv j step_finish show ?thesis
      by (intro entity_at_mono [of P c s j s'])
        (auto simp: cohort_inv_def gate_bookkeeping_def Let_def split: option.split)
  next
    case True
    have "entity_at P c s i" using inv i by (simp add: cohort_inv_def)
    with True step_finish s' show ?thesis
      by (auto simp: entity_at_def entity_inv_def attested_def gate_bookkeeping_def Let_def split: option.split)
  qed
  have count: "length (filter failed_entity (s_ents s')) =
      length (filter failed_entity (s_ents s)) + (if is_terminal (e_tr ?e) then 1 else 0)"
    using count_filter_update [OF i, of failed_entity e'] notfailed failed' s' by simp
  have count1: "s_failed s1 = s_failed s + (if is_terminal (e_tr ?e) then 1 else 0)"
    using step_finish by (auto simp: gate_bookkeeping_def Let_def)
  have id: "i_id (t_intent (e_tr ?e)) = i_id (c_members c ! i)"
    using inv i step_finish
    by (auto simp: cohort_inv_def entity_at_def entity_inv_def intro!: on_intent_id)
  have nonempty: "i_id (c_members c ! i) \<noteq> ''''"
    using ids i len by (simp add: list_all_length valid_intent_def)
  show ?thesis
  proof (cases "is_terminal (e_tr ?e) \<and> \<not> gate_open c s' \<and> cu_id (s_culprit s) = ''''")
    case True
    then have cu: "s_culprit s' = \<lparr>cu_id = i_id (c_members c ! i), cu_fault = the (t_terminal (e_tr ?e)),
                   cu_phase = t_phase (e_tr ?e), cu_at = now\<rparr>" "s_fastfail s' \<noteq> None"
      using step_finish s' id count1
      by (auto simp: gate_bookkeeping_def Let_def gate_open_def split: option.split)
    have "culprit_ok c s'"
      using True cu i s' failed' step_finish
      by (auto simp: culprit_ok_def is_terminal_def intro!: exI [of _ i])
    with cu show ?thesis
      using inv at count count1 s' True nonempty by (simp add: cohort_inv_def)
  next
    case False
    have closed: "\<not> gate_open c s \<Longrightarrow> \<not> gate_open c s'" "\<not> is_terminal (e_tr ?e) \<Longrightarrow> gate_open c s' = gate_open c s"
      using s' count1 by (auto simp: gate_open_def)
    have same: "s_culprit s' = s_culprit s" "s_fastfail s' = s_fastfail s"
      using False step_finish s' count1 by (auto simp: gate_bookkeeping_def Let_def gate_open_def)
    moreover have "cu_id (s_culprit s) \<noteq> '''' \<Longrightarrow> culprit_ok c s'"
      using inv culprit_ok_keep [OF _ notfailed same(1) s'(1)] by (simp add: cohort_inv_def)
    ultimately show ?thesis
      using inv at count count1 s' False closed by (auto simp: cohort_inv_def)
  qed
qed

section \<open>After Wait\<close>

lemma reachable_inv:
  assumes "reachable P c t0 s" "wf_cohort c"
  shows "cohort_inv P c s"
  using assms(1)
proof induction
  case reach_init
  show ?case
    using assms(2) by (intro cohort_inv_init) (auto simp: effective_min_viable_def wf_cohort_def)
next
  case (reach_step s mv s')
  then show ?case using assms(2) by (auto simp: wf_cohort_def intro: cohort_inv_step)
qed

definition trackers :: "cohort_state \<Rightarrow> tracker list" where
  "trackers s = map e_tr (s_ents s)"

definition enrolled_count :: "cohort_state \<Rightarrow> nat" where
  "enrolled_count s = length (filter t_enrolled (trackers s))"

lemma done_failed:
  assumes "cohort_inv P c s" "all_done s"
  shows "s_failed s = length (filter is_terminal (trackers s))"
proof -
  have "filter failed_entity (s_ents s) = filter (is_terminal \<circ> e_tr) (s_ents s)"
    using assms(2) by (intro filter_cong) (auto simp: failed_entity_def all_done_def list_all_iff)
  then show ?thesis using assms(1) by (simp add: cohort_inv_def trackers_def filter_map)
qed

lemma done_entity:
  assumes "cohort_inv P c s" "all_done s" "i < length (trackers s)"
  shows "on_intent (c_members c ! i) (trackers s ! i)"
    and "is_terminal (trackers s ! i) \<or> s_fastfail s \<noteq> None \<or> t_enrolled (trackers s ! i) \<and> attested P s i"
    and "t_enrolled (trackers s ! i) \<Longrightarrow> \<not> is_terminal (trackers s ! i)"
  using assms
  by (auto simp: cohort_inv_def all_done_def trackers_def entity_at_def entity_inv_def list_all_length is_terminal_def)

lemma enrolled_le_open:
  assumes inv: "cohort_inv P c s" and fin: "all_done s"
  shows "int (enrolled_count s) \<le> int (length (s_ents s)) - int (s_failed s)"
proof -
  have "\<forall>t\<in>set (trackers s). \<not> (t_enrolled t \<and> is_terminal t)"
    using done_entity(3) [OF inv fin] by (auto simp: in_set_conv_nth)
  then have "enrolled_count s + s_failed s \<le> length (trackers s)"
    unfolding enrolled_count_def done_failed [OF inv fin]
    by (induction "trackers s") (auto intro: length_filter_disjoint)
  then show ?thesis by (simp add: trackers_def)
qed

lemma not_cancelled_enrolled:
  assumes inv: "cohort_inv P c s" and fin: "all_done s" and "s_fastfail s = None"
  shows "int (enrolled_count s) = int (length (s_ents s)) - int (s_failed s)"
proof -
  have "t_enrolled t = (\<not> is_terminal t)" if "t \<in> set (trackers s)" for t
    using done_entity(2,3) [OF inv fin] that assms(3) by (auto simp: in_set_conv_nth)
  then have "filter t_enrolled (trackers s) = filter (\<lambda>t. \<not> is_terminal t) (trackers s)"
    by (intro filter_cong) auto
  then have "enrolled_count s + s_failed s = length (trackers s)"
    unfolding enrolled_count_def done_failed [OF inv fin]
    using sum_length_filter_compl [of is_terminal "trackers s"] by simp
  then show ?thesis by (simp add: trackers_def)
qed

text \<open>
  The two cases of the gate with a live parent: it holds and nothing was cancelled, or it fails and
  the culprit is known. The defensive fallback of \<^verbatim>\<open>Reconcile\<close> is unreachable.
\<close>

lemma gate_holds:
  assumes "cohort_inv P c s" "all_done s" "s_parent s = None"
    and "effective_min_viable c \<le> int (enrolled_count s)"
  shows "s_fastfail s = None" and "cu_id (s_culprit s) = ''''"
  using enrolled_le_open [OF assms(1,2)] assms by (auto simp: cohort_inv_def gate_open_def)

lemma gate_fails:
  assumes inv: "cohort_inv P c s" and fin: "all_done s" and live: "s_parent s = None"
    and few: "int (enrolled_count s) < effective_min_viable c"
  shows "cu_id (s_culprit s) \<noteq> ''''"
proof
  assume none: "cu_id (s_culprit s) = ''''"
  with inv live have "s_fastfail s = None" "gate_open c s"
    by (cases "s_fastfail s", auto simp: cohort_inv_def)
  with not_cancelled_enrolled [OF inv fin] few show False by (simp add: gate_open_def)
qed

section \<open>The records\<close>

lemma build_records_cases:
  "build_records cid fin k ts m x = Some r \<Longrightarrow>
     m x = Some r \<or> (\<exists>j<length ts. x = i_id (t_intent (ts ! j)) \<and> r = build_record (ts ! j) cid (fin (k + j)))"
proof (induction ts arbitrary: k m)
  case (Cons t ts)
  from Cons.IH [OF Cons.prems [unfolded build_records.simps]]
  show ?case
  proof
    assume "(m(i_id (t_intent t) \<mapsto> build_record t cid (fin k))) x = Some r"
    then show ?case by (cases "x = i_id (t_intent t)") (auto intro!: exI [of _ 0])
  next
    assume "\<exists>j<length ts. x = i_id (t_intent (ts ! j)) \<and> r = build_record (ts ! j) cid (fin (Suc k + j))"
    then obtain j where "j < length ts" "x = i_id (t_intent (ts ! j))"
      "r = build_record (ts ! j) cid (fin (Suc k + j))" by blast
    then show ?case by (auto intro!: exI [of _ "Suc j"])
  qed
qed simp

lemma build_records_other:
  "x \<notin> (\<lambda>t. i_id (t_intent t)) ` set ts \<Longrightarrow> build_records cid fin k ts m x = m x"
  by (induction ts arbitrary: k m) auto

lemma build_records_nth:
  "distinct (map (\<lambda>t. i_id (t_intent t)) ts) \<Longrightarrow> j < length ts \<Longrightarrow>
   build_records cid fin k ts m (i_id (t_intent (ts ! j))) = Some (build_record (ts ! j) cid (fin (k + j)))"
proof (induction ts arbitrary: j k m)
  case (Cons t ts)
  show ?case
  proof (cases j)
    case 0
    with Cons.prems show ?thesis by (simp add: build_records_other)
  next
    case (Suc i)
    with Cons.prems Cons.IH [of i "Suc k" "m(i_id (t_intent t) \<mapsto> build_record t cid (fin k))"]
    show ?thesis by (simp del: fun_upd_apply)
  qed
qed simp

lemma mark_intent [simp]:
  "t_intent (mark_parent x t) = t_intent t"
  "t_intent (mark_survivor cu t) = t_intent t"
  "t_intent (mark_terminal p f t) = t_intent t"
  "t_intent (mark_ready t) = t_intent t"
  by (simp_all add: mark_parent_def mark_survivor_def mark_terminal_def mark_ready_def tracker_defs)

lemma surviving_ids:
  "set (surviving ts) = {i_id (t_intent (ts ! k)) |k. k < length ts \<and> t_terminal (ts ! k) = None \<and>
    o_provider_id (t_obs (ts ! k)) \<noteq> ''''}"
proof -
  have "set (surviving ts) =
      (\<lambda>t. i_id (t_intent t)) ` {t \<in> set ts. t_terminal t = None \<and> o_provider_id (t_obs t) \<noteq> ''''}"
    by (simp add: surviving_def is_terminal_def)
  then show ?thesis by (auto simp: in_set_conv_nth)
qed

lemma drain_effects: "fst (drain trm le ids) = map CallTerminate ids"
  by (induction trm le ids rule: drain.induct) (auto split: prod.split)

lemma drain_error: "snd (drain trm le ids) = None \<longleftrightarrow> le = None \<and> (\<forall>i\<in>set ids. trm i = None)"
  by (induction trm le ids rule: drain.induct) (auto split: prod.split option.split)

text \<open>The outcomes of the classification, one rule per branch of the code.\<close>

lemma classify_cohort_branches:
  "classify_cohort P c asm trm s =
     (case s_parent s of
        Some err \<Rightarrow> (False, map (mark_parent (ctx_err_text err)) (trackers s), map CallTerminate (surviving (trackers s)))
      | None \<Rightarrow>
          (if int (enrolled_count s) < effective_min_viable c then
             (False, map (mark_survivor (s_culprit s)) (trackers s), map CallTerminate (surviving (trackers s)))
           else if c_no_assembly c \<and> port_assembler P then
             (False, map (mark_terminal PhaseCohortBarrier disallowed_fault) (trackers s), [])
           else if is_collective c \<and> port_assembler P then
             (case asm (map t_obs (filter t_enrolled (trackers s))) of
                Some err \<Rightarrow> (False, map (mark_terminal PhaseCohortAssembly (assembly_fault err)) (trackers s),
                            [CallAssemble (map t_obs (filter t_enrolled (trackers s)))])
              | None \<Rightarrow> (True, map mark_ready (trackers s),
                            [CallAssemble (map t_obs (filter t_enrolled (trackers s)))]))
           else (True, map mark_ready (trackers s), [])))"
  by (simp add: classify_cohort_def Let_def drain_effects trackers_def enrolled_count_def surviving_def
      split: option.split)

text \<open>What the code does to a tracker before it builds its record, by the readiness it reports.\<close>

definition marks :: "cohort_state \<Rightarrow> bool \<Rightarrow> (tracker \<Rightarrow> tracker) \<Rightarrow> bool" where
  "marks s ready f \<longleftrightarrow>
     (if ready then f = mark_ready
      else (\<exists>p g. f = mark_terminal p g) \<or> (\<exists>x. f = mark_parent x) \<or>
           (f = mark_survivor (s_culprit s) \<and> cu_id (s_culprit s) \<noteq> ''''))"

lemma marks_intent: "marks s ready f \<Longrightarrow> t_intent (f t) = t_intent t"
  by (auto simp: marks_def split: if_splits)

lemma classify_marks:
  assumes "cohort_inv P c s" "all_done s" "classify_cohort P c asm trm s = (ready, trs, effs)"
  shows "\<exists>f. marks s ready f \<and> trs = map f (trackers s)"
proof (cases "s_parent s")
  case (Some err)
  with assms(3) show ?thesis
    by (intro exI [of _ "mark_parent (ctx_err_text err)"]) (auto simp: classify_cohort_branches marks_def)
next
  case None
  show ?thesis
  proof (cases "int (enrolled_count s) < effective_min_viable c")
    case True
    with assms(3) gate_fails [OF assms(1,2) None] None show ?thesis
      by (intro exI [of _ "mark_survivor (s_culprit s)"]) (auto simp: classify_cohort_branches marks_def)
  next
    case False
    consider "trs = map mark_ready (trackers s)" "ready"
      | p g where "trs = map (mark_terminal p g) (trackers s)" "\<not> ready"
      using assms(3) None False by (auto simp: classify_cohort_branches split: if_splits option.splits)
    then show ?thesis
    proof cases
      case 1
      then show ?thesis by (intro exI [of _ mark_ready]) (simp add: marks_def)
    next
      case (2 p g)
      then show ?thesis by (intro exI [of _ "mark_terminal p g"]) (auto simp: marks_def)
    qed
  qed
qed

lemma marks_terminal: "marks s ready f \<Longrightarrow> is_terminal t \<Longrightarrow> f t = t"
  by (auto simp: marks_def mark_ready_def mark_terminal_def mark_parent_def mark_survivor_def split: if_splits)

lemma marked_outcome:
  assumes "on_intent m t" "marks s ready f"
  shows "one_outcome (build_record (f t) cid now)"
    and "succeeded (build_record (f t) cid now) \<longleftrightarrow> ready \<and> \<not> is_terminal t"
proof -
  have none: "t_cohort_cancelled t = None" "t_parent_cancelled t = None"
    using assms(1) by (auto simp: on_intent_def)
  note outcome_defs = marks_def mark_ready_def mark_terminal_def mark_parent_def mark_survivor_def
    build_record_def set_phase_def set_terminal_def set_cohort_cancelled_def set_parent_cancelled_def
  have "one_outcome (build_record (f t) cid now) \<and>
    (succeeded (build_record (f t) cid now) \<longleftrightarrow> ready \<and> \<not> is_terminal t)"
  proof (cases "is_terminal t")
    case True
    then have "f t = t" by (rule marks_terminal [OF assms(2)])
    then show ?thesis
      using True none
      by (auto simp: is_terminal_def build_record_def succeeded_def intro: one_outcomeI_terminal)
  next
    case live: False
    then have "t_terminal t = None" by (simp add: is_terminal_def)
    with live none assms(2) show ?thesis
      by (cases ready)
        (auto simp: outcome_defs one_outcome_def outcome_count_def succeeded_def was_cohort_cancelled_def
          was_parent_cancelled_def)
  qed
  then show "one_outcome (build_record (f t) cid now)"
    and "succeeded (build_record (f t) cid now) \<longleftrightarrow> ready \<and> \<not> is_terminal t" by blast+
qed

end
