(* ===== verification/Cohort_Properties.thy ===== *)
theory Cohort_Properties
  imports Cohort_Outcome
begin

text \<open>
  What \<^verbatim>\<open>Reconcile\<close> promises for every run of a validated cohort, whatever the interleaving of its
  goroutines, the replies of the ports and the moment the parent context ends; and concrete runs.
\<close>

section \<open>Runs\<close>

lemma reconcile_state_at:
  assumes "wf_cohort c" "exec_moves P c mvs (init_state t0 c) = Some s"
    and "reconcile P c t0 mvs asm trm fin = Some (out, calls, after)"
  obtains trs where "reachable P c t0 s" "cohort_inv P c s" "all_done s"
    "classify_cohort P c asm trm s = (out_ready out, trs, after)" "calls = s_log s"
    "out_records out = build_records (c_id c) fin 0 trs Map.empty"
proof -
  have s: "all_done s" "out = reconcile_outcome P c asm trm fin s" "calls = s_log s"
    "after = snd (snd (classify_cohort P c asm trm s))"
    using assms(2,3) by (auto simp: reconcile_def split: if_splits)
  obtain ready trs effs where cl: "classify_cohort P c asm trm s = (ready, trs, effs)"
    by (metis prod_cases3)
  have "reachable P c t0 s" using exec_moves_reachable [OF reach_init assms(2)] .
  with s cl show ?thesis
    by (intro that [of trs]) (auto simp: reconcile_outcome_def intro: reachable_inv [OF _ assms(1)])
qed

lemma reconcile_exec:
  "reconcile P c t0 mvs asm trm fin = Some r \<Longrightarrow> \<exists>s. exec_moves P c mvs (init_state t0 c) = Some s"
  by (auto simp: reconcile_def split: option.splits)

lemma reconcile_state:
  assumes "wf_cohort c" "reconcile P c t0 mvs asm trm fin = Some (out, calls, after)"
  obtains s trs where "reachable P c t0 s" "cohort_inv P c s" "all_done s"
    "classify_cohort P c asm trm s = (out_ready out, trs, after)" "calls = s_log s"
    "out_records out = build_records (c_id c) fin 0 trs Map.empty"
  using reconcile_exec [OF assms(2)] reconcile_state_at [OF assms(1) _ assms(2)] by blast

text \<open>A record of the outcome is that of a member, marked as the classification says.\<close>

lemma reconcile_record:
  assumes wf: "wf_cohort c" and run: "reconcile P c t0 mvs asm trm fin = Some (out, calls, after)"
    and r: "out_records out x = Some r"
  obtains s f i where "reachable P c t0 s" "cohort_inv P c s" "all_done s" "calls = s_log s"
    "classify_cohort P c asm trm s = (out_ready out, map f (trackers s), after)" "marks s (out_ready out) f"
    "i < length (c_members c)" "x = i_id (c_members c ! i)" "on_intent (c_members c ! i) (trackers s ! i)"
    "r = build_record (f (trackers s ! i)) (c_id c) (fin i)"
proof -
  obtain s trs where s: "reachable P c t0 s" "cohort_inv P c s" "all_done s"
    "classify_cohort P c asm trm s = (out_ready out, trs, after)" "calls = s_log s"
    "out_records out = build_records (c_id c) fin 0 trs Map.empty"
    by (rule reconcile_state [OF wf run])
  obtain f where f: "marks s (out_ready out) f" "trs = map f (trackers s)"
    using classify_marks [OF s(2-4)] by blast
  obtain i where i: "i < length trs" "x = i_id (t_intent (trs ! i))"
    "r = build_record (trs ! i) (c_id c) (fin i)"
    using build_records_cases [of "c_id c" fin 0 trs Map.empty x r] r s(6) by auto
  have len: "length trs = length (trackers s)" "length (trackers s) = length (c_members c)"
    using f s(2) by (simp_all add: cohort_inv_def trackers_def)
  have on: "on_intent (c_members c ! i) (trackers s ! i)"
    using done_entity(1) [OF s(2,3)] i len by simp
  show ?thesis
    using s f i len on
    by (intro that [of s f i]) (auto simp: marks_intent on_intent_id)
qed

definition member_record :: "outcome \<Rightarrow> cohort \<Rightarrow> nat \<Rightarrow> entity_record" where
  "member_record out c i = the (out_records out (i_id (c_members c ! i)))"

definition distinct_ids :: "cohort \<Rightarrow> bool" where
  "distinct_ids c \<longleftrightarrow> distinct (map i_id (c_members c))"

text \<open>
  The state \<open>s\<close> in which a run ends and the mark \<open>f\<close> its trackers get: with distinct ids, the
  outcome maps each member's id to the record of its own tracker.
\<close>

definition ends_in ::
  "ports \<Rightarrow> cohort \<Rightarrow> (observation list \<Rightarrow> go_error option) \<Rightarrow> (entity_id \<Rightarrow> go_error option) \<Rightarrow> (nat \<Rightarrow> time) \<Rightarrow>
   outcome \<Rightarrow> (nat \<times> effect) list \<Rightarrow> effect list \<Rightarrow> cohort_state \<Rightarrow> (tracker \<Rightarrow> tracker) \<Rightarrow> bool"
where
  "ends_in P c asm trm fin out calls after s f \<longleftrightarrow>
     cohort_inv P c s \<and> all_done s \<and> calls = s_log s \<and>
     classify_cohort P c asm trm s = (out_ready out, map f (trackers s), after) \<and>
     marks s (out_ready out) f \<and> length (trackers s) = length (c_members c) \<and>
     (\<forall>i<length (c_members c). on_intent (c_members c ! i) (trackers s ! i) \<and>
        member_record out c i = build_record (f (trackers s ! i)) (c_id c) (fin i))"

lemma reconcile_member_at:
  assumes wf: "wf_cohort c" and ids: "distinct_ids c" and ex: "exec_moves P c mvs (init_state t0 c) = Some s"
    and run: "reconcile P c t0 mvs asm trm fin = Some (out, calls, after)"
  shows "\<exists>f. ends_in P c asm trm fin out calls after s f"
proof -
  obtain trs where s: "reachable P c t0 s" "cohort_inv P c s" "all_done s"
    "classify_cohort P c asm trm s = (out_ready out, trs, after)" "calls = s_log s"
    "out_records out = build_records (c_id c) fin 0 trs Map.empty"
    by (rule reconcile_state_at [OF wf ex run])
  obtain f where f: "marks s (out_ready out) f" "trs = map f (trackers s)"
    using classify_marks [OF s(2-4)] by blast
  have len: "length (trackers s) = length (c_members c)"
    using s(2) by (simp add: cohort_inv_def trackers_def)
  have on: "on_intent (c_members c ! i) (trackers s ! i)" if "i < length (c_members c)" for i
    using done_entity(1) [OF s(2,3)] that len by simp
  have tid: "i_id (t_intent (trs ! i)) = i_id (c_members c ! i)" if "i < length (c_members c)" for i
    using that len f on_intent_id [OF on [OF that]] by (simp add: marks_intent)
  have "map (\<lambda>t. i_id (t_intent t)) trs = map i_id (c_members c)"
    using f len tid by (intro nth_equalityI) auto
  then have "distinct (map (\<lambda>t. i_id (t_intent t)) trs)" using ids by (simp add: distinct_ids_def)
  then have "out_records out (i_id (c_members c ! i)) = Some (build_record (f (trackers s ! i)) (c_id c) (fin i))"
    if "i < length (c_members c)" for i
    unfolding s(6) tid [OF that, symmetric]
    using build_records_nth [of trs i "c_id c" fin 0 Map.empty] that len f by simp
  with s f len on show ?thesis
    by (intro exI [of _ f]) (simp add: ends_in_def member_record_def)
qed

lemma reconcile_member:
  assumes wf: "wf_cohort c" and run: "reconcile P c t0 mvs asm trm fin = Some (out, calls, after)"
    and ids: "distinct_ids c"
  shows "\<exists>s f. reachable P c t0 s \<and> ends_in P c asm trm fin out calls after s f"
proof -
  obtain s where s: "exec_moves P c mvs (init_state t0 c) = Some s"
    using reconcile_exec [OF run] by blast
  from reconcile_member_at [OF wf ids s run] exec_moves_reachable [OF reach_init s] show ?thesis by blast
qed

lemma ends_in_succeeded:
  "ends_in P c asm trm fin out calls after s f \<Longrightarrow> i < length (c_members c) \<Longrightarrow>
   succeeded (member_record out c i) \<longleftrightarrow> out_ready out \<and> \<not> is_terminal (trackers s ! i)"
  using marked_outcome(2) by (auto simp: ends_in_def)

section \<open>Concrete runs\<close>

definition demo_rung :: "string \<Rightarrow> rung" where
  "demo_rung ty = \<lparr>r_instance_type = ty, r_avail_zone = ''us-east-1a'', r_capacity_model = CapacityOnDemand,
     r_account_id = '''', r_warm_start = False\<rparr>"

definition demo_intent :: "string \<Rightarrow> rung list \<Rightarrow> entity_intent" where
  "demo_intent i chain = \<lparr>i_id = i, i_generation = ''g1'', i_cohort = ''c'', i_rung = hd chain,
     i_fallback_chain = chain, i_token = ''tok''\<rparr>"

definition demo_cohort :: cohort where
  "demo_cohort = \<lparr>c_id = ''c'',
     c_members = [demo_intent ''n0'' [demo_rung ''a'', demo_rung ''b''], demo_intent ''n1'' [demo_rung ''a'']],
     c_budget = default_budget, c_min_viable = 2, c_no_assembly = False\<rparr>"

definition demo_ports :: ports where
  "demo_ports = \<lparr>port_classify = (\<lambda>e. case e of
       ApiErr code msg \<Rightarrow> mk_fault (if code = ''cap'' then FaultCapacityExhausted
                                  else if code = ''gone'' then FaultRetryableConsistency
                                  else FaultTerminal) code msg
     | _ \<Rightarrow> mk_fault FaultTerminal ''other'' ''''),
     port_enroller = True, port_assembler = True, port_limiter = True\<rparr>"

definition demo_obs :: "string \<Rightarrow> observation" where
  "demo_obs i = \<lparr>o_id = i, o_generation = ''g1'', o_state = StateRunning, o_provider_id = ''i-'' @ i,
     o_rung = demo_rung ''a'', o_address = ''10.0.0.1'', o_observed_at = 0\<rparr>"

definition demo_event :: "time \<Rightarrow> string \<Rightarrow> io_event" where
  "demo_event t i = \<lparr>ev_at = t, ev_done = t + 1, ev_rand = 0, ev_launch = Inr (demo_obs i),
     ev_observe = Inr [demo_obs i], ev_enroll = Inr \<lparr>rd_enrolled = True, rd_operational = True, rd_detail = ''ok''\<rparr>\<rparr>"

definition demo_fail :: "time \<Rightarrow> string \<Rightarrow> io_event" where
  "demo_fail t code = (demo_event t '''')\<lparr>ev_launch := Inl (ApiErr code ''no'')\<rparr>"

definition demo_ok_moves :: "move list" where
  "demo_ok_moves =
     [MoveStart 0 1, MoveStart 1 1,
      MovePass 0 (demo_event 2 ''n0''), MovePass 1 (demo_event 2 ''n1''), MovePass 1 (demo_event 3 ''n1''),
      MovePass 0 (demo_event 4 ''n0''), MovePass 0 (demo_event 5 ''n0''), MoveFinish 0 6,
      MovePass 1 (demo_event 6 ''n1''), MoveFinish 1 7]"

definition demo_fail_moves :: "move list" where
  "demo_fail_moves =
     [MoveStart 0 1, MoveStart 1 1, MovePass 0 (demo_event 2 ''n0''), MovePass 1 (demo_fail 2 ''bad''),
      MoveFinish 1 3, MovePass 0 (demo_event 4 ''n0''), MoveFinish 0 5]"

definition demo_parent_moves :: "move list" where
  "demo_parent_moves =
     [MoveStart 0 1, MoveStart 1 1, MovePass 0 (demo_event 2 ''n0''), MoveParentDone CtxCanceled 3,
      MovePass 0 (demo_event 4 ''n0''), MovePass 1 (demo_event 4 ''n1''), MoveFinish 1 5, MoveFinish 0 5]"

definition demo_run :: "move list \<Rightarrow> (outcome \<times> (nat \<times> effect) list \<times> effect list) option" where
  "demo_run mvs = reconcile demo_ports demo_cohort 0 mvs (\<lambda>_. None) (\<lambda>_. None) (\<lambda>_. 9)"

lemma demo_wf: "wf_cohort demo_cohort \<and> distinct_ids demo_cohort"
  by code_simp

lemma demo_ok:
  "case demo_run demo_ok_moves of None \<Rightarrow> False
   | Some (out, calls, after) \<Rightarrow> out_ready out \<and> out_records out ''n0'' \<noteq> None"
  by code_simp

lemma demo_fail:
  "case demo_run demo_fail_moves of None \<Rightarrow> False
   | Some (out, calls, after) \<Rightarrow> \<not> out_ready out \<and> after = [CallTerminate ''n0''] \<and>
       (case out_records out ''n0'' of None \<Rightarrow> False | Some r \<Rightarrow> was_cohort_cancelled r)"
  by code_simp

lemma demo_parent:
  "case demo_run demo_parent_moves of None \<Rightarrow> False
   | Some (out, calls, after) \<Rightarrow>
       (case out_records out ''n1'' of None \<Rightarrow> False | Some r \<Rightarrow> was_parent_cancelled r)"
  by code_simp

lemma filter_nth_count: "length (filter (\<lambda>i. P (xs ! i)) [0..<length xs]) = length (filter P xs)"
proof -
  have "filter P xs = map ((!) xs) (filter (\<lambda>i. P (xs ! i)) [0..<length xs])"
    by (metis (no_types, lifting) comp_apply filter_cong filter_map map_nth)
  then show ?thesis by simp
qed

lemma filter_all_length: "length (filter P xs) = length xs \<Longrightarrow> \<forall>x\<in>set xs. P x"
  using length_filter_less [of _ xs P] by (auto simp del: length_filter_less)

section \<open>Outcomes\<close>

text \<open>
  C1. Whatever the interleaving of its goroutines and the moment the parent context ends, a
  reconcile of a validated cohort leaves every entity's record with exactly one of the four outcomes
  of \<^verbatim>\<open>explain.go\<close>: succeeded, terminal, cohort-cancelled, parent-cancelled.
\<close>

theorem reconcile_one_outcome:
  assumes "wf_cohort c" "reconcile P c t0 mvs asm trm fin = Some (out, calls, after)"
    "out_records out x = Some r"
  shows "one_outcome r"
  by (rule reconcile_record [OF assms]) (auto intro: marked_outcome)

lemma reconcile_one_outcome_witness:
  "\<exists>out calls after r. demo_run demo_fail_moves = Some (out, calls, after) \<and>
     out_records out ''n0'' = Some r \<and> one_outcome r"
proof -
  obtain out calls after r where *: "demo_run demo_fail_moves = Some (out, calls, after)"
    "out_records out ''n0'' = Some r"
    using demo_fail by (auto split: option.splits)
  then have "one_outcome r"
    using demo_wf by (intro reconcile_one_outcome [of demo_cohort]) (auto simp: demo_run_def)
  with * show ?thesis by blast
qed

definition enrollment_attested :: "ports \<Rightarrow> (nat \<times> effect) list \<Rightarrow> nat \<Rightarrow> bool" where
  "enrollment_attested P calls i \<longleftrightarrow> \<not> port_enroller P \<or> (\<exists>x. (i, x) \<in> set calls \<and> says_enrolled x)"

lemma reconcile_ready_bound:
  assumes "wf_cohort c" "distinct_ids c"
    and "reconcile P c t0 mvs asm trm fin = Some (out, calls, after)" "out_ready out"
  shows "c_min_viable c \<le> int (length (filter
     (\<lambda>i. succeeded (member_record out c i) \<and> enrollment_attested P calls i) [0..<length (c_members c)]))"
proof -
  obtain s f where ends: "ends_in P c asm trm fin out calls after s f"
    using reconcile_member [OF assms(1,3,2)] by blast
  then have s: "cohort_inv P c s" "all_done s" "calls = s_log s"
    "classify_cohort P c asm trm s = (True, map f (trackers s), after)" "marks s True f"
    "length (trackers s) = length (c_members c)"
    using assms(4) by (simp_all add: ends_in_def)
  have gate: "s_parent s = None" "effective_min_viable c \<le> int (enrolled_count s)"
    using s(4) by (auto simp: classify_cohort_branches split: option.splits if_splits)
  note calm = gate_holds [OF s(1,2) gate]
  have ok: "succeeded (member_record out c i) \<and> enrollment_attested P calls i"
    if i: "i < length (trackers s)" "t_enrolled (trackers s ! i)" for i
    using i s(3,6) done_entity [OF s(1,2) i(1)] calm ends_in_succeeded [OF ends] assms(4)
    by (simp add: enrollment_attested_def attested_def)
  have "enrolled_count s = length (filter (\<lambda>i. t_enrolled (trackers s ! i)) [0..<length (trackers s)])"
    by (simp add: enrolled_count_def filter_nth_count)
  also have "\<dots> \<le> length (filter (\<lambda>i. succeeded (member_record out c i) \<and> enrollment_attested P calls i) [0..<length (trackers s)])"
    using ok by (intro length_filter_mono) auto
  finally show ?thesis
    using gate(2) assms(1) s(6) by (auto simp: wf_cohort_def effective_min_viable_def)
qed

text \<open>
  C3. Readiness is sound: when \<^verbatim>\<open>Reconcile\<close> reports ready, at least \<^verbatim>\<open>MinViable\<close> of the members
  succeeded, and the enroller had answered for each of them that it is enrolled and operational (or
  there is no enroller). An entity that a cancelled context marks enrolled never makes the gate.
\<close>

theorem reconcile_ready_sound:
  assumes "wf_cohort c" "distinct_ids c"
    and "reconcile P c t0 mvs asm trm fin = Some (out, calls, after)" "out_ready out"
  shows "c_min_viable c \<le> int (length (filter
     (\<lambda>i. succeeded (member_record out c i) \<and> enrollment_attested P calls i) [0..<length (c_members c)]))"
  using assms by (rule reconcile_ready_bound)

lemma reconcile_ready_sound_witness:
  "\<exists>out calls after. demo_run demo_ok_moves = Some (out, calls, after) \<and> 2 \<le> int (length (filter
     (\<lambda>i. succeeded (member_record out demo_cohort i) \<and> enrollment_attested demo_ports calls i)
     [0..<length (c_members demo_cohort)]))"
proof -
  obtain out calls after where *: "demo_run demo_ok_moves = Some (out, calls, after)" "out_ready out"
    using demo_ok by (auto split: option.splits)
  have "c_min_viable demo_cohort = 2" by (simp add: demo_cohort_def)
  with reconcile_ready_sound [OF _ _ *(1) [unfolded demo_run_def] *(2)] demo_wf *(1)
  show ?thesis by auto
qed

text \<open>
  C5. An MPI cohort is all or nothing: it is ready exactly when every member succeeded, and when
  it is not ready no member is reported as succeeded.
\<close>

theorem mpi_all_or_nothing:
  assumes "new_mpi_cohort cid ms b = Inr c" "distinct_ids c"
    and "reconcile P c t0 mvs asm trm fin = Some (out, calls, after)"
  shows "if out_ready out then \<forall>i<length ms. succeeded (member_record out c i)
         else \<forall>i<length ms. \<not> succeeded (member_record out c i)"
proof -
  have wf: "wf_cohort c" and c: "c_members c = ms" "c_min_viable c = int (length ms)"
    using assms(1) constructed_wf(2) by (auto simp: new_mpi_cohort_Inr)
  obtain s f where ends: "ends_in P c asm trm fin out calls after s f"
    using reconcile_member [OF wf assms(3,2)] by blast
  show ?thesis
  proof (cases "out_ready out")
    case True
    let ?good = "\<lambda>i. succeeded (member_record out c i) \<and> enrollment_attested P calls i"
    have "length (filter ?good [0..<length ms]) = length [0..<length ms]"
      using reconcile_ready_bound [OF wf assms(2,3) True] length_filter_le [of ?good "[0..<length ms]"]
      unfolding c by simp
    from filter_all_length [OF this] True show ?thesis by simp
  next
    case False
    with ends_in_succeeded [OF ends] c show ?thesis by simp
  qed
qed

definition demo_mpi :: "go_error + cohort" where
  "demo_mpi = new_mpi_cohort ''c'' (c_members demo_cohort) default_budget"

lemma demo_mpi_cohort: "demo_mpi = Inr demo_cohort"
  by code_simp

lemma mpi_all_or_nothing_witness:
  "\<exists>out calls after. demo_run demo_ok_moves = Some (out, calls, after) \<and>
     (\<forall>i<length (c_members demo_cohort). succeeded (member_record out demo_cohort i))"
proof -
  obtain out calls after where *: "demo_run demo_ok_moves = Some (out, calls, after)" "out_ready out"
    using demo_ok by (auto split: option.splits)
  from mpi_all_or_nothing [OF demo_mpi_cohort [unfolded demo_mpi_def] _ *(1) [unfolded demo_run_def]]
    demo_wf * show ?thesis by auto
qed

lemma cohort_cancelled_mark:
  assumes "on_intent m t" "marks s ready f" "t_cohort_cancelled (f t) = Some cc"
  shows "f = mark_survivor (s_culprit s) \<and> cu_id (s_culprit s) \<noteq> '''' \<and> \<not> is_terminal t \<and>
    cc_culprit_id cc = cu_id (s_culprit s) \<and> cc_culprit_fault cc = cu_fault (s_culprit s) \<and>
    cc_culprit_phase cc = cu_phase (s_culprit s)"
proof -
  have none: "t_cohort_cancelled t = None" using assms(1) by (simp add: on_intent_def)
  have "\<not> is_terminal t" using marks_terminal [OF assms(2)] none assms(3) by auto
  then show ?thesis
    using assms(2,3) none
    by (auto simp: marks_def mark_ready_def mark_terminal_def mark_parent_def mark_survivor_def
        set_phase_def set_terminal_def set_parent_cancelled_def set_cohort_cancelled_def split: if_splits)
qed

lemma live_count:
  assumes "cohort_inv P c s" "all_done s"
  shows "int (length (filter (\<lambda>t. \<not> is_terminal t) (trackers s))) = int (length (s_ents s)) - int (s_failed s)"
  using length_filter_split [of is_terminal "trackers s"] done_failed [OF assms]
  by (simp add: trackers_def)



section \<open>The parent context\<close>

lemma step_keeps_parent: "cohort_step P c s mv s' \<Longrightarrow> s_parent s = Some err \<Longrightarrow> s_parent s' = Some err"
  by (auto elim!: cohort_step_cases simp: gate_bookkeeping_def Let_def)

lemma exec_moves_keeps_parent:
  "exec_moves P c mvs s = Some s' \<Longrightarrow> s_parent s = Some err \<Longrightarrow> s_parent s' = Some err"
  by (induction mvs arbitrary: s)
    (auto simp: exec_move_step split: option.splits dest: step_keeps_parent)

lemma exec_moves_parent:
  "exec_moves P c mvs s = Some s' \<Longrightarrow> MoveParentDone err t \<in> set mvs \<Longrightarrow> s_parent s' = Some err"
proof (induction mvs arbitrary: s)
  case (Cons mv mvs)
  then obtain s1 where s1: "cohort_step P c s mv s1" "exec_moves P c mvs s1 = Some s'"
    by (auto simp: exec_move_step split: option.splits)
  show ?case
  proof (cases "mv = MoveParentDone err t")
    case True
    with s1 show ?thesis by (auto simp: cohort_step_simps intro: exec_moves_keeps_parent)
  next
    case False
    with Cons s1 show ?thesis by auto
  qed
qed simp

text \<open>
  A parent that ends during the run takes priority over gate and assembly: nothing is reported
  ready, the assembler is not called, and every record is terminal or parent-cancelled with the
  parent's error as its cause, even when a culprit had already cancelled the cohort.
\<close>

theorem parent_end_takes_priority:
  assumes "wf_cohort c" "MoveParentDone err t \<in> set mvs"
    and "reconcile P c t0 mvs asm trm fin = Some (out, calls, after)"
  shows "\<not> out_ready out \<and> (\<forall>ms. CallAssemble ms \<notin> set after) \<and>
    (\<forall>x r. out_records out x = Some r \<longrightarrow>
       er_terminal r \<noteq> None \<or> map_option pc_cause (er_parent_cancelled r) = Some (ctx_err_text err))"
proof -
  obtain s where s: "exec_moves P c mvs (init_state t0 c) = Some s"
    "out = reconcile_outcome P c asm trm fin s" "after = snd (snd (classify_cohort P c asm trm s))"
    using assms(3) by (auto simp: reconcile_def split: option.splits if_splits)
  have "s_parent s = Some err" using exec_moves_parent [OF s(1) assms(2)] .
  then have cl: "classify_cohort P c asm trm s =
      (False, map (mark_parent (ctx_err_text err)) (trackers s), map CallTerminate (surviving (trackers s)))"
    by (simp add: classify_cohort_branches)
  have marked: "er_terminal (build_record (mark_parent x tr) cid now) \<noteq> None \<or>
      map_option pc_cause (er_parent_cancelled (build_record (mark_parent x tr) cid now)) = Some x" for x tr cid now
    by (auto simp: build_record_def mark_parent_def is_terminal_def set_parent_cancelled_def)
  show ?thesis
  proof (intro conjI allI impI)
    fix x r assume "out_records out x = Some r"
    then obtain k where "k < length (trackers s)"
      "r = build_record (mark_parent (ctx_err_text err) (trackers s ! k)) (c_id c) (fin k)"
      using build_records_cases [of "c_id c" fin 0 "map (mark_parent (ctx_err_text err)) (trackers s)" Map.empty x r]
      by (auto simp: s(2) reconcile_outcome_def cl)
    then show "er_terminal r \<noteq> None \<or> map_option pc_cause (er_parent_cancelled r) = Some (ctx_err_text err)"
      using marked by blast
  qed (use s cl in \<open>auto simp: reconcile_outcome_def\<close>)
qed

lemma parent_end_takes_priority_witness:
  "\<exists>out calls after. demo_run demo_parent_moves = Some (out, calls, after) \<and> \<not> out_ready out"
proof -
  obtain out calls after where *: "demo_run demo_parent_moves = Some (out, calls, after)"
    using demo_parent by (auto split: option.splits)
  have "MoveParentDone CtxCanceled 3 \<in> set demo_parent_moves" by (simp add: demo_parent_moves_def)
  from parent_end_takes_priority [OF _ this *(1) [unfolded demo_run_def]] demo_wf *
  show ?thesis by blast
qed

section \<open>Teardown\<close>

text \<open>
  C10. Which instances are torn down: when the parent ended or the gate failed, exactly the members
  without a terminal fault whose provider id is known; otherwise (ready, assembly failed or
  disallowed) none. A member with a terminal fault is never torn down, even when its last
  observation names a running instance.
\<close>

theorem drained_exactly_survivors:
  assumes "wf_cohort c" "reachable P c t0 s" "all_done s"
    and "classify_cohort P c asm trm s = (ready, trs, after)"
  shows "{x. CallTerminate x \<in> set after} =
    (if s_parent s \<noteq> None \<or> int (enrolled_count s) < c_min_viable c
     then {i_id (c_members c ! k) |k. k < length (c_members c) \<and> t_terminal (trackers s ! k) = None \<and>
             o_provider_id (t_obs (trackers s ! k)) \<noteq> ''''}
     else {})"
proof -
  have inv: "cohort_inv P c s" using reachable_inv assms by blast
  have len: "length (trackers s) = length (c_members c)"
    using inv by (simp add: cohort_inv_def trackers_def)
  have "i_id (t_intent (trackers s ! k)) = i_id (c_members c ! k)" if "k < length (c_members c)" for k
    using on_intent_id [OF done_entity(1) [OF inv assms(3)]] that len by simp
  then have surv: "set (surviving (trackers s)) =
      {i_id (c_members c ! k) |k. k < length (c_members c) \<and> t_terminal (trackers s ! k) = None \<and>
             o_provider_id (t_obs (trackers s ! k)) \<noteq> ''''}"
    unfolding surviving_ids len
    by (intro Collect_cong ex_cong1) auto
  have "effective_min_viable c = c_min_viable c"
    using assms(1) by (auto simp: wf_cohort_def effective_min_viable_def)
  then have "{x. CallTerminate x \<in> set after} =
      (if s_parent s \<noteq> None \<or> int (enrolled_count s) < c_min_viable c then set (surviving (trackers s)) else {})"
    using assms(4) by (auto simp: classify_cohort_branches split: option.splits if_splits)
  then show ?thesis unfolding surv .
qed

definition demo_state :: "move list \<Rightarrow> cohort_state" where
  "demo_state mvs = the (exec_moves demo_ports demo_cohort mvs (init_state 0 demo_cohort))"

lemma demo_state_ok:
  "case exec_moves demo_ports demo_cohort demo_fail_moves (init_state 0 demo_cohort) of
     None \<Rightarrow> False | Some s \<Rightarrow> all_done s"
  by code_simp

lemma drained_exactly_survivors_witness:
  "\<exists>ready trs after. classify_cohort demo_ports demo_cohort (\<lambda>_. None) (\<lambda>_. None) (demo_state demo_fail_moves) =
     (ready, trs, after) \<and> {x. CallTerminate x \<in> set after} \<subseteq> {''n0'', ''n1''}"
proof -
  obtain s where s: "exec_moves demo_ports demo_cohort demo_fail_moves (init_state 0 demo_cohort) = Some s" "all_done s"
    using demo_state_ok by (auto split: option.splits)
  obtain ready trs after where cl: "classify_cohort demo_ports demo_cohort (\<lambda>_. None) (\<lambda>_. None) s = (ready, trs, after)"
    by (metis prod_cases3)
  have "{i_id (c_members demo_cohort ! k) |k. k < length (c_members demo_cohort) \<and> Q k} \<subseteq> {''n0'', ''n1''}" for Q
    by (auto simp: demo_cohort_def demo_intent_def less_Suc_eq)
  with drained_exactly_survivors [OF _ exec_moves_reachable [OF reach_init s(1)] s(2) cl] demo_wf
  have "{x. CallTerminate x \<in> set after} \<subseteq> {''n0'', ''n1''}" by (simp split: if_splits)
  with cl s(1) show ?thesis by (simp add: demo_state_def)
qed

section \<open>What is launched\<close>

definition call_ok :: "cohort \<Rightarrow> nat \<times> effect \<Rightarrow> bool" where
  "call_ok c ix \<longleftrightarrow> (case ix of (i, x) \<Rightarrow> is_launch x \<longrightarrow> i < length (c_members c) \<and>
     (\<exists>r\<in>rungs_of (c_members c ! i). x = launch_call ((c_members c ! i)\<lparr>i_rung := r\<rparr>)))"

lemma calls_ok:
  assumes "reachable P c t0 s" "wf_cohort c"
  shows "\<forall>x\<in>set (s_log s). call_ok c x"
  using assms(1)
proof induction
  case (reach_step s mv s')
  from reach_step(2) reach_step.IH show ?case
  proof cases
    case (step_pass i ev e' effs)
    have inv: "cohort_inv P c s" using reachable_inv [OF reach_step(1) assms(2)] .
    have "on_intent (c_members c ! i) (e_tr (s_ents s ! i))"
      using inv step_pass
      by (auto simp: cohort_inv_def entity_at_def entity_inv_def in_loop_def live_at_def split: pc.splits)
    then obtain r where "r \<in> rungs_of (c_members c ! i)"
      "t_intent (e_tr (s_ents s ! i)) = (c_members c ! i)\<lparr>i_rung := r\<rparr>"
      by (auto simp: on_intent_def)
    moreover have "i < length (c_members c)" using inv step_pass by (simp add: cohort_inv_def)
    ultimately have "call_ok c (i, x)" if "x \<in> set effs" for x
      using pass_launches [OF step_pass(6) that] by (auto simp: call_ok_def)
    with step_pass reach_step.IH show ?thesis by auto
  qed (auto simp: gate_bookkeeping_def Let_def)
qed (simp add: init_state_def)

text \<open>
  C9. Only declared capacity is launched: every \<^verbatim>\<open>Launch\<close> and \<^verbatim>\<open>Start\<close> of a run is for a declared
  member, with its declared id, generation, cohort and token, on its declared rung or one of its
  approved fallback chain.
\<close>

theorem launches_within_intent:
  assumes "wf_cohort c" "reconcile P c t0 mvs asm trm fin = Some (out, calls, after)"
    and "(i, x) \<in> set calls" "is_launch x"
  shows "i < length (c_members c) \<and>
    (\<exists>r. (r = i_rung (c_members c ! i) \<or> r \<in> set (i_fallback_chain (c_members c ! i))) \<and>
       x = launch_call ((c_members c ! i)\<lparr>i_rung := r\<rparr>))"
proof -
  obtain s trs where "reachable P c t0 s" "calls = s_log s"
    using reconcile_state [OF assms(1,2)] by blast
  with calls_ok [OF _ assms(1)] assms(3,4) have "call_ok c (i, x)" by blast
  with assms(4) show ?thesis by (auto simp: call_ok_def rungs_of_def)
qed

lemma demo_launches:
  "case demo_run demo_ok_moves of None \<Rightarrow> False
   | Some (out, calls, after) \<Rightarrow> calls \<noteq> [] \<and> fst (hd calls) = 0 \<and> is_launch (snd (hd calls))"
  by code_simp

lemma launches_within_intent_witness:
  "\<exists>out calls after x r. demo_run demo_ok_moves = Some (out, calls, after) \<and> (0, x) \<in> set calls \<and>
     x = launch_call ((c_members demo_cohort ! 0)\<lparr>i_rung := r\<rparr>)"
proof -
  obtain out calls after where *: "demo_run demo_ok_moves = Some (out, calls, after)"
    "calls \<noteq> []" "fst (hd calls) = 0" "is_launch (snd (hd calls))"
    using demo_launches by (auto split: option.splits)
  then have "(0, snd (hd calls)) \<in> set calls" by (metis hd_in_set prod.collapse)
  from launches_within_intent [OF _ *(1) [unfolded demo_run_def] this *(4)] demo_wf * this
  show ?thesis by blast
qed

section \<open>Progress\<close>

fun moves_left :: "pc \<Rightarrow> nat" where
  "moves_left PcStart = 3"
| "moves_left PcReturned = 1"
| "moves_left PcDone = 0"
| "moves_left _ = 2"

definition work_left :: "cohort_state \<Rightarrow> nat" where
  "work_left s = sum_list (map (\<lambda>e. moves_left (e_pc e)) (s_ents s))"

lemma work_left_update:
  assumes "i < length (s_ents s)" "s_ents s' = (s_ents s)[i := e']"
    "moves_left (e_pc e') < moves_left (e_pc (s_ents s ! i))"
  shows "work_left s' < work_left s"
proof -
  have "sum_list (map (\<lambda>e. moves_left (e_pc e)) (xs[i := e'])) < sum_list (map (\<lambda>e. moves_left (e_pc e)) xs)"
    if "i < length xs" "moves_left (e_pc e') < moves_left (e_pc (xs ! i))" for xs i
    using that
  proof (induction xs arbitrary: i)
    case (Cons x xs)
    then show ?case by (cases i) auto
  qed simp
  with assms show ?thesis by (simp add: work_left_def)
qed

text \<open>Every goroutine that has not finished can move, and a pass after its deadline returns.\<close>

lemma some_move_progresses:
  assumes "\<not> all_done s"
  obtains mv s' where "exec_move P c mv s = Some s'" "work_left s' < work_left s"
proof -
  obtain i where i: "i < length (s_ents s)" "e_pc (s_ents s ! i) \<noteq> PcDone"
    using assms by (auto simp: all_done_def list_all_length)
  let ?e = "s_ents s ! i"
  consider "e_pc ?e = PcStart" | "in_loop (e_pc ?e)" | "e_pc ?e = PcReturned"
    using i(2) by (cases "e_pc ?e") (auto simp: in_loop_def)
  then show ?thesis
  proof cases
    case 1
    let ?mv = "MoveStart i (s_now s)"
    have "exec_move P c ?mv s \<noteq> None" using 1 i by (simp add: exec_move_def)
    then obtain s' where s': "exec_move P c ?mv s = Some s'" by blast
    then have "s_ents s' = (s_ents s)[i := entity_start (c_budget c) (s_now s) ?e]"
      by (auto simp: exec_move_def split: if_splits)
    with work_left_update [OF i(1) this] 1 show ?thesis by (intro that [OF s']) (simp add: entity_start_def)
  next
    case 2
    define t where "t = max (s_now s) (e_deadline ?e)"
    define ev where "ev = \<lparr>ev_at = t, ev_done = t, ev_rand = 0, ev_launch = Inl ErrNotExist,
      ev_observe = Inl ErrNotExist, ev_enroll = Inl ErrNotExist\<rparr>"
    obtain e' effs where it: "entity_iter P (c_budget c) (s_fastfail s) ev ?e = (e', effs)"
      by (metis prod.exhaust)
    have "phase_ctx (s_fastfail s) (e_deadline ?e) (ev_at ev) \<noteq> None"
      by (auto simp: phase_ctx_def ev_def t_def split: option.splits)
    from done_pass_returns(1) [OF 2 this, of P "c_budget c"] it have ret: "e_pc e' = PcReturned" by simp
    have "exec_move P c (MovePass i ev) s = Some (s\<lparr>s_ents := (s_ents s)[i := e'], s_now := ev_at ev,
        s_log := s_log s @ map (Pair i) effs\<rparr>)"
      using 2 i it by (simp add: exec_move_def) (simp add: ev_def t_def)
    moreover have "moves_left (e_pc e') < moves_left (e_pc ?e)"
      using 2 ret by (cases "e_pc ?e") (auto simp: in_loop_def)
    ultimately show ?thesis using work_left_update [OF i(1), of _ e'] by (intro that) auto
  next
    case 3
    let ?mv = "MoveFinish i (s_now s)"
    have "exec_move P c ?mv s \<noteq> None" using 3 i by (simp add: exec_move_def)
    then obtain s' where s': "exec_move P c ?mv s = Some s'" by blast
    then have "s_ents s' = (s_ents s)[i := ?e\<lparr>e_pc := PcDone\<rparr>]"
      by (auto simp: exec_move_def split: if_splits)
    with work_left_update [OF i(1) this] 3 show ?thesis by (intro that [OF s']) simp
  qed
qed

text \<open>
  The goroutines are never stuck: from every state of a cohort there are moves after which
  every goroutine has returned and finished its bookkeeping, so \<^verbatim>\<open>eg.Wait\<close> can return.
\<close>

theorem cohort_can_finish: "\<exists>mvs s'. exec_moves P c mvs s = Some s' \<and> all_done s'"
proof (induction s rule: measure_induct_rule [of work_left])
  case (less s)
  show ?case
  proof (cases "all_done s")
    case True
    then show ?thesis by (intro exI [of _ "[]"]) simp
  next
    case False
    then obtain mv s1 where s1: "exec_move P c mv s = Some s1" "work_left s1 < work_left s"
      by (rule some_move_progresses)
    with less.IH obtain mvs s' where "exec_moves P c mvs s1 = Some s'" "all_done s'" by blast
    with s1 show ?thesis by (intro exI [of _ "mv # mvs"]) simp
  qed
qed

end
