(* ===== verification/Cohort_Timing.thy ===== *)
theory Cohort_Timing
  imports Cohort_Properties
begin

text \<open>
  Time in \<^verbatim>\<open>internal/cohort/reconcile.go\<close>: \<^verbatim>\<open>sleep\<close>, which ends a pass that goes on, and what follows
  from it. Runs whose goroutines wake up no earlier than \<^verbatim>\<open>sleep\<close> allows are bounded by the phase
  budgets and the fallback chains, whatever the ports reply, so \<^verbatim>\<open>Reconcile\<close> returns.
\<close>

section \<open>Sleeping\<close>

text \<open>
  \<^verbatim>\<open>sleep(ctx, d)\<close> from \<open>start\<close> has returned by \<open>now\<close>: no positive wait, the timer has fired, or the
  phase context is done.
\<close>

definition sleep_over :: "(ctx_err \<times> time) option \<Rightarrow> time \<Rightarrow> time \<Rightarrow> duration \<Rightarrow> time \<Rightarrow> bool" where
  "sleep_over c dl start d now \<longleftrightarrow> d \<le> 0 \<or> start + d \<le> now \<or> phase_ctx c dl now \<noteq> None"

fun sleep_of :: "effect list \<Rightarrow> duration" where
  "sleep_of [] = 0"
| "sleep_of (x # xs) = (case x of Sleep d \<Rightarrow> d | _ \<Rightarrow> 0) + sleep_of xs"

text \<open>
  For each goroutine, when its last call returned and how long it sleeps after it. The clock only
  moves forward, and a draw of \<^verbatim>\<open>rand.Float64\<close> is never negative.
\<close>

type_synonym timers = "nat \<Rightarrow> time \<times> duration"

definition move_timed :: "timers \<Rightarrow> cohort_state \<Rightarrow> move \<Rightarrow> bool" where
  "move_timed W s mv \<longleftrightarrow>
     (case mv of
        MovePass i ev \<Rightarrow>
          fst (W i) \<le> ev_at ev \<and> ev_at ev \<le> ev_done ev \<and> 0 \<le> ev_rand ev \<and>
          sleep_over (s_fastfail s) (e_deadline (s_ents s ! i)) (fst (W i)) (snd (W i)) (ev_at ev)
      | _ \<Rightarrow> True)"

definition set_timer :: "ports \<Rightarrow> cohort \<Rightarrow> cohort_state \<Rightarrow> move \<Rightarrow> timers \<Rightarrow> timers" where
  "set_timer P c s mv W =
     (case mv of
        MoveStart i now \<Rightarrow> W(i := (now, 0))
      | MovePass i ev \<Rightarrow>
          W(i := (ev_done ev, sleep_of (snd (entity_iter P (c_budget c) (s_fastfail s) ev (s_ents s ! i)))))
      | _ \<Rightarrow> W)"

fun timed_moves :: "ports \<Rightarrow> cohort \<Rightarrow> timers \<Rightarrow> cohort_state \<Rightarrow> move list \<Rightarrow> bool" where
  "timed_moves P c W s [] = True"
| "timed_moves P c W s (mv # mvs) =
     (move_timed W s mv \<and>
      (case exec_move P c mv s of
         None \<Rightarrow> False
       | Some s' \<Rightarrow> timed_moves P c (set_timer P c s mv W) s' mvs))"

text \<open>Every wait of the loops is at least the poll interval.\<close>

lemma backoff_at_least_poll:
  assumes "0 \<le> u" "0 \<le> n"
  shows "poll_interval \<le> backoff_duration default_backoff_policy n u"
proof -
  let ?p = default_backoff_policy
  have jit: "0 \<le> trunc_rat (of_int d * p_jitter ?p * u)" if "0 \<le> d" for d
    using assms(1) that by (intro trunc_rat_nonneg) (simp add: default_backoff_policy_def)
  have cap: "poll_interval \<le> p_cap ?p" "0 \<le> p_cap ?p" "p_base ?p = poll_interval" "0 < poll_interval"
    by (simp_all add: poll_interval_def default_backoff_policy_def duration_units)
  show ?thesis
  proof (cases "1024 \<le> nat n \<or> of_int (p_cap ?p) \<le> (of_int (p_base ?p) * 2 ^ nat n :: rat)")
    case True
    with assms(2) cap jit [OF cap(2)] show ?thesis by (auto simp: backoff_duration_def Let_def)
  next
    case False
    have tr: "trunc_rat (of_int (p_base ?p) * 2 ^ nat n) = poll_interval * 2 ^ nat n"
      using trunc_rat_of_int [of "poll_interval * 2 ^ nat n"] by (simp add: cap(3))
    have "poll_interval * 1 \<le> poll_interval * 2 ^ nat n" using cap(4) by (intro mult_left_mono) auto
    moreover have "0 \<le> poll_interval * 2 ^ nat n" using cap(4) by simp
    ultimately show ?thesis
      using False assms(2) jit [of "poll_interval * 2 ^ nat n"] by (simp add: backoff_duration_def Let_def tr)
  qed
qed

section \<open>The rungs that are left\<close>

fun rungs_after :: "rung \<Rightarrow> rung list \<Rightarrow> nat" where
  "rungs_after cur [] = 0"
| "rungs_after cur (r # rs) = (if r = cur then length rs else rungs_after cur rs)"

definition rungs_left :: "tracker \<Rightarrow> nat" where
  "rungs_left t = rungs_after (i_rung (t_intent t)) (i_fallback_chain (t_intent t))"

lemma rungs_after_le: "rungs_after cur rs \<le> length rs"
  by (induction rs) auto

lemma next_rung_after:
  "next_rung cur rs = Some r \<Longrightarrow> distinct rs \<Longrightarrow> Suc (rungs_after r rs) = rungs_after cur rs"
proof (induction cur rs rule: next_rung.induct)
  case (1 cur a s rs)
  have "next_rung cur (s # rs) = Some r \<Longrightarrow> r \<in> set (s # rs)" by (rule next_rung_mem)
  with 1 show ?case by (auto split: if_splits)
qed simp_all

section \<open>One pass uses up time or a rung\<close>

lemma launch_again:
  assumes "do_launch_iter P None ev n t = (Again n', t', effs)" "0 \<le> ev_rand ev"
  shows "poll_interval \<le> sleep_of effs \<and> t_intent t' = t_intent t \<or>
    sleep_of effs = 0 \<and> (\<exists>r. next_rung (i_rung (t_intent t)) (i_fallback_chain (t_intent t)) = Some r \<and>
      t_intent t' = (t_intent t)\<lparr>i_rung := r\<rparr>)"
  using assms backoff_at_least_poll [of "ev_rand ev"]
  by (auto simp: do_launch_iter_def launch_fault_def Let_def advance_rung_def
      split: sum.splits fault_class.splits if_splits option.splits)

lemma launch_acked:
  "do_launch_iter P None ev n t = (Return True, t', effs) \<Longrightarrow> t_intent t' = t_intent t \<and> sleep_of effs = 0"
  by (auto simp: do_launch_iter_def launch_fault_def Let_def
      split: sum.splits fault_class.splits if_splits option.splits)

lemma running_again:
  assumes "wait_running_iter P None ev n t = (Again n', t', effs)" "0 \<le> ev_rand ev"
  shows "poll_interval \<le> sleep_of effs \<and> t_intent t' = t_intent t"
  using assms backoff_at_least_poll [of "ev_rand ev"]
  by (auto simp: wait_running_iter_def Let_def
      split: sum.splits list.splits lifecycle_state.splits if_splits)

lemma running_seen:
  "wait_running_iter P None ev n t = (Return True, t', effs) \<Longrightarrow> t_intent t' = t_intent t \<and> sleep_of effs = 0"
  by (auto simp: wait_running_iter_def Let_def
      split: sum.splits list.splits lifecycle_state.splits if_splits)

lemma enrolled_again:
  "wait_enrolled_iter P None ev t = (Again u, t', effs) \<Longrightarrow> sleep_of effs = poll_interval \<and> t_intent t' = t_intent t"
  by (auto simp: wait_enrolled_iter_def Let_def split: sum.splits if_splits)

definition fuel :: "phase_budget \<Rightarrow> time \<times> duration \<Rightarrow> entity \<Rightarrow> int" where
  "fuel b w e = time_left poll_interval b (fst w + max 0 (snd w)) e + poll_interval * int (rungs_left (e_tr e))"

lemma poll_interval_pos: "0 < poll_interval"
  by (simp add: poll_interval_def duration_units)

lemma fuel_nonneg: "positive_budget b \<Longrightarrow> 0 \<le> fuel b w e"
  using time_left_nonneg [OF _ poll_interval_pos] poll_interval_pos by (simp add: fuel_def)

lemma fallback_chain_kept:
  "entity_iter P b c ev e = (e', effs) \<Longrightarrow>
   i_fallback_chain (t_intent (e_tr e')) = i_fallback_chain (t_intent (e_tr e))"
  by (auto simp: entity_iter_def do_launch_iter_def wait_running_iter_def wait_enrolled_iter_def launch_fault_def
      advance_rung_def tracker_defs
      split: pc.splits iter.splits prod.splits if_splits option.splits ctx_err.splits sum.splits list.splits
        lifecycle_state.splits fault_class.splits)

lemma pass_uses_fuel:
  assumes "in_loop (e_pc e)" "entity_iter P b c ev e = (e', effs)" "in_loop (e_pc e')"
    and b: "positive_budget b" and chain: "distinct (i_fallback_chain (t_intent (e_tr e)))"
    and t: "fst w \<le> ev_at ev" "ev_at ev \<le> ev_done ev" "0 \<le> ev_rand ev"
      "sleep_over c (e_deadline e) (fst w) (snd w) (ev_at ev)"
  shows "fuel b (ev_done ev, sleep_of effs) e' + poll_interval \<le> fuel b w e"
proof -
  have live: "phase_ctx c (e_deadline e) (ev_at ev) = None"
    using done_pass_returns(1) [OF assms(1), of c ev P b] assms(2,3) by (fastforce simp: in_loop_def)
  then have dl: "ev_at ev < e_deadline e"
    by (auto simp: phase_ctx_def split: option.splits prod.splits if_splits)
  have woke: "fst w + max 0 (snd w) \<le> ev_at ev"
    using t(1,4) live by (auto simp: sleep_over_def)
  note pos = poll_interval_pos
  note left = fuel_def time_left_def rungs_left_def
  show ?thesis
  proof (cases "e_pc e")
    case (PcLaunch n)
    obtain r t' xs where it: "do_launch_iter P None ev n (e_tr e) = (r, t', xs)" by (metis prod_cases3)
    show ?thesis
    proof (cases r)
      case (Again n')
      then have e': "e' = e\<lparr>e_tr := t', e_pc := PcLaunch n'\<rparr>" "effs = xs"
        using assms(2) PcLaunch it live by (auto simp: entity_iter_def)
      from launch_again [OF it [unfolded Again] t(3)] show ?thesis
      proof
        assume "poll_interval \<le> sleep_of xs \<and> t_intent t' = t_intent (e_tr e)"
        then show ?thesis using e' PcLaunch woke dl t(2) pos by (simp add: left)
      next
        assume "sleep_of xs = 0 \<and> (\<exists>r. next_rung (i_rung (t_intent (e_tr e))) (i_fallback_chain (t_intent (e_tr e))) = Some r \<and>
          t_intent t' = (t_intent (e_tr e))\<lparr>i_rung := r\<rparr>)"
        then obtain r where "sleep_of xs = 0" "t_intent t' = (t_intent (e_tr e))\<lparr>i_rung := r\<rparr>"
          "Suc (rungs_after r (i_fallback_chain (t_intent (e_tr e)))) =
             rungs_after (i_rung (t_intent (e_tr e))) (i_fallback_chain (t_intent (e_tr e)))"
          using next_rung_after [OF _ chain] by blast
        then show ?thesis
          using e' PcLaunch woke dl t(2) pos
          by (simp add: left distrib_left flip: \<open>Suc _ = _\<close>)
      qed
    next
      case (Return ok)
      then have ok: ok using assms(2,3) PcLaunch it live
        by (auto simp: entity_iter_def in_loop_def split: if_splits)
      then have e': "e' = e\<lparr>e_tr := set_phase PhaseRunning t', e_pc := PcRunning 0,
          e_deadline := ev_done ev + b_running b\<rparr>" "effs = xs"
        using assms(2) PcLaunch it live Return by (auto simp: entity_iter_def)
      have "t_intent (set_phase PhaseRunning t') = t_intent (e_tr e)" "sleep_of xs = 0"
        using launch_acked it Return ok by (auto simp: set_phase_def)
      then show ?thesis using e' PcLaunch woke dl t(2) pos b by (simp add: left positive_budget_def)
    qed
  next
    case (PcRunning n)
    obtain r t' xs where it: "wait_running_iter P None ev n (e_tr e) = (r, t', xs)" by (metis prod_cases3)
    show ?thesis
    proof (cases r)
      case (Again n')
      then have e': "e' = e\<lparr>e_tr := t', e_pc := PcRunning n'\<rparr>" "effs = xs"
        using assms(2) PcRunning it live by (auto simp: entity_iter_def)
      with running_again [OF it [unfolded Again] t(3)] show ?thesis
        using PcRunning woke dl t(2) pos by (simp add: left)
    next
      case (Return ok)
      then have ok: ok using assms(2,3) PcRunning it live
        by (auto simp: entity_iter_def in_loop_def split: if_splits)
      then have e': "e' = e\<lparr>e_tr := set_phase PhaseEnrolled t', e_pc := PcEnrolled,
          e_deadline := ev_done ev + b_enrolled b\<rparr>" "effs = xs"
        using assms(2) PcRunning it live Return by (auto simp: entity_iter_def)
      have "t_intent (set_phase PhaseEnrolled t') = t_intent (e_tr e)" "sleep_of xs = 0"
        using running_seen it Return ok by (auto simp: set_phase_def)
      then show ?thesis using e' PcRunning woke dl t(2) pos b by (simp add: left positive_budget_def)
    qed
  next
    case PcEnrolled
    obtain r t' xs where it: "wait_enrolled_iter P None ev (e_tr e) = (r, t', xs)" by (metis prod_cases3)
    then obtain u where r: "r = Again u"
      using assms(2,3) PcEnrolled live by (cases r) (auto simp: entity_iter_def in_loop_def)
    then have e': "e' = e\<lparr>e_tr := t'\<rparr>" "effs = xs"
      using assms(2) PcEnrolled it live by (auto simp: entity_iter_def)
    with enrolled_again [OF it [unfolded r]] show ?thesis
      using PcEnrolled woke dl t(2) pos by (simp add: left)
  qed (use assms(1) in \<open>simp_all add: in_loop_def\<close>)
qed

section \<open>Every run ends\<close>

definition phases_last :: "phase_budget \<Rightarrow> duration" where
  "phases_last b = b_launch_acked b + b_running b + b_enrolled b"

text \<open>What a goroutine may still use: its moves, its time and its rungs, in poll intervals.\<close>

definition entity_potential :: "phase_budget \<Rightarrow> time \<times> duration \<Rightarrow> entity \<Rightarrow> int" where
  "entity_potential b w e =
     (case e_pc e of
        PcStart \<Rightarrow> phases_last b + poll_interval * (6 + int (length (i_fallback_chain (t_intent (e_tr e)))))
      | PcReturned \<Rightarrow> poll_interval
      | PcDone \<Rightarrow> 0
      | _ \<Rightarrow> 2 * poll_interval + fuel b w e)"

definition potential :: "phase_budget \<Rightarrow> timers \<Rightarrow> cohort_state \<Rightarrow> int" where
  "potential b W s =
     (if s_parent s = None then poll_interval else 0) +
     (\<Sum>i<length (s_ents s). entity_potential b (W i) (s_ents s ! i))"

definition distinct_chains :: "cohort_state \<Rightarrow> bool" where
  "distinct_chains s \<longleftrightarrow> list_all (\<lambda>e. distinct (i_fallback_chain (t_intent (e_tr e)))) (s_ents s)"

lemma entity_potential_nonneg: "positive_budget b \<Longrightarrow> 0 \<le> entity_potential b w e"
  using poll_interval_pos fuel_nonneg [of b w e]
  by (auto simp: entity_potential_def phases_last_def positive_budget_def split: pc.split)

lemma potential_nonneg: "positive_budget b \<Longrightarrow> 0 \<le> potential b W s"
  using poll_interval_pos
  by (auto simp: potential_def intro!: add_nonneg_nonneg sum_nonneg entity_potential_nonneg)

lemma potential_update:
  assumes "i < length (s_ents s)" "s_ents s' = (s_ents s)[i := e']" "s_parent s' = s_parent s"
    and "\<And>j. j \<noteq> i \<Longrightarrow> W' j = W j"
    and "entity_potential b (W' i) e' + d \<le> entity_potential b (W i) (s_ents s ! i)"
  shows "potential b W' s' + d \<le> potential b W s"
proof -
  have "(\<Sum>j<length (s_ents s). entity_potential b (W' j) ((s_ents s)[i := e'] ! j)) =
      entity_potential b (W' i) e' + (\<Sum>j\<in>{..<length (s_ents s)} - {i}. entity_potential b (W j) (s_ents s ! j))"
    using assms(1,4) by (subst sum.remove [of _ i]) auto
  moreover have "(\<Sum>j<length (s_ents s). entity_potential b (W j) (s_ents s ! j)) =
      entity_potential b (W i) (s_ents s ! i) +
        (\<Sum>j\<in>{..<length (s_ents s)} - {i}. entity_potential b (W j) (s_ents s ! j))"
    using assms(1) by (subst sum.remove [of _ i]) auto
  ultimately show ?thesis using assms(2,3,5) by (simp add: potential_def)
qed

lemma start_uses_fuel:
  assumes "e_pc e = PcStart" "positive_budget b"
  shows "entity_potential b (now, 0) (entity_start b now e) + poll_interval \<le> entity_potential b w e"
proof -
  have "poll_interval * int (rungs_left (e_tr e)) \<le> poll_interval * int (length (i_fallback_chain (t_intent (e_tr e))))"
    using poll_interval_pos rungs_after_le by (intro mult_left_mono) (auto simp: rungs_left_def)
  moreover have "fuel b (now, 0) (entity_start b now e) =
      phases_last b + 3 * poll_interval + poll_interval * int (rungs_left (e_tr e))"
    using assms poll_interval_pos
    by (simp add: fuel_def time_left_def entity_start_def positive_budget_def phases_last_def)
  ultimately show ?thesis
    using assms(1) by (simp add: entity_potential_def distrib_left) (simp add: entity_start_def)
qed

lemma move_uses_fuel:
  assumes step: "cohort_step P c s mv s'" and t: "move_timed W s mv"
    and b: "positive_budget (c_budget c)" and chains: "distinct_chains s"
  shows "potential (c_budget c) (set_timer P c s mv W) s' + poll_interval \<le> potential (c_budget c) W s \<and>
    distinct_chains s'"
  using step
proof cases
  case (step_start i now e')
  have "e_tr e' = e_tr (s_ents s ! i)" using step_start by (simp add: entity_start_def)
  with step_start show ?thesis
    using chains start_uses_fuel [OF _ b]
    by (intro conjI potential_update [of i _ _ e'])
      (auto simp: set_timer_def distinct_chains_def list_all_length nth_list_update)
next
  case (step_pass i ev e' effs)
  let ?e = "s_ents s ! i"
  have ch: "distinct (i_fallback_chain (t_intent (e_tr ?e)))"
    using chains step_pass by (simp add: distinct_chains_def list_all_length)
  then have "distinct_chains s'"
    using chains step_pass fallback_chain_kept [OF step_pass(6)]
    by (auto simp: distinct_chains_def list_all_length nth_list_update)
  moreover have "entity_potential (c_budget c) (ev_done ev, sleep_of effs) e' + poll_interval \<le>
      entity_potential (c_budget c) (W i) ?e"
  proof (cases "in_loop (e_pc e')")
    case True
    have "fuel (c_budget c) (ev_done ev, sleep_of effs) e' + poll_interval \<le> fuel (c_budget c) (W i) ?e"
      using t step_pass by (intro pass_uses_fuel [OF _ _ True b ch]) (auto simp: move_timed_def)
    with True step_pass show ?thesis
      by (auto simp: entity_potential_def in_loop_def split: pc.splits)
  next
    case False
    then have "e_pc e' = PcReturned" using pass_pc [OF step_pass(4,6)] by simp
    with step_pass fuel_nonneg [OF b] poll_interval_pos show ?thesis
      by (auto simp: entity_potential_def in_loop_def split: pc.splits)
  qed
  ultimately show ?thesis
    using step_pass by (intro conjI potential_update [of i _ _ e']) (auto simp: set_timer_def)
next
  case (step_finish i now e' s1)
  then show ?thesis
    using chains
    by (intro conjI potential_update [of i _ _ e'])
      (auto simp: set_timer_def entity_potential_def distinct_chains_def list_all_length nth_list_update
        gate_bookkeeping_def Let_def)
next
  case (step_parent now err)
  then show ?thesis using chains by (simp add: potential_def set_timer_def distinct_chains_def)
qed

lemma timed_bound:
  assumes "positive_budget (c_budget c)"
  shows "timed_moves P c W s mvs \<Longrightarrow> distinct_chains s \<Longrightarrow>
    poll_interval * int (length mvs) \<le> potential (c_budget c) W s"
proof (induction mvs arbitrary: W s)
  case Nil
  then show ?case using potential_nonneg [OF assms] by simp
next
  case (Cons mv mvs)
  then obtain s' where s': "exec_move P c mv s = Some s'" "move_timed W s mv"
    "timed_moves P c (set_timer P c s mv W) s' mvs"
    by (auto split: option.splits)
  have "potential (c_budget c) (set_timer P c s mv W) s' + poll_interval \<le> potential (c_budget c) W s \<and>
      distinct_chains s'"
    using s'(1,2) Cons.prems(2) by (intro move_uses_fuel [OF _ _ assms]) (simp_all add: exec_move_step)
  with Cons.IH [OF s'(3)] show ?case by (simp add: distrib_left)
qed

lemma timed_exec:
  "timed_moves P c W s mvs \<Longrightarrow> \<exists>W' s'. exec_moves P c mvs s = Some s' \<and>
    (\<forall>mv. timed_moves P c W s (mvs @ [mv]) \<longleftrightarrow> move_timed W' s' mv \<and> exec_move P c mv s' \<noteq> None)"
  by (induction mvs arbitrary: W s) (auto split: option.splits)

definition by_goroutine :: "move \<Rightarrow> bool" where
  "by_goroutine mv = (case mv of MoveParentDone _ _ \<Rightarrow> False | _ \<Rightarrow> True)"

text \<open>A goroutine that has not finished can move: if nothing else, it wakes up after its deadline.\<close>

lemma some_timed_move:
  assumes "\<not> all_done s"
  obtains mv where "by_goroutine mv" "move_timed W s mv" "exec_move P c mv s \<noteq> None"
proof -
  obtain i where i: "i < length (s_ents s)" "e_pc (s_ents s ! i) \<noteq> PcDone"
    using assms by (auto simp: all_done_def list_all_length)
  let ?e = "s_ents s ! i"
  consider "e_pc ?e = PcStart" | "in_loop (e_pc ?e)" | "e_pc ?e = PcReturned"
    using i(2) by (cases "e_pc ?e") (auto simp: in_loop_def)
  then show ?thesis
  proof cases
    case 1
    with i show ?thesis
      by (intro that [of "MoveStart i (s_now s)"]) (simp_all add: by_goroutine_def move_timed_def exec_move_def)
  next
    case 2
    define t where "t = max (s_now s) (max (fst (W i)) (e_deadline ?e))"
    define ev where "ev = \<lparr>ev_at = t, ev_done = t, ev_rand = 0, ev_launch = Inl ErrNotExist,
      ev_observe = Inl ErrNotExist, ev_enroll = Inl ErrNotExist\<rparr>"
    have "phase_ctx (s_fastfail s) (e_deadline ?e) t \<noteq> None"
      by (auto simp: phase_ctx_def t_def split: option.splits)
    then have "move_timed W s (MovePass i ev)"
      by (simp add: move_timed_def ev_def sleep_over_def) (simp add: t_def)
    moreover have "exec_move P c (MovePass i ev) s \<noteq> None"
      using 2 i by (simp add: exec_move_def ev_def t_def split: prod.split)
    ultimately show ?thesis by (intro that) (simp_all add: by_goroutine_def)
  next
    case 3
    with i show ?thesis
      by (intro that [of "MoveFinish i (s_now s)"]) (simp_all add: by_goroutine_def move_timed_def exec_move_def)
  qed
qed

lemma potential_init:
  "potential (c_budget c) W (init_state t0 c) = poll_interval +
    (\<Sum>m\<leftarrow>c_members c. phases_last (c_budget c) + poll_interval * (6 + int (length (i_fallback_chain m))))"
proof -
  have "(\<Sum>m\<leftarrow>c_members c. phases_last (c_budget c) + poll_interval * (6 + int (length (i_fallback_chain m)))) =
      (\<Sum>i<length (c_members c). phases_last (c_budget c) +
         poll_interval * (6 + int (length (i_fallback_chain (c_members c ! i)))))"
    by (simp add: sum_list_sum_nth atLeast0LessThan)
  then show ?thesis
    by (simp add: potential_def init_state_def entity_potential_def new_tracker_def)
qed

text \<open>
  C11. \<^verbatim>\<open>Reconcile\<close> always returns: for positive budgets and chains without a repeated rung, whatever the
  ports reply and however the goroutines interleave, a run makes no more moves than its budgets last
  in poll intervals, plus six and its rungs per member and one for the parent; and as long as
  \<^verbatim>\<open>eg.Wait\<close> cannot return, some goroutine can move. No pacing of the ports is assumed: time passes
  because every pass that goes on has slept, or has left a rung behind.
\<close>

theorem reconcile_always_returns:
  assumes "positive_budget (c_budget c)" "list_all (\<lambda>m. distinct (i_fallback_chain m)) (c_members c)"
    and "timed_moves P c (\<lambda>_. (t0, 0)) (init_state t0 c) mvs"
  shows "poll_interval * int (length mvs) \<le> poll_interval +
      (\<Sum>m\<leftarrow>c_members c. phases_last (c_budget c) + poll_interval * (6 + int (length (i_fallback_chain m)))) \<and>
    (\<exists>s. exec_moves P c mvs (init_state t0 c) = Some s \<and>
      (all_done s \<or> (\<exists>mv. by_goroutine mv \<and>
         timed_moves P c (\<lambda>_. (t0, 0)) (init_state t0 c) (mvs @ [mv]))))"
proof
  have "distinct_chains (init_state t0 c)"
    using assms(2) by (simp add: distinct_chains_def init_state_def new_tracker_def list_all_iff)
  from timed_bound [OF assms(1,3) this]
  show "poll_interval * int (length mvs) \<le> poll_interval +
      (\<Sum>m\<leftarrow>c_members c. phases_last (c_budget c) + poll_interval * (6 + int (length (i_fallback_chain m))))"
    unfolding potential_init .
  show "\<exists>s. exec_moves P c mvs (init_state t0 c) = Some s \<and>
      (all_done s \<or> (\<exists>mv. by_goroutine mv \<and> timed_moves P c (\<lambda>_. (t0, 0)) (init_state t0 c) (mvs @ [mv])))"
    using timed_exec [OF assms(3)] some_timed_move by metis
qed

lemma demo_timed:
  "timed_moves demo_ports demo_cohort (\<lambda>_. (0, 0)) (init_state 0 demo_cohort) demo_ok_moves \<and>
   positive_budget (c_budget demo_cohort) \<and> list_all (\<lambda>m. distinct (i_fallback_chain m)) (c_members demo_cohort)"
  by code_simp

lemma reconcile_always_returns_witness:
  "\<exists>s. exec_moves demo_ports demo_cohort demo_ok_moves (init_state 0 demo_cohort) = Some s \<and>
     poll_interval * int (length demo_ok_moves) \<le> poll_interval + (\<Sum>m\<leftarrow>c_members demo_cohort.
       phases_last (c_budget demo_cohort) + poll_interval * (6 + int (length (i_fallback_chain m))))"
  using reconcile_always_returns [of demo_cohort demo_ports 0 demo_ok_moves] demo_timed by blast

end
