(* ===== verification/Cohort_Protocol.thy ===== *)
theory Cohort_Protocol
  imports Cohort_Properties
begin

text \<open>
  What \<^verbatim>\<open>Reconcile\<close> promises, as a protocol of seven rules and a verdict, with no loops, contexts,
  clocks or ports: a cohort of members that advance phase by phase, fail or give up, the blame of the
  failure that closes the gate, and what each member is told in the end. The reconciler refines it.
\<close>

section \<open>The protocol\<close>

datatype member_status =
    Working phase
  | Enrolled
  | Cancelled phase
  | Failed phase fault bool

record protocol =
  pr_members :: "member_status list"
  pr_blame :: "(entity_id \<times> fault \<times> phase) option"
  pr_stopped :: bool
  pr_parent :: "ctx_err option"

definition protocol_init :: "cohort \<Rightarrow> protocol" where
  "protocol_init c = \<lparr>pr_members = map (\<lambda>_. Working PhaseLaunchAcked) (c_members c), pr_blame = None,
     pr_stopped = False, pr_parent = None\<rparr>"

fun counted :: "member_status \<Rightarrow> bool" where
  "counted (Failed _ _ b) = b"
| "counted _ = False"

definition gate_lost :: "cohort \<Rightarrow> member_status list \<Rightarrow> bool" where
  "gate_lost c ms \<longleftrightarrow> int (length ms) - int (length (filter counted ms)) < effective_min_viable c"

inductive protocol_step :: "cohort \<Rightarrow> protocol \<Rightarrow> protocol \<Rightarrow> bool" for c :: cohort where
  pr_acked:
    "\<lbrakk>i < length (pr_members p); pr_members p ! i = Working PhaseLaunchAcked\<rbrakk> \<Longrightarrow>
     protocol_step c p (p\<lparr>pr_members := (pr_members p)[i := Working PhaseRunning]\<rparr>)"
| pr_running:
    "\<lbrakk>i < length (pr_members p); pr_members p ! i = Working PhaseRunning\<rbrakk> \<Longrightarrow>
     protocol_step c p (p\<lparr>pr_members := (pr_members p)[i := Working PhaseEnrolled]\<rparr>)"
| pr_enroll:
    "\<lbrakk>i < length (pr_members p); pr_members p ! i = Working PhaseEnrolled\<rbrakk> \<Longrightarrow>
     protocol_step c p (p\<lparr>pr_members := (pr_members p)[i := Enrolled]\<rparr>)"
| pr_fail:
    "\<lbrakk>i < length (pr_members p); pr_members p ! i = Working q\<rbrakk> \<Longrightarrow>
     protocol_step c p (p\<lparr>pr_members := (pr_members p)[i := Failed q f False]\<rparr>)"
| pr_give_up:
    "\<lbrakk>i < length (pr_members p); pr_members p ! i = Working q; pr_stopped p; q \<noteq> PhaseEnrolled\<rbrakk> \<Longrightarrow>
     protocol_step c p (p\<lparr>pr_members := (pr_members p)[i := Cancelled q]\<rparr>)"
| pr_count:
    "\<lbrakk>i < length (pr_members p); pr_members p ! i = Failed q f False;
      ms = (pr_members p)[i := Failed q f True];
      blame = (if gate_lost c ms \<and> pr_blame p = None then Some (i_id (c_members c ! i), f, q) else pr_blame p)\<rbrakk> \<Longrightarrow>
     protocol_step c p (p\<lparr>pr_members := ms, pr_blame := blame, pr_stopped := pr_stopped p \<or> blame \<noteq> None\<rparr>)"
| pr_parent_ends:
    "pr_parent p = None \<Longrightarrow> protocol_step c p (p\<lparr>pr_parent := Some err, pr_stopped := True\<rparr>)"

definition protocol_run :: "cohort \<Rightarrow> protocol \<Rightarrow> protocol \<Rightarrow> bool" where
  "protocol_run c = (protocol_step c)\<^sup>*\<^sup>*"

text \<open>Every member has come to an end and every failure is counted.\<close>

fun ended :: "member_status \<Rightarrow> bool" where
  "ended (Working _) = False"
| "ended (Failed _ _ b) = b"
| "ended _ = True"

section \<open>The verdict\<close>

datatype member_result =
    ToldReady
  | ToldFailed phase fault
  | ToldBlame entity_id fault phase phase
  | ToldParent phase string

fun status_phase :: "member_status \<Rightarrow> phase" where
  "status_phase (Working q) = q"
| "status_phase Enrolled = PhaseEnrolled"
| "status_phase (Cancelled q) = q"
| "status_phase (Failed q _ _) = q"

fun tell :: "(phase \<Rightarrow> member_result) \<Rightarrow> member_status \<Rightarrow> member_result" where
  "tell f (Failed q g _) = ToldFailed q g"
| "tell f m = f (status_phase m)"

definition blame_told :: "(entity_id \<times> fault \<times> phase) option \<Rightarrow> phase \<Rightarrow> member_result" where
  "blame_told b q = (case b of Some (i, g, r) \<Rightarrow> ToldBlame i g r q | None \<Rightarrow> ToldParent q ''context canceled'')"

text \<open>The readiness and what the members are told; \<open>reply\<close> is the assembler's, where it is asked.\<close>

definition verdict_of :: "bool \<Rightarrow> cohort \<Rightarrow> go_error option \<Rightarrow> protocol \<Rightarrow> bool \<times> member_result list" where
  "verdict_of assembler c reply p =
     (case pr_parent p of
        Some err \<Rightarrow> (False, map (tell (\<lambda>q. ToldParent q (ctx_err_text err))) (pr_members p))
      | None \<Rightarrow>
          if int (length (filter (\<lambda>m. m = Enrolled) (pr_members p))) < effective_min_viable c then
            (False, map (tell (blame_told (pr_blame p))) (pr_members p))
          else if c_no_assembly c \<and> assembler then
            (False, map (tell (\<lambda>_. ToldFailed PhaseCohortBarrier disallowed_fault)) (pr_members p))
          else (case (if is_collective c \<and> assembler then reply else None) of
                  Some err \<Rightarrow> (False, map (tell (\<lambda>_. ToldFailed PhaseCohortAssembly (assembly_fault err))) (pr_members p))
                | None \<Rightarrow> (True, map (tell (\<lambda>_. ToldReady)) (pr_members p))))"

section \<open>The refinement mapping\<close>

definition member_of :: "entity \<Rightarrow> member_status" where
  "member_of e =
     (if e_pc e \<in> {PcReturned, PcDone} then
        (case t_terminal (e_tr e) of
           Some f \<Rightarrow> Failed (t_phase (e_tr e)) f (e_pc e = PcDone)
         | None \<Rightarrow> if t_enrolled (e_tr e) then Enrolled else Cancelled (t_phase (e_tr e)))
      else Working (t_phase (e_tr e)))"

definition protocol_of :: "cohort_state \<Rightarrow> protocol" where
  "protocol_of s = \<lparr>pr_members = map member_of (s_ents s),
     pr_blame = (if cu_id (s_culprit s) = '''' then None
                 else Some (cu_id (s_culprit s), cu_fault (s_culprit s), cu_phase (s_culprit s))),
     pr_stopped = (s_fastfail s \<noteq> None), pr_parent = s_parent s\<rparr>"

definition told :: "entity_record \<Rightarrow> member_result" where
  "told r =
     (case er_terminal r of
        Some f \<Rightarrow> ToldFailed (er_reached_phase r) f
      | None \<Rightarrow>
          (case er_cohort_cancelled r of
             Some i \<Rightarrow> ToldBlame (cc_culprit_id i) (cc_culprit_fault i) (cc_culprit_phase i) (cc_survivor_phase i)
           | None \<Rightarrow>
               (case er_parent_cancelled r of
                  Some i \<Rightarrow> ToldParent (pc_survivor_phase i) (pc_cause i)
                | None \<Rightarrow> ToldReady)))"

lemma protocol_of_init: "protocol_of (init_state t0 c) = protocol_init c"
  by (simp add: protocol_of_def init_state_def protocol_init_def no_culprit_def member_of_def new_tracker_def)

lemma member_of_start: "e_pc e = PcStart \<Longrightarrow> member_of (entity_start b now e) = member_of e"
  by (simp add: member_of_def entity_start_def)

lemma counted_member: "counted (member_of e) = failed_entity e"
  by (auto simp: member_of_def failed_entity_def is_terminal_def split: option.split)

section \<open>Every move is a rule, or none\<close>

text \<open>What a pass makes of a member.\<close>

inductive member_step :: "bool \<Rightarrow> member_status \<Rightarrow> member_status \<Rightarrow> bool" for stopped :: bool where
  ms_again: "member_step stopped m m"
| ms_acked: "member_step stopped (Working PhaseLaunchAcked) (Working PhaseRunning)"
| ms_running: "member_step stopped (Working PhaseRunning) (Working PhaseEnrolled)"
| ms_enroll: "member_step stopped (Working PhaseEnrolled) Enrolled"
| ms_fail: "member_step stopped (Working q) (Failed q f False)"
| ms_give_up: "stopped \<Longrightarrow> q \<noteq> PhaseEnrolled \<Longrightarrow> member_step stopped (Working q) (Cancelled q)"

lemma member_of_stopped:
  assumes "stopped_at m q t" "is_terminal t \<or> stopped" "q \<noteq> PhaseEnrolled"
  shows "member_step stopped (Working q) (member_of (e\<lparr>e_tr := t, e_pc := PcReturned\<rparr>))"
  using assms
  by (auto simp: stopped_at_def member_of_def is_terminal_def intro: ms_fail ms_give_up split: option.split)

lemma pass_member:
  assumes "entity_inv m e" "in_loop (e_pc e)" "entity_iter P b c ev e = (e', effs)"
  shows "member_step (c \<noteq> None) (member_of e) (member_of e')"
proof (cases "e_pc e")
  case (PcLaunch n)
  then have t: "live_at m PhaseLaunchAcked (e_tr e)" using assms by (simp add: entity_inv_def)
  then have e: "member_of e = Working PhaseLaunchAcked" using PcLaunch by (simp add: member_of_def live_at_def)
  obtain r t' xs where it: "do_launch_iter P (phase_ctx c (e_deadline e) (ev_at ev)) ev n (e_tr e) = (r, t', xs)"
    by (metis prod_cases3)
  have "is_terminal t' \<or> c \<noteq> None" if "r = Return False"
    using do_launch_return_False [OF it [unfolded that]] phase_ctx_canceled by auto
  with assms(3) PcLaunch it do_launch_iter_inv [OF t it] show ?thesis
    unfolding e
    by (cases r) (auto simp: entity_iter_def intro: member_of_stopped split: if_splits,
        auto simp: member_of_def live_at_def set_phase_def intro: member_step.intros)
next
  case (PcRunning n)
  then have t: "live_at m PhaseRunning (e_tr e)" using assms by (simp add: entity_inv_def)
  then have e: "member_of e = Working PhaseRunning" using PcRunning by (simp add: member_of_def live_at_def)
  obtain r t' xs where it: "wait_running_iter P (phase_ctx c (e_deadline e) (ev_at ev)) ev n (e_tr e) = (r, t', xs)"
    by (metis prod_cases3)
  have "is_terminal t' \<or> c \<noteq> None" if "r = Return False"
    using wait_running_return_False [OF it [unfolded that]] phase_ctx_canceled by auto
  with assms(3) PcRunning it wait_running_iter_inv [OF t it] show ?thesis
    unfolding e
    by (cases r) (auto simp: entity_iter_def intro: member_of_stopped split: if_splits,
        auto simp: member_of_def live_at_def set_phase_def intro: member_step.intros)
next
  case PcEnrolled
  then have t: "live_at m PhaseEnrolled (e_tr e)" using assms by (simp add: entity_inv_def)
  then have e: "member_of e = Working PhaseEnrolled" using PcEnrolled by (simp add: member_of_def live_at_def)
  obtain r t' xs where it: "wait_enrolled_iter P (phase_ctx c (e_deadline e) (ev_at ev)) ev (e_tr e) = (r, t', xs)"
    by (metis prod_cases3)
  show ?thesis
  proof (cases r)
    case (Again u)
    with assms(3) PcEnrolled it wait_enrolled_iter_inv [OF t it] show ?thesis
      unfolding e by (auto simp: entity_iter_def member_of_def live_at_def intro: ms_again)
  next
    case (Return ok)
    with wait_enrolled_iter_inv [OF t it] have "stopped_at m PhaseEnrolled t'" by simp
    with assms(3) PcEnrolled it Return show ?thesis
      unfolding e
      by (cases "t_terminal t'")
        (auto simp: entity_iter_def member_of_def is_terminal_def stopped_at_def set_enrolled_def
          intro: ms_fail ms_enroll)
  qed
qed (use assms(2) in \<open>simp_all add: in_loop_def\<close>)

lemma member_step_protocol:
  assumes "member_step (pr_stopped p) (pr_members p ! i) m'" "i < length (pr_members p)"
  shows "protocol_run c p (p\<lparr>pr_members := (pr_members p)[i := m']\<rparr>)"
proof -
  have "protocol_step c p (p\<lparr>pr_members := (pr_members p)[i := m']\<rparr>) \<or> m' = pr_members p ! i"
    using assms(1)
  proof cases
    case ms_acked
    then show ?thesis using pr_acked [OF assms(2)] by metis
  next
    case ms_running
    then show ?thesis using pr_running [OF assms(2)] by metis
  next
    case ms_enroll
    then show ?thesis using pr_enroll [OF assms(2)] by metis
  next
    case (ms_fail q f)
    then show ?thesis using pr_fail [OF assms(2)] by metis
  next
    case (ms_give_up q)
    then show ?thesis using pr_give_up [OF assms(2)] by metis
  qed simp
  then show ?thesis by (auto simp: protocol_run_def)
qed

lemma gate_lost_iff:
  "gate_lost c (map member_of (s_ents s)) \<longleftrightarrow>
     int (length (s_ents s)) - int (length (filter failed_entity (s_ents s))) < effective_min_viable c"
  by (simp add: gate_lost_def filter_map o_def counted_member)

lemma step_refines:
  assumes inv: "cohort_inv P c s" and step: "cohort_step P c s mv s'"
    and ids: "list_all valid_intent (c_members c)"
  shows "protocol_run c (protocol_of s) (protocol_of s')"
  using step
proof cases
  case (step_start i now e')
  have "map member_of ((s_ents s)[i := e']) = map member_of (s_ents s)"
    using step_start by (intro nth_equalityI) (auto simp: nth_list_update member_of_start)
  then show ?thesis using step_start by (simp add: protocol_of_def protocol_run_def)
next
  case (step_pass i ev e' effs)
  have "entity_inv (c_members c ! i) (s_ents s ! i)"
    using inv step_pass by (simp add: cohort_inv_def entity_at_def)
  from pass_member [OF this step_pass(4,6)] step_pass(3)
  have "protocol_run c (protocol_of s)
      ((protocol_of s)\<lparr>pr_members := (pr_members (protocol_of s))[i := member_of e']\<rparr>)"
    by (intro member_step_protocol) (simp_all add: protocol_of_def)
  moreover have "protocol_of s' = (protocol_of s)\<lparr>pr_members := (pr_members (protocol_of s))[i := member_of e']\<rparr>"
    using step_pass by (simp add: protocol_of_def map_update)
  ultimately show ?thesis by simp
next
  case (step_parent now err)
  have "protocol_step c (protocol_of s) ((protocol_of s)\<lparr>pr_parent := Some err, pr_stopped := True\<rparr>)"
    using step_parent by (intro pr_parent_ends) (simp add: protocol_of_def)
  then show ?thesis
    using step_parent by (auto simp: protocol_of_def protocol_run_def split: option.splits)
next
  case (step_finish i now e' s1)
  let ?e = "s_ents s ! i"
  have len: "length (s_ents s) = length (c_members c)" using inv by (simp add: cohort_inv_def)
  have e: "entity_inv (c_members c ! i) ?e" using inv step_finish by (simp add: cohort_inv_def entity_at_def)
  show ?thesis
  proof (cases "t_terminal (e_tr ?e)")
    case None
    then have "member_of e' = member_of ?e" using step_finish by (simp add: member_of_def)
    then have "map member_of ((s_ents s)[i := e']) = map member_of (s_ents s)"
      using step_finish by (intro nth_equalityI) (auto simp: nth_list_update)
    then show ?thesis
      using step_finish None
      by (simp add: protocol_of_def protocol_run_def gate_bookkeeping_def is_terminal_def)
  next
    case (Some f)
    let ?q = "t_phase (e_tr ?e)" and ?p = "protocol_of s"
    have m: "member_of ?e = Failed ?q f False" "member_of e' = Failed ?q f True"
      using step_finish Some by (simp_all add: member_of_def)
    have id: "i_id (t_intent (e_tr ?e)) = i_id (c_members c ! i)"
      using e step_finish by (auto simp: entity_inv_def intro!: on_intent_id)
    have nonempty: "i_id (c_members c ! i) \<noteq> ''''"
      using ids step_finish len by (simp add: list_all_length valid_intent_def)
    have "\<not> failed_entity ?e" "failed_entity e'"
      using step_finish Some by (simp_all add: failed_entity_def is_terminal_def)
    then have count: "length (filter failed_entity ((s_ents s)[i := e'])) = s_failed s + 1"
      using count_filter_update [OF step_finish(3), of failed_entity e'] inv by (simp add: cohort_inv_def)
    have lost: "gate_lost c (map member_of ((s_ents s)[i := e'])) \<longleftrightarrow>
        \<not> effective_min_viable c \<le> int (length (s_ents s)) - int (s_failed s + 1)"
      using gate_lost_iff [of c "s\<lparr>s_ents := (s_ents s)[i := e']\<rparr>"] count by auto
    have stop: "cu_id (s_culprit s) \<noteq> '''' \<Longrightarrow> s_fastfail s \<noteq> None"
      using inv by (simp add: cohort_inv_def)
    let ?ms = "(pr_members ?p)[i := Failed ?q f True]"
    let ?blame = "if gate_lost c ?ms \<and> pr_blame ?p = None then Some (i_id (c_members c ! i), f, ?q) else pr_blame ?p"
    have "protocol_step c ?p (?p\<lparr>pr_members := ?ms, pr_blame := ?blame, pr_stopped := pr_stopped ?p \<or> ?blame \<noteq> None\<rparr>)"
      using step_finish m by (intro pr_count) (simp_all add: protocol_of_def)
    moreover have "protocol_of s' = ?p\<lparr>pr_members := ?ms, pr_blame := ?blame, pr_stopped := pr_stopped ?p \<or> ?blame \<noteq> None\<rparr>"
      using step_finish Some m id nonempty lost stop
      by (auto simp: protocol_of_def map_update gate_bookkeeping_def is_terminal_def Let_def split: option.splits)
    ultimately show ?thesis by (simp add: protocol_run_def)
  qed
qed

lemma reachable_refines:
  assumes "reachable P c t0 s" "wf_cohort c"
  shows "protocol_run c (protocol_init c) (protocol_of s)"
  using assms(1)
proof induction
  case reach_init
  show ?case by (simp add: protocol_of_init protocol_run_def)
next
  case (reach_step s mv s')
  have "protocol_run c (protocol_of s) (protocol_of s')"
    using step_refines [OF reachable_inv [OF reach_step(1) assms(2)] reach_step(2)] assms(2)
    by (simp add: wf_cohort_def)
  with reach_step.IH show ?case by (simp add: protocol_run_def)
qed

section \<open>The outcome is the verdict\<close>

lemma told_marked:
  assumes "entity_inv m e" "e_pc e = PcDone"
  shows "told (build_record (mark_parent x (e_tr e)) cid now) = tell (\<lambda>q. ToldParent q x) (member_of e)"
    and "told (build_record (mark_survivor cu (e_tr e)) cid now) =
      tell (blame_told (if cu_id cu = '''' then None else Some (cu_id cu, cu_fault cu, cu_phase cu))) (member_of e)"
    and "told (build_record (mark_terminal q f (e_tr e)) cid now) = tell (\<lambda>_. ToldFailed q f) (member_of e)"
    and "told (build_record (mark_ready (e_tr e)) cid now) = tell (\<lambda>_. ToldReady) (member_of e)"
  using assms
  by (auto simp: entity_inv_def on_intent_def told_def build_record_def member_of_def mark_parent_def
      mark_survivor_def mark_terminal_def mark_ready_def blame_told_def is_terminal_def set_parent_cancelled_def
      set_cohort_cancelled_def set_terminal_def set_phase_def split: option.split)

lemma member_enrolled: "entity_inv m e \<Longrightarrow> e_pc e = PcDone \<Longrightarrow> member_of e = Enrolled \<longleftrightarrow> t_enrolled (e_tr e)"
  by (auto simp: entity_inv_def member_of_def split: option.split)

lemma member_ended: "e_pc e = PcDone \<Longrightarrow> ended (member_of e)"
  by (auto simp: member_of_def split: option.split)

lemma classify_verdict:
  assumes inv: "cohort_inv P c s" and fin: "all_done s"
    and cl: "classify_cohort P c asm trm s = (ready, trs, after)"
  shows "\<exists>reply. (\<forall>ms. CallAssemble ms \<in> set after \<longrightarrow> reply = asm ms) \<and>
    verdict_of (port_assembler P) c reply (protocol_of s) =
      (ready, map (\<lambda>i. told (build_record (trs ! i) cid (t i))) [0..<length (s_ents s)])"
proof -
  have e: "entity_inv (c_members c ! i) (s_ents s ! i)" "e_pc (s_ents s ! i) = PcDone"
    if "i < length (s_ents s)" for i
    using inv fin that by (simp_all add: cohort_inv_def entity_at_def all_done_def list_all_length)
  have marked: "map (tell f) (map member_of (s_ents s)) =
      map (\<lambda>i. told (build_record (map g (trackers s) ! i) cid (t i))) [0..<length (s_ents s)]"
    if "\<And>m e now. entity_inv m e \<Longrightarrow> e_pc e = PcDone \<Longrightarrow> told (build_record (g (e_tr e)) cid now) = tell f (member_of e)"
    for f g
    using that [OF e] by (intro nth_equalityI) (simp_all add: trackers_def)
  have "length (filter (\<lambda>m. m = Enrolled) (map member_of (s_ents s))) =
      length (filter (\<lambda>e. member_of e = Enrolled) (s_ents s))"
    by (simp add: filter_map o_def)
  also have "filter (\<lambda>e. member_of e = Enrolled) (s_ents s) = filter (\<lambda>e. t_enrolled (e_tr e)) (s_ents s)"
    using member_enrolled [OF e] by (intro filter_cong) (auto simp: in_set_conv_nth)
  finally have enrolled: "length (filter (\<lambda>m. m = Enrolled) (map member_of (s_ents s))) = enrolled_count s"
    by (simp add: enrolled_count_def trackers_def filter_map o_def)
  have blame: "pr_blame (protocol_of s) = (if cu_id (s_culprit s) = '''' then None
      else Some (cu_id (s_culprit s), cu_fault (s_culprit s), cu_phase (s_culprit s)))"
    and parent: "pr_parent (protocol_of s) = s_parent s"
    and members: "pr_members (protocol_of s) = map member_of (s_ents s)"
    by (simp_all add: protocol_of_def)
  let ?told = "\<lambda>g. map (\<lambda>i. told (build_record (map g (trackers s) ! i) cid (t i))) [0..<length (s_ents s)]"
  have told: "map (tell (\<lambda>q. ToldParent q x)) (map member_of (s_ents s)) = ?told (mark_parent x)"
    "map (tell (blame_told (pr_blame (protocol_of s)))) (map member_of (s_ents s)) = ?told (mark_survivor (s_culprit s))"
    "map (tell (\<lambda>_. ToldFailed q f)) (map member_of (s_ents s)) = ?told (mark_terminal q f)"
    "map (tell (\<lambda>_. ToldReady)) (map member_of (s_ents s)) = ?told mark_ready"
    for x q f
    unfolding blame by (rule marked, erule (1) told_marked)+
  show ?thesis
    using cl unfolding verdict_of_def members parent enrolled told classify_cohort_branches
    by (intro exI [of _ "asm (map t_obs (filter t_enrolled (trackers s)))"]) (auto split: option.splits if_splits)
qed

text \<open>
  C2. The reconciler refines the protocol: whatever the ports reply, however the goroutines interleave
  and when the parent context ends, its run is a run of the seven rules in which every member comes
  to an end and every failure is counted, and the readiness and the records it returns are the
  verdict on the protocol's last state.
\<close>

theorem reconcile_refines_protocol:
  assumes "wf_cohort c" "distinct_ids c"
    and "reconcile P c t0 mvs asm trm fin = Some (out, calls, after)"
  shows "\<exists>p reply. protocol_run c (protocol_init c) p \<and> list_all ended (pr_members p) \<and>
    (\<forall>ms. CallAssemble ms \<in> set after \<longrightarrow> reply = asm ms) \<and>
    verdict_of (port_assembler P) c reply p =
      (out_ready out, map (\<lambda>i. told (member_record out c i)) [0..<length (c_members c)])"
proof -
  obtain s f where s: "reachable P c t0 s" and ends: "ends_in P c asm trm fin out calls after s f"
    using reconcile_member [OF assms(1,3,2)] by blast
  then have inv: "cohort_inv P c s" and fin: "all_done s"
    and cl: "classify_cohort P c asm trm s = (out_ready out, map f (trackers s), after)"
    and len: "length (trackers s) = length (c_members c)" "length (s_ents s) = length (c_members c)"
    by (simp_all add: ends_in_def trackers_def)
  have "map (\<lambda>i. told (build_record (map f (trackers s) ! i) (c_id c) (fin i))) [0..<length (s_ents s)] =
      map (\<lambda>i. told (member_record out c i)) [0..<length (c_members c)]"
    using ends len by (simp add: ends_in_def)
  moreover have "list_all ended (pr_members (protocol_of s))"
    using fin by (auto simp: protocol_of_def all_done_def list_all_iff member_ended)
  ultimately show ?thesis
    using classify_verdict [OF inv fin cl, of "c_id c" fin] reachable_refines [OF s assms(1)] by metis
qed

lemma reconcile_refines_protocol_witness:
  "\<exists>out calls after p reply. demo_run demo_fail_moves = Some (out, calls, after) \<and>
     protocol_run demo_cohort (protocol_init demo_cohort) p \<and>
     verdict_of True demo_cohort reply p = (out_ready out, map (\<lambda>i. told (member_record out demo_cohort i)) [0, 1])"
proof -
  obtain out calls after where *: "demo_run demo_fail_moves = Some (out, calls, after)"
    using demo_fail by (auto split: option.splits)
  have "port_assembler demo_ports" "[0..<length (c_members demo_cohort)] = [0, 1]" by code_simp+
  with reconcile_refines_protocol [OF _ _ *(1) [unfolded demo_run_def]] demo_wf * show ?thesis by metis
qed

lemma demo_told:
  "case demo_run demo_fail_moves of None \<Rightarrow> False
   | Some (out, calls, after) \<Rightarrow> map (\<lambda>i. told (member_record out demo_cohort i)) [0, 1] =
       [ToldBlame ''n1'' (mk_fault FaultTerminal ''bad'' ''no'') PhaseLaunchAcked PhaseRunning,
        ToldFailed PhaseLaunchAcked (mk_fault FaultTerminal ''bad'' ''no'')]"
  by code_simp

end
