(* ===== verification/Entity_Properties.thy ===== *)
theory Entity_Properties
  imports Cohort_Properties
begin

text \<open>
  What one entity's loops promise (termination, the fallback chain, the consistency retries, done
  contexts), and the properties of the pure parts of \<^verbatim>\<open>internal/cohort\<close>: tokens, backoff,
  constructors and the renderings of a record.
\<close>

section \<open>One entity\<close>

definition demo_entity :: "rung list \<Rightarrow> entity" where
  "demo_entity chain = \<lparr>e_tr = new_tracker 0 (demo_intent ''n0'' chain), e_pc = PcStart, e_deadline = 0\<rparr>"

text \<open>
  \<^verbatim>\<open>reconcileEntity\<close> ends: under positive budgets and passes that each take at least \<open>d\<close>, an
  entity has returned after as many passes as the three budgets last, plus one per phase, whatever
  the ports reply.
\<close>

theorem entity_loops_end:
  assumes "positive_budget b" "0 < d" "paced d now evs"
    and "b_launch_acked b + b_running b + b_enrolled b + 3 * d < d * int (length evs)"
  shows "e_pc (fst (run_entity P b c evs (entity_start b now e))) = PcReturned"
proof (rule run_entity_returns [OF assms(1,2) _ assms(3)])
  show "in_loop (e_pc (entity_start b now e))" by (simp add: entity_start_def in_loop_def)
  have "time_left d b now (entity_start b now e) = b_launch_acked b + b_running b + b_enrolled b + 3 * d"
    using assms(1,2) by (simp add: time_left_def entity_start_def positive_budget_def)
  then show "time_left d b now (entity_start b now e) < d * int (length evs)" using assms(4) by simp
qed

lemma entity_loops_end_witness:
  "e_pc (fst (run_entity demo_ports \<lparr>b_launch_acked = 1, b_running = 1, b_enrolled = 1, b_cohort_barrier = 1,
       b_cohort_assembly = 1\<rparr> None
     (map (\<lambda>t. demo_event t ''n0'') [5, 6, 7, 8, 9, 10, 11])
     (entity_start \<lparr>b_launch_acked = 1, b_running = 1, b_enrolled = 1, b_cohort_barrier = 1,
       b_cohort_assembly = 1\<rparr> 5 (demo_entity [demo_rung ''a''])))) = PcReturned"
  by (rule entity_loops_end [where d = 1]) (simp_all add: positive_budget_def demo_event_def)

text \<open>
  C14. The fallback chain without repeated rungs is walked once, in order: while the capacity of
  every rung is exhausted and the launch budget lasts, the provider is asked for each rung of the
  chain exactly once, each is recorded as an attempt, and the entity is terminal with the last
  rung's fault.
\<close>

theorem chain_walked_in_order:
  assumes "distinct chain" "chain \<noteq> []"
    and "e_pc e = PcLaunch n" "i_fallback_chain (t_intent (e_tr e)) = chain"
    and "i_rung (t_intent (e_tr e)) = hd chain" "length evs = length chain"
    and "list_all (fails_as P c (e_deadline e) FaultCapacityExhausted) evs"
  shows "snd (run_entity P b c evs e) = map (\<lambda>r. launch_call ((t_intent (e_tr e))\<lparr>i_rung := r\<rparr>)) chain \<and>
    e_pc (fst (run_entity P b c evs e)) = PcReturned \<and>
    t_terminal (e_tr (fst (run_entity P b c evs e))) = Some (reply_fault P (last evs)) \<and>
    map a_rung (t_attempts (e_tr (fst (run_entity P b c evs e)))) =
      map a_rung (t_attempts (e_tr e)) @ chain"
  using chain_run [OF assms(1), of e n 0 evs P c b] assms by (simp add: hd_conv_nth)

lemma chain_walked_in_order_witness:
  "map a_rung (t_attempts (e_tr (fst (run_entity demo_ports default_budget None
      [demo_fail 1 ''cap'', demo_fail 2 ''cap'']
      (entity_start default_budget 0 (demo_entity [demo_rung ''a'', demo_rung ''b'']))))))
   = [demo_rung ''a'', demo_rung ''b'']"
  using chain_walked_in_order [of "[demo_rung ''a'', demo_rung ''b'']"
      "entity_start default_budget 0 (demo_entity [demo_rung ''a'', demo_rung ''b''])" 0
      "[demo_fail 1 ''cap'', demo_fail 2 ''cap'']" demo_ports None default_budget]
  by (simp add: demo_rung_def entity_start_def demo_entity_def new_tracker_def demo_intent_def fails_as_def
      demo_fail_def demo_event_def demo_ports_def phase_ctx_def default_budget_def duration_units)

text \<open>
  A chain that repeats a rung is not walked to its end: on \<open>[x, y, x, z]\<close> the loop alternates
  between \<open>x\<close> and \<open>y\<close> for as long as both are out of capacity; \<open>z\<close> is never asked for and the
  entity never runs out of rungs.
\<close>

theorem repeated_rung_never_reaches_rest:
  assumes "x \<noteq> y" "z \<noteq> x" "z \<noteq> y" "\<not> r_warm_start z"
    and "e_pc e = PcLaunch n" "i_fallback_chain (t_intent (e_tr e)) = [x, y, x, z]"
    and "i_rung (t_intent (e_tr e)) = x" "t_terminal (e_tr e) = None"
    and "list_all (fails_as P c (e_deadline e) FaultCapacityExhausted) evs"
  shows "t_terminal (e_tr (fst (run_entity P b c evs e))) = None \<and>
    length (snd (run_entity P b c evs e)) = length evs \<and>
    launch_call ((t_intent (e_tr e))\<lparr>i_rung := z\<rparr>) \<notin> set (snd (run_entity P b c evs e))"
proof -
  have trap: "rung_trap [x, y, x, z] {x, y}" using assms(1) by (auto simp: rung_trap_def)
  have ne: "launch_call ((t_intent (e_tr e))\<lparr>i_rung := z\<rparr>) \<noteq> launch_call ((t_intent (e_tr e))\<lparr>i_rung := r\<rparr>)"
    if "r \<in> {x, y}" for r
  proof
    assume "launch_call ((t_intent (e_tr e))\<lparr>i_rung := z\<rparr>) = launch_call ((t_intent (e_tr e))\<lparr>i_rung := r\<rparr>)"
    then have "(t_intent (e_tr e))\<lparr>i_rung := z\<rparr> = (t_intent (e_tr e))\<lparr>i_rung := r\<rparr>"
      using assms(4) by (simp add: launch_call_def split: if_splits)
    then have "i_rung ((t_intent (e_tr e))\<lparr>i_rung := z\<rparr>) = i_rung ((t_intent (e_tr e))\<lparr>i_rung := r\<rparr>)"
      by (rule arg_cong)
    with that assms(2,3) show False by auto
  qed
  show ?thesis using trap_run [OF trap assms(5,6) _ assms(8,9), of b] assms(7) ne by auto
qed

lemma repeated_rung_never_reaches_rest_witness:
  "launch_call ((demo_intent ''n0'' (map demo_rung [''a'', ''b'', ''a'', ''c'']))\<lparr>i_rung := demo_rung ''c''\<rparr>) \<notin>
     set (snd (run_entity demo_ports default_budget None
      [demo_fail 1 ''cap'', demo_fail 2 ''cap'', demo_fail 3 ''cap'', demo_fail 4 ''cap'']
      (entity_start default_budget 0 (demo_entity (map demo_rung [''a'', ''b'', ''a'', ''c''])))))"
  using repeated_rung_never_reaches_rest [of "demo_rung ''a''" "demo_rung ''b''" "demo_rung ''c''"
      "entity_start default_budget 0 (demo_entity (map demo_rung [''a'', ''b'', ''a'', ''c'']))" 0
      demo_ports None "[demo_fail 1 ''cap'', demo_fail 2 ''cap'', demo_fail 3 ''cap'', demo_fail 4 ''cap'']"
      default_budget]
  by (simp add: demo_rung_def entity_start_def demo_entity_def new_tracker_def demo_intent_def fails_as_def
      demo_fail_def demo_event_def demo_ports_def phase_ctx_def default_budget_def duration_units)

text \<open>
  Consistency retries are bounded: an entity whose launches keep failing with a consistency
  fault asks the provider six times for the same rung and is then terminal with the last fault.
\<close>

theorem consistency_retries_bounded:
  assumes "e_pc e = PcLaunch 0" "length evs = 6"
    and "list_all (fails_as P c (e_deadline e) FaultRetryableConsistency) evs"
  shows "e_pc (fst (run_entity P b c evs e)) = PcReturned \<and>
    t_terminal (e_tr (fst (run_entity P b c evs e))) = Some (reply_fault P (last evs)) \<and>
    filter is_launch (snd (run_entity P b c evs e)) = replicate 6 (launch_call (t_intent (e_tr e)))"
  using consistency_run [OF assms(1,3)] assms(2) by (simp add: max_consistency_retries_def)

lemma consistency_retries_bounded_witness:
  "e_pc (fst (run_entity demo_ports default_budget None (map (\<lambda>t. demo_fail t ''gone'') [1, 2, 3, 4, 5, 6])
     (entity_start default_budget 0 (demo_entity [demo_rung ''a''])))) = PcReturned"
  using consistency_retries_bounded [of "entity_start default_budget 0 (demo_entity [demo_rung ''a''])"
      "map (\<lambda>t. demo_fail t ''gone'') [1, 2, 3, 4, 5, 6]" demo_ports None default_budget]
  by (simp add: entity_start_def fails_as_def
      demo_fail_def demo_event_def demo_ports_def phase_ctx_def default_budget_def duration_units)

text \<open>
  A pass whose phase context is done calls no port and leaves the loop. Past the phase's own
  deadline the entity is terminal with \<^verbatim>\<open>PhaseBudgetExceeded\<close> at its phase; after a cancellation it
  keeps no terminal fault, so that only \<^verbatim>\<open>Reconcile\<close> classifies it.
\<close>

theorem done_context_stops_entity:
  assumes "entity_inv m e" "in_loop (e_pc e)" "phase_ctx c (e_deadline e) (ev_at ev) = Some err"
  shows "snd (entity_iter P b c ev e) = [] \<and> e_pc (fst (entity_iter P b c ev e)) = PcReturned \<and>
    (case err of
       CtxDeadlineExceeded \<Rightarrow>
         map_option f_code (t_terminal (e_tr (fst (entity_iter P b c ev e)))) = Some ''PhaseBudgetExceeded'' \<and>
         t_phase (e_tr (fst (entity_iter P b c ev e))) = t_phase (e_tr e)
     | CtxCanceled \<Rightarrow> t_terminal (e_tr (fst (entity_iter P b c ev e))) = None)"
proof -
  have live: "t_terminal (e_tr e) = None" "t_phase (e_tr e) = phase_of_pc (e_pc e)"
    using assms(1,2) by (auto simp: entity_inv_def in_loop_def live_at_def split: pc.splits)
  show ?thesis
  proof (cases err)
    case CtxDeadlineExceeded
    with deadline_pass [OF assms(2), of c ev P b] assms(3) live show ?thesis
      by (simp add: tracker_defs)
  next
    case CtxCanceled
    with cancelled_pass [OF assms(2), of c ev P b] assms(3) live show ?thesis
      by (simp add: set_enrolled_def)
  qed
qed

lemma demo_entity_inv:
  "entity_inv (demo_intent ''n0'' [demo_rung ''a'']) (entity_start default_budget 0 (demo_entity [demo_rung ''a'']))"
  by (rule entity_inv_start)
    (auto simp: demo_entity_def entity_inv_def live_at_def on_intent_def new_tracker_def rungs_of_def demo_intent_def)

lemma done_context_stops_entity_witness:
  "map_option f_code (t_terminal (e_tr (fst (entity_iter demo_ports default_budget None
       (demo_event (16 * second) ''n0'') (entity_start default_budget 0 (demo_entity [demo_rung ''a'']))))))
   = Some ''PhaseBudgetExceeded''"
  using done_context_stops_entity [OF demo_entity_inv, of None "demo_event (16 * second) ''n0''" CtxDeadlineExceeded
      demo_ports default_budget]
  by (simp add: entity_start_def demo_event_def phase_ctx_def default_budget_def duration_units in_loop_def)

text \<open>
  A deadline of the parent context is charged to the entity: when the parent ends by
  its own deadline, an entity still within its phase budget becomes terminal with
  \<^verbatim>\<open>PhaseBudgetExceeded\<close>, and its record is that of a terminal fault, not of a parent cancellation.
\<close>

theorem parent_deadline_blames_entity:
  assumes "entity_inv m e" "in_loop (e_pc e)" "ev_at ev < e_deadline e"
  shows "let t = e_tr (fst (entity_iter P b (Some (CtxDeadlineExceeded, ev_at ev)) ev e));
             r = build_record (mark_parent (ctx_err_text CtxDeadlineExceeded) t) cid now
         in map_option f_code (er_terminal r) = Some ''PhaseBudgetExceeded'' \<and> \<not> was_parent_cancelled r"
proof -
  have "phase_ctx (Some (CtxDeadlineExceeded, ev_at ev)) (e_deadline e) (ev_at ev) = Some CtxDeadlineExceeded"
    by (simp add: phase_ctx_def)
  note it = deadline_pass [OF assms(2) this, of P b]
  have "t_parent_cancelled (e_tr e) = None"
    using assms(1,2) by (auto simp: entity_inv_def in_loop_def live_at_def on_intent_def split: pc.splits)
  then show ?thesis
    by (simp add: it Let_def mark_parent_def build_record_def was_parent_cancelled_def) (simp add: tracker_defs)
qed

lemma parent_deadline_blames_entity_witness:
  "let t = e_tr (fst (entity_iter demo_ports default_budget (Some (CtxDeadlineExceeded, 1)) (demo_event 1 ''n0'')
             (entity_start default_budget 0 (demo_entity [demo_rung ''a'']))));
       r = build_record (mark_parent (ctx_err_text CtxDeadlineExceeded) t) ''c'' 2
   in map_option f_code (er_terminal r) = Some ''PhaseBudgetExceeded'' \<and> \<not> was_parent_cancelled r"
  using parent_deadline_blames_entity [OF demo_entity_inv, of "demo_event 1 ''n0''" demo_ports default_budget "''c''" 2]
  by (simp add: entity_start_def demo_event_def default_budget_def duration_units in_loop_def)

section \<open>Tokens, backoff, constructors\<close>

text \<open>
  C38. The idempotency token separates entities: what is hashed determines cluster, entity and
  generation when the first two contain no NUL byte, and the token is 35 characters (EC2 accepts 64),
  a \<^verbatim>\<open>q0-\<close> prefix and hexadecimal digits.
\<close>

theorem token_separates_entities:
  "(nul \<notin> set c \<and> nul \<notin> set e \<and> nul \<notin> set c' \<and> nul \<notin> set e' \<and>
      token_input c e g = token_input c' e' g' \<longrightarrow> c = c' \<and> e = e' \<and> g = g') \<and>
   length (token c e g) = 35 \<and> (\<exists>h. token c e g = ''q0-'' @ h \<and> list_all is_hex_char h)"
  using token_input_inj [of c c' e e' g g'] length_token [of c e g]
  by (auto simp: token_def list_all_iff dest: hex_encode_chars)

lemma token_separates_entities_witness:
  "nul \<notin> set ''c1'' \<and> token_input ''c1'' ''n0'' ''g'' \<noteq> token_input ''c1n'' ''0'' ''g''"
  using token_separates_entities [of "''c1''" "''n0''" "''c1n''" "''0''" "''g''" "''g''"]
  by (auto simp: nul_def)

text \<open>
  Backoff stays within its policy: for a policy with non-negative base, cap and jitter and a
  draw in [0, 1), a wait is never negative and never longer than the cap plus its jitter share, and
  the default policy doubles from 100ms and reaches its 30s cap at the ninth retry.
\<close>

theorem backoff_within_policy:
  assumes "0 \<le> p_base p" "0 \<le> p_cap p" "0 \<le> p_jitter p" "0 \<le> u" "u < 1"
  shows "0 \<le> backoff_duration p attempt u \<and>
    of_int (backoff_duration p attempt u) \<le> of_int (p_cap p) * (1 + p_jitter p)"
proof -
  obtain d where d: "0 \<le> d" "d \<le> p_cap p"
    "backoff_duration p attempt u = d + trunc_rat (of_int d * p_jitter p * u)"
    using backoff_duration_shape [OF assms(1,2), of attempt] by blast
  note jit = trunc_jitter_bounds [OF d(1) assms(3-5)]
  have "of_int d * (1 + p_jitter p) \<le> of_int (p_cap p) * (1 + p_jitter p)"
    using d assms(3) by (intro mult_right_mono) auto
  with d jit show ?thesis by (simp add: algebra_simps)
qed

lemma backoff_within_policy_witness:
  "0 \<le> backoff_duration default_backoff_policy 3 (1 / 2) \<and>
   map (\<lambda>n. backoff_base default_backoff_policy n div millisecond) [0, 1, 2, 8, 9] = [100, 200, 400, 25600, 30000]"
proof -
  have "0 \<le> backoff_duration default_backoff_policy 3 (1 / 2)"
    using backoff_within_policy [of default_backoff_policy "1 / 2" 3]
    by (simp add: default_backoff_policy_def duration_units)
  moreover have "map (\<lambda>n. backoff_base default_backoff_policy n div millisecond) [0, 1, 2, 8, 9] = [100, 200, 400, 25600, 30000]"
    by code_simp
  ultimately show ?thesis by blast
qed



text \<open>
  The renderings drop the reason of a fault: \<^verbatim>\<open>Summary\<close> and \<^verbatim>\<open>Explain\<close> of a record do not
  depend on the message of its terminal fault. (\<^verbatim>\<open>admission.go\<close> puts the operator-visible refusal
  there.)
\<close>

theorem explain_hides_message:
  "summary (with_terminal_message r msg) = summary r \<and> explain fmt (with_terminal_message r msg) = explain fmt r"
  by (simp add: summary_with_message explain_with_message)

end
