(* ===== verification/Aws_Client.thy ===== *)
theory Aws_Client
  imports Cohort_Entity
begin

text \<open>
  \<^verbatim>\<open>internal/substrate/client.go\<close>, \<^verbatim>\<open>internal/substrate/aws/classifier.go\<close> and \<^verbatim>\<open>client.go\<close>: the
  provider-agnostic request and instance, the fault table, and the single chokepoint to EC2 with
  its two bounded retry loops. The EC2 service is a parameter: each operation takes the replies of
  the limiter and of the service, attempt by attempt, and emits the calls it makes. \<open>None\<close> as the
  result of an operation is a Go panic (a nil pointer of the service's answer dereferenced).
\<close>

section \<open>Classification\<close>

definition aws_fault_table :: "string \<Rightarrow> fault_class option" where
  "aws_fault_table = map_of
    [(''InvalidInstanceID.NotFound'', FaultRetryableConsistency),
     (''InvalidAMIID.NotFound'', FaultRetryableConsistency),
     (''InvalidGroup.NotFound'', FaultRetryableConsistency),
     (''InvalidSubnetID.NotFound'', FaultRetryableConsistency),
     (''InvalidNetworkInterfaceID.NotFound'', FaultRetryableConsistency),
     (''InvalidParameterValue.IamInstanceProfileNotReady'', FaultRetryableConsistency),
     (''InvalidPlacementGroup.NotFound'', FaultRetryableConsistency),
     (''InvalidKeyPair.NotFound'', FaultRetryableConsistency),
     (''RequestLimitExceeded'', FaultThrottle),
     (''Throttling'', FaultThrottle),
     (''ThrottlingException'', FaultThrottle),
     (''EC2ThrottledException'', FaultThrottle),
     (''RequestExpired'', FaultThrottle),
     (''InsufficientInstanceCapacity'', FaultCapacityExhausted),
     (''InsufficientHostCapacity'', FaultCapacityExhausted),
     (''SpotMaxPriceTooLow'', FaultCapacityExhausted),
     (''MaxSpotInstanceCountExceeded'', FaultCapacityExhausted),
     (''InsufficientFreeAddressesInSubnet'', FaultCapacityExhausted),
     (''Unsupported'', FaultCapacityExhausted),
     (''UnauthorizedOperation'', FaultTerminal),
     (''AccessDenied'', FaultTerminal),
     (''AuthFailure'', FaultTerminal),
     (''InstanceLimitExceeded'', FaultTerminal),
     (''VcpuLimitExceeded'', FaultTerminal),
     (''InvalidParameterValue'', FaultTerminal),
     (''InvalidParameterCombination'', FaultTerminal),
     (''InvalidAMIID.Malformed'', FaultTerminal),
     (''InvalidSpotInstanceRequest'', FaultTerminal),
     (''InvalidBlockDeviceMapping'', FaultTerminal),
     (''InvalidInstanceType'', FaultTerminal)]"

definition is_typed_transport_error :: "go_error \<Rightarrow> bool" where
  "is_typed_transport_error err = is_transport_err err"

definition classify_err :: "go_error \<Rightarrow> fault" where
  "classify_err err =
     (if is_ctx_err CtxCanceled err then mk_fault FaultTerminal ''ContextCanceled'' (error_text err)
      else if is_ctx_err CtxDeadlineExceeded err then
        mk_fault FaultAmbiguous ''ContextDeadlineExceeded'' (error_text err)
      else if is_typed_transport_error err then mk_fault FaultAmbiguous ''TransportError'' (error_text err)
      else (case as_api_err err of
        Some (code, msg) \<Rightarrow>
          (let cl = (case aws_fault_table code of Some cl \<Rightarrow> cl | None \<Rightarrow> FaultTerminal)
           in \<lparr>f_class = cl, f_code = code,
               f_retryable = (cl = FaultRetryableConsistency \<or> cl = FaultThrottle), f_message = msg\<rparr>)
      | None \<Rightarrow> mk_fault FaultTerminal ''UnknownError'' (error_text err)))"

definition classify :: "go_error option \<Rightarrow> fault" where
  "classify err = (case err of None \<Rightarrow> mk_fault FaultRetryableConsistency '''' '''' | Some e \<Rightarrow> classify_err e)"

lemma table_not_ambiguous: "aws_fault_table code \<noteq> Some FaultAmbiguous"
  by (simp add: aws_fault_table_def)

lemma classify_err_ambiguous:
  "f_class (classify_err err) = FaultAmbiguous \<longleftrightarrow>
     \<not> is_ctx_err CtxCanceled err \<and> (is_ctx_err CtxDeadlineExceeded err \<or> is_typed_transport_error err)"
  using table_not_ambiguous
  by (auto simp: classify_err_def Let_def split: option.splits)

section \<open>Requests and instances\<close>

record run_request =
  rq_instance_type :: string
  rq_avail_zone :: string
  rq_subnet_id :: string
  rq_security_group_ids :: "string list"
  rq_ami :: string
  rq_spot :: bool
  rq_idempotency_token :: string
  rq_tags :: "(string \<times> string) list"
  rq_iam_instance_arn :: string
  rq_efa :: bool
  rq_placement_group :: string
  rq_user_data :: string

record instance_view =
  si_provider_id :: string
  si_state :: string
  si_private_addr :: string
  si_instance_type :: string
  si_avail_zone :: string
  si_generation :: string
  si_entity :: string
  si_launch_time :: time

definition zero_instance :: instance_view where
  "zero_instance = \<lparr>si_provider_id = '''', si_state = '''', si_private_addr = '''', si_instance_type = '''',
     si_avail_zone = '''', si_generation = '''', si_entity = '''', si_launch_time = 0\<rparr>"

text \<open>The fields of the EC2 types that the code sets and reads. A pointer is an option.\<close>

record ec2_run_input =
  in_image_id :: "string option"
  in_instance_type :: string
  in_min_count :: int
  in_max_count :: int
  in_client_token :: "string option"
  in_tag_resource :: string
  in_tags :: "(string option \<times> string option) list"
  in_user_data :: "string option"
  in_subnet_id :: "string option"
  in_security_group_ids :: "string list"
  in_iam_arn :: "string option"
  in_spot :: bool
  in_placement :: "(string option \<times> string option) option"

record ec2_instance =
  ec_instance_id :: "string option"
  ec_state_name :: "string option"
  ec_instance_type :: string
  ec_private_ip :: "string option"
  ec_placement_zone :: "string option option"
  ec_launch_time :: "time option"
  ec_tags :: "(string option \<times> string option) list"

definition to_string :: "string option \<Rightarrow> string" where
  "to_string p = (case p of Some s \<Rightarrow> s | None \<Rightarrow> '''')"

text \<open>\<^verbatim>\<open>encoding/base64\<close>, standard encoding with padding.\<close>

definition base64_chars :: string where
  "base64_chars = ''ABCDEFGHIJKLMNOPQRSTUVWXYZabcdefghijklmnopqrstuvwxyz0123456789+/''"

definition base64_char :: "nat \<Rightarrow> char" where
  "base64_char n = base64_chars ! (n mod 64)"

fun base64_encode :: "string \<Rightarrow> string" where
  "base64_encode [] = ''''"
| "base64_encode [a] =
     (let n = (of_char a :: nat) * 65536
      in [base64_char (n div 262144), base64_char (n div 4096), CHR ''='', CHR ''=''])"
| "base64_encode [a, b] =
     (let n = (of_char a :: nat) * 65536 + of_char b * 256
      in [base64_char (n div 262144), base64_char (n div 4096), base64_char (n div 64), CHR ''=''])"
| "base64_encode (a # b # c # cs) =
     (let n = (of_char a :: nat) * 65536 + of_char b * 256 + of_char c
      in base64_char (n div 262144) # base64_char (n div 4096) # base64_char (n div 64) #
         base64_char n # base64_encode cs)"

definition map_to_ec2_tags :: "(string \<times> string) list \<Rightarrow> (string option \<times> string option) list" where
  "map_to_ec2_tags m = map (\<lambda>(k, v). (Some k, Some v)) m"

definition run_request_to_ec2 :: "run_request \<Rightarrow> ec2_run_input" where
  "run_request_to_ec2 req =
     (let inp = \<lparr>in_image_id = Some (rq_ami req), in_instance_type = rq_instance_type req,
                 in_min_count = 1, in_max_count = 1, in_client_token = Some (rq_idempotency_token req),
                 in_tag_resource = ''instance'', in_tags = map_to_ec2_tags (rq_tags req), in_user_data = None, in_subnet_id = None,
                 in_security_group_ids = [], in_iam_arn = None, in_spot = False, in_placement = None\<rparr>;
          inp = (if rq_user_data req \<noteq> '''' then inp\<lparr>in_user_data := Some (base64_encode (rq_user_data req))\<rparr> else inp);
          inp = (if rq_subnet_id req \<noteq> '''' then inp\<lparr>in_subnet_id := Some (rq_subnet_id req)\<rparr> else inp);
          inp = (if length (rq_security_group_ids req) > 0
                 then inp\<lparr>in_security_group_ids := rq_security_group_ids req\<rparr> else inp);
          inp = (if rq_iam_instance_arn req \<noteq> '''' then inp\<lparr>in_iam_arn := Some (rq_iam_instance_arn req)\<rparr> else inp);
          inp = (if rq_spot req then inp\<lparr>in_spot := True\<rparr> else inp)
      in if rq_placement_group req \<noteq> '''' then
           inp\<lparr>in_placement := Some (Some (rq_placement_group req), Some (rq_avail_zone req))\<rparr>
         else if rq_avail_zone req \<noteq> '''' then inp\<lparr>in_placement := Some (None, Some (rq_avail_zone req))\<rparr>
         else inp)"

definition tag_cluster :: string where "tag_cluster = ''q0:cluster''"
definition tag_entity :: string where "tag_entity = ''q0:entity''"
definition tag_generation :: string where "tag_generation = ''q0:generation''"
definition tag_cohort :: string where "tag_cohort = ''q0:cohort''"
definition tag_bootstrap_s3 :: string where "tag_bootstrap_s3 = ''q0:bootstrap-s3''"
definition tag_phase :: string where "tag_phase = ''q0:phase''"
definition tag_ready :: string where "tag_ready = ''q0:ready''"
definition tag_detail :: string where "tag_detail = ''q0:detail''"
definition phase_booting :: string where "phase_booting = ''booting''"
definition phase_enrolled :: string where "phase_enrolled = ''enrolled''"

lemmas tag_defs = tag_cluster_def tag_entity_def tag_generation_def tag_cohort_def tag_bootstrap_s3_def
  tag_phase_def tag_ready_def tag_detail_def phase_booting_def phase_enrolled_def

fun scan_tags :: "(string option \<times> string option) list \<Rightarrow> instance_view \<Rightarrow> instance_view" where
  "scan_tags [] inst = inst"
| "scan_tags ((k, v) # ts) inst =
     scan_tags ts (if to_string k = tag_generation then inst\<lparr>si_generation := to_string v\<rparr>
                   else if to_string k = tag_entity then inst\<lparr>si_entity := to_string v\<rparr>
                   else inst)"

definition instance_from_ec2 :: "ec2_instance \<Rightarrow> instance_view option" where
  "instance_from_ec2 i =
     (case ec_state_name i of
        None \<Rightarrow> None
      | Some name \<Rightarrow>
          (let inst = zero_instance\<lparr>si_provider_id := to_string (ec_instance_id i), si_state := name,
                        si_instance_type := ec_instance_type i\<rparr>;
               inst = (case ec_private_ip i of Some ip \<Rightarrow> inst\<lparr>si_private_addr := ip\<rparr> | None \<Rightarrow> inst);
               inst = (case ec_placement_zone i of Some z \<Rightarrow> inst\<lparr>si_avail_zone := to_string z\<rparr> | None \<Rightarrow> inst);
               inst = (case ec_launch_time i of Some t \<Rightarrow> inst\<lparr>si_launch_time := t\<rparr> | None \<Rightarrow> inst)
           in Some (scan_tags (ec_tags i) inst)))"

section \<open>The retry loops\<close>

definition max_ambiguous_retries :: nat where "max_ambiguous_retries = 3"
definition max_throttle_retries :: nat where "max_throttle_retries = 5"

definition throttle_backoff :: backoff_policy where
  "throttle_backoff = \<lparr>p_base = 500 * millisecond, p_cap = 60 * second, p_jitter = 1 / 5\<rparr>"

text \<open>
  One attempt: what \<^verbatim>\<open>limiter.Acquire\<close> returned, what the service answered, the context's error
  after it, and the draw of the backoff.
\<close>

record 'o attempt_reply =
  at_acquire :: "go_error option"
  at_reply :: "go_error + 'o"
  at_ctx :: "ctx_err option"
  at_rand :: rat

datatype 'i client_call = CallAcquire | CallService 'i | CallBackoff duration

definition run_attempt :: "'i \<Rightarrow> 'o attempt_reply \<Rightarrow> (go_error + 'o) \<times> 'i client_call list" where
  "run_attempt inp a =
     (case at_acquire a of
        Some e \<Rightarrow> (Inl e, [CallAcquire])
      | None \<Rightarrow> (at_reply a, [CallAcquire, CallService inp]))"

function call_with_retry ::
  "'i \<Rightarrow> (nat \<Rightarrow> 'o attempt_reply) \<Rightarrow> nat \<Rightarrow> nat \<Rightarrow> nat \<Rightarrow> (go_error + 'o) \<times> 'i client_call list"
where
  "call_with_retry inp env k thr amb =
     (case run_attempt inp (env k) of
        (Inr out, calls) \<Rightarrow> (Inr out, calls)
      | (Inl err, calls) \<Rightarrow>
          (let f = classify_err err
           in (case f_class f of
                 FaultThrottle \<Rightarrow>
                   (let calls = calls @ [CallBackoff (backoff_duration throttle_backoff (int thr) (at_rand (env k)))]
                    in if thr + 1 > max_throttle_retries then (Inl (FaultErr f), calls)
                       else (case at_ctx (env k) of
                               Some c \<Rightarrow>
                                 (Inl (FaultErr (mk_fault FaultTerminal ''ContextCanceled''
                                    (''context cancelled during throttle retry: '' @ ctx_err_text c))), calls)
                             | None \<Rightarrow>
                                 (case call_with_retry inp env (k + 1) (thr + 1) 0 of
                                    (r, calls') \<Rightarrow> (r, calls @ calls'))))
               | FaultAmbiguous \<Rightarrow>
                   (if amb \<ge> max_ambiguous_retries then
                      (Inl (FaultErr (mk_fault FaultTerminal (f_code f)
                         (''ambiguous fault unresolved after '' @ show_nat max_ambiguous_retries @
                          '' retries: '' @ f_message f))), calls)
                    else (case call_with_retry inp env (k + 1) thr (amb + 1) of
                            (r, calls') \<Rightarrow> (r, calls @ calls')))
               | _ \<Rightarrow> (Inl (FaultErr f), calls))))"
  by pat_completeness auto

termination
  by (relation "measures [\<lambda>(inp, env, k, thr, amb). Suc max_throttle_retries - thr,
                         \<lambda>(inp, env, k, thr, amb). Suc max_ambiguous_retries - amb]")
    (auto simp: max_throttle_retries_def max_ambiguous_retries_def)

declare call_with_retry.simps [simp del]

section \<open>The operations\<close>

datatype ec2_input =
    RunInstances ec2_run_input
  | StartInstances "string list"
  | StopInstances "string list" bool
  | TerminateInstances "string list"
  | DescribeInstances "(string \<times> string list) list"
  | DescribeTags "(string \<times> string list) list"
  | CreateTags "string list" "(string option \<times> string option) list"
  | DescribeInstanceTypeOfferings string "(string \<times> string list) list"
  | DescribeImages "string list"
  | DescribeSubnets "string list"
  | DescribeAvailabilityZones

record state_change =
  sc_instance_id :: "string option"
  sc_current_state :: "string option"

type_synonym 'a go_result = "(go_error + 'a) option"
type_synonym 'o env = "nat \<Rightarrow> 'o attempt_reply"
type_synonym ec2_calls = "ec2_input client_call list"

definition run_instance :: "ec2_instance list env \<Rightarrow> run_request \<Rightarrow> instance_view go_result \<times> ec2_calls" where
  "run_instance env req =
     (case call_with_retry (RunInstances (run_request_to_ec2 req)) env 0 0 0 of
        (Inl err, calls) \<Rightarrow> (Some (Inl err), calls)
      | (Inr result, calls) \<Rightarrow>
          ((if length result = 0 then
              Some (Inl (FaultErr (mk_fault FaultTerminal ''EmptyRunInstancesResponse''
                                     ''RunInstances returned no instances'')))
            else map_option Inr (instance_from_ec2 (result ! 0))), calls))"

definition start_instance :: "state_change list env \<Rightarrow> string \<Rightarrow> instance_view go_result \<times> ec2_calls" where
  "start_instance env i =
     (case call_with_retry (StartInstances [i]) env 0 0 0 of
        (Inl err, calls) \<Rightarrow> (Some (Inl err), calls)
      | (Inr result, calls) \<Rightarrow>
          ((if length result = 0 then
              Some (Inl (FaultErr (mk_fault FaultTerminal ''EmptyStartInstancesResponse''
                                     ''StartInstances returned no state changes'')))
            else (let change = result ! 0
                  in (case sc_current_state change of
                        None \<Rightarrow> None
                      | Some name \<Rightarrow>
                          Some (Inr (zero_instance\<lparr>si_provider_id := to_string (sc_instance_id change),
                                                   si_state := name\<rparr>))))), calls))"

definition stop_instance :: "unit env \<Rightarrow> string \<Rightarrow> bool \<Rightarrow> go_error option \<times> ec2_calls" where
  "stop_instance env i hibernate =
     (case call_with_retry (StopInstances [i] hibernate) env 0 0 0 of
        (Inl err, calls) \<Rightarrow> (Some err, calls)
      | (Inr _, calls) \<Rightarrow> (None, calls))"

definition terminate_instance :: "unit env \<Rightarrow> string \<Rightarrow> go_error option \<times> ec2_calls" where
  "terminate_instance env i =
     (case call_with_retry (TerminateInstances [i]) env 0 0 0 of
        (Inl err, calls) \<Rightarrow> (Some err, calls)
      | (Inr _, calls) \<Rightarrow> (None, calls))"

definition fault_err :: "fault \<Rightarrow> go_error" where
  "fault_err f = FaultErr f"

fun collect_tags :: "(string option \<times> string option) list \<Rightarrow> (string \<rightharpoonup> string) \<Rightarrow> (string \<rightharpoonup> string)" where
  "collect_tags [] m = m"
| "collect_tags ((k, v) # ts) m = collect_tags ts (m(to_string k \<mapsto> to_string v))"

definition describe_tags_by_id ::
  "(string option \<times> string option) list attempt_reply \<Rightarrow> string \<Rightarrow> (go_error + (string \<rightharpoonup> string)) \<times> ec2_calls"
where
  "describe_tags_by_id a provider_id =
     (case at_acquire a of
        Some e \<Rightarrow> (Inl e, [CallAcquire])
      | None \<Rightarrow>
          ((case at_reply a of Inl e \<Rightarrow> Inr Map.empty | Inr tags \<Rightarrow> Inr (collect_tags tags Map.empty)),
           [CallAcquire,
            CallService (DescribeTags [(''resource-id'', [provider_id]), (''resource-type'', [''instance''])])]))"

definition tag_instance ::
  "unit attempt_reply \<Rightarrow> string \<Rightarrow> (string \<times> string) list \<Rightarrow> go_error option \<times> ec2_calls"
where
  "tag_instance a provider_id kv =
     (if length kv = 0 then (None, [])
      else (case at_acquire a of
        Some e \<Rightarrow> (Some e, [CallAcquire])
      | None \<Rightarrow>
          ((case at_reply a of Inl e \<Rightarrow> Some (fault_err (classify_err e)) | Inr _ \<Rightarrow> None),
           [CallAcquire, CallService (CreateTags [provider_id] (map_to_ec2_tags kv))])))"

text \<open>A single read behind the limiter, its error classified.\<close>

definition read_call :: "'o attempt_reply \<Rightarrow> ec2_input \<Rightarrow> ('o \<Rightarrow> 'a) \<Rightarrow> (go_error + 'a) \<times> ec2_calls" where
  "read_call a inp f =
     (case at_acquire a of
        Some e \<Rightarrow> (Inl e, [CallAcquire])
      | None \<Rightarrow>
          ((case at_reply a of Inl e \<Rightarrow> Inl (fault_err (classify_err e)) | Inr out \<Rightarrow> Inr (f out)),
           [CallAcquire, CallService inp]))"

definition instance_type_offered ::
  "'x list attempt_reply \<Rightarrow> string \<Rightarrow> string \<Rightarrow> (go_error + bool) \<times> ec2_calls"
where
  "instance_type_offered a ty az =
     read_call a (DescribeInstanceTypeOfferings ''availability-zone'' [(''instance-type'', [ty]), (''location'', [az])])
       (\<lambda>out. length out > 0)"

definition image_exists :: "'x list attempt_reply \<Rightarrow> string \<Rightarrow> (go_error + bool) \<times> ec2_calls" where
  "image_exists a ami = read_call a (DescribeImages [ami]) (\<lambda>out. length out > 0)"

definition subnet_exists :: "'x list attempt_reply \<Rightarrow> string \<Rightarrow> (go_error + bool) \<times> ec2_calls" where
  "subnet_exists a subnet = read_call a (DescribeSubnets [subnet]) (\<lambda>out. length out > 0)"

definition availability_zones ::
  "string option list attempt_reply \<Rightarrow> (go_error + string list) \<times> ec2_calls"
where
  "availability_zones a = read_call a DescribeAvailabilityZones (map to_string)"

text \<open>All instances of all reservations, or a panic on the first without a state.\<close>

fun all_views :: "ec2_instance list \<Rightarrow> instance_view list option" where
  "all_views [] = Some []"
| "all_views (i # is) =
     (case instance_from_ec2 i of
        None \<Rightarrow> None
      | Some v \<Rightarrow> (case all_views is of None \<Rightarrow> None | Some vs \<Rightarrow> Some (v # vs)))"

definition describe_by_tag ::
  "ec2_instance list list attempt_reply \<Rightarrow> (string \<times> string) list \<Rightarrow> instance_view list go_result \<times> ec2_calls"
where
  "describe_by_tag a tags =
     (let filters = map (\<lambda>(k, v). (''tag:'' @ k, [v])) tags
      in (case at_acquire a of
            Some e \<Rightarrow> (Some (Inl e), [CallAcquire])
          | None \<Rightarrow>
              ((case at_reply a of
                  Inl e \<Rightarrow> Some (Inl (fault_err (classify_err e)))
                | Inr reservations \<Rightarrow> map_option Inr (all_views (concat reservations))),
               [CallAcquire, CallService (DescribeInstances filters)])))"

section \<open>What the loops guarantee\<close>

definition surfaced :: "go_error \<Rightarrow> bool" where
  "surfaced e \<longleftrightarrow> (\<exists>f. e = FaultErr f \<and> f_class f \<noteq> FaultAmbiguous)"

definition service_calls :: "'i client_call list \<Rightarrow> nat" where
  "service_calls cs = length (filter (\<lambda>c. case c of CallService _ \<Rightarrow> True | _ \<Rightarrow> False) cs)"

definition backoff_calls :: "'i client_call list \<Rightarrow> nat" where
  "backoff_calls cs = length (filter (\<lambda>c. case c of CallBackoff _ \<Rightarrow> True | _ \<Rightarrow> False) cs)"

lemma call_counts [simp]:
  "service_calls [] = 0" "backoff_calls [] = 0"
  "service_calls (CallAcquire # cs) = service_calls cs"
  "service_calls (CallService i # cs) = Suc (service_calls cs)"
  "service_calls (CallBackoff d # cs) = service_calls cs"
  "backoff_calls (CallAcquire # cs) = backoff_calls cs"
  "backoff_calls (CallService i # cs) = backoff_calls cs"
  "backoff_calls (CallBackoff d # cs) = Suc (backoff_calls cs)"
  "service_calls (cs @ cs') = service_calls cs + service_calls cs'"
  "backoff_calls (cs @ cs') = backoff_calls cs + backoff_calls cs'"
  by (simp_all add: service_calls_def backoff_calls_def)

lemma run_attempt_calls:
  "run_attempt inp a = (r, cs) \<Longrightarrow> cs = [CallAcquire] \<or> cs = [CallAcquire, CallService inp]"
  by (auto simp: run_attempt_def split: option.splits)

text \<open>The calls that are left with \<open>thr\<close> throttles and \<open>amb\<close> ambiguous replies behind.\<close>

definition calls_left :: "nat \<Rightarrow> nat \<Rightarrow> nat" where
  "calls_left thr amb = (max_throttle_retries - thr) * Suc max_ambiguous_retries + (Suc max_ambiguous_retries - amb)"

lemma call_with_retry_spec:
  assumes "thr \<le> max_throttle_retries" "amb \<le> max_ambiguous_retries"
    and "call_with_retry inp env k thr amb = (r, cs)"
  shows "(\<forall>e. r = Inl e \<longrightarrow> surfaced e) \<and> service_calls cs \<le> calls_left thr amb \<and>
    backoff_calls cs \<le> Suc max_throttle_retries - thr \<and>
    set cs \<subseteq> {CallAcquire, CallService inp} \<union> range CallBackoff"
  using assms
proof (induction inp env k thr amb arbitrary: r cs rule: call_with_retry.induct)
  case (1 inp env k thr amb)
  obtain r1 cs1 where run: "run_attempt inp (env k) = (r1, cs1)" by fastforce
  have cs1: "service_calls cs1 \<le> 1" "backoff_calls cs1 = 0" "set cs1 \<subseteq> {CallAcquire, CallService inp}"
    using run_attempt_calls [OF run] by auto
  have left: "1 \<le> calls_left thr amb" using "1.prems"(2) by (simp add: calls_left_def)
  show ?case
  proof (cases r1)
    case (Inr out)
    then show ?thesis
      using "1.prems"(3) run cs1 left by (auto simp: call_with_retry.simps [of inp env k])
  next
    case (Inl err)
    note unfold = call_with_retry.simps [of inp env k thr amb] run Inl
    show ?thesis
    proof (cases "f_class (classify_err err)")
      case FaultThrottle
      show ?thesis
      proof (cases "thr + 1 > max_throttle_retries \<or> at_ctx (env k) \<noteq> None")
        case True
        then show ?thesis
          using "1.prems" cs1 left FaultThrottle
          by (auto simp: unfold surfaced_def Let_def split: if_splits option.splits)
      next
        case False
        obtain r2 cs2 where rec: "call_with_retry inp env (k + 1) (thr + 1) 0 = (r2, cs2)" by fastforce
        have res: "r = r2" "cs = (cs1 @ [CallBackoff (backoff_duration throttle_backoff (int thr) (at_rand (env k)))]) @ cs2"
          using "1.prems"(3) False FaultThrottle rec by (auto simp: unfold Let_def split: option.splits)
        have "(\<forall>e. r2 = Inl e \<longrightarrow> surfaced e) \<and> service_calls cs2 \<le> calls_left (thr + 1) 0 \<and>
            backoff_calls cs2 \<le> Suc max_throttle_retries - (thr + 1) \<and>
            set cs2 \<subseteq> {CallAcquire, CallService inp} \<union> range CallBackoff"
          using "1.IH"(1) [OF run [symmetric] Inl refl FaultThrottle refl] False rec by auto
        moreover have "calls_left (thr + 1) 0 + 1 \<le> calls_left thr amb"
        proof -
          have "max_throttle_retries - thr = Suc (max_throttle_retries - (thr + 1))" using False by auto
          with "1.prems"(2) show ?thesis by (simp add: calls_left_def)
        qed
        ultimately show ?thesis using cs1 False by (auto simp: res)
      qed
    next
      case FaultAmbiguous
      show ?thesis
      proof (cases "amb \<ge> max_ambiguous_retries")
        case True
        then have "cs = cs1" "\<exists>f. r = Inl (FaultErr f) \<and> f_class f = FaultTerminal"
          using "1.prems"(3) FaultAmbiguous by (auto simp: unfold Let_def)
        then show ?thesis using cs1 left by (auto simp: surfaced_def)
      next
        case False
        obtain r2 cs2 where rec: "call_with_retry inp env (k + 1) thr (amb + 1) = (r2, cs2)" by fastforce
        have res: "r = r2" "cs = cs1 @ cs2"
          using "1.prems"(3) False FaultAmbiguous rec by (auto simp: unfold Let_def)
        have "(\<forall>e. r2 = Inl e \<longrightarrow> surfaced e) \<and> service_calls cs2 \<le> calls_left thr (amb + 1) \<and>
            backoff_calls cs2 \<le> Suc max_throttle_retries - thr \<and>
            set cs2 \<subseteq> {CallAcquire, CallService inp} \<union> range CallBackoff"
          using "1.IH"(2) [OF run [symmetric] Inl refl FaultAmbiguous] False rec "1.prems"(1) by auto
        then show ?thesis using cs1 False by (auto simp: res calls_left_def)
      qed
    qed (use "1.prems"(3) cs1 left in \<open>auto simp: unfold surfaced_def Let_def\<close>)
  qed
qed

text \<open>
  C29. Every mutation ends after at most 24 calls of the service and 6 backoffs of the limiter,
  all of them with the identical input (so the same idempotency token), and what it surfaces is the
  service's answer or a classified fault that is never ambiguous.
\<close>

theorem retry_loop_bounded:
  assumes "call_with_retry inp env 0 0 0 = (r, cs)"
  shows "service_calls cs \<le> 24 \<and> backoff_calls cs \<le> 6 \<and>
    set cs \<subseteq> {CallAcquire, CallService inp} \<union> range CallBackoff \<and>
    (case r of Inl e \<Rightarrow> \<exists>f. e = FaultErr f \<and> f_class f \<noteq> FaultAmbiguous | Inr out \<Rightarrow> True)"
  using call_with_retry_spec [OF _ _ assms]
  by (auto simp: calls_left_def max_throttle_retries_def max_ambiguous_retries_def surfaced_def split: sum.split)

definition demo_attempt :: "string \<Rightarrow> unit attempt_reply" where
  "demo_attempt code = \<lparr>at_acquire = None, at_reply = Inl (ApiErr code ''''), at_ctx = None, at_rand = 0\<rparr>"

definition demo_lost :: "unit attempt_reply" where
  "demo_lost = \<lparr>at_acquire = None, at_reply = Inl (NetErr ''reset''), at_ctx = None, at_rand = 0\<rparr>"

text \<open>Three lost replies before every throttle, the worst case.\<close>

definition demo_worst :: "unit env" where
  "demo_worst k = (if k mod 4 = 3 then demo_attempt ''Throttling'' else demo_lost)"

lemma retry_loop_bounded_witness:
  "service_calls (snd (call_with_retry (TerminateInstances [''i-1'']) demo_worst 0 0 0)) = 24 \<and>
   backoff_calls (snd (call_with_retry (TerminateInstances [''i-1'']) demo_worst 0 0 0)) \<le> 6"
proof -
  obtain r cs where *: "call_with_retry (TerminateInstances [''i-1'']) demo_worst 0 0 0 = (r, cs)" by fastforce
  have "service_calls (snd (call_with_retry (TerminateInstances [''i-1'']) demo_worst 0 0 0)) = 24"
    by code_simp
  with retry_loop_bounded [OF *] * show ?thesis by simp
qed

lemma throttled_run:
  "thr \<le> max_throttle_retries \<Longrightarrow>
   (\<And>j. at_acquire (env j) = None \<and> at_ctx (env j) = None \<and>
     (\<exists>e. at_reply (env j) = Inl e \<and> f_class (classify_err e) = FaultThrottle)) \<Longrightarrow>
   \<exists>f. fst (call_with_retry inp env k thr amb) = Inl (FaultErr f) \<and> f_class f = FaultThrottle"
proof (induction inp env k thr amb rule: call_with_retry.induct)
  case (1 inp env k thr amb)
  obtain e where e: "at_acquire (env k) = None" "at_ctx (env k) = None" "at_reply (env k) = Inl e"
    "f_class (classify_err e) = FaultThrottle"
    using "1.prems"(2) [of k] by auto
  have run: "(Inl e, [CallAcquire, CallService inp]) = run_attempt inp (env k)"
    using e by (simp add: run_attempt_def)
  show ?case
  proof (cases "thr + 1 > max_throttle_retries")
    case True
    then show ?thesis using e run [symmetric] by (simp add: call_with_retry.simps [of inp env k] Let_def)
  next
    case False
    have "\<exists>f. fst (call_with_retry inp env (k + 1) (thr + 1) 0) = Inl (FaultErr f) \<and> f_class f = FaultThrottle"
      using "1.IH"(1) [OF run refl refl e(4) refl False e(2)] False "1.prems"(2) by auto
    then show ?thesis
      using e run [symmetric] False by (auto simp: call_with_retry.simps [of inp env k] Let_def split: prod.split)
  qed
qed

text \<open>
  A throttle does reach the caller: when the service throttles six times in a row,
  \<^verbatim>\<open>callWithRetry\<close> returns the throttle fault itself, although its comment says that it never
  surfaces one.
\<close>

theorem throttle_surfaces:
  assumes "\<And>j. at_acquire (env j) = None \<and> at_ctx (env j) = None \<and>
     (\<exists>e. at_reply (env j) = Inl e \<and> f_class (classify_err e) = FaultThrottle)"
  shows "\<exists>f. fst (terminate_instance env i) = Some (FaultErr f) \<and> f_class f = FaultThrottle"
  using throttled_run [of 0 env "TerminateInstances [i]" 0 0] assms
  by (auto simp: terminate_instance_def split: prod.splits sum.splits)

lemma throttle_surfaces_witness:
  "\<exists>f. fst (terminate_instance (\<lambda>_. demo_attempt ''Throttling'') ''i-1'') = Some (FaultErr f) \<and> f_class f = FaultThrottle"
  by (rule throttle_surfaces)
    (simp add: demo_attempt_def classify_err_def is_typed_transport_error_def aws_fault_table_def)

end
