(* ===== verification/Go_Library.thy ===== *)
theory Go_Library
  imports Cohort_State
begin

text \<open>
  The parts of Go's standard library that the specification loader and the command line use:
  \<^verbatim>\<open>filepath.Clean\<close>, \<^verbatim>\<open>filepath.Join\<close> and \<^verbatim>\<open>filepath.Dir\<close> on Unix, and \<^verbatim>\<open>net.ParseCIDR\<close> as the
  decision whether a text is an address with a prefix length (what the loader uses of it).
\<close>

lemma first_error_None [simp]:
  "(case x of None \<Rightarrow> y | Some e \<Rightarrow> Some e) = None \<longleftrightarrow> x = None \<and> y = None"
  by (simp split: option.splits)

section \<open>Paths\<close>

text \<open>
  \<^verbatim>\<open>Clean\<close> walks the elements of a path: empty ones and \<^verbatim>\<open>.\<close> vanish, \<^verbatim>\<open>..\<close> takes back the
  element before it, is dropped at the root, and stays at the front of a relative path. The
  elements kept so far are in reverse.
\<close>

fun clean_elements :: "bool \<Rightarrow> string list \<Rightarrow> string list \<Rightarrow> string list" where
  "clean_elements rooted acc [] = rev acc"
| "clean_elements rooted acc (e # es) =
     (if e = '''' \<or> e = ''.'' then clean_elements rooted acc es
      else if e = ''..'' then
        (case acc of
           [] \<Rightarrow> clean_elements rooted (if rooted then [] else [e]) es
         | a # as \<Rightarrow> clean_elements rooted (if a = ''..'' then e # acc else as) es)
      else clean_elements rooted (e # acc) es)"

definition is_rooted :: "string \<Rightarrow> bool" where
  "is_rooted p = has_prefix p ''/''"

definition path_elements :: "string \<Rightarrow> string list" where
  "path_elements p = clean_elements (is_rooted p) [] (split_on (CHR ''/'') p)"

definition unclean_path :: "bool \<Rightarrow> string list \<Rightarrow> string" where
  "unclean_path rooted es =
     (let s = (if rooted then ''/'' else '''') @ join_with ''/'' es in if s = '''' then ''.'' else s)"

definition clean_path :: "string \<Rightarrow> string" where
  "clean_path p = unclean_path (is_rooted p) (path_elements p)"

text \<open>\<^verbatim>\<open>Join\<close>: the non-empty parts with slashes between them, cleaned.\<close>

definition join_path :: "string list \<Rightarrow> string" where
  "join_path parts =
     (let ps = dropWhile (\<lambda>p. p = '''') parts in if ps = [] then '''' else clean_path (join_with ''/'' ps))"

text \<open>\<^verbatim>\<open>Dir\<close>: what goes up to the last slash, cleaned.\<close>

definition parent_dir :: "string \<Rightarrow> string" where
  "parent_dir p = clean_path (rev (dropWhile (\<lambda>c. c \<noteq> CHR ''/'') (rev p)))"

lemma parent_dir_slash: "last p = CHR ''/'' \<Longrightarrow> p \<noteq> '''' \<Longrightarrow> parent_dir p = clean_path p"
  by (cases p rule: rev_cases) (simp_all add: parent_dir_def)

subsection \<open>What the elements of a clean path are\<close>

definition plain_element :: "string \<Rightarrow> bool" where
  "plain_element e \<longleftrightarrow> e \<noteq> '''' \<and> CHR ''/'' \<notin> set e"

lemma split_on_no_sep_elements: "e \<in> set (split_on c s) \<Longrightarrow> c \<notin> set e"
proof (induction s arbitrary: e)
  case (Cons x xs)
  then show ?case
    by (cases "split_on c xs") (auto split: if_splits)
qed simp

lemma clean_elements_from:
  "e \<in> set (clean_elements r acc es) \<Longrightarrow> e \<in> set acc \<or> (e \<in> set es \<and> e \<noteq> '''')"
proof (induction r acc es rule: clean_elements.induct)
  case (2 r acc e' es)
  then show ?case by (auto split: if_splits list.splits)
qed simp

lemma path_elements_plain: "e \<in> set (path_elements p) \<Longrightarrow> plain_element e"
  using clean_elements_from [of e "is_rooted p" "[]"] split_on_no_sep_elements [of e "CHR ''/''" p]
  by (auto simp: path_elements_def plain_element_def)

lemma join_with_append:
  "xs \<noteq> [] \<Longrightarrow> ys \<noteq> [] \<Longrightarrow> join_with s (xs @ ys) = join_with s xs @ s @ join_with s ys"
proof (induction s xs rule: join_with.induct)
  case (2 s w)
  then show ?case by (cases ys) auto
qed auto

text \<open>Joined elements are told apart by the slashes: splitting brings them back.\<close>

lemma split_join_elements:
  "es \<noteq> [] \<Longrightarrow> (\<forall>e\<in>set es. plain_element e) \<Longrightarrow> split_on (CHR ''/'') (join_with ''/'' es) = es"
  using split_join [of es "CHR ''/''"] by (auto simp: plain_element_def)

lemma has_prefix_iff: "has_prefix s p \<longleftrightarrow> (\<exists>r. s = p @ r)"
  unfolding has_prefix_def by (metis append_eq_conv_conj append_take_drop_id)

lemma join_elements_prefix:
  assumes "\<forall>e\<in>set xs. plain_element e" "\<forall>e\<in>set ys. plain_element e" "xs \<noteq> []"
  shows "has_prefix (join_with ''/'' ys) (join_with ''/'' xs @ ''/'') \<longleftrightarrow>
           (\<exists>zs. zs \<noteq> [] \<and> ys = xs @ zs)"
proof
  assume "has_prefix (join_with ''/'' ys) (join_with ''/'' xs @ ''/'')"
  then obtain r where r: "join_with ''/'' ys = join_with ''/'' xs @ CHR ''/'' # r"
    by (auto simp: has_prefix_iff)
  then have ys: "ys \<noteq> []" using assms(3) by (cases ys) auto
  have "ys = split_on (CHR ''/'') (join_with ''/'' xs @ CHR ''/'' # r)"
    using split_join_elements [OF ys assms(2)] r by simp
  also have "\<dots> = xs @ split_on (CHR ''/'') r"
    using assms(1,3)
  proof (induction xs rule: induct_list012)
    case (2 x)
    then show ?case by (simp add: plain_element_def split_on_append_sep)
  next
    case (3 x y zs)
    then have "split_on (CHR ''/'') (join_with ''/'' (y # zs) @ CHR ''/'' # r) = (y # zs) @ split_on (CHR ''/'') r"
      by simp
    moreover have "CHR ''/'' \<notin> set x" using 3 by (simp add: plain_element_def)
    ultimately show ?case by (simp add: split_on_append_sep)
  qed simp
  finally show "\<exists>zs. zs \<noteq> [] \<and> ys = xs @ zs" by auto
next
  assume "\<exists>zs. zs \<noteq> [] \<and> ys = xs @ zs"
  then obtain zs where zs: "zs \<noteq> []" "ys = xs @ zs" by blast
  then have "join_with ''/'' ys = (join_with ''/'' xs @ ''/'') @ join_with ''/'' zs"
    using assms(3) by (simp add: join_with_append)
  then show "has_prefix (join_with ''/'' ys) (join_with ''/'' xs @ ''/'')" by (metis has_prefix_append)
qed

lemma join_elements_inj:
  "\<forall>e\<in>set xs. plain_element e \<Longrightarrow> \<forall>e\<in>set ys. plain_element e \<Longrightarrow>
     join_with ''/'' xs = join_with ''/'' ys \<Longrightarrow> xs = ys"
proof -
  assume *: "\<forall>e\<in>set xs. plain_element e" "\<forall>e\<in>set ys. plain_element e"
    "join_with ''/'' xs = join_with ''/'' ys"
  have nil: "join_with ''/'' es = [] \<longleftrightarrow> es = []" if "\<forall>e\<in>set es. plain_element e" for es
    using that join_with_Nil_iff [of es] by (auto simp: plain_element_def)
  show ?thesis
    using * split_join_elements [of xs] split_join_elements [of ys] nil [of xs] nil [of ys]
    by (metis (no_types, lifting) join_with.simps(1))
qed

section \<open>Addresses with a prefix length\<close>

text \<open>A decimal octet without a leading zero, and the four of them (\<^verbatim>\<open>netip.parseIPv4Fields\<close>).\<close>

definition is_octet :: "string \<Rightarrow> bool" where
  "is_octet f \<longleftrightarrow>
     f \<noteq> '''' \<and> list_all is_digit f \<and> (hd f = CHR ''0'' \<longrightarrow> length f = 1) \<and>
     (case parse_digits 0 f of Some n \<Rightarrow> n \<le> 255 | None \<Rightarrow> False)"

definition is_ipv4 :: "string \<Rightarrow> bool" where
  "is_ipv4 s = (let fs = split_on (CHR ''.'') s in length fs = 4 \<and> list_all is_octet fs)"

definition is_group_char :: "char \<Rightarrow> bool" where
  "is_group_char c \<longleftrightarrow>
     is_digit c \<or> (let n = (of_char c :: nat) in (97 \<le> n \<and> n \<le> 102) \<or> (65 \<le> n \<and> n \<le> 70))"

text \<open>
  \<^verbatim>\<open>netip.parseIPv6\<close> without a zone (\<^verbatim>\<open>ParseCIDR\<close> refuses one): the loop over groups of at most
  four hexadecimal digits. The index \<open>i\<close> counts bytes, \<open>ell\<close> says that a \<^verbatim>\<open>::\<close> has been met, and
  the first argument bounds the passes; eight are enough, each pass adds two bytes.
\<close>

fun ipv6_groups :: "nat \<Rightarrow> nat \<Rightarrow> bool \<Rightarrow> string \<Rightarrow> bool" where
  "ipv6_groups 0 i ell s = (s = '''' \<and> \<not> ell)"
| "ipv6_groups (Suc k) i ell s =
     (let g = takeWhile is_group_char s; rest = dropWhile is_group_char s
      in if length g > 4 \<or> g = '''' then False
         else case rest of
           [] \<Rightarrow> (if i + 2 < 16 then ell else \<not> ell)
         | c # next \<Rightarrow>
             if c = CHR ''.'' then
               (ell \<or> i = 12) \<and> i + 4 \<le> 16 \<and> is_ipv4 s \<and> (if i + 4 < 16 then ell else \<not> ell)
             else if c \<noteq> CHR '':'' then False
             else (case next of
                     [] \<Rightarrow> False
                   | d # after \<Rightarrow>
                       if d = CHR '':'' then
                         (if ell then False
                          else if after = '''' then i + 2 < 16
                          else ipv6_groups k (i + 2) True after)
                       else ipv6_groups k (i + 2) ell next))"

definition is_ipv6 :: "string \<Rightarrow> bool" where
  "is_ipv6 s =
     (if has_prefix s ''::'' then drop 2 s = '''' \<or> ipv6_groups 8 0 True (drop 2 s)
      else ipv6_groups 8 0 False s)"

text \<open>\<^verbatim>\<open>netip.ParseAddr\<close> goes by the first of the characters \<^verbatim>\<open>.\<close>, \<^verbatim>\<open>:\<close> and \<^verbatim>\<open>%\<close>; the value is the bit length.\<close>

definition addr_bits :: "string \<Rightarrow> nat option" where
  "addr_bits s =
     (case dropWhile (\<lambda>c. c \<notin> set ''.:%'') s of
        [] \<Rightarrow> None
      | c # _ \<Rightarrow>
          if c = CHR ''.'' then (if is_ipv4 s then Some 32 else None)
          else if c = CHR '':'' then (if CHR ''%'' \<notin> set s \<and> is_ipv6 s then Some 128 else None)
          else None)"

definition parse_cidr :: "string \<Rightarrow> go_error option" where
  "parse_cidr s =
     (let bad = Some (ErrText (''invalid CIDR address: '' @ s))
      in case index_byte s (CHR ''/'') of
           None \<Rightarrow> bad
         | Some i \<Rightarrow>
             (let mask = drop (Suc i) s
              in case addr_bits (take i s) of
                   None \<Rightarrow> bad
                 | Some bits \<Rightarrow>
                     if mask = '''' \<or> \<not> list_all is_digit mask then bad
                     else (case parse_digits 0 mask of
                             None \<Rightarrow> bad
                           | Some n \<Rightarrow> if n \<le> bits then None else bad)))"

end
