(* ===== verification/Bootstrap.thy ===== *)
theory Bootstrap
  imports Go_Library Sha256 "HOL-Library.Multiset"
begin

text \<open>
  \<^verbatim>\<open>internal/bootstrap\<close>: the mount specification and its two renderings (\<^verbatim>\<open>mount.go\<close>), the userdata
  shim (\<^verbatim>\<open>shim.go\<close>), and the packing of a content-addressed script-set (\<^verbatim>\<open>pack.go\<close>). The tar and gzip
  writers of Go's library are a parameter of the packing, a function of the entries written to it;
  the directory walk is the list of the entries it meets.
\<close>

section \<open>Mounts\<close>

record mount =
  m_dns :: string
  m_path :: string

definition format_mount_spec :: "mount list \<Rightarrow> string" where
  "format_mount_spec ms =
     join_with '','' (map (\<lambda>m. m_dns m @ '':'' @ m_path m)
                         (filter (\<lambda>m. \<not> (m_dns m = '''' \<or> m_path m = '''')) ms))"

fun parse_entries :: "string list \<Rightarrow> mount list" where
  "parse_entries [] = []"
| "parse_entries (entry # es) =
     (let entry = trim_space entry
      in if entry = '''' then parse_entries es
         else (case index_byte entry (CHR '':'') of
                 None \<Rightarrow> parse_entries es
               | Some i \<Rightarrow>
                   (if i = 0 \<or> i = length entry - 1 then parse_entries es
                    else \<lparr>m_dns = take i entry, m_path = drop (i + 1) entry\<rparr> # parse_entries es)))"

definition parse_mount_spec :: "string \<Rightarrow> mount list" where
  "parse_mount_spec spec =
     (let spec = trim_space spec in if spec = '''' then [] else parse_entries (split_on (CHR '','') spec))"

definition mount_paths :: "mount list \<Rightarrow> string" where
  "mount_paths ms = join_with '','' (map m_path (filter (\<lambda>m. m_path m \<noteq> '''') ms))"

text \<open>A mount whose halves can be told apart: no separator or white space where it would be read.\<close>

definition plain_mount :: "mount \<Rightarrow> bool" where
  "plain_mount m \<longleftrightarrow> m_dns m \<noteq> '''' \<and> m_path m \<noteq> '''' \<and> CHR '':'' \<notin> set (m_dns m) \<and>
     CHR '','' \<notin> set (m_dns m) \<and> CHR '','' \<notin> set (m_path m) \<and>
     \<not> is_space (hd (m_dns m)) \<and> \<not> is_space (last (m_path m))"

lemma parse_entry_plain:
  assumes "plain_mount m"
  shows "parse_entries ((m_dns m @ CHR '':'' # m_path m) # es) = m # parse_entries es"
proof -
  let ?e = "m_dns m @ CHR '':'' # m_path m"
  have "trim_space ?e = ?e"
    using assms by (intro trim_space_id) (auto simp: plain_mount_def hd_append)
  moreover have "index_byte ?e (CHR '':'') = Some (length (m_dns m))"
    using assms by (intro index_byte_append) (simp add: plain_mount_def)
  ultimately show ?thesis using assms by (simp add: plain_mount_def Let_def)
qed

lemma parse_entries_plain:
  "\<forall>m\<in>set ms. plain_mount m \<Longrightarrow> parse_entries (map (\<lambda>m. m_dns m @ CHR '':'' # m_path m) ms) = ms"
  by (induction ms) (auto simp: parse_entry_plain simp del: parse_entries.simps(2))

lemma join_ends:
  assumes "ws \<noteq> []" "\<forall>w\<in>set ws. w \<noteq> [] \<and> \<not> is_space (hd w) \<and> \<not> is_space (last w)"
  shows "join_with sep ws \<noteq> [] \<and> \<not> is_space (hd (join_with sep ws)) \<and> \<not> is_space (last (join_with sep ws))"
  using assms
proof (induction sep ws rule: join_with.induct)
  case (3 sep w v vs)
  then show ?case by (cases "join_with sep (v # vs)") (auto simp: hd_append)
qed auto

lemma parse_format_plain:
  assumes "\<forall>m\<in>set ms. plain_mount m"
  shows "parse_mount_spec (format_mount_spec ms) = ms"
proof (cases "ms = []")
  case False
  let ?ws = "map (\<lambda>m. m_dns m @ CHR '':'' # m_path m) ms"
  have "filter (\<lambda>m. \<not> (m_dns m = '''' \<or> m_path m = '''')) ms = ms"
    using assms by (intro filter_True) (auto simp: plain_mount_def)
  then have f: "format_mount_spec ms = join_with '','' ?ws" by (simp add: format_mount_spec_def)
  have "\<forall>w\<in>set ?ws. w \<noteq> [] \<and> \<not> is_space (hd w) \<and> \<not> is_space (last w)"
    using assms by (auto simp: plain_mount_def hd_append)
  from join_ends [OF _ this, of "'',''"] False
  have "trim_space (join_with '','' ?ws) = join_with '','' ?ws" "join_with '','' ?ws \<noteq> []"
    by (auto intro: trim_space_id)
  moreover have "split_on (CHR '','') (join_with '','' ?ws) = ?ws"
    using False assms by (intro split_join) (auto simp: plain_mount_def)
  ultimately show ?thesis
    using parse_entries_plain [OF assms] by (simp add: parse_mount_spec_def f)
qed (simp add: format_mount_spec_def parse_mount_spec_def)

section \<open>The shim\<close>

definition max_user_data_bytes :: nat where "max_user_data_bytes = 16384"
definition mounts_file :: string where "mounts_file = ''/etc/q0/mounts''"
definition default_log_path :: string where "default_log_path = ''/var/log/q0-bootstrap.log''"

record shim_params =
  sp_s3_uri :: string
  sp_sha256 :: string
  sp_region :: string
  sp_log_path :: string
  sp_mounts :: "mount list"
  sp_controller_host :: string

definition quoted :: "string \<Rightarrow> string" where "quoted s = [dquote] @ s @ [dquote]"
definition squoted :: "string \<Rightarrow> string" where "squoted s = [CHR 0x27] @ s @ [CHR 0x27]"

text \<open>The rendered template: the fetch, the check of the digest, the node configuration, the exec.\<close>

definition shim_fetch :: "shim_params \<Rightarrow> string" where
  "shim_fetch p =
     ''#!/usr/bin/env bash'' @ nl @
     ''# queuezero bootstrap shim '' @ em_dash @ '' fetch-and-exec only, NO application logic ('' @ sect_sign @ ''11).'' @ nl @
     ''set -euo pipefail'' @ nl @
     ''exec > >(tee -a '' @ sp_log_path p @ '') 2>&1'' @ nl @ nl @
     ''SENTINEL=/var/lib/q0/bootstrap.done'' @ nl @
     ''if [ -f '' @ quoted ''$SENTINEL'' @ '' ]; then'' @ nl @
     ''  echo '' @ quoted ''q0-bootstrap: already completed; skipping'' @ nl @
     ''  exit 0'' @ nl @
     ''fi'' @ nl @
     ''mkdir -p /var/lib/q0 /opt/q0/bootstrap'' @ nl @ nl @
     ''echo '' @ quoted (''q0-bootstrap: fetching '' @ sp_s3_uri p) @ nl @
     ''aws --region '' @ sp_region p @ '' s3 cp '' @ quoted (sp_s3_uri p) @ '' /tmp/q0-bootstrap.tar.gz'' @ nl @ nl"

definition shim_verify :: "shim_params \<Rightarrow> string" where
  "shim_verify p =
     ''echo '' @ quoted (sp_sha256 p @ ''  /tmp/q0-bootstrap.tar.gz'') @ '' | sha256sum -c -'' @ nl @ nl"

definition shim_unpack :: string where
  "shim_unpack =
     ''tar -xzf /tmp/q0-bootstrap.tar.gz -C /opt/q0/bootstrap'' @ nl @
     ''touch '' @ quoted ''$SENTINEL'' @ nl"

text \<open>What the here-document of the template puts into the mounts file.\<close>

definition mounts_content :: "shim_params \<Rightarrow> string" where
  "mounts_content p =
     (let spec = format_mount_spec (sp_mounts p); host = sp_controller_host p
      in (if spec \<noteq> '''' then
            ''Q0_MOUNT_SPEC='' @ squoted spec @ nl @
            ''Q0_MOUNT_PATHS='' @ squoted (mount_paths (sp_mounts p)) @ nl
          else '''') @
         (if host \<noteq> '''' then ''Q0_CONTROLLER_HOST='' @ squoted host @ nl else ''''))"

definition shim_config :: "shim_params \<Rightarrow> string" where
  "shim_config p =
     (if format_mount_spec (sp_mounts p) \<noteq> '''' \<or> sp_controller_host p \<noteq> '''' then
        nl @ ''# Deliver node config (shared-storage spec, controller host) for bootstrap.sh +'' @ nl @
        ''# q0-spored to consume. The shim does NOT mount or configure slurmd '' @ em_dash @ '' it only'' @ nl @
        ''# writes the known location ('' @ sect_sign @ ''11/#9).'' @ nl @
        ''mkdir -p /etc/q0'' @ nl @
        ''cat > '' @ mounts_file @ '' <<'' @ squoted ''Q0_MOUNTS_EOF'' @ nl @
        mounts_content p @
        ''Q0_MOUNTS_EOF'' @ nl @
        ''. '' @ mounts_file @ nl
      else '''')"

definition shim_exec :: string where
  "shim_exec =
     nl @ ''echo '' @ quoted ''q0-bootstrap: executing entrypoint'' @ nl @
     ''exec /opt/q0/bootstrap/bootstrap.sh'' @ nl"

definition shim_template :: "shim_params \<Rightarrow> string" where
  "shim_template p = shim_fetch p @ shim_verify p @ shim_unpack @ shim_config p @ shim_exec"

definition shim :: "shim_params \<Rightarrow> go_error + string" where
  "shim p =
     (if sp_s3_uri p = '''' then Inl (ErrText ''bootstrap: S3URI is required'')
      else if sp_sha256 p = '''' then Inl (ErrText ''bootstrap: SHA256 is required'')
      else if sp_region p = '''' then Inl (ErrText ''bootstrap: Region is required'')
      else (let p = (if sp_log_path p = '''' then p\<lparr>sp_log_path := default_log_path\<rparr> else p);
                out = shim_template p
            in if length out > max_user_data_bytes then
                 Inl (ErrText (''bootstrap: shim is '' @ show_nat (length out) @ '' bytes, exceeds the '' @
                   show_nat max_user_data_bytes @ ''-byte userdata cap '' @
                   ''(application logic belongs in the S3 script-set, not userdata)''))
               else Inr out))"

section \<open>Packing\<close>

definition entrypoint :: string where "entrypoint = ''bootstrap.sh''"

definition script_key :: "string \<Rightarrow> string" where
  "script_key sha = ''scripts/'' @ sha @ ''.tar.gz''"

text \<open>An entry the walk meets: directories, regular files, anything else.\<close>

datatype entry_kind = IsDir | Regular | Irregular

record walk_entry =
  we_rel :: string
  we_kind :: entry_kind
  we_owner_exec :: bool
  we_content :: string

record tar_entry =
  te_name :: string
  te_mode :: nat
  te_content :: string

fun walk_files :: "string \<Rightarrow> walk_entry list \<Rightarrow> go_error + walk_entry list" where
  "walk_files dir [] = Inr []"
| "walk_files dir (e # es) =
     (case we_kind e of
        IsDir \<Rightarrow> walk_files dir es
      | Irregular \<Rightarrow>
          Inl (ErrText (''bootstrap: '' @ go_quote (join_path [dir, we_rel e]) @
            '' is not a regular file (symlinks/devices unsupported in a script-set)''))
      | Regular \<Rightarrow> (case walk_files dir es of Inl err \<Rightarrow> Inl err | Inr fs \<Rightarrow> Inr (e # fs)))"

definition collect_files :: "string \<Rightarrow> walk_entry list \<Rightarrow> go_error + walk_entry list" where
  "collect_files dir es =
     (case walk_files dir es of
        Inl err \<Rightarrow> Inl (ErrWrap (''bootstrap: walk '' @ go_quote dir @ '': '') err)
      | Inr fs \<Rightarrow>
          (if length fs = 0 then Inl (ErrText (''bootstrap: script-set '' @ go_quote dir @ '' is empty''))
           else Inr (sort_key we_rel fs)))"

definition add_file :: "walk_entry \<Rightarrow> tar_entry" where
  "add_file e = \<lparr>te_name = we_rel e, te_mode = (if we_owner_exec e then 493 else 420), te_content = we_content e\<rparr>"

definition has_entrypoint :: "walk_entry list \<Rightarrow> bool" where
  "has_entrypoint es = list_ex (\<lambda>e. we_rel e = entrypoint \<and> we_kind e \<noteq> IsDir) es"

text \<open>The archive written and the digest returned.\<close>

definition pack :: "(tar_entry list \<Rightarrow> string) \<Rightarrow> string \<Rightarrow> walk_entry list \<Rightarrow> go_error + (string \<times> string)" where
  "pack archive dir es =
     (if \<not> has_entrypoint es then
        Inl (ErrText (''bootstrap: script-set '' @ go_quote dir @ '' must contain an executable '' @
          entrypoint @ '' entrypoint''))
      else (case collect_files dir es of
        Inl err \<Rightarrow> Inl err
      | Inr files \<Rightarrow>
          (let out = archive (map add_file files) in Inr (out, hex_encode (sha256 out)))))"

lemma walk_files_Inr:
  "walk_files dir es = Inr fs \<longleftrightarrow>
     (\<forall>e\<in>set es. we_kind e \<noteq> Irregular) \<and> fs = filter (\<lambda>e. we_kind e = Regular) es"
proof (induction es arbitrary: fs)
  case (Cons e es)
  then show ?case
    by (cases "we_kind e"; cases "walk_files dir es") auto
qed auto

lemma walk_files_perm:
  assumes "mset es = mset es'" "walk_files dir es = Inr fs"
  shows "\<exists>fs'. walk_files dir es' = Inr fs' \<and> mset fs' = mset fs"
  using assms mset_eq_setD [OF assms(1)] by (simp add: walk_files_Inr mset_filter)

section \<open>Properties\<close>

text \<open>
  The mount spec survives its delivery: parsing the rendering of a list of plain mounts gives
  the list back.
\<close>

theorem mount_spec_roundtrip:
  assumes "\<forall>m\<in>set ms. plain_mount m"
  shows "parse_mount_spec (format_mount_spec ms) = ms"
  using assms by (rule parse_format_plain)

definition demo_mounts :: "mount list" where
  "demo_mounts = [\<lparr>m_dns = ''fs-1.efs'', m_path = ''/home''\<rparr>, \<lparr>m_dns = ''fs-2.efs'', m_path = ''/data''\<rparr>]"

lemma mount_spec_roundtrip_witness: "parse_mount_spec (format_mount_spec demo_mounts) = demo_mounts"
  by (rule mount_spec_roundtrip) (simp add: demo_mounts_def plain_mount_def is_space_def)


definition demo_shim :: shim_params where
  "demo_shim = \<lparr>sp_s3_uri = ''s3://b/k'', sp_sha256 = ''00ff'', sp_region = ''us-east-1'', sp_log_path = '''',
     sp_mounts = demo_mounts, sp_controller_host = ''10.0.0.9''\<rparr>"

lemma demo_shim_ok: "case shim demo_shim of Inl _ \<Rightarrow> False | Inr s \<Rightarrow> length s < 2000"
  by (simp add: shim_def shim_template_def shim_fetch_def shim_verify_def shim_unpack_def shim_config_def mounts_content_def
      shim_exec_def format_mount_spec_def mount_paths_def demo_shim_def demo_mounts_def Let_def
      default_log_path_def max_user_data_bytes_def mounts_file_def quoted_def squoted_def nl_def em_dash_def
      sect_sign_def del: length_append append.simps, simp)


text \<open>
  The path list disagrees with the spec: a mount without a DNS name is left out of
  \<^verbatim>\<open>Q0_MOUNT_SPEC\<close>, so nothing mounts it, but its path stays in \<^verbatim>\<open>Q0_MOUNT_PATHS\<close>, which the on-node
  mount probe must find mounted.
\<close>

theorem unmounted_path_still_probed:
  assumes "m_dns m = ''''" "m_path m \<noteq> ''''" "CHR '','' \<notin> set (m_path m)" "m \<in> set ms"
    "\<forall>k\<in>set ms. CHR '','' \<notin> set (m_path k)"
  shows "format_mount_spec ms = format_mount_spec (remove1 m ms) \<and>
    m_path m \<in> set (split_on (CHR '','') (mount_paths ms))"
proof
  obtain xs ys where ms: "ms = xs @ m # ys" "m \<notin> set xs" using split_list_first [OF assms(4)] by blast
  then show "format_mount_spec ms = format_mount_spec (remove1 m ms)"
    using assms(1) by (simp add: format_mount_spec_def remove1_append)
  have "split_on (CHR '','') (mount_paths ms) = map m_path (filter (\<lambda>m. m_path m \<noteq> '''') ms)"
    unfolding mount_paths_def using assms by (intro split_join) (auto simp: filter_empty_conv)
  then show "m_path m \<in> set (split_on (CHR '','') (mount_paths ms))" using assms by auto
qed

lemma unmounted_path_still_probed_witness:
  "''/scratch'' \<in> set (split_on (CHR '','') (mount_paths [\<lparr>m_dns = '''', m_path = ''/scratch''\<rparr>]))"
  using unmounted_path_still_probed [of "\<lparr>m_dns = '''', m_path = ''/scratch''\<rparr>" "[\<lparr>m_dns = '''', m_path = ''/scratch''\<rparr>]"]
  by simp

text \<open>
  Packing is deterministic: the digest of a script-set does not depend on the order in which
  the directory is walked, and it is the SHA-256 of exactly the archive that is written.
\<close>

theorem pack_deterministic:
  assumes "mset es = mset es'" "distinct (map we_rel es)" "pack archive dir es = Inr (out, sha)"
  shows "pack archive dir es' = Inr (out, sha) \<and> sha = hex_encode (sha256 out)"
proof -
  have ep: "has_entrypoint es' = has_entrypoint es"
    using mset_eq_setD [OF assms(1)] by (simp add: has_entrypoint_def list_ex_iff)
  obtain fs where fs: "walk_files dir es = Inr fs" "fs \<noteq> []" "has_entrypoint es"
    "out = archive (map add_file (sort_key we_rel fs))" "sha = hex_encode (sha256 out)"
    using assms(3) by (auto simp: pack_def collect_files_def Let_def split: if_splits sum.splits)
  obtain fs' where fs': "walk_files dir es' = Inr fs'" "mset fs' = mset fs"
    using walk_files_perm [OF assms(1) fs(1)] by blast
  have sub: "fs = filter (\<lambda>e. we_kind e = Regular) es" using fs(1) by (simp add: walk_files_Inr)
  have "inj_on we_rel (set fs)"
    using assms(2) sub by (auto simp: distinct_map intro: inj_on_subset)
  then have "sort_key we_rel fs = sort_key we_rel fs'"
    using fs'(2) by (intro sort_key_inj_key_eq) simp_all
  moreover have "fs' \<noteq> []" using fs(2) fs'(2) by auto
  ultimately show ?thesis
    using fs fs' ep by (simp add: pack_def collect_files_def Let_def)
qed

definition demo_scripts :: "walk_entry list" where
  "demo_scripts = [\<lparr>we_rel = ''lib'', we_kind = IsDir, we_owner_exec = True, we_content = ''''\<rparr>,
     \<lparr>we_rel = ''lib/a.sh'', we_kind = Regular, we_owner_exec = False, we_content = ''x''\<rparr>,
     \<lparr>we_rel = ''bootstrap.sh'', we_kind = Regular, we_owner_exec = True, we_content = ''y''\<rparr>]"

definition demo_archive :: "tar_entry list \<Rightarrow> string" where
  "demo_archive es = concat (map (\<lambda>e. te_name e @ te_content e) es)"

lemma demo_pack: "\<exists>out sha. pack demo_archive ''d'' demo_scripts = Inr (out, sha)"
  by (simp add: pack_def has_entrypoint_def collect_files_def demo_scripts_def entrypoint_def Let_def)

lemma pack_deterministic_witness:
  "pack demo_archive ''d'' (rev demo_scripts) = pack demo_archive ''d'' demo_scripts"
proof -
  obtain out sha where *: "pack demo_archive ''d'' demo_scripts = Inr (out, sha)"
    using demo_pack by blast
  have "mset demo_scripts = mset (rev demo_scripts)" "distinct (map we_rel demo_scripts)"
    by (simp_all add: demo_scripts_def)
  from pack_deterministic [OF this *] * show ?thesis by simp
qed

end
