(* ===== verification/Aws_Actuator.thy ===== *)
theory Aws_Actuator
  imports Aws_Client Bootstrap
begin

text \<open>
  \<^verbatim>\<open>internal/substrate/aws/actuator.go\<close>, \<^verbatim>\<open>s3publisher.go\<close> and \<^verbatim>\<open>bootstrapper.go\<close>: the actuator and the
  hybrid observer over the substrate client, and the two S3 payload writers. The client is the
  record \<open>substrate_client\<close> of the Go interface's methods; what the actuator relies on is the locale
  \<open>surfacing_client\<close>, interpreted on the client of \<open>Aws_Client\<close> for arbitrary replies of EC2.
\<close>

section \<open>The client interface\<close>

record substrate_client =
  cl_run :: "run_request \<Rightarrow> instance_view go_result"
  cl_start :: "string \<Rightarrow> instance_view go_result"
  cl_stop :: "string \<Rightarrow> bool \<Rightarrow> go_error option"
  cl_terminate :: "string \<Rightarrow> go_error option"
  cl_describe :: "(string \<times> string) list \<Rightarrow> instance_view list go_result"
  cl_tags :: "string \<Rightarrow> go_error + (string \<rightharpoonup> string)"

definition aws_client ::
  "ec2_instance list env \<Rightarrow> state_change list env \<Rightarrow> unit env \<Rightarrow> unit env \<Rightarrow>
   ec2_instance list list attempt_reply \<Rightarrow> (string option \<times> string option) list attempt_reply \<Rightarrow> substrate_client"
where
  "aws_client run start stop trm desc tags =
     \<lparr>cl_run = (\<lambda>req. fst (run_instance run req)), cl_start = (\<lambda>i. fst (start_instance start i)),
      cl_stop = (\<lambda>i h. fst (stop_instance stop i h)), cl_terminate = (\<lambda>i. fst (terminate_instance trm i)),
      cl_describe = (\<lambda>f. fst (describe_by_tag desc f)), cl_tags = (\<lambda>i. fst (describe_tags_by_id tags i))\<rparr>"

locale surfacing_client =
  fixes sc :: substrate_client
  assumes run_surfaces [port_laws]: "cl_run sc req = Some (Inl e) \<Longrightarrow> surfaced e"
    and start_surfaces [port_laws]: "cl_start sc i = Some (Inl e) \<Longrightarrow> surfaced e"
    and stop_surfaces [port_laws]: "cl_stop sc i h = Some e \<Longrightarrow> surfaced e"
    and terminate_surfaces [port_laws]: "cl_terminate sc i = Some e \<Longrightarrow> surfaced e"

lemma retry_error_surfaced:
  "call_with_retry inp env 0 0 0 = (Inl e, cs) \<Longrightarrow> surfaced e"
  using call_with_retry_spec [of 0 0 inp env 0 "Inl e" cs] by simp

lemma surfaced_terminal [simp]: "surfaced (FaultErr (mk_fault FaultTerminal code msg))"
  by (simp add: surfaced_def)

interpretation aws: surfacing_client "aws_client run start stop trm desc tags"
  for run start stop trm desc tags
proof
  show "cl_run (aws_client run start stop trm desc tags) req = Some (Inl e) \<Longrightarrow> surfaced e" for req e
    by (auto simp: aws_client_def run_instance_def split: prod.splits sum.splits if_splits
        dest: retry_error_surfaced)
  show "cl_start (aws_client run start stop trm desc tags) i = Some (Inl e) \<Longrightarrow> surfaced e" for i e
    by (auto simp: aws_client_def start_instance_def Let_def split: prod.splits sum.splits if_splits option.splits
        dest: retry_error_surfaced)
  show "cl_stop (aws_client run start stop trm desc tags) i h = Some e \<Longrightarrow> surfaced e" for i h e
    by (auto simp: aws_client_def stop_instance_def split: prod.splits sum.splits dest: retry_error_surfaced)
  show "cl_terminate (aws_client run start stop trm desc tags) i = Some e \<Longrightarrow> surfaced e" for i e
    by (auto simp: aws_client_def terminate_instance_def split: prod.splits sum.splits dest: retry_error_surfaced)
qed

section \<open>The actuator\<close>

record actuator_config =
  ac_cluster_name :: string
  ac_default_bootstrap_s3 :: string
  ac_region :: string
  ac_cross_account_role_arn :: string
  ac_instance_profile_arn :: string
  ac_mounts :: "mount list"
  ac_controller_host :: string

definition lifecycle_from_ec2_state :: "string \<Rightarrow> lifecycle_state" where
  "lifecycle_from_ec2_state st =
     (if st = ''pending'' then StateLaunching
      else if st = ''running'' then StateRunning
      else if st = ''stopped'' \<or> st = ''stopping'' then StateStopped
      else if st = ''shutting-down'' \<or> st = ''terminated'' then StateFailed
      else StateUnknown)"

definition after_last :: "char \<Rightarrow> string \<Rightarrow> string" where
  "after_last c s = rev (takeWhile (\<lambda>x. x \<noteq> c) (rev s))"

definition is_hex :: "string \<Rightarrow> bool" where
  "is_hex s = list_all (\<lambda>c. (48 \<le> (of_char c :: nat) \<and> (of_char c :: nat) \<le> 57) \<or>
                            (97 \<le> (of_char c :: nat) \<and> (of_char c :: nat) \<le> 102)) s"

definition sha256_from_key :: "string \<Rightarrow> go_error + string" where
  "sha256_from_key uri =
     (let base = after_last (CHR ''/'') uri;
          base = trim_suffix base ''.gz'';
          base = trim_suffix base ''.tar'';
          base = trim_suffix base ''.tgz''
      in if length base \<noteq> 64 \<or> \<not> is_hex base then
           Inl (ErrText (''bootstrap URI '' @ go_quote uri @ '' is not content-addressed '' @
             ''(expected s3://.../<sha256>.tar.gz); refusing to launch an unverifiable node''))
         else Inr base)"

definition base_tags :: "actuator_config \<Rightarrow> entity_intent \<Rightarrow> (string \<times> string) list" where
  "base_tags cfg m =
     [(''Name'', ac_cluster_name cfg @ ''-'' @ i_id m),
      (tag_cluster, ac_cluster_name cfg), (tag_entity, i_id m),
      (tag_generation, i_generation m), (tag_cohort, i_cohort m)]"

definition translate_fault_err :: "go_error \<Rightarrow> entity_id \<Rightarrow> go_error" where
  "translate_fault_err err i =
     (case as_fault_err err of Some f \<Rightarrow> ErrWrap (''entity '' @ i @ '': '') err | None \<Rightarrow> err)"

definition is_not_yet_visible :: "go_error \<Rightarrow> bool" where
  "is_not_yet_visible err =
     (case as_fault_err err of Some f \<Rightarrow> f_code f = ''EntityNotYetVisible'' | None \<Rightarrow> False)"

definition observation_from_instance :: "instance_view \<Rightarrow> entity_intent \<Rightarrow> time \<Rightarrow> observation" where
  "observation_from_instance inst m now =
     \<lparr>o_id = i_id m, o_generation = i_generation m, o_state = lifecycle_from_ec2_state (si_state inst),
      o_provider_id = si_provider_id inst, o_rung = i_rung m, o_address = si_private_addr inst,
      o_observed_at = now\<rparr>"

text \<open>The request \<^verbatim>\<open>Launch\<close> builds, or the error that keeps it from calling the provider.\<close>

definition launch_request :: "actuator_config \<Rightarrow> entity_intent \<Rightarrow> go_error + run_request" where
  "launch_request cfg m =
     (let req = \<lparr>rq_instance_type = r_instance_type (i_rung m), rq_avail_zone = r_avail_zone (i_rung m),
                 rq_subnet_id = '''', rq_security_group_ids = [], rq_ami = r_instance_type (i_rung m),
                 rq_spot = (r_capacity_model (i_rung m) = CapacitySpot),
                 rq_idempotency_token = i_token m, rq_tags = base_tags cfg m,
                 rq_iam_instance_arn = ac_instance_profile_arn cfg, rq_efa = False,
                 rq_placement_group = '''', rq_user_data = ''''\<rparr>
      in if ac_default_bootstrap_s3 cfg \<noteq> '''' then
           (let req = req\<lparr>rq_tags := rq_tags req @ [(tag_bootstrap_s3, ac_default_bootstrap_s3 cfg)]\<rparr>
            in (case sha256_from_key (ac_default_bootstrap_s3 cfg) of
                  Inl err \<Rightarrow> Inl (ErrWrap (''entity '' @ i_id m @ '': '') err)
                | Inr sha \<Rightarrow>
                    (case shim \<lparr>sp_s3_uri = ac_default_bootstrap_s3 cfg, sp_sha256 = sha,
                                sp_region = ac_region cfg, sp_log_path = '''', sp_mounts = ac_mounts cfg,
                                sp_controller_host = ac_controller_host cfg\<rparr> of
                       Inl err \<Rightarrow> Inl (ErrWrap (''entity '' @ i_id m @ '': '') err)
                     | Inr s \<Rightarrow> Inr (req\<lparr>rq_user_data := s\<rparr>))))
         else Inr req)"

definition launch :: "substrate_client \<Rightarrow> actuator_config \<Rightarrow> time \<Rightarrow> entity_intent \<Rightarrow> observation go_result" where
  "launch sc cfg now m =
     (case launch_request cfg m of
        Inl err \<Rightarrow> Some (Inl err)
      | Inr req \<Rightarrow>
          (case cl_run sc req of
             None \<Rightarrow> None
           | Some (Inl err) \<Rightarrow> Some (Inl (translate_fault_err err (i_id m)))
           | Some (Inr inst) \<Rightarrow> Some (Inr (observation_from_instance inst m now))))"

definition entity_filter :: "actuator_config \<Rightarrow> entity_id \<Rightarrow> (string \<times> string) list" where
  "entity_filter cfg i = [(tag_cluster, ac_cluster_name cfg), (tag_entity, i)]"

definition resolve_provider_id :: "substrate_client \<Rightarrow> actuator_config \<Rightarrow> entity_id \<Rightarrow> string go_result" where
  "resolve_provider_id sc cfg i =
     (case cl_describe sc (entity_filter cfg i) of
        None \<Rightarrow> None
      | Some (Inl err) \<Rightarrow> Some (Inl err)
      | Some (Inr instances) \<Rightarrow>
          (if length instances = 0 then
             Some (Inl (FaultErr \<lparr>f_class = FaultRetryableConsistency, f_code = ''EntityNotYetVisible'',
               f_retryable = True,
               f_message = ''entity '' @ i @ '' not visible via DescribeByTag (consistency lag)''\<rparr>))
           else Some (Inr (si_provider_id (instances ! 0)))))"

definition start :: "substrate_client \<Rightarrow> actuator_config \<Rightarrow> time \<Rightarrow> entity_id \<Rightarrow> observation go_result" where
  "start sc cfg now i =
     (case resolve_provider_id sc cfg i of
        None \<Rightarrow> None
      | Some (Inl err) \<Rightarrow> Some (Inl err)
      | Some (Inr pid) \<Rightarrow>
          (case cl_start sc pid of
             None \<Rightarrow> None
           | Some (Inl err) \<Rightarrow> Some (Inl (translate_fault_err err i))
           | Some (Inr inst) \<Rightarrow>
               Some (Inr (zero_observation\<lparr>o_id := i, o_provider_id := si_provider_id inst,
                            o_state := lifecycle_from_ec2_state (si_state inst),
                            o_address := si_private_addr inst, o_observed_at := now\<rparr>))))"

definition stop :: "substrate_client \<Rightarrow> actuator_config \<Rightarrow> entity_id \<Rightarrow> stop_mode \<Rightarrow> go_error option option" where
  "stop sc cfg i mode =
     (case resolve_provider_id sc cfg i of
        None \<Rightarrow> None
      | Some (Inl err) \<Rightarrow> Some (Some err)
      | Some (Inr pid) \<Rightarrow>
          (case cl_stop sc pid (mode = StopHibernate) of
             Some err \<Rightarrow> Some (Some (translate_fault_err err i))
           | None \<Rightarrow> Some None))"

definition terminate :: "substrate_client \<Rightarrow> actuator_config \<Rightarrow> entity_id \<Rightarrow> go_error option option" where
  "terminate sc cfg i =
     (case resolve_provider_id sc cfg i of
        None \<Rightarrow> None
      | Some (Inl err) \<Rightarrow> (if is_not_yet_visible err then Some None else Some (Some err))
      | Some (Inr pid) \<Rightarrow>
          (case cl_terminate sc pid of
             Some err \<Rightarrow> Some (Some (translate_fault_err err i))
           | None \<Rightarrow> Some None))"

section \<open>The observer\<close>

definition observe_one :: "substrate_client \<Rightarrow> actuator_config \<Rightarrow> time \<Rightarrow> entity_id \<Rightarrow> observation go_result" where
  "observe_one sc cfg now i =
     (case cl_describe sc (entity_filter cfg i) of
        None \<Rightarrow> None
      | Some (Inl err) \<Rightarrow> Some (Inl err)
      | Some (Inr instances) \<Rightarrow>
          (if length instances = 0 then
             Some (Inr (zero_observation\<lparr>o_id := i, o_state := StateUnknown, o_observed_at := now\<rparr>))
           else (let inst = instances ! 0
                 in Some (Inr (zero_observation\<lparr>o_id := i, o_provider_id := si_provider_id inst,
                      o_state := lifecycle_from_ec2_state (si_state inst),
                      o_rung := zero_rung\<lparr>r_instance_type := si_instance_type inst,
                                          r_avail_zone := si_avail_zone inst\<rparr>,
                      o_address := si_private_addr inst, o_observed_at := now\<rparr>)))))"

fun observe :: "substrate_client \<Rightarrow> actuator_config \<Rightarrow> time \<Rightarrow> entity_id list \<Rightarrow> observation list go_result" where
  "observe sc cfg now [] = Some (Inr [])"
| "observe sc cfg now (i # is) =
     (case observe_one sc cfg now i of
        None \<Rightarrow> None
      | Some (Inl err) \<Rightarrow> Some (Inl err)
      | Some (Inr ob) \<Rightarrow>
          (case observe sc cfg now is of
             Some (Inr obs) \<Rightarrow> Some (Inr (ob # obs))
           | r \<Rightarrow> r))"

definition describe_cluster :: "substrate_client \<Rightarrow> string \<Rightarrow> instance_view list go_result" where
  "describe_cluster sc cluster = cl_describe sc [(tag_cluster, cluster)]"

text \<open>\<^verbatim>\<open>strconv.ParseBool\<close>, its error read as false.\<close>

definition parse_bool :: "string \<Rightarrow> bool" where
  "parse_bool s \<longleftrightarrow> s \<in> {''1'', ''t'', ''T'', ''TRUE'', ''true'', ''True''}"

definition map_get :: "(string \<rightharpoonup> string) \<Rightarrow> string \<Rightarrow> string" where
  "map_get m k = (case m k of Some v \<Rightarrow> v | None \<Rightarrow> '''')"

definition zero_readiness :: readiness where
  "zero_readiness = \<lparr>rd_enrolled = False, rd_operational = False, rd_detail = ''''\<rparr>"

definition read_readiness :: "substrate_client \<Rightarrow> actuator_config \<Rightarrow> entity_id \<Rightarrow> readiness option" where
  "read_readiness sc cfg i =
     (case cl_describe sc (entity_filter cfg i) of
        None \<Rightarrow> None
      | Some (Inl err) \<Rightarrow> Some zero_readiness
      | Some (Inr instances) \<Rightarrow>
          (if length instances = 0 then Some zero_readiness
           else (case cl_tags sc (si_provider_id (instances ! 0)) of
                   Inl err \<Rightarrow> Some zero_readiness
                 | Inr raw \<Rightarrow>
                     (let ready = parse_bool (map_get raw tag_ready);
                          healthy = equal_fold (map_get raw tag_phase) phase_enrolled
                      in Some \<lparr>rd_enrolled = (ready \<and> healthy), rd_operational = healthy,
                               rd_detail = map_get raw tag_detail\<rparr>))))"

section \<open>The S3 payload writers\<close>

record put_object =
  po_bucket :: string
  po_key :: string
  po_body :: string
  po_content_type :: string

definition publish :: "(put_object \<Rightarrow> go_error option) \<Rightarrow> string \<Rightarrow> string \<Rightarrow> string \<Rightarrow> go_error option \<times> put_object list" where
  "publish s3_put bucket key data =
     (if bucket = '''' then
        (Some (ErrText (''s3publisher: empty bucket '' @ em_dash @ '' manifest publishing not configured'')), [])
      else (let obj = \<lparr>po_bucket = bucket, po_key = key, po_body = data, po_content_type = ''application/json''\<rparr>
            in (case s3_put obj of
                  Some err \<Rightarrow> (Some (ErrWrap (''s3publisher: put '' @ bucket @ ''/'' @ key @ '': '') err), [obj])
                | None \<Rightarrow> (None, [obj]))))"

definition head :: "(string \<Rightarrow> string \<Rightarrow> go_error option) \<Rightarrow> string \<Rightarrow> string \<Rightarrow> go_error + bool" where
  "head s3_head bucket key =
     (case s3_head bucket key of
        None \<Rightarrow> Inr True
      | Some err \<Rightarrow>
          (if is_sentinel S3NotFound err then Inr False
           else Inl (ErrWrap (''bootstrapper: head '' @ bucket @ ''/'' @ key @ '': '') err)))"

definition put_script_set ::
  "(string \<Rightarrow> string \<Rightarrow> go_error option) \<Rightarrow> (put_object \<Rightarrow> go_error option) \<Rightarrow> string \<Rightarrow> string \<Rightarrow> string \<Rightarrow>
   (go_error + (string \<times> bool)) \<times> put_object list"
where
  "put_script_set s3_head s3_put bucket sha data =
     (if bucket = '''' then
        (Inl (ErrText (''bootstrapper: empty bucket '' @ em_dash @ '' set Q0_SCRIPTS_BUCKET or --bucket'')), [])
      else (let key = script_key sha; uri = ''s3://'' @ bucket @ ''/'' @ key
            in (case head s3_head bucket key of
                  Inl err \<Rightarrow> (Inl err, [])
                | Inr exists \<Rightarrow>
                    (if exists then (Inr (uri, True), [])
                     else (let obj = \<lparr>po_bucket = bucket, po_key = key, po_body = data,
                                      po_content_type = ''application/gzip''\<rparr>
                           in (case s3_put obj of
                                 Some err \<Rightarrow>
                                   (Inl (ErrWrap (''bootstrapper: put '' @ bucket @ ''/'' @ key @ '': '') err), [obj])
                               | None \<Rightarrow> (Inr (uri, False), [obj])))))))"

end
