(* ===== verification/Provider_Properties.thy ===== *)
theory Provider_Properties
  imports Entity_Properties Aws_Actuator
begin

text \<open>
  The AWS provider under the reconciler: what its requests carry, what its errors become when the
  reconciler classifies them again, what the observer can report, and the content-addressed path
  of a script-set from its upload to the node.
\<close>

section \<open>Errors on their way to the reconciler\<close>

text \<open>A fault that the client surfaces and the actuator wraps is unknown to the classifier.\<close>

lemma wrapped_fault_unknown:
  "surfaced e \<Longrightarrow> f_class (classify_err (translate_fault_err e i)) = FaultTerminal \<and>
     f_code (classify_err (translate_fault_err e i)) = ''UnknownError''"
  by (auto simp: surfaced_def translate_fault_err_def classify_err_def is_typed_transport_error_def)

lemma shim_error_text: "shim p = Inl err \<Longrightarrow> \<exists>s. err = ErrText s"
  by (auto simp: shim_def Let_def split: if_splits)

lemma key_error_text: "sha256_from_key uri = Inl err \<Longrightarrow> \<exists>s. err = ErrText s"
  by (auto simp: sha256_from_key_def Let_def split: if_splits)

lemma launch_request_error:
  "launch_request cfg m = Inl err \<Longrightarrow> \<exists>s t. err = ErrWrap s (ErrText t)"
  by (auto simp: launch_request_def Let_def split: if_splits sum.splits dest: shim_error_text key_error_text)

context surfacing_client
begin

lemma launch_error_unknown:
  assumes "launch sc cfg now m = Some (Inl err)"
  shows "f_class (classify_err err) = FaultTerminal \<and> f_code (classify_err err) = ''UnknownError''"
proof (cases "launch_request cfg m")
  case (Inl e)
  then obtain s t where "err = ErrWrap s (ErrText t)"
    using assms launch_request_error [OF Inl] by (auto simp: launch_def)
  then show ?thesis by (simp add: classify_err_def is_typed_transport_error_def)
next
  case (Inr req)
  then obtain e where "cl_run sc req = Some (Inl e)" "err = translate_fault_err e (i_id m)"
    using assms by (auto simp: launch_def split: option.splits sum.splits)
  with wrapped_fault_unknown [OF run_surfaces] show ?thesis by simp
qed

end

text \<open>
  With the AWS provider the fallback chain is never used: whatever EC2 answered (capacity
  exhausted and consistency faults included), the error of \<^verbatim>\<open>Launch\<close> is classified as
  terminal \<^verbatim>\<open>UnknownError\<close> when the reconciler applies the classifier to the wrapped fault, so the
  entity stops at its first rung.
\<close>

theorem aws_launch_failure_is_final:
  assumes "e_pc e = PcLaunch n" "phase_ctx c (e_deadline e) (ev_at ev) = None"
    and "\<not> r_warm_start (i_rung (t_intent (e_tr e)))" "port_classify P = classify_err"
    and "launch (aws_client run sta sto trm desc tags) cfg now (t_intent (e_tr e)) = Some (Inl err)"
    and "ev_launch ev = Inl err"
  shows "e_pc (fst (entity_iter P b c ev e)) = PcReturned \<and>
    map_option f_code (t_terminal (e_tr (fst (entity_iter P b c ev e)))) = Some ''UnknownError'' \<and>
    t_intent (e_tr (fst (entity_iter P b c ev e))) = t_intent (e_tr e)"
proof -
  have cl: "f_class (classify_err err) = FaultTerminal \<and> f_code (classify_err err) = ''UnknownError''"
    by (rule aws.launch_error_unknown [OF assms(5)])
  have "fails_as P c (e_deadline e) FaultTerminal ev" "reply_fault P ev = classify_err err"
    using assms(2,4,6) cl by (simp_all add: fails_as_def reply_fault_def)
  with failing_pass [OF assms(1) this(1)] cl show ?thesis
    by (simp add: launch_fault_def Let_def) (simp add: set_terminal_def)
qed

definition demo_ice :: "ec2_instance list env" where
  "demo_ice k = \<lparr>at_acquire = None, at_reply = Inl (ApiErr ''InsufficientInstanceCapacity'' ''no capacity''),
     at_ctx = None, at_rand = 0\<rparr>"

definition demo_desc :: "ec2_instance list list attempt_reply" where
  "demo_desc = \<lparr>at_acquire = None, at_reply = Inr [], at_ctx = None, at_rand = 0\<rparr>"

definition demo_tags :: "(string option \<times> string option) list attempt_reply" where
  "demo_tags = \<lparr>at_acquire = None, at_reply = Inr [], at_ctx = None, at_rand = 0\<rparr>"

definition demo_aws :: substrate_client where
  "demo_aws = aws_client demo_ice (\<lambda>_. undefined) (\<lambda>_. demo_lost) (\<lambda>_. demo_lost) demo_desc demo_tags"

definition demo_config :: actuator_config where
  "demo_config = \<lparr>ac_cluster_name = ''c1'', ac_default_bootstrap_s3 = '''', ac_region = ''us-east-1'',
     ac_cross_account_role_arn = '''', ac_instance_profile_arn = '''', ac_mounts = [], ac_controller_host = ''''\<rparr>"

definition demo_ice_error :: go_error where
  "demo_ice_error = ErrWrap ''entity n0: '' (FaultErr \<lparr>f_class = FaultCapacityExhausted,
     f_code = ''InsufficientInstanceCapacity'', f_retryable = False, f_message = ''no capacity''\<rparr>)"

lemma demo_ice_launch:
  "launch demo_aws demo_config 0 (demo_intent ''n0'' [demo_rung ''a'', demo_rung ''b'']) = Some (Inl demo_ice_error)"
  by (simp add: launch_def launch_request_def demo_config_def demo_aws_def aws_client_def run_instance_def
      call_with_retry.simps run_attempt_def demo_ice_def classify_err_def is_typed_transport_error_def
      aws_fault_table_def Let_def translate_fault_err_def demo_intent_def demo_ice_error_def)

lemma aws_launch_failure_is_final_witness:
  "map_option f_code (t_terminal (e_tr (fst (entity_iter (demo_ports\<lparr>port_classify := classify_err\<rparr>) default_budget None
     ((demo_event 1 ''n0'')\<lparr>ev_launch := Inl demo_ice_error\<rparr>)
     (entity_start default_budget 0 (demo_entity [demo_rung ''a'', demo_rung ''b''])))))) = Some ''UnknownError''"
proof -
  let ?e = "entity_start default_budget 0 (demo_entity [demo_rung ''a'', demo_rung ''b''])"
  have e: "e_pc ?e = PcLaunch 0" "t_intent (e_tr ?e) = demo_intent ''n0'' [demo_rung ''a'', demo_rung ''b'']"
    "e_deadline ?e = 15 * second"
    by (simp_all add: entity_start_def demo_entity_def new_tracker_def default_budget_def)
  from aws_launch_failure_is_final [of ?e 0 None "(demo_event 1 ''n0'')\<lparr>ev_launch := Inl demo_ice_error\<rparr>"
      "demo_ports\<lparr>port_classify := classify_err\<rparr>" demo_ice "\<lambda>_. undefined" "\<lambda>_. demo_lost" "\<lambda>_. demo_lost"
      demo_desc demo_tags demo_config 0 demo_ice_error default_budget]
    demo_ice_launch e
  show ?thesis
    by (simp add: demo_aws_def phase_ctx_def demo_event_def duration_units demo_intent_def demo_rung_def)
qed

text \<open>
  A cancellation during a provider call makes a healthy entity terminal: when the limiter
  returns the context's cancellation to the observer's read, the classifier calls it
  terminal and the entity fails with \<^verbatim>\<open>ContextCanceled\<close>, although the policy of
  \<^verbatim>\<open>reconcileEntity\<close> leaves a cancelled entity non-terminal.
\<close>

theorem cancel_during_observe_is_terminal:
  assumes "e_pc e = PcRunning n" "phase_ctx c (e_deadline e) (ev_at ev) = None"
    and "port_classify P = classify_err" "at_acquire desc = Some (CtxErr CtxCanceled)"
    and "observe (aws_client run sta sto trm desc tags) cfg now [i_id (t_intent (e_tr e))] = Some (ev_observe ev)"
  shows "e_pc (fst (entity_iter P b c ev e)) = PcReturned \<and>
    map_option f_code (t_terminal (e_tr (fst (entity_iter P b c ev e)))) = Some ''ContextCanceled''"
proof -
  have "ev_observe ev = Inl (CtxErr CtxCanceled)"
    using assms(4,5) by (simp add: observe_one_def aws_client_def describe_by_tag_def Let_def)
  then show ?thesis
    using assms(1-3)
    by (simp add: entity_iter_def wait_running_iter_def classify_err_def Let_def) (simp add: set_terminal_def)
qed

lemma cancel_during_observe_is_terminal_witness:
  "map_option f_code (t_terminal (e_tr (fst (entity_iter (demo_ports\<lparr>port_classify := classify_err\<rparr>) default_budget None
     ((demo_event 1 ''n0'')\<lparr>ev_observe := Inl (CtxErr CtxCanceled)\<rparr>)
     ((demo_entity [demo_rung ''a''])\<lparr>e_pc := PcRunning 0, e_deadline := 9\<rparr>))))) = Some ''ContextCanceled''"
proof -
  let ?e = "(demo_entity [demo_rung ''a''])\<lparr>e_pc := PcRunning 0, e_deadline := 9\<rparr>"
  let ?ev = "(demo_event 1 ''n0'')\<lparr>ev_observe := Inl (CtxErr CtxCanceled)\<rparr>"
  let ?desc = "demo_desc\<lparr>at_acquire := Some (CtxErr CtxCanceled)\<rparr>"
  have "observe (aws_client demo_ice (\<lambda>_. undefined) (\<lambda>_. demo_lost) (\<lambda>_. demo_lost) ?desc demo_tags) demo_config 0
      [i_id (t_intent (e_tr ?e))] = Some (ev_observe ?ev)"
    by (simp add: observe_one_def aws_client_def describe_by_tag_def Let_def)
  from cancel_during_observe_is_terminal [OF _ _ _ _ this, of 0 None "demo_ports\<lparr>port_classify := classify_err\<rparr>" default_budget]
  show ?thesis by (simp add: phase_ctx_def demo_event_def)
qed

section \<open>Requests and observations\<close>

text \<open>
  Every launch names one entity: the request to EC2 asks for exactly one instance under
  the intent's idempotency token, on its rung, with the cluster, entity, generation and cohort tags
  the observer filters on. Its image id is the instance type, as nothing ever looks an image up.
\<close>

theorem launch_names_one_entity:
  assumes "launch_request cfg m = Inr req"
  shows "let inp = run_request_to_ec2 req
         in in_min_count inp = 1 \<and> in_max_count inp = 1 \<and> in_client_token inp = Some (i_token m) \<and>
            in_instance_type inp = r_instance_type (i_rung m) \<and>
            in_spot inp = (r_capacity_model (i_rung m) = CapacitySpot) \<and>
            (\<forall>kv\<in>set (entity_filter cfg (i_id m)). (Some (fst kv), Some (snd kv)) \<in> set (in_tags inp)) \<and>
            (Some tag_generation, Some (i_generation m)) \<in> set (in_tags inp) \<and>
            in_image_id inp = Some (r_instance_type (i_rung m))"
proof -
  have req: "rq_idempotency_token req = i_token m" "rq_instance_type req = r_instance_type (i_rung m)"
    "rq_ami req = r_instance_type (i_rung m)" "rq_spot req = (r_capacity_model (i_rung m) = CapacitySpot)"
    "set (base_tags cfg m) \<subseteq> set (rq_tags req)"
    using assms by (auto simp: launch_request_def Let_def split: if_splits sum.splits)
  then have "\<forall>kv\<in>set (base_tags cfg m). (Some (fst kv), Some (snd kv)) \<in> set (map_to_ec2_tags (rq_tags req))"
    by (fastforce simp: map_to_ec2_tags_def)
  with req show ?thesis
    by (simp add: run_request_to_ec2_def Let_def entity_filter_def base_tags_def)
qed

lemma launch_names_one_entity_witness:
  "\<exists>req. launch_request demo_config (demo_intent ''n0'' [demo_rung ''a'']) = Inr req \<and>
     in_client_token (run_request_to_ec2 req) = Some ''tok''"
proof -
  obtain req where r: "launch_request demo_config (demo_intent ''n0'' [demo_rung ''a'']) = Inr req"
    by (simp add: launch_request_def demo_config_def Let_def)
  from launch_names_one_entity [OF r] r show ?thesis by (auto simp: Let_def demo_intent_def)
qed

text \<open>
  The observer never reports absence: an entity without a described instance is
  \<^verbatim>\<open>StateUnknown\<close>, an entity with instances is judged by the first one listed alone, and no EC2
  state maps to absent, hibernated or draining. A dead instance listed first therefore hides a
  running one.
\<close>

theorem observer_judges_first_instance:
  assumes "cl_describe sc (entity_filter cfg i) = Some (Inr insts)" "observe_one sc cfg now i = Some (Inr ob)"
  shows "o_state ob = (case insts of [] \<Rightarrow> StateUnknown | inst # _ \<Rightarrow> lifecycle_from_ec2_state (si_state inst)) \<and>
    o_state ob \<notin> {StateAbsent, StateHibernated, StateDraining}"
proof -
  have range: "lifecycle_from_ec2_state st \<notin> {StateAbsent, StateHibernated, StateDraining}" for st
    by (simp add: lifecycle_from_ec2_state_def)
  show ?thesis
    using assms range by (cases insts) (auto simp: observe_one_def Let_def)
qed

lemma observer_judges_first_instance_witness:
  "\<exists>ob. observe_one (demo_aws\<lparr>cl_describe := (\<lambda>_. Some (Inr
      [zero_instance\<lparr>si_state := ''terminated''\<rparr>, zero_instance\<lparr>si_state := ''running''\<rparr>]))\<rparr>) demo_config 0 ''n0''
     = Some (Inr ob) \<and> o_state ob = StateFailed"
proof -
  let ?sc = "demo_aws\<lparr>cl_describe := (\<lambda>_. Some (Inr
      [zero_instance\<lparr>si_state := ''terminated''\<rparr>, zero_instance\<lparr>si_state := ''running''\<rparr>]))\<rparr>"
  obtain ob where ob: "observe_one ?sc demo_config 0 ''n0'' = Some (Inr ob)"
    by (simp add: observe_one_def Let_def)
  with observer_judges_first_instance [OF _ ob] show ?thesis by (simp add: lifecycle_from_ec2_state_def)
qed

section \<open>Content addresses\<close>

lemma after_last_sep: "c \<notin> set s \<Longrightarrow> after_last c (p @ c # s) = s"
proof -
  assume "c \<notin> set s"
  then have "takeWhile (\<lambda>x. x \<noteq> c) (rev s @ c # rev p) = rev s"
    by (subst takeWhile_append2) auto
  then show ?thesis by (simp add: after_last_def)
qed

lemma hex_no_suffix:
  assumes "is_hex h" "t \<noteq> []" "last t \<notin> {CHR ''0''..CHR ''9''} \<union> {CHR ''a''..CHR ''f''}"
  shows "trim_suffix h t = h"
proof -
  have "\<not> has_suffix h t"
  proof
    assume "has_suffix h t"
    then have "h = take (length h - length t) h @ t" by (metis append_take_drop_id has_suffix_def)
    then have "last t \<in> set h" using assms(2) by (metis Un_iff last_in_set set_append)
    with assms(1,3) show False by (auto simp: is_hex_def list_all_iff less_eq_char_def)
  qed
  then show ?thesis by (simp add: trim_suffix_def)
qed

lemma sha256_from_script_key:
  assumes "is_hex h" "length h = 64"
  shows "sha256_from_key (''s3://'' @ bucket @ ''/'' @ script_key h) = Inr h"
proof -
  have "(CHR ''/'') \<notin> set (h @ ''.tar.gz'')"
    using assms(1) by (auto simp: is_hex_def list_all_iff)
  from after_last_sep [OF this, of "''s3://'' @ bucket @ ''/scripts''"]
  have base: "after_last (CHR ''/'') (''s3://'' @ bucket @ ''/'' @ script_key h) = h @ ''.tar.gz''"
    by (simp add: script_key_def)
  have gz: "trim_suffix (h @ ''.tar.gz'') ''.gz'' = h @ ''.tar''"
    using trim_suffix_append [of "h @ ''.tar''" "''.gz''"] by simp
  have tar: "trim_suffix (h @ ''.tar'') ''.tar'' = h"
    using trim_suffix_append [of h "''.tar''"] by simp
  have tgz: "trim_suffix h ''.tgz'' = h"
    by (rule hex_no_suffix [OF assms(1)]) (auto simp: less_eq_char_def)
  show ?thesis unfolding sha256_from_key_def base Let_def gz tar tgz using assms by simp
qed

text \<open>
  C32. The content address reaches the node: the URI under which a script-set of digest \<open>h\<close> is
  uploaded is parsed back to \<open>h\<close> by the launch path, and the userdata of every launch configured
  with it checks the download against \<open>h\<close> before it unpacks.
\<close>

theorem uploaded_digest_pinned_on_node:
  assumes "is_hex h" "length h = 64" "put_script_set s3_head s3_put bucket h data = (Inr (uri, skipped), puts)"
    and "ac_default_bootstrap_s3 cfg = uri" "launch_request cfg m = Inr req"
  shows "sha256_from_key uri = Inr h \<and>
    (\<exists>pre post. rq_user_data req =
       pre @ ''echo '' @ quoted (h @ ''  /tmp/q0-bootstrap.tar.gz'') @ '' | sha256sum -c -'' @ nl @ nl @ shim_unpack @ post)"
proof -
  have uri: "uri = ''s3://'' @ bucket @ ''/'' @ script_key h"
    using assms(3) by (auto simp: put_script_set_def Let_def split: if_splits sum.splits option.splits)
  have key: "sha256_from_key uri = Inr h" unfolding uri by (rule sha256_from_script_key [OF assms(1,2)])
  let ?p = "\<lparr>sp_s3_uri = uri, sp_sha256 = h, sp_region = ac_region cfg, sp_log_path = '''',
     sp_mounts = ac_mounts cfg, sp_controller_host = ac_controller_host cfg\<rparr>"
  have "shim ?p = Inr (rq_user_data req)"
    using assms(4,5) key uri by (auto simp: launch_request_def Let_def split: sum.splits)
  then have "rq_user_data req = shim_template (?p\<lparr>sp_log_path := default_log_path\<rparr>)"
    by (auto simp: shim_def Let_def split: if_splits)
  then have "rq_user_data req = shim_fetch (?p\<lparr>sp_log_path := default_log_path\<rparr>) @
      ''echo '' @ quoted (h @ ''  /tmp/q0-bootstrap.tar.gz'') @ '' | sha256sum -c -'' @ nl @ nl @ shim_unpack @
      shim_config (?p\<lparr>sp_log_path := default_log_path\<rparr>) @ shim_exec"
    by (simp add: shim_template_def shim_verify_def)
  with key show ?thesis by blast
qed

definition demo_digest :: string where "demo_digest = replicate 64 (CHR ''a'')"

lemma uploaded_digest_pinned_on_node_witness:
  "sha256_from_key (''s3://b/'' @ script_key demo_digest) = Inr demo_digest"
proof -
  let ?uri = "''s3://b/'' @ script_key demo_digest"
  let ?cfg = "demo_config\<lparr>ac_default_bootstrap_s3 := ?uri\<rparr>"
  have h: "is_hex demo_digest" "length demo_digest = 64" by (simp_all add: demo_digest_def is_hex_def list_all_iff)
  have put: "put_script_set (\<lambda>_ _. None) (\<lambda>_. None) ''b'' demo_digest ''x'' = (Inr (?uri, True), [])"
    by (simp add: put_script_set_def head_def Let_def)
  have key: "sha256_from_key ?uri = Inr demo_digest"
    using sha256_from_script_key [OF h, of "''b''"] by simp
  have "\<exists>req. launch_request ?cfg (demo_intent ''n0'' [demo_rung ''a'']) = Inr req"
    using key h
    by (simp add: launch_request_def demo_config_def Let_def shim_def shim_template_def shim_fetch_def shim_verify_def shim_unpack_def
      shim_config_def mounts_content_def shim_exec_def format_mount_spec_def default_log_path_def max_user_data_bytes_def
      quoted_def nl_def em_dash_def sect_sign_def script_key_def demo_digest_def)
  then obtain req where "launch_request ?cfg (demo_intent ''n0'' [demo_rung ''a'']) = Inr req" by blast
  from uploaded_digest_pinned_on_node [OF h put _ this] show ?thesis by (simp add: demo_config_def)
qed

end
