(* ===== verification/Rate_Limit.thy ===== *)
theory Rate_Limit
  imports Cohort_State
begin

text \<open>
  \<^verbatim>\<open>internal/substrate/ratelimit.go\<close>: the account-shared token bucket. Its operations take the
  time their clock call returns. Rates and tokens are exact rationals where the code has floats.
  The interface that the clients of a limiter rely on is a locale, interpreted on the bucket.
\<close>

section \<open>The interface\<close>

text \<open>
  A limiter with its time-indexed operations: \<open>try_take\<close> returns the time to wait (0 when a permit
  was granted), \<open>back_off\<close> starts a pause. \<open>paused_until\<close> is the end of the pause in force.
\<close>

locale rate_limiter =
  fixes good :: "'l \<Rightarrow> bool"
    and try_take :: "time \<Rightarrow> 'l \<Rightarrow> duration \<times> 'l"
    and back_off :: "duration \<Rightarrow> time \<Rightarrow> 'l \<Rightarrow> 'l"
    and paused_until :: "'l \<Rightarrow> time"
  assumes good_take [port_laws]: "good l \<Longrightarrow> good (snd (try_take now l))"
    and good_back_off [port_laws]: "good l \<Longrightarrow> good (back_off d now l)"
    and take_keeps_pause [port_laws]: "good l \<Longrightarrow> paused_until (snd (try_take now l)) = paused_until l"
    and back_off_pauses [port_laws]: "good l \<Longrightarrow> now + d \<le> paused_until (back_off d now l)"
    and back_off_extends [port_laws]: "good l \<Longrightarrow> paused_until l \<le> paused_until (back_off d now l)"
    and paused_refuses [port_laws]: "good l \<Longrightarrow> now < paused_until l \<Longrightarrow> 0 < fst (try_take now l)"
begin

text \<open>The operations of any number of callers, in the order they reach the limiter's mutex.\<close>

fun run :: "(duration option \<times> time) list \<Rightarrow> 'l \<Rightarrow> bool list \<times> 'l" where
  "run [] l = ([], l)"
| "run ((Some d, now) # ops) l = run ops (back_off d now l)"
| "run ((None, now) # ops) l =
     (case try_take now l of (w, l1) \<Rightarrow> (case run ops l1 of (gs, l2) \<Rightarrow> ((w = 0) # gs, l2)))"

lemma run_pause:
  "good l \<Longrightarrow> good (snd (run ops l)) \<and> paused_until l \<le> paused_until (snd (run ops l))"
proof (induction ops l rule: run.induct)
  case (2 d now ops l)
  then show ?case using back_off_extends [of l d now] good_back_off [of l d now] by auto
next
  case (3 now ops l)
  then show ?case
    using take_keeps_pause [of l now] good_take [of l now] by (auto split: prod.splits)
qed simp

text \<open>No permit is granted to anyone before a pause ends, whoever asked for the pause.\<close>

lemma run_paused:
  "good l \<Longrightarrow> \<forall>op\<in>set ops. snd op < paused_until l \<Longrightarrow> True \<notin> set (fst (run ops l))"
proof (induction ops l rule: run.induct)
  case (2 d now ops l)
  then show ?case
    using back_off_extends [of l d now] good_back_off [of l d now] by (fastforce simp: less_le_trans)
next
  case (3 now ops l)
  then show ?case
    using take_keeps_pause [of l now] good_take [of l now] paused_refuses [of l now]
    by (auto split: prod.splits)
qed simp

lemma pause_binds_all:
  assumes "good l" "\<forall>op\<in>set ops. snd op < now + d"
  shows "True \<notin> set (fst (run ops (back_off d now l)))"
  using assms back_off_pauses [OF assms(1), of now d] good_back_off [OF assms(1)]
  by (intro run_paused) (auto intro: less_le_trans)

end

section \<open>The bucket\<close>

record limiter_config =
  lc_base_rate :: rat
  lc_min_rate_fraction :: rat
  lc_max_burst :: rat
  lc_recovery_cooldown :: duration
  lc_recovery_step :: rat
  lc_recovery_interval :: duration

record limiter =
  l_tokens :: rat
  l_max_tokens :: rat
  l_rate :: rat
  l_base_rate :: rat
  l_min_rate :: rat
  l_pause_until :: time
  l_last_backoff_end :: time
  l_recovery_cooldown :: duration
  l_recovery_step :: rat
  l_recovery_interval :: duration
  l_last_refill :: time

definition limiter_defaults :: "limiter_config \<Rightarrow> limiter_config" where
  "limiter_defaults cfg =
     (let cfg = (if lc_base_rate cfg \<le> 0 then cfg\<lparr>lc_base_rate := 20\<rparr> else cfg);
          cfg = (if lc_min_rate_fraction cfg \<le> 0 then cfg\<lparr>lc_min_rate_fraction := 1 / 10\<rparr> else cfg);
          cfg = (if lc_max_burst cfg \<le> 0 then cfg\<lparr>lc_max_burst := lc_base_rate cfg\<rparr> else cfg);
          cfg = (if lc_recovery_cooldown cfg \<le> 0 then cfg\<lparr>lc_recovery_cooldown := 5 * second\<rparr> else cfg);
          cfg = (if lc_recovery_step cfg \<le> 0 then cfg\<lparr>lc_recovery_step := 1\<rparr> else cfg);
          cfg = (if lc_recovery_interval cfg \<le> 0 then cfg\<lparr>lc_recovery_interval := 2 * second\<rparr> else cfg)
      in cfg)"

definition new_limiter :: "limiter_config \<Rightarrow> time \<Rightarrow> limiter" where
  "new_limiter cfg now =
     (let cfg = limiter_defaults cfg
      in \<lparr>l_tokens = lc_max_burst cfg, l_max_tokens = lc_max_burst cfg, l_rate = lc_base_rate cfg,
          l_base_rate = lc_base_rate cfg, l_min_rate = lc_base_rate cfg * lc_min_rate_fraction cfg,
          l_pause_until = 0, l_last_backoff_end = 0, l_recovery_cooldown = lc_recovery_cooldown cfg,
          l_recovery_step = lc_recovery_step cfg, l_recovery_interval = lc_recovery_interval cfg,
          l_last_refill = now\<rparr>)"

definition backoff :: "duration \<Rightarrow> time \<Rightarrow> limiter \<Rightarrow> limiter" where
  "backoff d now l =
     (let l = l\<lparr>l_rate := l_rate l / 2\<rparr>;
          l = (if l_rate l < l_min_rate l then l\<lparr>l_rate := l_min_rate l\<rparr> else l);
          l = (if l_tokens l > 1 then l\<lparr>l_tokens := 1\<rparr> else l);
          end = now + d;
          l = (if end > l_pause_until l then l\<lparr>l_pause_until := end\<rparr> else l);
          l = (if end > l_last_backoff_end l then l\<lparr>l_last_backoff_end := end\<rparr> else l)
      in l)"

definition in_seconds :: "duration \<Rightarrow> rat" where
  "in_seconds d = of_int d / of_int second"

definition refill :: "time \<Rightarrow> limiter \<Rightarrow> limiter" where
  "refill now l =
     (let elapsed = in_seconds (time_sub now (l_last_refill l))
      in if elapsed \<le> 0 then l\<lparr>l_last_refill := now\<rparr>
         else (let l = l\<lparr>l_tokens := l_tokens l + elapsed * l_rate l\<rparr>;
                   l = (if l_tokens l > l_max_tokens l then l\<lparr>l_tokens := l_max_tokens l\<rparr> else l)
               in l\<lparr>l_last_refill := now\<rparr>))"

definition apply_recovery :: "time \<Rightarrow> limiter \<Rightarrow> limiter" where
  "apply_recovery now l =
     (if l_rate l \<ge> l_base_rate l then l
      else (let eligible = l_last_backoff_end l + l_recovery_cooldown l
            in if now < eligible then l
               else (let intervals = in_seconds (time_sub now eligible) / in_seconds (l_recovery_interval l)
                     in if intervals < 1 then l
                        else (let l = l\<lparr>l_rate := l_rate l + of_int (trunc_rat intervals) * l_recovery_step l\<rparr>
                              in if l_rate l > l_base_rate l then l\<lparr>l_rate := l_base_rate l\<rparr> else l))))"

definition try_acquire :: "time \<Rightarrow> limiter \<Rightarrow> duration \<times> limiter" where
  "try_acquire now l =
     (if now < l_pause_until l then (time_sub (l_pause_until l) now, l)
      else (let l = apply_recovery now (refill now l)
            in if l_tokens l \<ge> 1 then (0, l\<lparr>l_tokens := l_tokens l - 1\<rparr>)
               else (let needed = 1 - l_tokens l;
                         wait = trunc_rat (needed / l_rate l * of_int second);
                         wait = (if wait < millisecond then millisecond else wait)
                     in (wait, l))))"

text \<open>
  \<^verbatim>\<open>Acquire\<close>: each entry is the clock at a \<^verbatim>\<open>tryAcquire\<close> and the error of the context if the select
  that follows finds it done. \<open>None\<close>: still waiting when the entries run out.
\<close>

fun acquire :: "(time \<times> ctx_err option) list \<Rightarrow> limiter \<Rightarrow> (go_error option \<times> limiter) option" where
  "acquire [] l = None"
| "acquire ((now, ctx) # evs) l =
     (case try_acquire now l of (wait, l1) \<Rightarrow>
        if wait = 0 then Some (None, l1)
        else (case ctx of Some e \<Rightarrow> Some (Some (CtxErr e), l1) | None \<Rightarrow> acquire evs l1))"

section \<open>The bucket's invariant\<close>

definition limiter_ok :: "limiter \<Rightarrow> bool" where
  "limiter_ok l \<longleftrightarrow> 0 \<le> l_tokens l \<and> l_tokens l \<le> l_max_tokens l \<and>
     0 < l_min_rate l \<and> l_min_rate l \<le> l_rate l \<and> l_rate l \<le> l_base_rate l \<and>
     0 < l_recovery_step l \<and> 0 < l_recovery_interval l"

lemma in_seconds_sign [simp]: "in_seconds d \<le> 0 \<longleftrightarrow> d \<le> 0" "0 \<le> in_seconds d \<longleftrightarrow> 0 \<le> d" "0 < in_seconds d \<longleftrightarrow> 0 < d"
  by (simp_all add: in_seconds_def duration_units divide_le_0_iff zero_le_divide_iff zero_less_divide_iff)

lemma backoff_sel:
  "l_pause_until (backoff d now l) = max (l_pause_until l) (now + d)"
  "l_last_backoff_end (backoff d now l) = max (l_last_backoff_end l) (now + d)"
  "l_rate (backoff d now l) = max (l_min_rate l) (l_rate l / 2)"
  "l_tokens (backoff d now l) = min 1 (l_tokens l)"
  "l_max_tokens (backoff d now l) = l_max_tokens l"
  "l_base_rate (backoff d now l) = l_base_rate l"
  "l_min_rate (backoff d now l) = l_min_rate l"
  "l_recovery_step (backoff d now l) = l_recovery_step l"
  "l_recovery_interval (backoff d now l) = l_recovery_interval l"
  "l_last_refill (backoff d now l) = l_last_refill l"
  by (simp_all add: backoff_def Let_def)

lemma refill_sel:
  "l_rate (refill now l) = l_rate l" "l_max_tokens (refill now l) = l_max_tokens l"
  "l_base_rate (refill now l) = l_base_rate l" "l_min_rate (refill now l) = l_min_rate l"
  "l_pause_until (refill now l) = l_pause_until l" "l_last_backoff_end (refill now l) = l_last_backoff_end l"
  "l_recovery_step (refill now l) = l_recovery_step l"
  "l_recovery_interval (refill now l) = l_recovery_interval l"
  "l_last_refill (refill now l) = now"
  "l_tokens (refill now l) =
     (if time_sub now (l_last_refill l) \<le> 0 then l_tokens l
      else min (l_max_tokens l) (l_tokens l + in_seconds (time_sub now (l_last_refill l)) * l_rate l))"
  by (simp_all add: refill_def Let_def)

lemma recovery_sel [simp]:
  "l_tokens (apply_recovery now l) = l_tokens l" "l_max_tokens (apply_recovery now l) = l_max_tokens l"
  "l_base_rate (apply_recovery now l) = l_base_rate l" "l_min_rate (apply_recovery now l) = l_min_rate l"
  "l_pause_until (apply_recovery now l) = l_pause_until l"
  "l_last_backoff_end (apply_recovery now l) = l_last_backoff_end l"
  "l_recovery_step (apply_recovery now l) = l_recovery_step l"
  "l_recovery_interval (apply_recovery now l) = l_recovery_interval l"
  "l_last_refill (apply_recovery now l) = l_last_refill l"
  by (simp_all add: apply_recovery_def Let_def)

lemma recovery_rate:
  assumes "limiter_ok l"
  shows "l_rate l \<le> l_rate (apply_recovery now l)" "l_rate (apply_recovery now l) \<le> l_base_rate l"
proof -
  have "0 \<le> of_int (trunc_rat x) * l_recovery_step l" if "\<not> x < 1" for x
    using that assms trunc_rat_nonneg [of x] by (simp add: limiter_ok_def)
  with assms show "l_rate l \<le> l_rate (apply_recovery now l)" "l_rate (apply_recovery now l) \<le> l_base_rate l"
    by (auto simp: apply_recovery_def limiter_ok_def Let_def)
qed

lemma backoff_ok: "limiter_ok l \<Longrightarrow> limiter_ok (backoff d now l)"
  by (auto simp: limiter_ok_def backoff_sel)

lemma refill_ok: "limiter_ok l \<Longrightarrow> limiter_ok (refill now l)"
  by (auto simp: limiter_ok_def refill_sel)

lemma recovery_ok: "limiter_ok l \<Longrightarrow> limiter_ok (apply_recovery now l)"
  using recovery_rate [of l now] by (auto simp: limiter_ok_def)

lemma try_acquire_ok: "limiter_ok l \<Longrightarrow> limiter_ok (snd (try_acquire now l))"
  using recovery_ok [OF refill_ok, of l now now]
  by (auto simp: try_acquire_def Let_def limiter_ok_def)

lemma try_acquire_granted:
  "fst (try_acquire now l) = 0 \<longleftrightarrow> l_pause_until l \<le> now \<and> 1 \<le> l_tokens (refill now l)"
  by (auto simp: try_acquire_def Let_def time_sub_def duration_units min_duration_def max_duration_def)

lemma new_limiter_ok:
  assumes "lc_min_rate_fraction cfg \<le> 1"
  shows "limiter_ok (new_limiter cfg now)"
proof -
  let ?c = "limiter_defaults cfg"
  have "0 < lc_base_rate ?c" "0 < lc_min_rate_fraction ?c" "lc_min_rate_fraction ?c \<le> 1"
    "0 < lc_max_burst ?c" "0 < lc_recovery_step ?c" "0 < lc_recovery_interval ?c"
    using assms by (simp_all add: limiter_defaults_def Let_def duration_units)
  then show ?thesis by (simp add: new_limiter_def limiter_ok_def Let_def mult_left_le)
qed

interpretation bucket: rate_limiter limiter_ok try_acquire backoff l_pause_until
proof
  fix l :: limiter and now d
  assume "limiter_ok l"
  then show "limiter_ok (snd (try_acquire now l))" "limiter_ok (backoff d now l)"
    by (simp_all add: try_acquire_ok backoff_ok)
  show "l_pause_until (snd (try_acquire now l)) = l_pause_until l"
    by (simp add: try_acquire_def Let_def refill_sel)
  show "now + d \<le> l_pause_until (backoff d now l)" "l_pause_until l \<le> l_pause_until (backoff d now l)"
    by (simp_all add: backoff_sel)
  show "now < l_pause_until l \<Longrightarrow> 0 < fst (try_acquire now l)"
    by (auto simp: try_acquire_def time_sub_def min_duration_def max_duration_def)
qed

section \<open>How many permits\<close>

definition granted :: "bool list \<Rightarrow> nat" where
  "granted gs = length (filter (\<lambda>g. g) gs)"

text \<open>Calls reach the mutex in the order of their clock values, and clocks are not centuries apart.\<close>

fun in_order :: "time \<Rightarrow> (duration option \<times> time) list \<Rightarrow> bool" where
  "in_order t [] = True"
| "in_order t ((_, now) # ops) = (t \<le> now \<and> now - t \<le> max_duration \<and> in_order now ops)"

lemma refill_tokens_le:
  assumes "limiter_ok l" "l_last_refill l \<le> now"
  shows "l_tokens (refill now l) \<le> l_tokens l + l_base_rate l * in_seconds (now - l_last_refill l)"
proof -
  let ?d = "now - l_last_refill l"
  have sub: "time_sub now (l_last_refill l) \<le> ?d"
    using assms(2) by (auto simp: time_sub_def min_duration_def)
  have nn: "0 \<le> l_base_rate l * in_seconds ?d" using assms by (simp add: limiter_ok_def)
  show ?thesis
  proof (cases "time_sub now (l_last_refill l) \<le> 0")
    case True
    then show ?thesis using nn by (simp add: refill_sel)
  next
    case False
    have "in_seconds (time_sub now (l_last_refill l)) \<le> in_seconds ?d"
      using sub by (simp add: in_seconds_def duration_units divide_right_mono)
    then have "in_seconds (time_sub now (l_last_refill l)) * l_rate l \<le> in_seconds ?d * l_base_rate l"
      using assms by (intro mult_mono) (auto simp: limiter_ok_def)
    then show ?thesis using False by (simp add: refill_sel mult.commute)
  qed
qed

lemma try_acquire_tokens:
  assumes "limiter_ok l" "l_last_refill l \<le> now" "try_acquire now l = (w, l1)"
  shows "l_last_refill l \<le> l_last_refill l1" "l_last_refill l1 \<le> now" "l_base_rate l1 = l_base_rate l"
    "l_tokens l1 + (if w = 0 then 1 else 0) \<le>
       l_tokens l + l_base_rate l * in_seconds (l_last_refill l1 - l_last_refill l)"
proof -
  show "l_last_refill l \<le> l_last_refill l1" "l_last_refill l1 \<le> now" "l_base_rate l1 = l_base_rate l"
    using assms(2,3) by (auto simp: try_acquire_def Let_def refill_sel split: if_splits)
  show "l_tokens l1 + (if w = 0 then 1 else 0) \<le>
       l_tokens l + l_base_rate l * in_seconds (l_last_refill l1 - l_last_refill l)"
  proof (cases "now < l_pause_until l")
    case True
    then have "l1 = l" "w \<noteq> 0"
      using assms(3) by (auto simp: try_acquire_def time_sub_def min_duration_def max_duration_def)
    then show ?thesis by (simp add: in_seconds_def)
  next
    case False
    have "l_last_refill l1 = now" using False assms(3)
      by (auto simp: try_acquire_def Let_def refill_sel split: if_splits)
    moreover have "l_tokens l1 + (if w = 0 then 1 else 0) = l_tokens (refill now l)"
      using False assms(3) by (auto simp: try_acquire_def Let_def duration_units split: if_splits)
    ultimately show ?thesis using refill_tokens_le [OF assms(1,2)] by simp
  qed
qed

lemma in_seconds_add: "in_seconds (a + b) = in_seconds a + in_seconds b"
  by (simp add: in_seconds_def add_divide_distrib)

lemma granted_bound:
  "limiter_ok l \<Longrightarrow> in_order t0 ops \<Longrightarrow> l_last_refill l \<le> t0 \<Longrightarrow> \<forall>op\<in>set ops. snd op \<le> t1 \<Longrightarrow> t0 \<le> t1 \<Longrightarrow>
   of_nat (granted (fst (bucket.run ops l))) \<le> l_tokens l + l_base_rate l * in_seconds (t1 - l_last_refill l)"
proof (induction ops l arbitrary: t0 rule: bucket.run.induct)
  case (1 l)
  then show ?case by (simp add: granted_def limiter_ok_def)
next
  case (2 d now ops l)
  have "of_nat (granted (fst (bucket.run ops (backoff d now l)))) \<le>
      l_tokens (backoff d now l) + l_base_rate (backoff d now l) * in_seconds (t1 - l_last_refill (backoff d now l))"
    using 2 by (intro "2.IH" [of now]) (auto simp: backoff_ok backoff_sel)
  also have "\<dots> \<le> l_tokens l + l_base_rate l * in_seconds (t1 - l_last_refill l)"
    by (simp add: backoff_sel)
  finally show ?case by simp
next
  case (3 now ops l)
  obtain w l1 where t: "try_acquire now l = (w, l1)" by fastforce
  have late: "l_last_refill l \<le> now" using 3 by auto
  note step = try_acquire_tokens [OF "3.prems"(1) late t]
  obtain gs l2 where r: "bucket.run ops l1 = (gs, l2)" by fastforce
  have ok: "limiter_ok l1" using try_acquire_ok [OF "3.prems"(1), of now] t by simp
  have "of_nat (granted (fst (bucket.run ops l1))) \<le> l_tokens l1 + l_base_rate l1 * in_seconds (t1 - l_last_refill l1)"
    using 3 t ok step by (intro "3.IH" [where ?t0.0 = now]) auto
  moreover have "in_seconds (t1 - l_last_refill l) =
      in_seconds (t1 - l_last_refill l1) + in_seconds (l_last_refill l1 - l_last_refill l)"
    by (simp add: in_seconds_add [symmetric])
  ultimately show ?case
    using step(3,4) t r by (simp add: granted_def distrib_left split: if_splits)
qed

text \<open>
  C23. The bucket caps the account's call rate: whatever the callers and however often they back
  off, the permits granted up to a time are at most the tokens at the start plus \<^verbatim>\<open>BaseRate\<close> tokens a
  second; and from the moment any caller backs off for \<open>d\<close>, nobody is granted a permit for \<open>d\<close>.
\<close>

theorem limiter_caps_calls:
  assumes "limiter_ok l" "in_order (l_last_refill l) ops" "\<forall>op\<in>set ops. snd op \<le> t1" "l_last_refill l \<le> t1"
  shows "of_nat (granted (fst (bucket.run ops l))) \<le>
      l_tokens l + l_base_rate l * in_seconds (t1 - l_last_refill l) \<and>
    ((\<forall>op\<in>set ops. snd op < now + d) \<longrightarrow> True \<notin> set (fst (bucket.run ops (backoff d now l))))"
  using granted_bound [OF assms(1,2) _ assms(3,4)] bucket.pause_binds_all [OF assms(1), of ops now d] by simp

definition demo_limiter :: limiter where
  "demo_limiter = new_limiter \<lparr>lc_base_rate = 0, lc_min_rate_fraction = 0, lc_max_burst = 0,
     lc_recovery_cooldown = 0, lc_recovery_step = 0, lc_recovery_interval = 0\<rparr> 0"

lemma demo_limiter_ok: "limiter_ok demo_limiter"
  unfolding demo_limiter_def by (rule new_limiter_ok) simp

lemma limiter_caps_calls_witness:
  "of_nat (granted (fst (bucket.run [(None, 1), (None, second)] demo_limiter))) \<le> (40 :: rat)"
  using limiter_caps_calls [OF demo_limiter_ok, of "[(None, 1), (None, second)]" second 0 0]
  by (simp add: demo_limiter_def new_limiter_def limiter_defaults_def Let_def duration_units max_duration_def
      in_seconds_def)

section \<open>Waiting\<close>

text \<open>Each try after the first comes no earlier than the wait the previous one asked for.\<close>

fun wakes :: "(time \<times> ctx_err option) list \<Rightarrow> limiter \<Rightarrow> bool" where
  "wakes ((now, c) # (now', c') # evs) l =
     (c = None \<and> now + fst (try_acquire now l) \<le> now' \<and>
      wakes ((now', c') # evs) (snd (try_acquire now l)))"
| "wakes _ _ = True"

lemma try_denied:
  assumes "limiter_ok l" "l_pause_until l \<le> now" "fst (try_acquire now l) \<noteq> 0"
  shows "l_tokens (snd (try_acquire now l)) = l_tokens (refill now l)" "l_tokens (refill now l) < 1"
    "l_last_refill (snd (try_acquire now l)) = now" "l_rate l \<le> l_rate (snd (try_acquire now l))"
    "l_pause_until (snd (try_acquire now l)) = l_pause_until l"
    "l_max_tokens (snd (try_acquire now l)) = l_max_tokens l"
    "l_min_rate (snd (try_acquire now l)) = l_min_rate l"
    "millisecond \<le> fst (try_acquire now l)"
    "(1 - l_tokens (refill now l)) / l_rate (snd (try_acquire now l)) * of_int second <
       of_int (fst (try_acquire now l)) + 1"
proof -
  have "0 \<le> (1 - l_tokens (refill now l)) / l_rate (apply_recovery now (refill now l)) * of_int second"
    if "\<not> 1 \<le> l_tokens (refill now l)"
    using that recovery_ok [OF refill_ok [OF assms(1), of now], of now]
    by (intro mult_nonneg_nonneg divide_nonneg_pos) (auto simp: limiter_ok_def duration_units)
  then have tr: "x < of_int (max m (trunc_rat x)) + 1"
    if "x = (1 - l_tokens (refill now l)) / l_rate (apply_recovery now (refill now l)) * of_int second"
      "\<not> 1 \<le> l_tokens (refill now l)" for x m
    using that by (auto simp: trunc_rat_def) linarith+
  show "l_tokens (snd (try_acquire now l)) = l_tokens (refill now l)" "l_tokens (refill now l) < 1"
    "l_last_refill (snd (try_acquire now l)) = now" "l_rate l \<le> l_rate (snd (try_acquire now l))"
    "l_pause_until (snd (try_acquire now l)) = l_pause_until l"
    "l_max_tokens (snd (try_acquire now l)) = l_max_tokens l"
    "l_min_rate (snd (try_acquire now l)) = l_min_rate l"
    "millisecond \<le> fst (try_acquire now l)"
    using assms(2,3) recovery_rate(1) [OF refill_ok [OF assms(1)], of now now]
    by (auto simp: try_acquire_def Let_def refill_sel(1-9) split: if_splits)
  show "(1 - l_tokens (refill now l)) / l_rate (snd (try_acquire now l)) * of_int second <
       of_int (fst (try_acquire now l)) + 1"
    using assms(2,3) tr [OF refl, of millisecond]
    by (auto simp: try_acquire_def Let_def max_def split: if_splits)
qed

lemma refill_lower:
  assumes "limiter_ok l" "1 \<le> l_max_tokens l" "l_last_refill l + w \<le> now" "0 < w" "w \<le> max_duration"
    and "l_tokens (refill now l) < 1"
  shows "l_tokens l + in_seconds w * l_rate l \<le> l_tokens (refill now l)"
proof -
  have w: "w \<le> time_sub now (l_last_refill l)"
    using assms(3-5) by (auto simp: time_sub_def min_duration_def)
  then have "in_seconds w \<le> in_seconds (time_sub now (l_last_refill l))"
    by (simp add: in_seconds_def duration_units divide_right_mono)
  then have "in_seconds w * l_rate l \<le> in_seconds (time_sub now (l_last_refill l)) * l_rate l"
    using assms(1) by (intro mult_right_mono) (auto simp: limiter_ok_def)
  then show ?thesis using w assms(2,4,6) by (auto simp: refill_sel split: if_splits)
qed

lemma denied_wait_bound:
  assumes ok: "limiter_ok l" and unpaused: "l_pause_until l \<le> now" and w: "fst (try_acquire now l) \<noteq> 0"
    and slow: "of_int second < l_min_rate l * of_int max_duration"
  shows "fst (try_acquire now l) \<le> max_duration"
proof -
  let ?r = "l_rate (apply_recovery now (refill now l))"
  let ?x = "(1 - l_tokens (refill now l)) / ?r * of_int second"
  have "limiter_ok (apply_recovery now (refill now l))" by (intro recovery_ok refill_ok ok)
  then have r: "0 < l_min_rate l" "l_min_rate l \<le> ?r" "0 \<le> l_tokens (refill now l)"
    by (auto simp: limiter_ok_def refill_sel(1-9))
  have less: "l_tokens (refill now l) < 1" by (rule try_denied(2) [OF ok unpaused w])
  have "?x \<le> 1 / l_min_rate l * of_int second"
    using r less by (intro mult_right_mono frac_le) (auto simp: duration_units)
  also have "\<dots> \<le> of_int max_duration"
    using slow r(1) by (simp add: divide_le_eq mult.commute)
  finally have "?x \<le> of_int max_duration" .
  moreover have "0 \<le> ?x" using r less by (simp add: duration_units)
  ultimately have "trunc_rat ?x \<le> max_duration" using trunc_rat_le [of ?x] by linarith
  then show ?thesis
    using unpaused w less by (auto simp: try_acquire_def Let_def duration_units max_duration_def)
qed

lemma acquire_unpaused:
  assumes ok: "limiter_ok l" and one: "1 \<le> l_max_tokens l" and unpaused: "l_pause_until l \<le> t1"
    and slow: "of_int second < l_min_rate l * of_int max_duration"
    and w: "wakes [(t1, None), (t2, c2), (t3, c3)] l" "c2 = None" "c3 = None"
  shows "\<exists>l'. acquire [(t1, None), (t2, c2), (t3, c3)] l = Some (None, l')"
proof (rule ccontr)
  assume no: "\<not> ?thesis"
  let ?w1 = "fst (try_acquire t1 l)" and ?l1 = "snd (try_acquire t1 l)"
  let ?w2 = "fst (try_acquire t2 ?l1)" and ?l2 = "snd (try_acquire t2 ?l1)"
  let ?w3 = "fst (try_acquire t3 ?l2)"
  have w1: "?w1 \<noteq> 0" using no by (auto split: prod.splits)
  note d1 = try_denied [OF ok unpaused w1]
  have ok1: "limiter_ok ?l1" using try_acquire_ok [OF ok] .
  have t2: "t1 + ?w1 \<le> t2" using w by simp
  then have open2: "l_pause_until ?l1 \<le> t2" using d1(5,8) unpaused by (simp add: duration_units)
  have w2: "?w2 \<noteq> 0" using no w w1 by (auto split: prod.splits)
  note d2 = try_denied [OF ok1 open2 w2]
  have ok2: "limiter_ok ?l2" using try_acquire_ok [OF ok1] .
  have t3: "t2 + ?w2 \<le> t3" using w by simp
  have open3: "l_pause_until ?l2 \<le> t3" using d2(5,8) open2 t3 by (simp add: duration_units)
  have w3: "?w3 \<noteq> 0" using no w w1 w2 by (auto split: prod.splits)
  note d3 = try_denied [OF ok2 open3 w3]
  have w1_le: "?w1 \<le> max_duration" by (rule denied_wait_bound [OF ok unpaused w1 slow])
  have "l_tokens ?l1 + in_seconds ?w1 * l_rate ?l1 \<le> l_tokens (refill t2 ?l1)"
    using ok1 one d1 d2(2) t2 w1_le by (intro refill_lower) (simp_all add: duration_units)
  moreover have "(1 - l_tokens ?l1) < (of_int ?w1 + 1) / of_int second * l_rate ?l1"
    using d1(1,9) ok1 by (simp add: limiter_ok_def field_simps duration_units)
  ultimately have k2: "1 - l_rate ?l1 / of_int second < l_tokens ?l2"
    using d2(1) by (simp add: in_seconds_def field_simps duration_units)
  have "l_tokens ?l2 + in_seconds millisecond * l_rate ?l2 \<le> l_tokens (refill t3 ?l2)"
    using ok2 one d1(6) d2 d3(2) t3
    by (intro refill_lower) (simp_all add: duration_units max_duration_def)
  moreover have "l_rate ?l1 / of_int second \<le> in_seconds millisecond * l_rate ?l2"
  proof -
    have "l_rate ?l1 / of_int second \<le> l_rate ?l2 / of_int second"
      using d2(4) by (simp add: duration_units)
    also have "\<dots> \<le> in_seconds millisecond * l_rate ?l2"
      using ok2 by (simp add: in_seconds_def duration_units limiter_ok_def)
    finally show ?thesis .
  qed
  ultimately show False using k2 d3(2) by simp
qed

lemma acquire_append: "acquire evs l = Some r \<Longrightarrow> acquire (evs @ evs') l = Some r"
  by (induction evs l rule: acquire.induct) (auto split: prod.splits if_splits option.splits)

lemma wakes_prefix: "wakes (evs @ evs') l \<Longrightarrow> wakes evs l"
  by (induction evs l rule: wakes.induct) auto

text \<open>
  \<^verbatim>\<open>Acquire\<close> returns: with a bucket of at least one token and no other caller in between, it is
  granted at the latest on its fourth try (the end of the pause, the wait for a token, and one more
  because the wait is truncated to whole nanoseconds), if its timers never fire early.
\<close>

theorem acquire_granted:
  assumes "limiter_ok l" "1 \<le> l_max_tokens l" "l_pause_until l - t0 \<le> max_duration"
    and "of_int second < l_min_rate l * of_int max_duration"
    and "wakes [(t0, None), (t1, None), (t2, None), (t3, None)] l"
  shows "\<exists>l'. acquire [(t0, None), (t1, None), (t2, None), (t3, None)] l = Some (None, l')"
proof (cases "t0 < l_pause_until l")
  case True
  then have tr: "try_acquire t0 l = (l_pause_until l - t0, l)"
    using assms(3) by (simp add: try_acquire_def time_sub_def min_duration_def max_duration_def)
  with assms(5) have "l_pause_until l \<le> t1" "wakes [(t1, None), (t2, None), (t3, None)] l" by auto
  from acquire_unpaused [OF assms(1,2) this(1) assms(4) this(2)] tr True show ?thesis by simp
next
  case False
  have "wakes [(t0, None), (t1, None), (t2, None)] l"
    using wakes_prefix [of "[(t0, None), (t1, None), (t2, None)]" "[(t3, None)]"] assms(5) by simp
  with False acquire_unpaused [OF assms(1,2) _ assms(4) this] obtain l'
    where "acquire [(t0, None), (t1, None), (t2, None)] l = Some (None, l')" by auto
  from acquire_append [OF this, of "[(t3, None)]"] show ?thesis by auto
qed

lemma acquire_granted_witness:
  "\<exists>l'. acquire [(second, None), (4 * second, None), (5 * second, None), (6 * second, None)]
       (backoff second second demo_limiter) = Some (None, l')"
proof (rule acquire_granted)
  show "limiter_ok (backoff second second demo_limiter)" by (rule backoff_ok [OF demo_limiter_ok])
  show "wakes [(second, None), (4 * second, None), (5 * second, None), (6 * second, None)]
      (backoff second second demo_limiter)"
    by code_simp
qed (simp_all add: backoff_sel, simp_all add: demo_limiter_def new_limiter_def limiter_defaults_def Let_def
    duration_units max_duration_def)

lemma full_bucket_run:
  "limiter_ok l \<Longrightarrow> l_pause_until l \<le> now \<Longrightarrow> of_nat n \<le> l_tokens (refill now l) \<Longrightarrow>
   fst (bucket.run (replicate n (None, now)) l) = replicate n True"
proof (induction n arbitrary: l)
  case (Suc n)
  have one: "1 \<le> l_tokens (refill now l)" using Suc.prems(3) by simp
  define l1 where "l1 = snd (try_acquire now l)"
  have t: "try_acquire now l = (0, l1)"
    using try_acquire_granted [of now l] Suc.prems(2) one by (simp add: l1_def prod_eq_iff)
  have l1: "l_tokens l1 = l_tokens (refill now l) - 1" "l_last_refill l1 = now" "l_pause_until l1 \<le> now"
    using Suc.prems(2) one by (auto simp: l1_def try_acquire_def Let_def refill_sel(1-9))
  have "l_tokens (refill now l1) = l_tokens l1"
    using l1(2) by (simp add: refill_sel time_sub_def min_duration_def max_duration_def)
  with l1 Suc.prems Suc.IH [of l1] try_acquire_ok [OF Suc.prems(1), of now]
  have "fst (bucket.run (replicate n (None, now)) l1) = replicate n True" by (simp add: l1_def)
  then show ?case using t by (auto split: prod.splits)
qed simp

text \<open>
  A pause does not prevent a burst when it lifts, although tokens are clamped to one when it
  starts: the first try after the pause refills for the whole pause, so after a pause of
  \<open>max_tokens / rate\<close> seconds or more a full bucket of permits is granted at that very moment.
\<close>

theorem burst_when_pause_lifts:
  assumes "limiter_ok l" "l_last_refill l \<le> now" "l_pause_until l \<le> now + d" "0 < d"
    and "now + d - l_last_refill l \<le> max_duration"
    and "l_max_tokens l \<le> in_seconds d * (l_rate l / 2)" "of_nat n \<le> l_max_tokens l"
  shows "l_tokens (backoff d now l) \<le> 1 \<and>
    fst (bucket.run (replicate n (None, now + d)) (backoff d now l)) = replicate n True"
proof
  let ?l = "backoff d now l"
  show "l_tokens ?l \<le> 1" by (simp add: backoff_sel)
  have ts: "time_sub (now + d) (l_last_refill l) = now + d - l_last_refill l"
    using assms(2,4,5) by (intro time_sub_exact) (simp_all add: min_duration_def)
  have "in_seconds d * (l_rate l / 2) \<le> in_seconds (now + d - l_last_refill l) * l_rate ?l"
    using assms(1,2,4) by (intro mult_mono) (auto simp: backoff_sel in_seconds_def duration_units limiter_ok_def divide_right_mono)
  moreover have "0 \<le> l_tokens ?l" using backoff_ok [OF assms(1), of d now] by (simp add: limiter_ok_def)
  ultimately have "l_max_tokens l \<le> l_tokens (refill (now + d) ?l)"
    using assms(2,4,6) ts by (simp add: refill_sel) (simp add: backoff_sel)
  then show "fst (bucket.run (replicate n (None, now + d)) ?l) = replicate n True"
    using assms by (intro full_bucket_run) (auto simp: backoff_ok backoff_sel)
qed

lemma burst_when_pause_lifts_witness:
  "l_tokens (backoff (4 * second) 0 demo_limiter) \<le> 1 \<and>
   fst (bucket.run (replicate 20 (None, 0 + 4 * second)) (backoff (4 * second) 0 demo_limiter)) = replicate 20 True"
  by (rule burst_when_pause_lifts [OF demo_limiter_ok])
    (simp_all add: demo_limiter_def new_limiter_def limiter_defaults_def Let_def duration_units
      max_duration_def in_seconds_def)

lemma try_acquire_small: "limiter_ok l \<Longrightarrow> l_max_tokens l < 1 \<Longrightarrow>
    fst (try_acquire now l) \<noteq> 0 \<and> l_max_tokens (snd (try_acquire now l)) = l_max_tokens l"
  using try_acquire_granted [of now l] refill_ok [of l now]
  by (auto simp: limiter_ok_def refill_sel(1-9)) (auto simp: try_acquire_def Let_def refill_sel(1-9))

text \<open>
  A bucket smaller than one token never grants a permit. \<^verbatim>\<open>NewLimiter\<close> builds one for any
  \<^verbatim>\<open>BaseRate\<close> below 1 with the default \<^verbatim>\<open>MaxBurst\<close>, and \<^verbatim>\<open>Acquire\<close> then waits until its context ends.
\<close>

theorem small_bucket_starves:
  assumes "0 < lc_base_rate cfg" "lc_base_rate cfg < 1" "lc_max_burst cfg = 0" "lc_min_rate_fraction cfg \<le> 1"
  shows "True \<notin> set (fst (bucket.run ops (new_limiter cfg now))) \<and>
    (acquire evs (new_limiter cfg now) = Some (e, l') \<longrightarrow> e \<noteq> None)"
proof
  have ok: "limiter_ok (new_limiter cfg now)" by (rule new_limiter_ok [OF assms(4)])
  have small: "l_max_tokens (new_limiter cfg now) < 1"
    using assms by (simp add: new_limiter_def limiter_defaults_def Let_def)
  have "limiter_ok l \<Longrightarrow> l_max_tokens l < 1 \<Longrightarrow> True \<notin> set (fst (bucket.run ops l))" for l
  proof (induction ops l rule: bucket.run.induct)
    case (2 d now ops l)
    then show ?case by (simp add: backoff_ok backoff_sel)
  next
    case (3 now ops l)
    then show ?case
      using try_acquire_small [of l now] try_acquire_ok [of l now] by (auto split: prod.splits)
  qed simp
  with ok small show "True \<notin> set (fst (bucket.run ops (new_limiter cfg now)))" by blast
  have "limiter_ok l \<Longrightarrow> l_max_tokens l < 1 \<Longrightarrow> acquire evs l = Some (e, l') \<Longrightarrow> e \<noteq> None" for l
  proof (induction evs l rule: acquire.induct)
    case (2 now ctx evs l)
    then show ?case
      using try_acquire_small [of l now] try_acquire_ok [of l now]
      by (auto split: prod.splits if_splits option.splits)
  qed simp
  with ok small show "acquire evs (new_limiter cfg now) = Some (e, l') \<longrightarrow> e \<noteq> None" by blast
qed

lemma small_bucket_starves_witness:
  "True \<notin> set (fst (bucket.run (map (\<lambda>k. (None, second * k)) [1, 5, 60])
     (new_limiter \<lparr>lc_base_rate = 1 / 2, lc_min_rate_fraction = 0, lc_max_burst = 0,
     lc_recovery_cooldown = 0, lc_recovery_step = 0, lc_recovery_interval = 0\<rparr> 0)))"
  by (rule small_bucket_starves [THEN conjunct1]) simp_all

end
