(* ===== verification/Stores.thy ===== *)
theory Stores
  imports Cohort_Reconcile
begin

text \<open>
  \<^verbatim>\<open>internal/recordstore/store.go\<close> and \<^verbatim>\<open>internal/slurm/holdstore.go\<close>: the two file stores, one JSON
  file per entity in a directory, written to a temporary file and renamed. A directory maps file
  names to contents; the JSON encoder and decoder of a store are parameters (a codec). What clients
  rely on is the locale \<open>keyed_store\<close>, interpreted on both stores for any codec that round-trips.
\<close>

section \<open>The interface\<close>

locale keyed_store =
  fixes put :: "'v \<Rightarrow> 's \<Rightarrow> 's"
    and get :: "'k \<Rightarrow> 's \<Rightarrow> 'v option"
    and key :: "'v \<Rightarrow> 'k"
    and valid :: "'k \<Rightarrow> bool"
  assumes get_put [port_laws]: "valid (key v) \<Longrightarrow> get (key v) (put v s) = Some v"
    and get_put_other [port_laws]: "valid (key v) \<Longrightarrow> valid k \<Longrightarrow> k \<noteq> key v \<Longrightarrow> get k (put v s) = get k s"
begin

definition put_all :: "'v list \<Rightarrow> 's \<Rightarrow> 's" where
  "put_all vs s = fold put vs s"

text \<open>The latest write for a key wins, and keys that were not written keep what they had.\<close>

lemma get_put_all:
  "\<forall>v\<in>set vs. valid (key v) \<Longrightarrow> valid k \<Longrightarrow>
   get k (put_all vs s) = (case filter (\<lambda>v. key v = k) (rev vs) of [] \<Rightarrow> get k s | v # _ \<Rightarrow> Some v)"
proof (induction vs arbitrary: s rule: rev_induct)
  case (snoc v vs)
  show ?case
  proof (cases "key v = k")
    case True
    with snoc.prems get_put [of v "put_all vs s"] show ?thesis by (simp add: put_all_def)
  next
    case False
    with snoc.prems snoc.IH [of s] get_put_other [of v k "put_all vs s"] show ?thesis
      by (simp add: put_all_def)
  qed
qed (simp add: put_all_def)

end

section \<open>Files\<close>

type_synonym 'c directory = "string \<rightharpoonup> 'c"

text \<open>Where the write path of a store can fail.\<close>

datatype io_fault = CreateFails go_error | WriteFails go_error | CloseFails go_error | RenameFails go_error

text \<open>
  Write to a temporary file (whose name \<^verbatim>\<open>CreateTemp\<close> makes fresh), close, rename. A failed
  step removes the temporary file. \<open>partial\<close> is what a failed write left in it.
\<close>

definition atomic_write ::
  "string \<Rightarrow> io_fault option \<Rightarrow> 'c \<Rightarrow> string \<Rightarrow> 'c \<Rightarrow> 'c directory \<Rightarrow> (string \<times> go_error) option \<times> 'c directory"
where
  "atomic_write tmp fault partial final data d =
     (case fault of
        Some (CreateFails e) \<Rightarrow> (Some (''temp'', e), d)
      | Some (WriteFails e) \<Rightarrow> (Some (''write'', e), (d(tmp \<mapsto> partial))(tmp := None))
      | Some (CloseFails e) \<Rightarrow> (Some (''close'', e), (d(tmp \<mapsto> data))(tmp := None))
      | Some (RenameFails e) \<Rightarrow> (Some (''rename'', e), (d(tmp \<mapsto> data))(tmp := None))
      | None \<Rightarrow> (None, ((d(tmp \<mapsto> data))(tmp := None))(final \<mapsto> data)))"

definition write_fault_text :: "string \<Rightarrow> string \<Rightarrow> string \<Rightarrow> string \<Rightarrow> string" where
  "write_fault_text store what noun i =
     store @ (if what = ''temp'' then ''temp file: ''
              else if what = ''close'' then ''close temp for '' @ i @ '': ''
              else what @ '' '' @ noun @ '' for '' @ i @ '': '')"

lemma atomic_write_all_or_nothing:
  assumes "tmp \<notin> dom d"
  shows "atomic_write tmp fault partial final data d =
    (case fault of
       None \<Rightarrow> (None, d(final \<mapsto> data))
     | Some (CreateFails e) \<Rightarrow> (Some (''temp'', e), d)
     | Some (WriteFails e) \<Rightarrow> (Some (''write'', e), d)
     | Some (CloseFails e) \<Rightarrow> (Some (''close'', e), d)
     | Some (RenameFails e) \<Rightarrow> (Some (''rename'', e), d))"
proof -
  have "(d(tmp \<mapsto> x))(tmp := None) = d" for x
    using assms by (auto simp: fun_eq_iff domIff)
  then show ?thesis by (simp add: atomic_write_def split: option.split io_fault.split)
qed

record ('v, 'c) codec =
  cd_marshal :: "'v \<Rightarrow> go_error + 'c"
  cd_unmarshal :: "'c \<Rightarrow> go_error + 'v"

definition good_codec :: "('v, 'c) codec \<Rightarrow> bool" where
  "good_codec cd \<longleftrightarrow> (\<forall>v. \<exists>c. cd_marshal cd v = Inr c \<and> cd_unmarshal cd c = Inr v)"

definition id_codec :: "('v, 'v) codec" where
  "id_codec = \<lparr>cd_marshal = Inr, cd_unmarshal = Inr\<rparr>"

lemma id_codec_good: "good_codec id_codec"
  by (simp add: good_codec_def id_codec_def)

section \<open>The record store\<close>

definition encode_entity :: "string \<Rightarrow> string" where
  "encode_entity i = replace_all ''/'' ''%2F'' i"

definition decode_entity :: "string \<Rightarrow> string" where
  "decode_entity name = replace_all ''%2F'' ''/'' name"

definition record_path :: "entity_id \<Rightarrow> string" where
  "record_path i = encode_entity i @ ''.json''"

definition new_file_store :: "string \<Rightarrow> go_error option \<Rightarrow> go_error + string" where
  "new_file_store dir mkdir =
     (if dir = '''' then Inl (ErrText ''recordstore: dir must not be empty'')
      else (case mkdir of
        Some e \<Rightarrow> Inl (ErrWrap (''recordstore: create dir '' @ dir @ '': '') e)
      | None \<Rightarrow> Inr dir))"

definition put_record ::
  "(entity_record, 'c) codec \<Rightarrow> string \<Rightarrow> io_fault option \<Rightarrow> 'c \<Rightarrow> entity_record \<Rightarrow> 'c directory \<Rightarrow>
   go_error option \<times> 'c directory"
where
  "put_record cd tmp fault partial rec d =
     (if er_entity rec = '''' then (Some (ErrText ''recordstore: Record.Entity must not be empty''), d)
      else (case cd_marshal cd rec of
        Inl e \<Rightarrow> (Some (ErrWrap (''recordstore: marshal record for '' @ er_entity rec @ '': '') e), d)
      | Inr data \<Rightarrow>
          (case atomic_write tmp fault partial (record_path (er_entity rec)) data d of
             (None, d') \<Rightarrow> (None, d')
           | (Some (what, e), d') \<Rightarrow>
               (Some (ErrWrap (write_fault_text ''recordstore: '' what ''record'' (er_entity rec)) e), d'))))"

text \<open>\<^verbatim>\<open>PutOutcome\<close> over the records in the order the map is ranged over; each write has its fault.\<close>

fun put_outcome ::
  "(entity_record, 'c) codec \<Rightarrow> string \<Rightarrow> 'c \<Rightarrow> (entity_record \<times> io_fault option) list \<Rightarrow> 'c directory \<Rightarrow>
   go_error option \<times> 'c directory"
where
  "put_outcome cd tmp partial [] d = (None, d)"
| "put_outcome cd tmp partial ((rec, fault) # rs) d =
     (case put_record cd tmp fault partial rec d of
        (Some e, d') \<Rightarrow> (Some e, d')
      | (None, d') \<Rightarrow> put_outcome cd tmp partial rs d')"

definition get_record ::
  "(entity_record, 'c) codec \<Rightarrow> entity_id \<Rightarrow> go_error option \<Rightarrow> 'c directory \<Rightarrow> go_error + entity_record"
where
  "get_record cd i read_fault d =
     (case read_fault of
        Some e \<Rightarrow> Inl (ErrWrap (''recordstore: read record for '' @ i @ '': '') e)
      | None \<Rightarrow>
          (case d (record_path i) of
             None \<Rightarrow> Inl (ErrNotFound i)
           | Some data \<Rightarrow>
               (case cd_unmarshal cd data of
                  Inl e \<Rightarrow> Inl (ErrWrap (''recordstore: unmarshal record for '' @ i @ '': '') e)
                | Inr rec \<Rightarrow> Inr rec)))"

text \<open>A missing record is the sentinel \<^verbatim>\<open>ErrNotFound\<close>, wrapped with the entity.\<close>

text \<open>\<^verbatim>\<open>List\<close> over the names of the directory's files.\<close>

definition list_records :: "string list \<Rightarrow> entity_id list" where
  "list_records names =
     sort (map (\<lambda>n. decode_entity (trim_suffix n ''.json''))
             (filter (\<lambda>n. has_suffix n ''.json'' \<and> \<not> has_prefix n ''.'') names))"

lemma replace_slash: "replace_all ''/'' new s = concat (map (\<lambda>c. if c = CHR ''/'' then new else [c]) s)"
  by (induction s) (auto simp: has_prefix_def)

lemma encode_entity_eq: "encode_entity s = concat (map (\<lambda>c. if c = CHR ''/'' then ''%2F'' else [c]) s)"
  by (simp only: encode_entity_def replace_slash)

lemma decode_plain_char: "c \<noteq> CHR ''%'' \<Longrightarrow> decode_entity (c # s) = c # decode_entity s"
  by (simp add: decode_entity_def has_prefix_def)

lemma decode_encode:
  assumes "CHR ''%'' \<notin> set i"
  shows "decode_entity (encode_entity i) = i"
  using assms
proof (induction i)
  case (Cons c cs)
  show ?case
  proof (cases "c = CHR ''/''")
    case True
    have "decode_entity (''%2F'' @ encode_entity cs) = CHR ''/'' # decode_entity (encode_entity cs)"
      by (simp add: decode_entity_def has_prefix_def)
    with True Cons show ?thesis by (simp add: encode_entity_eq)
  next
    case False
    have "c \<noteq> CHR ''%''" using Cons.prems by auto
    then have "decode_entity (c # encode_entity cs) = c # decode_entity (encode_entity cs)"
      by (rule decode_plain_char)
    with False Cons show ?thesis by (simp add: encode_entity_eq)
  qed
qed (simp add: encode_entity_def decode_entity_def)

definition plain_id :: "entity_id \<Rightarrow> bool" where
  "plain_id i \<longleftrightarrow> i \<noteq> '''' \<and> CHR ''%'' \<notin> set i"

lemma record_path_inj: "plain_id i \<Longrightarrow> plain_id j \<Longrightarrow> record_path i = record_path j \<longleftrightarrow> i = j"
  unfolding record_path_def plain_id_def append_same_eq by (metis decode_encode)

text \<open>The store as its clients see it: a put that succeeds, and the record of a get.\<close>

definition tmp_name :: string where "tmp_name = ''.tmp-0''"

definition store_put :: "(entity_record, 'c) codec \<Rightarrow> entity_record \<Rightarrow> 'c directory \<Rightarrow> 'c directory" where
  "store_put cd rec d = snd (put_record cd tmp_name None undefined rec d)"

definition store_get :: "(entity_record, 'c) codec \<Rightarrow> entity_id \<Rightarrow> 'c directory \<Rightarrow> entity_record option" where
  "store_get cd i d = (case get_record cd i None d of Inr r \<Rightarrow> Some r | Inl _ \<Rightarrow> None)"

lemma json_not_tmp: "p @ ''.json'' \<noteq> tmp_name"
proof
  assume "p @ ''.json'' = tmp_name"
  then have "last (p @ ''.json'') = last tmp_name" by simp
  then show False by (simp add: tmp_name_def)
qed

lemma store_put_eq:
  assumes "good_codec cd" "er_entity r \<noteq> ''''"
  obtains c where "cd_marshal cd r = Inr c" "cd_unmarshal cd c = Inr r"
    "store_put cd r d = (d(tmp_name := None))(record_path (er_entity r) \<mapsto> c)"
proof -
  obtain c where c: "cd_marshal cd r = Inr c" "cd_unmarshal cd c = Inr r"
    using assms(1) by (auto simp: good_codec_def)
  with assms(2) show ?thesis
    by (intro that [of c]) (simp_all add: store_put_def put_record_def atomic_write_def)
qed

locale record_store =
  fixes rcd :: "(entity_record, 'c) codec"
  assumes codec [port_laws]: "good_codec rcd"

sublocale record_store \<subseteq> keyed_store "store_put rcd" "store_get rcd" er_entity plain_id
proof
  fix v :: entity_record and d :: "'c directory"
  assume v: "plain_id (er_entity v)"
  then have "er_entity v \<noteq> ''''" by (simp add: plain_id_def)
  then obtain c where c: "cd_marshal rcd v = Inr c" "cd_unmarshal rcd c = Inr v"
    "store_put rcd v d = (d(tmp_name := None))(record_path (er_entity v) \<mapsto> c)"
    by (rule store_put_eq [OF codec])
  then show "store_get rcd (er_entity v) (store_put rcd v d) = Some v"
    by (simp add: store_get_def get_record_def)
  fix k assume "plain_id k" "k \<noteq> er_entity v"
  then have "record_path k \<noteq> record_path (er_entity v)" using record_path_inj v by blast
  then show "store_get rcd k (store_put rcd v d) = store_get rcd k d"
    using c json_not_tmp by (simp add: store_get_def get_record_def record_path_def)
qed

context record_store
begin

lemma latest_record:
  "\<forall>r\<in>set rs. plain_id (er_entity r) \<Longrightarrow> plain_id i \<Longrightarrow>
   store_get rcd i (fold (store_put rcd) rs d) =
     (case filter (\<lambda>r. er_entity r = i) (rev rs) of [] \<Rightarrow> store_get rcd i d | r # _ \<Rightarrow> Some r)"
  using get_put_all [of rs i d] by (simp add: put_all_def)

end

interpretation records: record_store "id_codec :: (entity_record, entity_record) codec"
  by unfold_locales (rule id_codec_good)

section \<open>The hold store\<close>

record hold =
  h_entity :: entity_id
  h_transaction_id :: string
  h_account :: string
  h_partition :: string
  h_hourly_rate :: rat
  h_started_at :: time

definition encode_hold_char :: "char \<Rightarrow> string" where
  "encode_hold_char c =
     (if c = CHR ''%'' then ''%25'' else if c = CHR ''/'' then ''%2F''
      else if c = bslash then ''%5C'' else [c])"

text \<open>\<^verbatim>\<open>strings.NewReplacer\<close> of single bytes: one pass over the string.\<close>

definition encode_hold_entity :: "string \<Rightarrow> string" where
  "encode_hold_entity i = concat (map encode_hold_char i)"

definition hold_path :: "entity_id \<Rightarrow> string" where
  "hold_path i = encode_hold_entity i @ ''.json''"

definition new_file_hold_store :: "string \<Rightarrow> go_error option \<Rightarrow> go_error + string" where
  "new_file_hold_store dir mkdir =
     (if dir = '''' then Inl (ErrText ''slurm holdstore: dir must not be empty'')
      else (case mkdir of
        Some e \<Rightarrow> Inl (ErrWrap (''slurm holdstore: create dir '' @ dir @ '': '') e)
      | None \<Rightarrow> Inr dir))"

definition put_hold ::
  "(hold, 'c) codec \<Rightarrow> string \<Rightarrow> io_fault option \<Rightarrow> 'c \<Rightarrow> hold \<Rightarrow> 'c directory \<Rightarrow> go_error option \<times> 'c directory"
where
  "put_hold cd tmp fault partial h d =
     (if h_entity h = '''' then (Some (ErrText ''slurm holdstore: Hold.Entity must not be empty''), d)
      else (case cd_marshal cd h of
        Inl e \<Rightarrow> (Some (ErrWrap (''slurm holdstore: marshal hold for '' @ h_entity h @ '': '') e), d)
      | Inr data \<Rightarrow>
          (case atomic_write tmp fault partial (hold_path (h_entity h)) data d of
             (None, d') \<Rightarrow> (None, d')
           | (Some (what, e), d') \<Rightarrow>
               (Some (ErrWrap (write_fault_text ''slurm holdstore: '' what ''hold'' (h_entity h)) e), d'))))"

definition get_hold ::
  "(hold, 'c) codec \<Rightarrow> entity_id \<Rightarrow> go_error option \<Rightarrow> 'c directory \<Rightarrow> go_error + hold"
where
  "get_hold cd i read_fault d =
     (case read_fault of
        Some e \<Rightarrow> Inl (ErrWrap (''slurm holdstore: read hold for '' @ i @ '': '') e)
      | None \<Rightarrow>
          (case d (hold_path i) of
             None \<Rightarrow> Inl (ErrNoHold i)
           | Some data \<Rightarrow>
               (case cd_unmarshal cd data of
                  Inl e \<Rightarrow> Inl (ErrWrap (''slurm holdstore: unmarshal hold for '' @ i @ '': '') e)
                | Inr h \<Rightarrow> Inr h)))"

definition delete_hold :: "entity_id \<Rightarrow> go_error option \<Rightarrow> 'c directory \<Rightarrow> go_error option \<times> 'c directory" where
  "delete_hold i fault d =
     (case fault of
        Some e \<Rightarrow> (Some (ErrWrap (''slurm holdstore: delete hold for '' @ i @ '': '') e), d)
      | None \<Rightarrow> (None, d(hold_path i := None)))"

text \<open>The decoder the code does not need: it shows the encoding to be injective.\<close>

fun decode_hold :: "string \<Rightarrow> string" where
  "decode_hold (a # b # c # cs) =
     (if a = CHR ''%'' then
        (if [b, c] = ''25'' then CHR ''%'' else if [b, c] = ''2F'' then CHR ''/'' else bslash) # decode_hold cs
      else a # decode_hold (b # c # cs))"
| "decode_hold s = s"

lemma decode_hold_plain: "a \<noteq> CHR ''%'' \<Longrightarrow> decode_hold (a # s) = a # decode_hold s"
  by (cases s; cases "tl s") auto

lemma decode_hold_char: "decode_hold (encode_hold_char c @ s) = c # decode_hold s"
  by (cases "c = CHR ''%''"; cases "c = CHR ''/''"; cases "c = bslash")
    (simp_all add: encode_hold_char_def decode_hold_plain bslash_def)

lemma decode_encode_hold: "decode_hold (encode_hold_entity i) = i"
  by (induction i) (simp_all add: encode_hold_entity_def decode_hold_char)

lemma hold_path_inj: "hold_path i = hold_path j \<longleftrightarrow> i = j"
proof -
  have "hold_path i = hold_path j \<Longrightarrow> encode_hold_entity i = encode_hold_entity j"
    by (simp add: hold_path_def)
  then show ?thesis by (metis decode_encode_hold)
qed

definition holds_put :: "(hold, 'c) codec \<Rightarrow> hold \<Rightarrow> 'c directory \<Rightarrow> 'c directory" where
  "holds_put cd h d = snd (put_hold cd tmp_name None undefined h d)"

definition holds_get :: "(hold, 'c) codec \<Rightarrow> entity_id \<Rightarrow> 'c directory \<Rightarrow> hold option" where
  "holds_get cd i d = (case get_hold cd i None d of Inr h \<Rightarrow> Some h | Inl _ \<Rightarrow> None)"

definition nonempty_id :: "entity_id \<Rightarrow> bool" where "nonempty_id i \<longleftrightarrow> i \<noteq> ''''"

locale hold_store =
  fixes hcd :: "(hold, 'c) codec"
  assumes hold_codec [port_laws]: "good_codec hcd"

sublocale hold_store \<subseteq> keyed_store "holds_put hcd" "holds_get hcd" h_entity nonempty_id
proof
  fix v :: hold and d :: "'c directory"
  assume v: "nonempty_id (h_entity v)"
  obtain c where c: "cd_marshal hcd v = Inr c" "cd_unmarshal hcd c = Inr v"
    using hold_codec by (auto simp: good_codec_def)
  then have p: "holds_put hcd v d = (d(tmp_name := None))(hold_path (h_entity v) \<mapsto> c)"
    using v by (simp add: holds_put_def put_hold_def atomic_write_def nonempty_id_def)
  then show "holds_get hcd (h_entity v) (holds_put hcd v d) = Some v"
    using c by (simp add: holds_get_def get_hold_def)
  fix k assume "nonempty_id k" "k \<noteq> h_entity v"
  then show "holds_get hcd k (holds_put hcd v d) = holds_get hcd k d"
    using p json_not_tmp hold_path_inj [of k "h_entity v"]
    by (simp add: holds_get_def get_hold_def) (simp add: hold_path_def)
qed

interpretation holds: hold_store "id_codec :: (hold, hold) codec"
  by unfold_locales (rule id_codec_good)

section \<open>Properties\<close>


definition sample_record :: "entity_id \<Rightarrow> string \<Rightarrow> entity_record" where
  "sample_record i g =
     \<lparr>er_entity = i, er_generation = g, er_cohort = ''c'', er_reached_phase = PhaseLaunchAcked,
      er_attempts = [], er_terminal = None, er_cohort_cancelled = None, er_parent_cancelled = None,
      er_started_at = 1, er_finished_at = 2\<rparr>"




text \<open>The file names of the hold store separate all entities; those of the record store do
  not: the record of \<open>a/b\<close> is what a read of \<open>a%2Fb\<close> returns.\<close>

theorem hold_paths_injective_record_paths_not:
  "(hold_path i = hold_path j \<longleftrightarrow> i = j) \<and>
   store_get id_codec ''a%2Fb'' (store_put id_codec (sample_record ''a/b'' ''g'') d) = Some (sample_record ''a/b'' ''g'')"
proof
  obtain c where "store_put id_codec (sample_record ''a/b'' ''g'') d
      = (d(tmp_name := None))(record_path ''a/b'' \<mapsto> c)" "cd_unmarshal id_codec c = Inr (sample_record ''a/b'' ''g'')"
    by (rule store_put_eq [OF id_codec_good, of "sample_record ''a/b'' ''g''" d])
      (simp_all add: sample_record_def)
  moreover have "record_path ''a%2Fb'' = record_path ''a/b''"
    by (simp add: record_path_def encode_entity_eq)
  ultimately show "store_get id_codec ''a%2Fb'' (store_put id_codec (sample_record ''a/b'' ''g'') d)
      = Some (sample_record ''a/b'' ''g'')"
    by (simp add: store_get_def get_record_def)
qed (rule hold_path_inj)

end
