(* ===== verification/Spec_Partitions.thy ===== *)
theory Spec_Partitions
  imports Cohort_Entity
begin

text \<open>
  \<^verbatim>\<open>internal/spec/types.go\<close> (\<^verbatim>\<open>Partitions\<close> and what it holds) and \<^verbatim>\<open>internal/spec/load.go\<close>: the
  operator's partitions file after YAML decoding, its validation, the index by name, the partition
  of a bare node name, and the conversion to the cohort core's rungs and budget. A Go map is ranged
  over in an order the language leaves open: the lookup over the index takes that order as an
  argument. The YAML decoder is not modelled.
\<close>

section \<open>The file\<close>

record spec_rung =
  sr_instance_type :: string
  sr_avail_zone :: string
  sr_capacity_model :: string

record warm_pool_spec =
  wp_stopped :: int
  wp_hibernated :: int

record partition =
  pa_name :: string
  pa_execution_account :: string
  pa_max_nodes :: int
  pa_fallback_chain :: "spec_rung list"
  pa_warm_pool :: warm_pool_spec
  pa_budget :: "phase_budget option"
  pa_collective :: bool
  pa_node_prefix :: string

record partitions =
  ps_stack_hash :: string
  ps_partitions :: "partition list"

definition zero_partition :: partition where
  "zero_partition = \<lparr>pa_name = '''', pa_execution_account = '''', pa_max_nodes = 0, pa_fallback_chain = [],
     pa_warm_pool = \<lparr>wp_stopped = 0, wp_hibernated = 0\<rparr>, pa_budget = None, pa_collective = False,
     pa_node_prefix = ''''\<rparr>"

section \<open>Validation\<close>

definition capacity_model_from_string :: "string \<Rightarrow> go_error + capacity_model" where
  "capacity_model_from_string s =
     (let m = to_lower (trim_space s)
      in if m = ''ondemand'' \<or> m = ''on-demand'' \<or> m = '''' then Inr CapacityOnDemand
         else if m = ''spot'' then Inr CapacitySpot
         else if m = ''reserved'' \<or> m = ''odcr'' \<or> m = ''capacity-block'' then Inr CapacityReserved
         else Inl (ErrText (''unknown capacityModel '' @ go_quote s @ '' (want ondemand|spot|reserved)'')))"

definition rung_error :: "string \<Rightarrow> nat \<Rightarrow> string" where
  "rung_error name j = ''spec: partition '' @ go_quote name @ '' rung['' @ show_nat j @ '']''"

fun validate_rungs :: "string \<Rightarrow> nat \<Rightarrow> spec_rung list \<Rightarrow> go_error option" where
  "validate_rungs name j [] = None"
| "validate_rungs name j (r # rs) =
     (if sr_instance_type r = '''' then Some (ErrText (rung_error name j @ '' has empty instanceType''))
      else (case capacity_model_from_string (sr_capacity_model r) of
        Inl e \<Rightarrow> Some (ErrWrap (rung_error name j @ '': '') e)
      | Inr _ \<Rightarrow> validate_rungs name (Suc j) rs))"

fun validate_partition_list :: "string list \<Rightarrow> nat \<Rightarrow> partition list \<Rightarrow> go_error option" where
  "validate_partition_list seen i [] = None"
| "validate_partition_list seen i (p # ps) =
     (if pa_name p = '''' then
        Some (ErrText (''spec: partition['' @ show_nat i @ ''] has empty name''))
      else if pa_name p \<in> set seen then
        Some (ErrText (''spec: duplicate partition name '' @ go_quote (pa_name p)))
      else if pa_fallback_chain p = [] then
        Some (ErrText (''spec: partition '' @ go_quote (pa_name p) @ '' has empty fallbackChain''))
      else (case validate_rungs (pa_name p) 0 (pa_fallback_chain p) of
        Some e \<Rightarrow> Some e
      | None \<Rightarrow> validate_partition_list (pa_name p # seen) (Suc i) ps))"

definition validate_partitions :: "partitions \<Rightarrow> go_error option" where
  "validate_partitions p =
     (if ps_partitions p = [] then Some (ErrText ''spec: partitions.yaml has no partitions'')
      else validate_partition_list [] 0 (ps_partitions p))"

text \<open>\<^verbatim>\<open>ParsePartitions\<close> after the decoder, whose result is the argument.\<close>

definition parse_partitions :: "go_error + partitions \<Rightarrow> go_error + partitions" where
  "parse_partitions decoded =
     (case decoded of
        Inl e \<Rightarrow> Inl (ErrWrap ''spec: parse partitions: '' e)
      | Inr p \<Rightarrow> (case validate_partitions p of Some e \<Rightarrow> Inl e | None \<Rightarrow> Inr p))"

section \<open>Lookup\<close>

type_synonym partition_index = "string \<rightharpoonup> partition"

text \<open>\<^verbatim>\<open>Index\<close>: later entries of a name overwrite earlier ones.\<close>

definition index_partitions :: "partitions \<Rightarrow> partition_index" where
  "index_partitions p = fold (\<lambda>part m. m(pa_name part \<mapsto> part)) (ps_partitions p) Map.empty"

definition leading_prefix :: "string \<Rightarrow> string" where
  "leading_prefix node =
     (if list_ex is_digit node
      then trim_right_of (\<lambda>c. c = CHR ''-'') (takeWhile (\<lambda>c. \<not> is_digit c) node)
      else node)"

definition wanted_prefix :: "partition \<Rightarrow> string" where
  "wanted_prefix part = (if pa_node_prefix part = '''' then pa_name part else pa_node_prefix part)"

text \<open>\<open>order\<close> is the order in which the range statement visits the index.\<close>

fun resolve_for_node :: "partition list \<Rightarrow> string \<Rightarrow> partition option" where
  "resolve_for_node [] node = None"
| "resolve_for_node (part # order) node =
     (if wanted_prefix part = leading_prefix node \<or> has_prefix node (wanted_prefix part) then Some part
      else resolve_for_node order node)"

section \<open>Conversion to the cohort core\<close>

fun convert_rungs :: "string \<Rightarrow> string \<Rightarrow> nat \<Rightarrow> spec_rung list \<Rightarrow> go_error + rung list" where
  "convert_rungs name account j [] = Inr []"
| "convert_rungs name account j (r # rs) =
     (case capacity_model_from_string (sr_capacity_model r) of
        Inl e \<Rightarrow> Inl (ErrWrap (rung_error name j @ '': '') e)
      | Inr cm \<Rightarrow>
          (case convert_rungs name account (Suc j) rs of
             Inl e \<Rightarrow> Inl e
           | Inr chain \<Rightarrow>
               Inr (\<lparr>r_instance_type = sr_instance_type r, r_avail_zone = sr_avail_zone r,
                     r_capacity_model = cm, r_account_id = account, r_warm_start = False\<rparr> # chain)))"

definition cohort_fallback_chain :: "partition \<Rightarrow> go_error + rung list" where
  "cohort_fallback_chain part = convert_rungs (pa_name part) (pa_execution_account part) 0 (pa_fallback_chain part)"

definition zero_budget :: phase_budget where
  "zero_budget = \<lparr>b_launch_acked = 0, b_running = 0, b_enrolled = 0, b_cohort_barrier = 0, b_cohort_assembly = 0\<rparr>"

definition cohort_budget :: "partition \<Rightarrow> phase_budget" where
  "cohort_budget part =
     (case pa_budget part of
        None \<Rightarrow> zero_budget
      | Some b \<Rightarrow> \<lparr>b_launch_acked = b_launch_acked b, b_running = b_running b, b_enrolled = b_enrolled b,
                    b_cohort_barrier = b_cohort_barrier b, b_cohort_assembly = b_cohort_assembly b\<rparr>)"

section \<open>Facts about validated files\<close>

definition good_spec_rung :: "spec_rung \<Rightarrow> bool" where
  "good_spec_rung r \<longleftrightarrow> sr_instance_type r \<noteq> '''' \<and> (\<exists>cm. capacity_model_from_string (sr_capacity_model r) = Inr cm)"

definition good_partition :: "partition \<Rightarrow> bool" where
  "good_partition p \<longleftrightarrow> pa_name p \<noteq> '''' \<and> pa_fallback_chain p \<noteq> [] \<and> list_all good_spec_rung (pa_fallback_chain p)"

lemma validate_rungs_None: "validate_rungs name j rs = None \<longleftrightarrow> list_all good_spec_rung rs"
  by (induction name j rs rule: validate_rungs.induct)
    (auto simp: good_spec_rung_def split: sum.splits)

lemma validate_list_None:
  "validate_partition_list seen i ps = None \<longleftrightarrow>
   list_all good_partition ps \<and> distinct (map pa_name ps) \<and> set (map pa_name ps) \<inter> set seen = {}"
proof (induction seen i ps rule: validate_partition_list.induct)
  case (2 seen i p ps)
  then show ?case
    using validate_rungs_None [of "pa_name p" 0 "pa_fallback_chain p"]
    by (auto simp: good_partition_def split: option.splits)
qed simp

lemma validate_partitions_None:
  "validate_partitions p = None \<longleftrightarrow>
   ps_partitions p \<noteq> [] \<and> list_all good_partition (ps_partitions p) \<and> distinct (map pa_name (ps_partitions p))"
  by (simp add: validate_partitions_def validate_list_None)

lemma index_fold:
  "distinct (map pa_name ps) \<Longrightarrow>
   fold (\<lambda>part m. m(pa_name part \<mapsto> part)) ps m0 n =
     (case find (\<lambda>part. pa_name part = n) ps of Some part \<Rightarrow> Some part | None \<Rightarrow> m0 n)"
proof (induction ps arbitrary: m0)
  case (Cons p ps)
  have "find (\<lambda>part. pa_name part = pa_name p) ps = None"
    using Cons.prems by (auto simp: find_None_iff image_iff)
  with Cons show ?case by auto
qed simp

lemma index_lookup:
  assumes "validate_partitions p = None" "index_partitions p n = Some part"
  shows "part \<in> set (ps_partitions p) \<and> pa_name part = n \<and> good_partition part"
proof -
  have "find (\<lambda>part. pa_name part = n) (ps_partitions p) = Some part"
    using assms index_fold [of "ps_partitions p" Map.empty n]
    by (auto simp: index_partitions_def validate_partitions_None split: option.splits)
  then show ?thesis
    using assms(1) by (auto simp: find_Some_iff validate_partitions_None list_all_iff)
qed

text \<open>The whole chain, in order, with the partition's account on every rung.\<close>

definition rung_of :: "string \<Rightarrow> spec_rung \<Rightarrow> rung \<Rightarrow> bool" where
  "rung_of account s r \<longleftrightarrow> r_instance_type r = sr_instance_type s \<and> r_avail_zone r = sr_avail_zone s \<and>
     capacity_model_from_string (sr_capacity_model s) = Inr (r_capacity_model r) \<and> r_account_id r = account \<and>
     \<not> r_warm_start r"

lemma convert_rungs_good:
  "list_all good_spec_rung rs \<Longrightarrow> \<exists>chain. convert_rungs name account j rs = Inr chain \<and> list_all2 (rung_of account) rs chain"
proof (induction rs arbitrary: j)
  case (Cons r rs)
  from Cons.prems obtain cm where "capacity_model_from_string (sr_capacity_model r) = Inr cm"
    by (auto simp: good_spec_rung_def)
  moreover obtain chain where "convert_rungs name account (Suc j) rs = Inr chain" "list_all2 (rung_of account) rs chain"
    using Cons.IH [of "Suc j"] Cons.prems by auto
  ultimately show ?case by (simp add: rung_of_def [abs_def])
qed simp

lemma chain_of_good:
  assumes "good_partition part"
  obtains r rs where "cohort_fallback_chain part = Inr (r # rs)"
    "list_all2 (rung_of (pa_execution_account part)) (pa_fallback_chain part) (r # rs)"
    "list_all valid_rung (r # rs)"
proof -
  have "list_all good_spec_rung (pa_fallback_chain part)" using assms by (simp add: good_partition_def)
  then obtain chain where c: "cohort_fallback_chain part = Inr chain"
    "list_all2 (rung_of (pa_execution_account part)) (pa_fallback_chain part) chain"
    unfolding cohort_fallback_chain_def by (metis convert_rungs_good)
  have "chain \<noteq> []" using c(2) assms by (auto simp: good_partition_def)
  moreover have "list_all valid_rung chain"
    using c(2) assms
    by (auto simp: good_partition_def list_all_length list_all2_conv_all_nth rung_of_def valid_rung_def good_spec_rung_def)
  ultimately show ?thesis using c that by (cases chain) auto
qed

lemma resolve_in_order: "resolve_for_node order node = Some part \<Longrightarrow> part \<in> set order"
  by (induction order) (auto split: if_splits)

section \<open>Properties\<close>

text \<open>A partition of a validated file yields launchable intents: its chain converts to a
  non-empty chain with the same rungs in the operator's order, each carrying the partition's
  account, and the intent of every named node is accepted by the cohort core.\<close>

theorem valid_partition_launches:
  assumes "validate_partitions p = None" "index_partitions p n = Some part" "node \<noteq> ''''"
  shows "\<exists>r rs it. cohort_fallback_chain part = Inr (r # rs) \<and>
    list_all2 (rung_of (pa_execution_account part)) (pa_fallback_chain part) (r # rs) \<and>
    new_entity_intent cluster node gen cid r (r # rs) '''' = Inr it \<and>
    i_rung it = r \<and> i_fallback_chain it = r # rs"
proof -
  have "good_partition part" using index_lookup [OF assms(1,2)] by simp
  then obtain r rs where c: "cohort_fallback_chain part = Inr (r # rs)"
    "list_all2 (rung_of (pa_execution_account part)) (pa_fallback_chain part) (r # rs)"
    and v: "list_all valid_rung (r # rs)"
    by (rule chain_of_good)
  with c show ?thesis using assms(3) by (simp add: new_entity_intent_Inr)
qed

definition gpu_partition :: "string \<Rightarrow> partition" where
  "gpu_partition name = zero_partition\<lparr>pa_name := name, pa_execution_account := ''111122223333'',
     pa_fallback_chain := [\<lparr>sr_instance_type = ''p5.48xlarge'', sr_avail_zone = ''us-west-2a'', sr_capacity_model = ''reserved''\<rparr>,
       \<lparr>sr_instance_type = ''p4d.24xlarge'', sr_avail_zone = '''', sr_capacity_model = '' Spot''\<rparr>]\<rparr>"

definition two_partitions :: partitions where
  "two_partitions = \<lparr>ps_stack_hash = '''', ps_partitions = [gpu_partition ''gpu'', gpu_partition ''gpu-big'']\<rparr>"

lemma two_partitions_valid: "validate_partitions two_partitions = None"
  by code_simp

theorem valid_partition_launches_witness:
  "\<exists>r rs it. cohort_fallback_chain (gpu_partition ''gpu'') = Inr (r # rs) \<and>
    list_all2 (rung_of ''111122223333'') (pa_fallback_chain (gpu_partition ''gpu'')) (r # rs) \<and>
    new_entity_intent ''c'' ''gpu-001'' ''g1'' ''gpu:gpu-001'' r (r # rs) '''' = Inr it \<and>
    i_rung it = r \<and> i_fallback_chain it = r # rs"
proof -
  have "index_partitions two_partitions ''gpu'' = Some (gpu_partition ''gpu'')"
    by (simp add: index_partitions_def two_partitions_def gpu_partition_def)
  from valid_partition_launches [OF two_partitions_valid this, of "''gpu-001''" "''c''" "''g1''" "''gpu:gpu-001''"]
  show ?thesis by (simp add: gpu_partition_def)
qed

text \<open>When only one partition of the index matches a node name, the lookup finds it whatever the
  order in which the map is visited; a node whose name continues another partition's prefix has two
  matches, and then the order decides, an exact match of the leading prefix having no precedence.\<close>

theorem unique_match_resolves:
  assumes "part \<in> set order"
    and "\<And>q. q \<in> set order \<Longrightarrow> wanted_prefix q = leading_prefix node \<or> has_prefix node (wanted_prefix q) \<longleftrightarrow> q = part"
  shows "resolve_for_node order node = Some part"
  using assms
proof (induction order)
  case (Cons q order)
  show ?case
  proof (cases "q = part")
    case True
    then show ?thesis using Cons.prems(2) [of q] by auto
  next
    case False
    then have "resolve_for_node (q # order) node = resolve_for_node order node"
      using Cons.prems(2) [of q] by auto
    then show ?thesis using False Cons by auto
  qed
qed simp

theorem unique_match_resolves_witness:
  "resolve_for_node [gpu_partition ''cpu'', gpu_partition ''gpu''] ''gpu-007'' = Some (gpu_partition ''gpu'')"
  by (rule unique_match_resolves)
    (auto simp: gpu_partition_def zero_partition_def wanted_prefix_def leading_prefix_def is_digit_def
      has_prefix_def trim_right_of_def)

text \<open>The node \<open>gpu-big-001\<close>, whose leading prefix is exactly \<open>gpu-big\<close>, resolves to either partition.\<close>

theorem resolution_depends_on_order:
  "leading_prefix ''gpu-big-001'' = ''gpu-big'' \<and>
   resolve_for_node (ps_partitions two_partitions) ''gpu-big-001'' = Some (gpu_partition ''gpu'') \<and>
   resolve_for_node (rev (ps_partitions two_partitions)) ''gpu-big-001'' = Some (gpu_partition ''gpu-big'')"
  by (simp add: two_partitions_def gpu_partition_def zero_partition_def wanted_prefix_def leading_prefix_def
      is_digit_def has_prefix_def trim_right_of_def)

end
