(* ===== verification/Slurm_Hostlist.thy ===== *)
theory Slurm_Hostlist
  imports Cohort_State
begin

text \<open>
  \<^verbatim>\<open>internal/slurm/scontrol.go\<close>: the hostlist expansion that stands in for \<^verbatim>\<open>scontrol\<close> when the binary
  is absent, and the two calls of the \<^verbatim>\<open>Scontrol\<close> interface. The external binary is a parameter: what
  it prints for a hostlist, and whether an update succeeds. Indices are 64-bit integers: the counting
  loop is a partial function whose increment wraps, so that not returning is \<open>None\<close>.
\<close>

section \<open>Ranges\<close>

definition max_int :: int where "max_int = 2 ^ 63 - 1"

definition wrap_int :: "int \<Rightarrow> int" where
  "wrap_int i = (if i > max_int then i - 2 ^ 64 else i)"

text \<open>The verb \<^verbatim>\<open>%0*d\<close>; a sign counts towards the width.\<close>

definition format_index :: "nat \<Rightarrow> int \<Rightarrow> string" where
  "format_index w i =
     (if i < 0 then CHR ''-'' # pad_zero (w - 1) (show_nat (nat (- i))) else pad_zero w (show_nat (nat i)))"

text \<open>\<^verbatim>\<open>parseRange\<close>: low, high and width.\<close>

definition parse_range :: "string \<Rightarrow> go_error + (int \<times> int \<times> nat)" where
  "parse_range part =
     (case index_byte part (CHR ''-'') of
        Some dash \<Rightarrow>
          (let lo_str = take dash part; hi_str = drop (dash + 1) part
           in case atoi lo_str of
                None \<Rightarrow> Inl (ErrText (''slurm: bad range low '' @ go_quote lo_str))
              | Some lo \<Rightarrow>
                  (case atoi hi_str of
                     None \<Rightarrow> Inl (ErrText (''slurm: bad range high '' @ go_quote hi_str))
                   | Some hi \<Rightarrow> Inr (lo, hi, length lo_str)))
      | None \<Rightarrow>
          (case atoi part of
             None \<Rightarrow> Inl (ErrText (''slurm: bad index '' @ go_quote part))
           | Some n \<Rightarrow> Inr (n, n, length part)))"

text \<open>The counting loop, from \<open>i\<close> to \<open>hi\<close>.\<close>

partial_function (option) count_names :: "(int \<Rightarrow> string) \<Rightarrow> int \<Rightarrow> int \<Rightarrow> string list option" where
  [code]: "count_names name i hi =
     (if i \<le> hi then Option.bind (count_names name (wrap_int (i + 1)) hi) (\<lambda>xs. Some (name i # xs))
      else Some [])"

fun expand_parts :: "string \<Rightarrow> string \<Rightarrow> string list \<Rightarrow> (go_error + string list) option" where
  "expand_parts pre suf [] = Some (Inr [])"
| "expand_parts pre suf (part # parts) =
     (case parse_range (trim_space part) of
        Inl e \<Rightarrow> Some (Inl e)
      | Inr (lo, hi, width) \<Rightarrow>
          (case count_names (\<lambda>i. pre @ format_index width i @ suf) lo hi of
             None \<Rightarrow> None
           | Some names \<Rightarrow>
               (case expand_parts pre suf parts of
                  None \<Rightarrow> None
                | Some (Inl e) \<Rightarrow> Some (Inl e)
                | Some (Inr others) \<Rightarrow> Some (Inr (names @ others)))))"

definition nonempty_trimmed :: "string list \<Rightarrow> string list" where
  "nonempty_trimmed ws = filter (\<lambda>n. n \<noteq> '''') (map trim_space ws)"

definition expand_hostlist :: "string \<Rightarrow> (go_error + string list) option" where
  "expand_hostlist raw =
     (let hostlist = trim_space raw
      in case index_byte hostlist (CHR ''['') of
           None \<Rightarrow> Some (Inr (nonempty_trimmed (split_on (CHR '','') hostlist)))
         | Some opn \<Rightarrow>
             (case index_byte hostlist (CHR '']'') of
                None \<Rightarrow> Some (Inl (ErrText (''slurm: malformed hostlist '' @ go_quote hostlist)))
              | Some cls \<Rightarrow>
                  (if cls < opn then Some (Inl (ErrText (''slurm: malformed hostlist '' @ go_quote hostlist)))
                   else expand_parts (take opn hostlist) (drop (cls + 1) hostlist)
                          (split_on (CHR '','') (take (cls - (opn + 1)) (drop (opn + 1) hostlist))))))"

section \<open>The interface\<close>

record scontrol =
  sc_available :: bool
  sc_hostnames :: "string \<Rightarrow> go_error + string"
  sc_update :: "string list \<Rightarrow> go_error option"

text \<open>
  Absence of the binary is not an error. The search of the path and the two ways the binary is run are
  parameters; without the binary its path is empty and nothing runs it.
\<close>

definition new_scontrol ::
  "(string \<Rightarrow> go_error + string) \<Rightarrow> (string \<Rightarrow> string \<Rightarrow> go_error + string) \<Rightarrow>
   (string \<Rightarrow> string list \<Rightarrow> go_error option) \<Rightarrow> scontrol"
where
  "new_scontrol look_path hostnames update =
     (case look_path ''scontrol'' of
        Inl _ \<Rightarrow> \<lparr>sc_available = False, sc_hostnames = hostnames '''', sc_update = update ''''\<rparr>
      | Inr bin \<Rightarrow> \<lparr>sc_available = True, sc_hostnames = hostnames bin, sc_update = update bin\<rparr>)"

definition show_hostnames :: "scontrol \<Rightarrow> string \<Rightarrow> (go_error + string list) option" where
  "show_hostnames sc hostlist =
     (if \<not> sc_available sc then expand_hostlist hostlist
      else (case sc_hostnames sc hostlist of
        Inl e \<Rightarrow> Some (Inl (ErrWrap (''slurm: scontrol show hostnames '' @ go_quote hostlist @ '': '') e))
      | Inr out \<Rightarrow> Some (Inr (nonempty_trimmed (split_on (CHR 0x0A) (trim_space out))))))"

definition update_args :: "string \<Rightarrow> string \<Rightarrow> string \<Rightarrow> string list" where
  "update_args node state reason =
     [''update'', ''nodename='' @ node, ''state='' @ state] @ (if reason \<noteq> '''' then [''reason='' @ reason] else [])"

text \<open>The error, and the arguments \<^verbatim>\<open>scontrol\<close> is run with, when it is.\<close>

definition update_node :: "scontrol \<Rightarrow> string \<Rightarrow> string \<Rightarrow> string \<Rightarrow> go_error option \<times> string list option" where
  "update_node sc node state reason =
     (if \<not> sc_available sc then (None, None)
      else ((case sc_update sc (update_args node state reason) of
               Some e \<Rightarrow> Some (ErrWrap (''slurm: scontrol update nodename='' @ node @ '' state='' @ state @ '': '') e)
             | None \<Rightarrow> None),
            Some (update_args node state reason)))"

section \<open>The counting loop\<close>

lemma count_names_stops:
  "lo \<le> hi + 1 \<Longrightarrow> hi < max_int \<Longrightarrow> count_names name lo hi = Some (map name [lo..hi])"
proof (induction "nat (hi + 1 - lo)" arbitrary: lo)
  case 0
  then show ?case by (subst count_names.simps) simp
next
  case (Suc k)
  then have "lo \<le> hi" "wrap_int (lo + 1) = lo + 1" by (auto simp: wrap_int_def)
  moreover have "count_names name (lo + 1) hi = Some (map name [lo + 1..hi])"
    using Suc by (intro Suc.hyps(1)) auto
  ultimately show ?case by (subst count_names.simps) (simp add: upto_rec1)
qed

lemma count_names_empty: "hi < lo \<Longrightarrow> count_names name lo hi = Some []"
  by (subst count_names.simps) simp

lemma count_names_returned:
  assumes "count_names name i hi = Some ys"
  shows "i \<le> max_int \<longrightarrow> hi < max_int"
proof (rule count_names.raw_induct [of "\<lambda>_ i hi _. i \<le> max_int \<longrightarrow> hi < max_int", OF _ assms])
  fix rec :: "(int \<Rightarrow> string) \<Rightarrow> int \<Rightarrow> int \<Rightarrow> string list option" and name i hi ys
  assume IH: "\<And>name i hi y. rec name i hi = Some y \<Longrightarrow> i \<le> max_int \<longrightarrow> hi < max_int"
    and r: "(if i \<le> hi then Option.bind (rec name (wrap_int (i + 1)) hi) (\<lambda>xs. Some (name i # xs)) else Some []) = Some ys"
  show "i \<le> max_int \<longrightarrow> hi < max_int"
  proof (cases "i \<le> hi")
    case True
    then obtain xs where "rec name (wrap_int (i + 1)) hi = Some xs"
      using r by (auto simp: bind_eq_Some_conv)
    from IH [OF this] show ?thesis by (auto simp: wrap_int_def max_int_def split: if_splits)
  qed auto
qed

lemma count_names_diverges: "i \<le> max_int \<Longrightarrow> count_names name i max_int = None"
  using count_names_returned [of name i max_int] by (cases "count_names name i max_int") auto

lemma parse_range_bounds:
  assumes "parse_range part = Inr (lo, hi, w)"
  shows "lo \<le> max_int \<and> hi \<le> max_int"
proof -
  have "atoi s = Some v \<Longrightarrow> v \<le> max_int" for s v
    by (auto simp: atoi_def Let_def max_int_def split: if_splits option.splits list.splits)
  then show ?thesis
    using assms by (auto simp: parse_range_def Let_def split: option.splits)
qed

section \<open>One range\<close>

lemma digit_not_sep: "is_digit c \<Longrightarrow> c \<notin> {CHR ''-'', CHR '','', CHR ''['', CHR '']'', CHR ''+''} \<and> \<not> is_space c"
  by (auto simp: is_digit_def is_space_def)

definition padded :: "nat \<Rightarrow> nat \<Rightarrow> string" where "padded w n = pad_zero w (show_nat n)"

lemma padded_digits: "c \<in> set (padded w n) \<Longrightarrow> is_digit c"
  by (auto simp: padded_def pad_zero_def is_digit_def dest: show_nat_digits [unfolded is_digit_def] split: if_splits)

lemma padded_nonempty [simp]: "padded w n \<noteq> []"
  by (simp add: padded_def pad_zero_def)

lemma atoi_padded:
  assumes "int n \<le> max_int"
  shows "atoi (padded w n) = Some (int n)"
proof -
  obtain c cs where c: "padded w n = c # cs" using padded_nonempty [of w n] by (cases "padded w n") auto
  have "c \<noteq> CHR ''-''" "c \<noteq> CHR ''+''" using padded_digits [of c w n] c digit_not_sep by auto
  moreover have "parse_digits 0 (c # cs) = Some n" using parse_pad_zero [of w n] c by (simp add: padded_def)
  ultimately show ?thesis
    using assms c by (simp add: atoi_def Let_def max_int_def del: parse_digits.simps)
qed

lemma format_index_nat: "format_index w (int n) = padded w n"
  by (simp add: format_index_def padded_def)

lemma parse_range_pair:
  assumes "int lo \<le> max_int" "int hi \<le> max_int"
  shows "parse_range (padded w lo @ CHR ''-'' # padded v hi) = Inr (int lo, int hi, length (padded w lo))"
proof -
  have "CHR ''-'' \<notin> set (padded w lo)" using padded_digits digit_not_sep by blast
  then show ?thesis
    using assms by (simp add: parse_range_def index_byte_append atoi_padded)
qed

definition bracket_list :: "string \<Rightarrow> string \<Rightarrow> string \<Rightarrow> string" where
  "bracket_list pre r suf = pre @ CHR ''['' # r @ CHR '']'' # suf"

definition plain_affixes :: "string \<Rightarrow> string \<Rightarrow> bool" where
  "plain_affixes pre suf \<longleftrightarrow> CHR ''['' \<notin> set pre \<and> CHR '']'' \<notin> set pre \<and>
     (pre \<noteq> [] \<longrightarrow> \<not> is_space (hd pre)) \<and> (suf \<noteq> [] \<longrightarrow> \<not> is_space (last suf))"

lemma trim_bracket_list:
  assumes "plain_affixes pre suf"
  shows "trim_space (bracket_list pre r suf) = bracket_list pre r suf"
proof (rule trim_space_id)
  show "\<not> is_space (hd (bracket_list pre r suf))"
    using assms by (cases pre) (auto simp: bracket_list_def plain_affixes_def is_space_def)
  show "\<not> is_space (last (bracket_list pre r suf))"
    using assms by (cases "suf = []") (auto simp: bracket_list_def plain_affixes_def is_space_def)
qed (simp add: bracket_list_def)

lemma expand_bracket_list:
  assumes "plain_affixes pre suf" "CHR ''['' \<notin> set r" "CHR '']'' \<notin> set r"
  shows "expand_hostlist (bracket_list pre r suf) = expand_parts pre suf (split_on (CHR '','') r)"
proof -
  have "index_byte (bracket_list pre r suf) (CHR ''['') = Some (length pre)"
    unfolding bracket_list_def using assms by (intro index_byte_append) (simp add: plain_affixes_def)
  moreover have "index_byte ((pre @ CHR ''['' # r) @ CHR '']'' # suf) (CHR '']'') = Some (length (pre @ CHR ''['' # r))"
    using assms by (intro index_byte_append) (auto simp: plain_affixes_def)
  ultimately show ?thesis
    using trim_bracket_list [OF assms(1), of r] by (simp add: expand_hostlist_def bracket_list_def)
qed

lemma expand_one_range:
  assumes "plain_affixes pre suf" "int lo \<le> max_int" "int hi \<le> max_int"
  shows "expand_hostlist (bracket_list pre (padded w lo @ CHR ''-'' # padded v hi) suf) =
    map_option Inr (count_names (\<lambda>i. pre @ format_index (length (padded w lo)) i @ suf) (int lo) (int hi))"
proof -
  let ?r = "padded w lo @ CHR ''-'' # padded v hi"
  have nin: "c \<notin> set ?r" if "c \<in> {CHR '','', CHR ''['', CHR '']''} \<or> is_space c" for c
  proof
    assume "c \<in> set ?r"
    then have "c = CHR ''-'' \<or> is_digit c" using padded_digits by (auto simp del: insert_iff)
    then show False using that digit_not_sep [of c] by (auto simp: is_space_def)
  qed
  have "trim_space ?r = ?r"
  proof (rule trim_space_id)
    show "\<not> is_space (hd ?r)" "\<not> is_space (last ?r)"
      using nin by (meson hd_in_set last_in_set append_is_Nil_conv padded_nonempty)+
  qed simp
  moreover have "split_on (CHR '','') ?r = [?r]" using nin by (intro split_on_no_sep) blast
  ultimately show ?thesis
    using assms nin by (simp add: expand_bracket_list parse_range_pair split: option.split)
qed

lemma upto_int_nat: "[int a..int b] = map int [a..<b + 1]"
proof (induction b)
  case 0
  then show ?case by (cases a) simp_all
next
  case (Suc b)
  show ?case
  proof (cases "a \<le> Suc b")
    case True
    then have "[int a..int (Suc b)] = [int a..int b] @ [int (Suc b)]"
      using upto_rec2 [of "int a" "int (Suc b)"] by simp
    with True Suc show ?thesis by simp
  qed simp
qed

section \<open>Properties\<close>

text \<open>C28. A hostlist with one range expands to one name per index, in increasing order, every index
  padded to the width of the lower bound's text, and no name occurs twice; but when the upper bound is
  the largest 64-bit integer the expansion never returns, the loop's increment wrapping around.\<close>

theorem hostlist_range_expands:
  assumes "\<not> sc_available sc" "plain_affixes pre suf" "lo \<le> hi" "int hi \<le> max_int"
  shows "show_hostnames sc (bracket_list pre (padded w lo @ CHR ''-'' # padded v hi) suf) =
    (if int hi = max_int then None
     else Some (Inr (map (\<lambda>i. pre @ padded (length (padded w lo)) i @ suf) [lo..<hi + 1]))) \<and>
    distinct (map (\<lambda>i. pre @ padded (length (padded w lo)) i @ suf) [lo..<hi + 1])"
proof
  show "distinct (map (\<lambda>i. pre @ padded (length (padded w lo)) i @ suf) [lo..<hi + 1])"
    using pad_zero_inj by (auto simp: distinct_map inj_on_def padded_def)
  have "int lo \<le> max_int" using assms by simp
  then have "show_hostnames sc (bracket_list pre (padded w lo @ CHR ''-'' # padded v hi) suf) =
      map_option Inr (count_names (\<lambda>i. pre @ format_index (length (padded w lo)) i @ suf) (int lo) (int hi))"
    using assms by (simp add: show_hostnames_def expand_one_range)
  also have "\<dots> = (if int hi = max_int then None
     else Some (Inr (map (\<lambda>i. pre @ padded (length (padded w lo)) i @ suf) [lo..<hi + 1])))"
    using assms \<open>int lo \<le> max_int\<close>
    by (simp add: count_names_diverges count_names_stops upto_int_nat comp_def format_index_nat del: upt_Suc)
  finally show "show_hostnames sc (bracket_list pre (padded w lo @ CHR ''-'' # padded v hi) suf) = \<dots>" .
qed

definition no_scontrol :: scontrol where
  "no_scontrol = \<lparr>sc_available = False, sc_hostnames = (\<lambda>_. Inr ''''), sc_update = (\<lambda>_. None)\<rparr>"

theorem hostlist_range_expands_witness:
  "show_hostnames no_scontrol ''gpu-[009-011]'' = Some (Inr [''gpu-009'', ''gpu-010'', ''gpu-011''])"
proof -
  have d: "padded 3 9 = ''009''" "padded 3 10 = ''010''" "padded 3 11 = ''011''" by code_simp+
  have "[9..<11 + 1] = [9, 10, 11 :: nat]" by (simp add: upt_rec)
  then show ?thesis
    using hostlist_range_expands [of no_scontrol "''gpu-''" "[]" 9 11 3 3]
    by (simp add: no_scontrol_def plain_affixes_def is_space_def max_int_def bracket_list_def d
        numeral_3_eq_3 [symmetric])
qed

end
