(* ===== verification/Slurm_Bridge.thy ===== *)
theory Slurm_Bridge
  imports Stores Spec_Partitions Slurm_Hostlist Aws_Client
begin

text \<open>
  \<^verbatim>\<open>internal/slurm/resume.go\<close>, \<^verbatim>\<open>suspend.go\<close>, \<^verbatim>\<open>sweep.go\<close> and \<^verbatim>\<open>admission.go\<close>: the bodies of the
  programs Slurm forks. The ports of the \<^verbatim>\<open>Bridge\<close> are functions on a state \<open>'w\<close> of the world outside
  (cloud, stores, budget service, Slurm controller); a port that may be nil is an option. The order in
  which a Go map is ranged over is a field. The clock is an argument, read once per node or instance.
  \<open>br_print\<close> writes a message to standard output.
\<close>

section \<open>The ports\<close>

record config =
  cf_cluster :: string
  cf_region :: string
  cf_generation :: generation
  cf_partitions :: "partitions option"
  cf_default_partition :: string
  cf_bootstrap_s3 :: string
  cf_fail_mode :: string

record admission_request =
  aq_cluster :: string
  aq_partition :: string
  aq_account :: string
  aq_instance_type :: string
  aq_capacity_model :: string
  aq_count :: nat
  aq_region :: string

record admission_result =
  as_allowed :: bool
  as_reason :: string
  as_estimated_cost :: rat
  as_budget_remaining :: rat
  as_transaction_id :: string

record reconcile_request =
  rq_transaction_id :: string
  rq_account :: string
  rq_job_id :: string
  rq_actual_cost :: rat

record 'w hold_port =
  hp_put :: "hold \<Rightarrow> 'w \<Rightarrow> go_error option \<times> 'w"
  hp_get :: "entity_id \<Rightarrow> 'w \<Rightarrow> go_error + hold"
  hp_delete :: "entity_id \<Rightarrow> 'w \<Rightarrow> go_error option \<times> 'w"

record 'w actuator_port =
  ap_stop :: "entity_id \<Rightarrow> stop_mode \<Rightarrow> 'w \<Rightarrow> go_error option \<times> 'w"
  ap_terminate :: "entity_id \<Rightarrow> 'w \<Rightarrow> go_error option \<times> 'w"

text \<open>
  \<open>br_closer\<close> is the type assertion of the admitter to \<^verbatim>\<open>Reconciler\<close>; \<open>br_reconcile\<close> runs the cohort
  core, with or without the assembler.
\<close>

record 'w bridge =
  br_cfg :: config
  br_show :: "string \<Rightarrow> (go_error + string list) option"
  br_update :: "string \<Rightarrow> string \<Rightarrow> string \<Rightarrow> 'w \<Rightarrow> go_error option \<times> 'w"
  br_reconcile :: "bool \<Rightarrow> cohort \<Rightarrow> 'w \<Rightarrow> outcome \<times> 'w"
  br_actuator :: "'w actuator_port option"
  br_assembler :: bool
  br_records :: "(outcome \<Rightarrow> 'w \<Rightarrow> go_error option \<times> 'w) option"
  br_describer :: "(string \<Rightarrow> 'w \<Rightarrow> go_error + instance_view list) option"
  br_admitter :: "(admission_request \<Rightarrow> 'w \<Rightarrow> (go_error + admission_result) \<times> 'w) option"
  br_closer :: "(reconcile_request \<Rightarrow> 'w \<Rightarrow> go_error option \<times> 'w) option"
  br_holds :: "'w hold_port option"
  br_print :: "string \<Rightarrow> 'w \<Rightarrow> 'w"
  br_map_order :: "(entity_id \<rightharpoonup> entity_record) \<Rightarrow> entity_id list"
  br_index_order :: "partition_index \<Rightarrow> partition list"

text \<open>A best-effort step: its error, when it has one, is printed after \<open>what\<close> and otherwise ignored.\<close>

definition complain :: "'w bridge \<Rightarrow> string \<Rightarrow> go_error option \<times> 'w \<Rightarrow> 'w" where
  "complain b what r =
     (case r of (None, w) \<Rightarrow> w | (Some err, w) \<Rightarrow> br_print b (what @ '': '' @ error_text err @ nl) w)"

section \<open>Admission\<close>

definition refusal_record :: "time \<Rightarrow> cohort_id \<Rightarrow> string \<Rightarrow> entity_intent \<Rightarrow> entity_record" where
  "refusal_record now cid reason m =
     \<lparr>er_entity = i_id m, er_generation = i_generation m, er_cohort = cid, er_reached_phase = PhaseLaunchAcked,
      er_attempts = [], er_terminal = Some (mk_fault FaultTerminal ''BudgetExhausted'' reason),
      er_cohort_cancelled = None, er_parent_cancelled = None, er_started_at = now, er_finished_at = now\<rparr>"

definition record_refusal :: "time \<Rightarrow> entity_intent list \<Rightarrow> cohort_id \<Rightarrow> string \<Rightarrow> outcome" where
  "record_refusal now intents cid reason =
     \<lparr>out_cohort = cid, out_ready = False,
      out_records = fold (\<lambda>m f. f(i_id m \<mapsto> refusal_record now cid reason m)) intents Map.empty\<rparr>"

fun capacity_model_string :: "capacity_model \<Rightarrow> string" where
  "capacity_model_string CapacitySpot = ''spot''"
| "capacity_model_string CapacityReserved = ''reserved''"
| "capacity_model_string CapacityOnDemand = ''ondemand''"

definition zero_result :: admission_result where
  "zero_result = \<lparr>as_allowed = False, as_reason = '''', as_estimated_cost = 0, as_budget_remaining = 0, as_transaction_id = ''''\<rparr>"

definition admission_request_for :: "config \<Rightarrow> partition \<Rightarrow> rung \<Rightarrow> nat \<Rightarrow> admission_request" where
  "admission_request_for cfg part rung count =
     \<lparr>aq_cluster = cf_cluster cfg, aq_partition = pa_name part, aq_account = pa_execution_account part,
      aq_instance_type = r_instance_type rung, aq_capacity_model = capacity_model_string (r_capacity_model rung),
      aq_count = count, aq_region = cf_region cfg\<rparr>"

text \<open>What the reply of the gate means: refused or not, the reason, the result to take the hold from.\<close>

definition admission_verdict :: "config \<Rightarrow> go_error + admission_result \<Rightarrow> bool \<times> string \<times> admission_result" where
  "admission_verdict cfg reply =
     (case reply of
        Inl err \<Rightarrow>
          (if cf_fail_mode cfg = ''strict''
           then (True, ''admission check failed (strict): '' @ error_text err, zero_result)
           else (False, '''', zero_result))
      | Inr res \<Rightarrow>
          (if \<not> as_allowed res
           then (True, (if as_reason res = '''' then ''budget exhausted'' else as_reason res), res)
           else (False, '''', res)))"

definition check_admission ::
  "'w bridge \<Rightarrow> (admission_request \<Rightarrow> 'w \<Rightarrow> (go_error + admission_result) \<times> 'w) \<Rightarrow> partition \<Rightarrow> rung \<Rightarrow> nat \<Rightarrow> 'w \<Rightarrow>
   (bool \<times> string \<times> admission_result) \<times> 'w"
where
  "check_admission b admit part rung count w =
     (case admit (admission_request_for (br_cfg b) part rung count) w of
        (reply, w1) \<Rightarrow>
          (admission_verdict (br_cfg b) reply,
           case reply of
             Inl err \<Rightarrow>
               (if cf_fail_mode (br_cfg b) = ''strict'' then w1
                else complain b ''slurm resume: admission check failed, allowing (graceful)'' (Some err, w1))
           | Inr _ \<Rightarrow> w1))"

definition hold_of :: "partition \<Rightarrow> admission_result \<Rightarrow> nat \<Rightarrow> time \<Rightarrow> string \<Rightarrow> hold" where
  "hold_of part res n now node =
     \<lparr>h_entity = node, h_transaction_id = as_transaction_id res, h_account = pa_execution_account part,
      h_partition = pa_name part,
      h_hourly_rate = (if n > 0 then as_estimated_cost res / of_nat n else 0), h_started_at = now\<rparr>"

definition persist_holds :: "'w bridge \<Rightarrow> time \<Rightarrow> string list \<Rightarrow> partition \<Rightarrow> admission_result \<Rightarrow> 'w \<Rightarrow> 'w" where
  "persist_holds b now nodes part res w =
     (case br_holds b of
        None \<Rightarrow> w
      | Some hp \<Rightarrow>
          (if as_transaction_id res = '''' then w
           else fold (\<lambda>node w. complain b (''slurm resume: persist hold for '' @ node)
                  (hp_put hp (hold_of part res (length nodes) now node) w)) nodes w))"

section \<open>Resume\<close>

definition resolve_partition :: "'w bridge \<Rightarrow> string \<Rightarrow> string \<Rightarrow> go_error + partition" where
  "resolve_partition b name sample =
     (case cf_partitions (br_cfg b) of
        None \<Rightarrow> Inl (ErrText ''slurm resume: no partitions loaded'')
      | Some ps \<Rightarrow>
          (let idx = index_partitions ps;
               n = (if name = '''' then cf_default_partition (br_cfg b) else name)
           in if n \<noteq> '''' then
                (case idx n of
                   None \<Rightarrow> Inl (ErrText (''slurm resume: unknown partition '' @ go_quote n))
                 | Some part \<Rightarrow> Inr part)
              else (case resolve_for_node (br_index_order b idx) sample of
                None \<Rightarrow> Inl (ErrText (''slurm resume: cannot resolve partition for node '' @ go_quote sample @ '' (pass --partition)''))
              | Some part \<Rightarrow> Inr part)))"

text \<open>The cohort, and whether it is reconciled with the assembler.\<close>

definition build_cohort ::
  "'w bridge \<Rightarrow> partition \<Rightarrow> cohort_id \<Rightarrow> entity_intent list \<Rightarrow> phase_budget \<Rightarrow> go_error + cohort \<times> bool"
where
  "build_cohort b part cid intents budget =
     (if length intents = 1 then
        (case new_serial_cohort cid (hd intents) budget of Inl e \<Rightarrow> Inl e | Inr c \<Rightarrow> Inr (c, False))
      else if pa_collective part then
        (if \<not> br_assembler b then
           Inl (ErrText (''slurm resume: partition '' @ go_quote (pa_name part) @
             '' is collective but no Assembler is configured (collective resume requires the S3 ManifestPublisher '' @
             em_dash @ '' phase 2b)''))
         else (case new_mpi_cohort cid intents budget of Inl e \<Rightarrow> Inl e | Inr c \<Rightarrow> Inr (c, True)))
      else (case new_partial_cohort cid intents budget (int (length intents)) (None :: unit option) of
        Inl e \<Rightarrow> Inl e | Inr c \<Rightarrow> Inr (c, False)))"

fun build_intents :: "string \<Rightarrow> generation \<Rightarrow> cohort_id \<Rightarrow> rung list \<Rightarrow> string list \<Rightarrow> go_error + entity_intent list" where
  "build_intents cluster gen cid chain [] = Inr []"
| "build_intents cluster gen cid chain (node # nodes) =
     (case new_entity_intent cluster node gen cid (hd chain) chain '''' of
        Inl e \<Rightarrow> Inl (ErrWrap (''slurm resume: build intent for '' @ node @ '': '') e)
      | Inr m \<Rightarrow>
          (case build_intents cluster gen cid chain nodes of
             Inl e \<Rightarrow> Inl e
           | Inr ms \<Rightarrow> Inr (m # ms)))"

definition node_state :: "entity_record \<Rightarrow> string" where
  "node_state rec = (if er_terminal rec \<noteq> None then ''down'' else ''drain'')"

text \<open>The loop over the records, in the order the map is ranged over.\<close>

fun writeback :: "'w bridge \<Rightarrow> (entity_id \<rightharpoonup> entity_record) \<Rightarrow> entity_id list \<Rightarrow> 'w \<Rightarrow> 'w" where
  "writeback b recs [] w = w"
| "writeback b recs (i # is) w =
     (case recs i of
        None \<Rightarrow> writeback b recs is w
      | Some rec \<Rightarrow>
          (if succeeded rec then writeback b recs is w
           else writeback b recs is (snd (br_update b (er_entity rec) (node_state rec) (summary rec) w))))"

definition finish :: "'w bridge \<Rightarrow> outcome \<Rightarrow> 'w \<Rightarrow> 'w" where
  "finish b out w =
     (let w1 = (case br_records b of None \<Rightarrow> w | Some put \<Rightarrow> complain b ''slurm resume: persist outcome'' (put out w))
      in writeback b (out_records out) (br_map_order b (out_records out)) w1)"

text \<open>After the intents: the cohort, the gate, the reconcile.\<close>

definition launch_fleet ::
  "'w bridge \<Rightarrow> time \<Rightarrow> partition \<Rightarrow> string list \<Rightarrow> rung list \<Rightarrow> cohort_id \<Rightarrow> entity_intent list \<Rightarrow> 'w \<Rightarrow>
   go_error option \<times> 'w"
where
  "launch_fleet b now part nodes chain cid intents w =
     (case build_cohort b part cid intents (cohort_budget part) of
        Inl e \<Rightarrow> (Some e, w)
      | Inr (c, asm) \<Rightarrow>
          (case br_admitter b of
             None \<Rightarrow> (case br_reconcile b asm c w of (out, w1) \<Rightarrow> (None, finish b out w1))
           | Some admit \<Rightarrow>
               (case check_admission b admit part (hd chain) (length nodes) w of
                  ((refused, reason, res), w1) \<Rightarrow>
                    (if refused then (None, finish b (record_refusal now intents cid reason) w1)
                     else (case br_reconcile b asm c (persist_holds b now nodes part res w1) of
                       (out, w2) \<Rightarrow> (None, finish b out w2))))))"

definition resume :: "'w bridge \<Rightarrow> time \<Rightarrow> string \<Rightarrow> string \<Rightarrow> 'w \<Rightarrow> (go_error option \<times> 'w) option" where
  "resume b now name hostlist w =
     (case br_show b hostlist of
        None \<Rightarrow> None
      | Some (Inl e) \<Rightarrow> Some (Some (ErrWrap ''slurm resume: expand hostlist: '' e), w)
      | Some (Inr nodes) \<Rightarrow>
          (if nodes = [] then
             Some (Some (ErrText (''slurm resume: hostlist '' @ go_quote hostlist @ '' expanded to no nodes'')), w)
           else (case resolve_partition b name (hd nodes) of
             Inl e \<Rightarrow> Some (Some e, w)
           | Inr part \<Rightarrow>
               (case cohort_fallback_chain part of
                  Inl e \<Rightarrow> Some (Some (ErrWrap (''slurm resume: partition '' @ go_quote (pa_name part) @ '': '') e), w)
                | Inr chain \<Rightarrow>
                    (let cid = pa_name part @ '':'' @ hostlist
                     in case build_intents (cf_cluster (br_cfg b)) (cf_generation (br_cfg b)) cid chain nodes of
                          Inl e \<Rightarrow> Some (Some e, w)
                        | Inr intents \<Rightarrow> Some (launch_fleet b now part nodes chain cid intents w))))))"

section \<open>Suspend\<close>

definition suspend_action :: "partition \<Rightarrow> stop_mode \<times> bool" where
  "suspend_action part =
     (if wp_hibernated (pa_warm_pool part) > 0 then (StopHibernate, False)
      else if wp_stopped (pa_warm_pool part) > 0 then (StopWarm, False)
      else (StopWarm, True))"

definition close_request :: "config \<Rightarrow> time \<Rightarrow> entity_id \<Rightarrow> hold \<Rightarrow> reconcile_request" where
  "close_request cfg now i h =
     \<lparr>rq_transaction_id = h_transaction_id h, rq_account = h_account h, rq_job_id = cf_cluster cfg @ ''/'' @ i,
      rq_actual_cost = h_hourly_rate h * max 0 (of_int (time_sub now (h_started_at h)) / of_int hour)\<rparr>"

definition reconcile_hold :: "'w bridge \<Rightarrow> time \<Rightarrow> entity_id \<Rightarrow> 'w \<Rightarrow> 'w" where
  "reconcile_hold b now i w =
     (case br_holds b of
        None \<Rightarrow> w
      | Some hp \<Rightarrow>
          (case hp_get hp i w of
             Inl e \<Rightarrow>
               (if is_no_hold e then w else complain b (''slurm suspend: read hold for '' @ i) (Some e, w))
           | Inr h \<Rightarrow>
               (let drop_hold = (\<lambda>w. complain b (''slurm suspend: delete hold for '' @ i) (hp_delete hp i w))
                in (case br_closer b of
                      None \<Rightarrow> drop_hold w
                    | Some close \<Rightarrow>
                        (case close (close_request (br_cfg b) now i h) w of
                           (Some err, w1) \<Rightarrow>
                             complain b (''slurm suspend: reconcile hold '' @ h_transaction_id h @ '' for '' @ i) (Some err, w1)
                         | (None, w1) \<Rightarrow> drop_hold w1)))))"

text \<open>The loop over the nodes: \<open>k\<close> is the node's position, \<open>errs\<close> the errors so far.\<close>

fun suspend_nodes ::
  "'w bridge \<Rightarrow> 'w actuator_port \<Rightarrow> stop_mode \<times> bool \<Rightarrow> (nat \<Rightarrow> time) \<Rightarrow> nat \<Rightarrow> string list \<Rightarrow> go_error list \<Rightarrow> 'w \<Rightarrow>
   go_error list \<times> 'w"
where
  "suspend_nodes b ap act clk k [] errs w = (errs, w)"
| "suspend_nodes b ap act clk k (node # nodes) errs w =
     (case (if snd act then ap_terminate ap node w else ap_stop ap node (fst act) w) of
        (Some e, w1) \<Rightarrow> suspend_nodes b ap act clk (Suc k) nodes (errs @ [ErrWrap (node @ '': '') e]) w1
      | (None, w1) \<Rightarrow> suspend_nodes b ap act clk (Suc k) nodes errs (reconcile_hold b (clk k) node w1))"

definition first_or :: "string list \<Rightarrow> string \<Rightarrow> string" where
  "first_or s fallback = (case s of [] \<Rightarrow> fallback | x # _ \<Rightarrow> x)"

definition suspend :: "'w bridge \<Rightarrow> (nat \<Rightarrow> time) \<Rightarrow> string \<Rightarrow> string \<Rightarrow> 'w \<Rightarrow> (go_error option \<times> 'w) option" where
  "suspend b clk name hostlist w =
     (case br_show b hostlist of
        None \<Rightarrow> None
      | Some (Inl e) \<Rightarrow> Some (Some (ErrWrap ''slurm suspend: expand hostlist: '' e), w)
      | Some (Inr nodes) \<Rightarrow>
          (case br_actuator b of
             None \<Rightarrow> Some (Some (ErrText ''slurm suspend: no Actuator configured''), w)
           | Some ap \<Rightarrow>
               (let part = (case resolve_partition b name (first_or nodes '''') of
                              Inl _ \<Rightarrow> zero_partition | Inr part \<Rightarrow> part)
                in case suspend_nodes b ap (suspend_action part) clk 0 nodes [] w of
                     (errs, w1) \<Rightarrow>
                       Some (if errs \<noteq> [] then
                               Some (ErrWrap (''slurm suspend: '' @ show_nat (length errs) @ '' node(s) failed: '')
                                 (ErrJoin errs))
                             else None, w1))))"

section \<open>Sweep\<close>

record sweep_decision =
  sd_entity :: entity_id
  sd_provider_id :: string
  sd_generation :: string
  sd_reason :: string

record sweep_result =
  sw_reaped :: "sweep_decision list"
  sw_spared :: "sweep_decision list"

definition within_grace :: "time \<Rightarrow> duration \<Rightarrow> time \<Rightarrow> bool" where
  "within_grace launch grace now = (if is_zero_time launch then True else time_sub now launch \<le> grace)"

definition age :: "time \<Rightarrow> time \<Rightarrow> duration" where
  "age launch now = (if is_zero_time launch then 0 else time_sub now launch)"

definition is_terminating :: "string \<Rightarrow> bool" where
  "is_terminating state \<longleftrightarrow> state = ''shutting-down'' \<or> state = ''terminated''"

text \<open>Whether an instance is reaped, and the reason recorded. \<open>dur\<close> renders a duration.\<close>

definition sweep_verdict :: "(duration \<Rightarrow> string) \<Rightarrow> generation \<Rightarrow> duration \<Rightarrow> time \<Rightarrow> instance_view \<Rightarrow> bool \<times> string" where
  "sweep_verdict dur current grace now inst =
     (if is_terminating (si_state inst) then (False, ''already terminating (state='' @ si_state inst @ '')'')
      else if si_generation inst = '''' then (False, ''no generation tag (not q0-managed or mid-launch)'')
      else if si_generation inst = current then (False, ''current generation (live node)'')
      else if within_grace (si_launch_time inst) grace now then
        (False, ''stale generation '' @ si_generation inst @ '' but within grace (age '' @
           dur (age (si_launch_time inst) now) @ '' <= '' @ dur grace @ '')'')
      else if si_entity inst = '''' then (False, ''stale generation but no entity tag '' @ em_dash @ '' cannot terminate by name'')
      else (True, ''stale generation '' @ si_generation inst @ '' != current '' @ current @ '', age '' @
              dur (age (si_launch_time inst) now) @ '' > grace '' @ dur grace))"

definition decision :: "instance_view \<Rightarrow> string \<Rightarrow> sweep_decision" where
  "decision inst reason =
     \<lparr>sd_entity = si_entity inst, sd_provider_id = si_provider_id inst, sd_generation = si_generation inst,
      sd_reason = reason\<rparr>"

fun sweep_instances ::
  "'w bridge \<Rightarrow> 'w actuator_port \<Rightarrow> (duration \<Rightarrow> string) \<Rightarrow> duration \<Rightarrow> bool \<Rightarrow> (nat \<Rightarrow> time) \<Rightarrow> nat \<Rightarrow>
   instance_view list \<Rightarrow> sweep_result \<Rightarrow> 'w \<Rightarrow> sweep_result \<times> 'w"
where
  "sweep_instances b ap dur grace dry clk k [] res w = (res, w)"
| "sweep_instances b ap dur grace dry clk k (inst # insts) res w =
     (case sweep_verdict dur (cf_generation (br_cfg b)) grace (clk k) inst of
        (False, reason) \<Rightarrow>
          sweep_instances b ap dur grace dry clk (Suc k) insts
            (res\<lparr>sw_spared := sw_spared res @ [decision inst reason]\<rparr>) w
      | (True, reason) \<Rightarrow>
          (if dry then
             sweep_instances b ap dur grace dry clk (Suc k) insts
               (res\<lparr>sw_reaped := sw_reaped res @ [decision inst reason]\<rparr>) w
           else (case ap_terminate ap (si_entity inst) w of
             (Some err, w1) \<Rightarrow>
               sweep_instances b ap dur grace dry clk (Suc k) insts
                 (res\<lparr>sw_reaped := sw_reaped res @
                    [decision inst (reason @ '' (terminate failed: '' @ error_text err @ '')'')]\<rparr>) w1
           | (None, w1) \<Rightarrow>
               sweep_instances b ap dur grace dry clk (Suc k) insts
                 (res\<lparr>sw_reaped := sw_reaped res @ [decision inst reason]\<rparr>)
                 (reconcile_hold b (clk k) (si_entity inst) w1))))"

definition empty_sweep :: sweep_result where
  "empty_sweep = \<lparr>sw_reaped = [], sw_spared = []\<rparr>"

definition sweep ::
  "'w bridge \<Rightarrow> (duration \<Rightarrow> string) \<Rightarrow> duration \<Rightarrow> bool \<Rightarrow> (nat \<Rightarrow> time) \<Rightarrow> 'w \<Rightarrow> (go_error + sweep_result) \<times> 'w"
where
  "sweep b dur grace dry clk w =
     (case br_describer b of
        None \<Rightarrow> (Inl (ErrText ''slurm sweep: no ClusterDescriber configured''), w)
      | Some describe \<Rightarrow>
          (case br_actuator b of
             None \<Rightarrow> (Inl (ErrText ''slurm sweep: no Actuator configured''), w)
           | Some ap \<Rightarrow>
               (if cf_generation (br_cfg b) = '''' then
                  (Inl (ErrText ''slurm sweep: current generation is empty; refusing to sweep''), w)
                else (case describe (cf_cluster (br_cfg b)) w of
                  Inl e \<Rightarrow>
                    (Inl (ErrWrap (''slurm sweep: describe cluster '' @ go_quote (cf_cluster (br_cfg b)) @ '': '') e), w)
                | Inr insts \<Rightarrow>
                    (case sweep_instances b ap dur grace dry clk 0 insts empty_sweep w of
                       (res, w1) \<Rightarrow> (Inr res, w1))))))"

end
