(* ===== verification/Slurm_World.thy ===== *)
theory Slurm_World
  imports Slurm_Bridge Aws_Actuator
begin

text \<open>
  The contract between the Slurm bridge and what it drives, as the locale \<open>bridge_world\<close>: a teardown
  touches the instances of the entity it names and no others, and the budget calls touch no instance.
  It is interpreted on the AWS actuator of \<open>Aws_Actuator\<close> over a cloud of tagged instances, with the
  file hold store of \<open>Stores\<close> and a log of the calls the bridge makes.
\<close>

section \<open>What a sweep reaps\<close>

definition stale_instance :: "generation \<Rightarrow> duration \<Rightarrow> time \<Rightarrow> instance_view \<Rightarrow> bool" where
  "stale_instance current grace now x \<longleftrightarrow>
     \<not> is_terminating (si_state x) \<and> si_generation x \<noteq> '''' \<and> si_generation x \<noteq> current \<and>
     si_launch_time x \<noteq> 0 \<and> grace < time_sub now (si_launch_time x) \<and> si_entity x \<noteq> ''''"

lemma sweep_verdict_stale: "fst (sweep_verdict dur current grace now x) \<longleftrightarrow> stale_instance current grace now x"
  by (auto simp: sweep_verdict_def stale_instance_def within_grace_def is_zero_time_def)

lemma sweep_verdict_cases:
  obtains (reap) reason where "sweep_verdict dur current grace now x = (True, reason)" "stale_instance current grace now x"
  | (spare) reason where "sweep_verdict dur current grace now x = (False, reason)" "\<not> stale_instance current grace now x"
  using sweep_verdict_stale [of dur current grace now x] by (cases "sweep_verdict dur current grace now x") auto

text \<open>The entities a sweep of the list \<open>xs\<close> tears down, when it starts at position \<open>k\<close>.\<close>

fun swept_entities :: "generation \<Rightarrow> duration \<Rightarrow> (nat \<Rightarrow> time) \<Rightarrow> nat \<Rightarrow> instance_view list \<Rightarrow> entity_id list" where
  "swept_entities current grace clk k [] = []"
| "swept_entities current grace clk k (x # xs) =
     (if stale_instance current grace (clk k) x then [si_entity x] else []) @
     swept_entities current grace clk (Suc k) xs"

lemma sweep_reap:
  assumes "sweep_verdict dur (cf_generation (br_cfg b)) grace (clk k) x = (True, reason)"
  obtains d w1 where "sd_entity d = si_entity x" "dry \<longrightarrow> w1 = w"
    "w1 = w \<or> w1 = snd (ap_terminate ap (si_entity x) w) \<or>
     w1 = reconcile_hold b (clk k) (si_entity x) (snd (ap_terminate ap (si_entity x) w))"
    "sweep_instances b ap dur grace dry clk k (x # xs) res w =
     sweep_instances b ap dur grace dry clk (Suc k) xs (res\<lparr>sw_reaped := sw_reaped res @ [d]\<rparr>) w1"
proof -
  have d: "sd_entity (decision x r) = si_entity x" for r by (simp add: decision_def)
  obtain e w1 where t: "ap_terminate ap (si_entity x) w = (e, w1)" by (meson surj_pair)
  show thesis
  proof (cases dry)
    case True
    then show thesis using that [OF d [of reason], of w] assms by simp
  next
    case False
    then show thesis
    proof (cases e)
      case None
      then show thesis
        using that [OF d [of reason], of "reconcile_hold b (clk k) (si_entity x) w1"] assms t False by simp
    next
      case (Some err)
      then show thesis
        using that [OF d [of "reason @ '' (terminate failed: '' @ error_text err @ '')''"], of w1] assms t False
        by simp
    qed
  qed
qed

text \<open>The loop only adds decisions: those of the stale instances to one list, the rest to the other.\<close>

lemma sweep_instances_accounts:
  assumes "sweep_instances b ap dur grace dry clk k xs res w = (res', w')"
  shows "\<exists>reaped spared. sw_reaped res' = sw_reaped res @ reaped \<and> sw_spared res' = sw_spared res @ spared \<and>
    length reaped + length spared = length xs \<and>
    map sd_entity reaped = swept_entities (cf_generation (br_cfg b)) grace clk k xs \<and>
    (dry \<longrightarrow> w' = w)"
  using assms
proof (induction xs arbitrary: k res w)
  case (Cons x xs)
  show ?case
  proof (cases rule: sweep_verdict_cases [of dur "cf_generation (br_cfg b)" grace "clk k" x])
    case (reap reason)
    obtain d w1 where d: "sd_entity d = si_entity x" "dry \<longrightarrow> w1 = w"
      and "sweep_instances b ap dur grace dry clk k (x # xs) res w =
        sweep_instances b ap dur grace dry clk (Suc k) xs (res\<lparr>sw_reaped := sw_reaped res @ [d]\<rparr>) w1"
      by (rule sweep_reap [where dry = dry and xs = xs and res = res and w = w and ap = ap and clk = clk and k = k, OF reap(1)]) blast
    then have rest: "sweep_instances b ap dur grace dry clk (Suc k) xs
        (res\<lparr>sw_reaped := sw_reaped res @ [d]\<rparr>) w1 = (res', w')"
      using Cons.prems by simp
    from Cons.IH [OF rest] obtain reaped spared where
      "sw_reaped res' = sw_reaped res @ [d] @ reaped" "sw_spared res' = sw_spared res @ spared"
      "length reaped + length spared = length xs"
      "map sd_entity reaped = swept_entities (cf_generation (br_cfg b)) grace clk (Suc k) xs" "dry \<longrightarrow> w' = w1"
      by auto
    then show ?thesis using reap d by (intro exI [of _ "d # reaped"] exI [of _ spared]) auto
  next
    case (spare reason)
    with Cons.prems have "sweep_instances b ap dur grace dry clk (Suc k) xs
        (res\<lparr>sw_spared := sw_spared res @ [decision x reason]\<rparr>) w = (res', w')"
      by simp
    from Cons.IH [OF this] obtain reaped spared where
      "sw_reaped res' = sw_reaped res @ reaped" "sw_spared res' = sw_spared res @ [decision x reason] @ spared"
      "length reaped + length spared = length xs"
      "map sd_entity reaped = swept_entities (cf_generation (br_cfg b)) grace clk (Suc k) xs" "dry \<longrightarrow> w' = w"
      by auto
    then show ?thesis using spare by (intro exI [of _ reaped] exI [of _ "decision x reason # spared"]) auto
  qed
qed simp

section \<open>The contract\<close>

definition instances_of :: "entity_id \<Rightarrow> instance_view list \<Rightarrow> instance_view list" where
  "instances_of i xs = filter (\<lambda>x. si_entity x = i) xs"

locale bridge_world =
  fixes b :: "'w bridge" and ap :: "'w actuator_port" and view :: "'w \<Rightarrow> instance_view list"
    and inv :: "instance_view list \<Rightarrow> bool"
  assumes port [port_laws]: "br_actuator b = Some ap"
    and terminate_named [port_laws]:
      "inv (view w) \<Longrightarrow> i \<noteq> j \<Longrightarrow> instances_of j (view (snd (ap_terminate ap i w))) = instances_of j (view w)"
    and terminate_inv [port_laws]: "inv (view w) \<Longrightarrow> inv (view (snd (ap_terminate ap i w)))"
    and print_frame [frame_rules]: "view (br_print b msg w) = view w"
    and close_frame [frame_rules]: "br_closer b = Some close \<Longrightarrow> view (snd (close rq w)) = view w"
    and delete_frame [frame_rules]: "br_holds b = Some hp \<Longrightarrow> view (snd (hp_delete hp i w)) = view w"
begin

lemma complain_view: "view (complain b what r) = view (snd r)"
  by (cases r) (simp add: complain_def print_frame split: option.split)

lemma reconcile_hold_view: "view (reconcile_hold b now i w) = view w"
proof (cases "br_holds b")
  case (Some hp)
  show ?thesis
  proof (cases "hp_get hp i w")
    case (Inr h)
    show ?thesis
    proof (cases "br_closer b")
      case (Some close)
      then show ?thesis
        using Inr \<open>br_holds b = Some hp\<close> delete_frame close_frame [OF Some, of "close_request (br_cfg b) now i h" w]
        by (auto simp: reconcile_hold_def complain_view Let_def split: prod.split option.split)
    qed (use Inr Some delete_frame in \<open>simp add: reconcile_hold_def complain_view\<close>)
  qed (simp add: reconcile_hold_def complain_view Some)
qed (simp add: reconcile_hold_def)

lemma sweep_instances_frame:
  assumes "sweep_instances b ap dur grace dry clk k xs res w = (res', w')" "inv (view w)"
    and "j \<notin> set (swept_entities (cf_generation (br_cfg b)) grace clk k xs)"
  shows "instances_of j (view w') = instances_of j (view w)"
  using assms
proof (induction xs arbitrary: k res w)
  case (Cons x xs)
  show ?case
  proof (cases rule: sweep_verdict_cases [of dur "cf_generation (br_cfg b)" grace "clk k" x])
    case (reap reason)
    then have ne: "si_entity x \<noteq> j" using Cons.prems(3) by auto
    obtain d w1 where w1: "w1 = w \<or> w1 = snd (ap_terminate ap (si_entity x) w) \<or>
        w1 = reconcile_hold b (clk k) (si_entity x) (snd (ap_terminate ap (si_entity x) w))"
      and step: "sweep_instances b ap dur grace dry clk k (x # xs) res w =
        sweep_instances b ap dur grace dry clk (Suc k) xs (res\<lparr>sw_reaped := sw_reaped res @ [d]\<rparr>) w1"
      by (rule sweep_reap [where dry = dry and xs = xs and res = res and w = w and ap = ap and clk = clk and k = k, OF reap(1)]) blast
    have "instances_of j (view w1) = instances_of j (view w)" "inv (view w1)"
      using w1 terminate_named [OF Cons.prems(2) ne] terminate_inv [OF Cons.prems(2)] Cons.prems(2) reconcile_hold_view
      by auto
    with Cons.IH [of "Suc k" _ w1] Cons.prems step show ?thesis by auto
  next
    case (spare reason)
    with Cons.prems Cons.IH show ?thesis by auto
  qed
qed simp

lemma sweep_frame:
  assumes "sweep b dur grace dry clk w = (r, w')" "br_describer b = Some desc" "desc (cf_cluster (br_cfg b)) w = Inr xs"
    and "inv (view w)" "j \<notin> set (swept_entities (cf_generation (br_cfg b)) grace clk 0 xs)"
  shows "instances_of j (view w') = instances_of j (view w)"
  using assms sweep_instances_frame [of dur grace dry clk 0 xs empty_sweep w] port
  by (auto simp: sweep_def split: if_splits prod.splits)

end

section \<open>A cloud of tagged instances\<close>

datatype bridge_event =
    EvAdmit admission_request
  | EvClose reconcile_request
  | EvUpdate string string string
  | EvTerminate entity_id
  | EvStop entity_id stop_mode
  | EvReconcile cohort bool
  | EvRecords outcome

record node_world =
  nw_cloud :: "instance_view list"
  nw_holds :: "hold directory"
  nw_log :: "bridge_event list"
  nw_out :: "string list"

text \<open>The client over the instances of one cluster: a tag filter selects in the cloud's order.\<close>

definition tag_match :: "(string \<times> string) list \<Rightarrow> instance_view \<Rightarrow> bool" where
  "tag_match f x \<longleftrightarrow> list_all (\<lambda>(k, v). k = tag_entity \<longrightarrow> si_entity x = v) f"

definition cloud_client :: "instance_view list \<Rightarrow> substrate_client" where
  "cloud_client cloud =
     \<lparr>cl_run = (\<lambda>_. None), cl_start = (\<lambda>_. None), cl_stop = (\<lambda>_ _. None), cl_terminate = (\<lambda>_. None),
      cl_describe = (\<lambda>f. Some (Inr (filter (tag_match f) cloud))), cl_tags = (\<lambda>_. Inr Map.empty)\<rparr>"

definition set_state :: "string \<Rightarrow> string \<Rightarrow> instance_view list \<Rightarrow> instance_view list" where
  "set_state pid st xs =
     map (\<lambda>x. if si_provider_id x = pid \<and> \<not> is_terminating (si_state x) then x\<lparr>si_state := st\<rparr> else x) xs"

text \<open>
  The actuator's calls, and what they do to the cloud: the instance whose provider id the actuator
  resolved changes its state.
\<close>

definition cloud_apply :: "actuator_config \<Rightarrow> entity_id \<Rightarrow> string \<Rightarrow> node_world \<Rightarrow> node_world" where
  "cloud_apply acfg i st w =
     (case resolve_provider_id (cloud_client (nw_cloud w)) acfg i of
        Some (Inr pid) \<Rightarrow> w\<lparr>nw_cloud := set_state pid st (nw_cloud w)\<rparr>
      | _ \<Rightarrow> w)"

definition note_event :: "bridge_event \<Rightarrow> node_world \<Rightarrow> node_world" where
  "note_event e w = w\<lparr>nw_log := nw_log w @ [e]\<rparr>"

definition aws_port :: "actuator_config \<Rightarrow> node_world actuator_port" where
  "aws_port acfg =
     \<lparr>ap_stop = (\<lambda>i mode w. (Option.bind (stop (cloud_client (nw_cloud w)) acfg i mode) id,
                            note_event (EvStop i mode) (cloud_apply acfg i ''stopping'' w))),
      ap_terminate = (\<lambda>i w. (Option.bind (terminate (cloud_client (nw_cloud w)) acfg i) id,
                            note_event (EvTerminate i) (cloud_apply acfg i ''shutting-down'' w)))\<rparr>"

definition file_holds :: "node_world hold_port" where
  "file_holds =
     \<lparr>hp_put = (\<lambda>h w. (fst (put_hold id_codec tmp_name None h h (nw_holds w)),
                       w\<lparr>nw_holds := holds_put id_codec h (nw_holds w)\<rparr>)),
      hp_get = (\<lambda>i w. get_hold id_codec i None (nw_holds w)),
      hp_delete = (\<lambda>i w. (fst (delete_hold i None (nw_holds w)),
                          w\<lparr>nw_holds := snd (delete_hold i None (nw_holds w))\<rparr>))\<rparr>"

text \<open>The wired bridge: \<open>run\<close> is the cohort core, \<open>gate\<close> and \<open>closer\<close> the budget service.\<close>

definition aws_bridge ::
  "config \<Rightarrow> actuator_config \<Rightarrow> (string \<Rightarrow> (go_error + string list) option) \<Rightarrow> (bool \<Rightarrow> cohort \<Rightarrow> outcome) \<Rightarrow>
   (admission_request \<Rightarrow> go_error + admission_result) option \<Rightarrow> (reconcile_request \<Rightarrow> go_error option) option \<Rightarrow>
   bool \<Rightarrow> ((entity_id \<rightharpoonup> entity_record) \<Rightarrow> entity_id list) \<Rightarrow> node_world bridge"
where
  "aws_bridge cfg acfg shw run gate closer asm order =
     \<lparr>br_cfg = cfg, br_show = shw,
      br_update = (\<lambda>node st reason w. (None, note_event (EvUpdate node st reason) w)),
      br_reconcile = (\<lambda>a c w. (run a c, note_event (EvReconcile c a) w)),
      br_actuator = Some (aws_port acfg), br_assembler = asm,
      br_records = Some (\<lambda>out w. (None, note_event (EvRecords out) w)),
      br_describer = Some (\<lambda>cluster w. Inr (nw_cloud w)),
      br_admitter = map_option (\<lambda>g req w. (g req, note_event (EvAdmit req) w)) gate,
      br_closer = map_option (\<lambda>g req w. (g req, note_event (EvClose req) w)) closer,
      br_holds = Some file_holds, br_print = (\<lambda>msg w. w\<lparr>nw_out := nw_out w @ [msg]\<rparr>), br_map_order = order,
      br_index_order = (\<lambda>idx. [])\<rparr>"

section \<open>The interpretation\<close>

definition not_visible :: "entity_id \<Rightarrow> go_error" where
  "not_visible i = FaultErr \<lparr>f_class = FaultRetryableConsistency, f_code = ''EntityNotYetVisible'',
     f_retryable = True, f_message = ''entity '' @ i @ '' not visible via DescribeByTag (consistency lag)''\<rparr>"

lemma resolve_cloud:
  "resolve_provider_id (cloud_client xs) acfg i =
     (case instances_of i xs of
        [] \<Rightarrow> Some (Inl (not_visible i))
      | x # _ \<Rightarrow> Some (Inr (si_provider_id x)))"
proof -
  have "filter (tag_match (entity_filter acfg i)) xs = instances_of i xs"
    by (simp add: tag_match_def [abs_def] entity_filter_def instances_of_def tag_defs)
  then show ?thesis
    by (cases "instances_of i xs") (simp_all add: resolve_provider_id_def cloud_client_def not_visible_def)
qed

text \<open>In a cloud without two instances of one provider id, a state change stays with the named entity.\<close>

definition ids_by_entity :: "instance_view list \<Rightarrow> bool" where
  "ids_by_entity xs \<longleftrightarrow> (\<forall>x\<in>set xs. \<forall>y\<in>set xs. si_provider_id x = si_provider_id y \<longrightarrow> si_entity x = si_entity y)"

definition id_pairs :: "instance_view list \<Rightarrow> (string \<times> entity_id) set" where
  "id_pairs xs = (\<lambda>x. (si_provider_id x, si_entity x)) ` set xs"

lemma ids_by_entity_pairs: "ids_by_entity xs \<longleftrightarrow> single_valued (id_pairs xs)"
  by (auto simp: ids_by_entity_def single_valued_def id_pairs_def)

lemma set_state_pairs: "id_pairs (set_state pid st xs) = id_pairs xs"
proof -
  have "map (\<lambda>x. (si_provider_id x, si_entity x)) (set_state pid st xs) = map (\<lambda>x. (si_provider_id x, si_entity x)) xs"
    by (simp add: set_state_def)
  from arg_cong [OF this, of set] show ?thesis by (simp add: id_pairs_def)
qed

lemma set_state_ids: "ids_by_entity (set_state pid st xs) = ids_by_entity xs"
  by (simp only: ids_by_entity_pairs set_state_pairs)

lemma set_state_named:
  assumes "ids_by_entity xs" "x \<in> set xs" "si_entity x \<noteq> j"
  shows "instances_of j (set_state (si_provider_id x) st xs) = instances_of j xs"
proof -
  have "y \<in> set xs \<Longrightarrow> si_entity y = j \<Longrightarrow> si_provider_id y \<noteq> si_provider_id x" for y
    using assms unfolding ids_by_entity_def by metis
  moreover have "(\<And>y. y \<in> set ys \<Longrightarrow> si_entity y = j \<Longrightarrow> si_provider_id y \<noteq> pid) \<Longrightarrow>
      instances_of j (set_state pid st ys) = instances_of j ys" for pid ys
  proof (induction ys)
    case (Cons y ys)
    then have "instances_of j (set_state pid st ys) = instances_of j ys" by simp
    with Cons.prems [of y] show ?case by (auto simp: instances_of_def set_state_def)
  qed (simp add: instances_of_def set_state_def)
  ultimately show ?thesis by blast
qed

lemma cloud_apply_cases:
  obtains "instances_of i (nw_cloud w) = []" "cloud_apply acfg i st w = w"
  | x xs where "instances_of i (nw_cloud w) = x # xs" "x \<in> set (nw_cloud w)" "si_entity x = i"
      "cloud_apply acfg i st w = w\<lparr>nw_cloud := set_state (si_provider_id x) st (nw_cloud w)\<rparr>"
proof (cases "instances_of i (nw_cloud w)")
  case Nil
  then have "cloud_apply acfg i st w = w"
    by (simp add: cloud_apply_def resolve_cloud)
  with Nil show ?thesis using that by blast
next
  case (Cons x xs)
  then have "x \<in> set (instances_of i (nw_cloud w))" by simp
  then have "x \<in> set (nw_cloud w)" "si_entity x = i" by (simp_all add: instances_of_def)
  with Cons show ?thesis using that by (simp add: cloud_apply_def resolve_cloud)
qed

lemma cloud_apply_laws:
  assumes "ids_by_entity (nw_cloud w)"
  shows "i \<noteq> j \<Longrightarrow> instances_of j (nw_cloud (cloud_apply acfg i st w)) = instances_of j (nw_cloud w)"
    and "ids_by_entity (nw_cloud (cloud_apply acfg i st w))"
  using assms
  by (cases rule: cloud_apply_cases [of i w acfg st]; simp add: set_state_named set_state_ids)+

lemma note_event_sel [simp]:
  "nw_cloud (note_event e w) = nw_cloud w" "nw_holds (note_event e w) = nw_holds w"
  "nw_log (note_event e w) = nw_log w @ [e]"
  by (simp_all add: note_event_def)

interpretation node: bridge_world "aws_bridge cfg acfg shw run gate closer asm order" "aws_port acfg" nw_cloud ids_by_entity
  for cfg acfg shw run gate closer asm order
  by unfold_locales
    (auto simp: aws_bridge_def aws_port_def file_holds_def cloud_apply_laws map_option_case split: option.splits)

lemma aws_bridge_sel [simp]:
  "br_cfg (aws_bridge cfg acfg shw run gate closer asm order) = cfg"
  "br_show (aws_bridge cfg acfg shw run gate closer asm order) = shw"
  "br_update (aws_bridge cfg acfg shw run gate closer asm order) =
     (\<lambda>node st reason w. (None, note_event (EvUpdate node st reason) w))"
  "br_reconcile (aws_bridge cfg acfg shw run gate closer asm order) =
     (\<lambda>a c w. (run a c, note_event (EvReconcile c a) w))"
  "br_actuator (aws_bridge cfg acfg shw run gate closer asm order) = Some (aws_port acfg)"
  "br_assembler (aws_bridge cfg acfg shw run gate closer asm order) = asm"
  "br_records (aws_bridge cfg acfg shw run gate closer asm order) = Some (\<lambda>out w. (None, note_event (EvRecords out) w))"
  "br_describer (aws_bridge cfg acfg shw run gate closer asm order) = Some (\<lambda>cluster w. Inr (nw_cloud w))"
  "br_admitter (aws_bridge cfg acfg shw run gate closer asm order) =
     map_option (\<lambda>g req w. (g req, note_event (EvAdmit req) w)) gate"
  "br_closer (aws_bridge cfg acfg shw run gate closer asm order) =
     map_option (\<lambda>g req w. (g req, note_event (EvClose req) w)) closer"
  "br_holds (aws_bridge cfg acfg shw run gate closer asm order) = Some file_holds"
  "br_print (aws_bridge cfg acfg shw run gate closer asm order) = (\<lambda>msg w. w\<lparr>nw_out := nw_out w @ [msg]\<rparr>)"
  "br_map_order (aws_bridge cfg acfg shw run gate closer asm order) = order"
  by (simp_all add: aws_bridge_def)

lemma complain_aws [simp]:
  "nw_cloud (complain (aws_bridge cfg acfg shw run gate closer asm order) what r) = nw_cloud (snd r)"
  "nw_holds (complain (aws_bridge cfg acfg shw run gate closer asm order) what r) = nw_holds (snd r)"
  "nw_log (complain (aws_bridge cfg acfg shw run gate closer asm order) what r) = nw_log (snd r)"
  "nw_out (complain (aws_bridge cfg acfg shw run gate closer asm order) what r) =
     nw_out (snd r) @ (case fst r of Some err \<Rightarrow> [what @ '': '' @ error_text err @ nl] | None \<Rightarrow> [])"
  by (cases r; simp add: complain_def split: option.split)+

lemma complain_None [simp]: "complain b what (None, w) = w"
  by (simp add: complain_def)

lemma sweep_aws:
  assumes "cf_generation cfg \<noteq> ''''"
  obtains res w1 where
    "sweep_instances (aws_bridge cfg acfg shw run gate closer asm order) (aws_port acfg) dur grace dry clk 0
       (nw_cloud w) empty_sweep w = (res, w1)"
    "sweep (aws_bridge cfg acfg shw run gate closer asm order) dur grace dry clk w = (Inr res, w1)"
  using assms
  by (cases "sweep_instances (aws_bridge cfg acfg shw run gate closer asm order) (aws_port acfg) dur grace dry clk 0
       (nw_cloud w) empty_sweep w") (auto simp: sweep_def)

end
