(* ===== verification/Slurm_Properties.thy ===== *)
theory Slurm_Properties
  imports Slurm_World
begin

text \<open>
  The Slurm bridge: what a sweep reaps and what it leaves alone, what a refused fleet does, the
  writeback of node states, the cohort a resume builds, and the life of a budget hold from resume to
  suspend, on the world of \<open>Slurm_World\<close>.
\<close>

section \<open>Sweep\<close>

lemma swept_entities_stale:
  "i \<in> set (swept_entities current grace clk k xs) \<longleftrightarrow>
   (\<exists>j<length xs. stale_instance current grace (clk (k + j)) (xs ! j) \<and> si_entity (xs ! j) = i)"
  by (induction xs arbitrary: k) (auto simp: less_Suc_eq_0_disj)


definition demo_instance :: "string \<Rightarrow> entity_id \<Rightarrow> generation \<Rightarrow> instance_view" where
  "demo_instance pid i g = zero_instance\<lparr>si_provider_id := pid, si_entity := i, si_generation := g,
     si_state := ''running'', si_launch_time := 1\<rparr>"

lemma demo_instance_sel [simp]:
  "si_provider_id (demo_instance pid i g) = pid" "si_entity (demo_instance pid i g) = i"
  "si_state (demo_instance pid i g) = ''running''"
  by (simp_all add: demo_instance_def)

definition demo_cfg :: config where
  "demo_cfg = \<lparr>cf_cluster = ''hpc'', cf_region = ''us-west-2'', cf_generation = ''g2'',
     cf_partitions = Some two_partitions, cf_default_partition = ''gpu'', cf_bootstrap_s3 = '''', cf_fail_mode = ''''\<rparr>"

definition demo_acfg :: actuator_config where
  "demo_acfg = \<lparr>ac_cluster_name = ''hpc'', ac_default_bootstrap_s3 = '''', ac_region = ''us-west-2'',
     ac_cross_account_role_arn = '''', ac_instance_profile_arn = '''', ac_mounts = [], ac_controller_host = ''''\<rparr>"

definition no_outcome :: "bool \<Rightarrow> cohort \<Rightarrow> outcome" where
  "no_outcome a c = \<lparr>out_cohort = c_id c, out_ready = False, out_records = Map.empty\<rparr>"

definition demo_bridge :: "node_world bridge" where
  "demo_bridge = aws_bridge demo_cfg demo_acfg (\<lambda>_. None) no_outcome None (Some (\<lambda>_. None)) False (\<lambda>_. [])"

definition demo_world :: "instance_view list \<Rightarrow> node_world" where
  "demo_world xs = \<lparr>nw_cloud = xs, nw_holds = Map.empty, nw_log = [], nw_out = []\<rparr>"

definition demo_clock :: "nat \<Rightarrow> time" where "demo_clock k = 1 + hour"

lemma demo_stale: "stale_instance ''g2'' minute (demo_clock k) (demo_instance pid i g) \<longleftrightarrow> g \<noteq> '''' \<and> g \<noteq> ''g2'' \<and> i \<noteq> ''''"
  by (auto simp: stale_instance_def demo_instance_def demo_clock_def zero_instance_def is_terminating_def
      time_sub_def max_duration_def min_duration_def duration_units)


text \<open>On AWS a sweep does not touch the instances of an entity that has no stale instance: each
  keeps its state.\<close>

theorem sweep_spares_other_entities:
  assumes "sweep (aws_bridge cfg acfg shw run gate closer asm order) dur grace dry clk w = (r, w')"
    and "ids_by_entity (nw_cloud w)"
    and "\<forall>k<length (nw_cloud w). si_entity (nw_cloud w ! k) = j \<longrightarrow>
      \<not> stale_instance (cf_generation cfg) grace (clk k) (nw_cloud w ! k)"
  shows "instances_of j (nw_cloud w') = instances_of j (nw_cloud w)"
proof (rule node.sweep_frame [OF assms(1)])
  show "br_describer (aws_bridge cfg acfg shw run gate closer asm order) = Some (\<lambda>cluster w. Inr (nw_cloud w))"
    by (simp add: aws_bridge_def)
  show "j \<notin> set (swept_entities (cf_generation (br_cfg (aws_bridge cfg acfg shw run gate closer asm order))) grace clk 0 (nw_cloud w))"
    using assms(3) by (auto simp: swept_entities_stale aws_bridge_def)
qed (use assms(2) in simp_all)

theorem sweep_spares_other_entities_witness:
  "instances_of ''n2'' (nw_cloud (snd (sweep demo_bridge (\<lambda>_. '''') minute False demo_clock
      (demo_world [demo_instance ''i-1'' ''n1'' ''g1'', demo_instance ''i-2'' ''n2'' ''g2'']))))
   = [demo_instance ''i-2'' ''n2'' ''g2'']"
proof -
  let ?xs = "[demo_instance ''i-1'' ''n1'' ''g1'', demo_instance ''i-2'' ''n2'' ''g2'']"
  obtain r w' where s: "sweep demo_bridge (\<lambda>_. '''') minute False demo_clock (demo_world ?xs) = (r, w')"
    by (meson surj_pair)
  have "instances_of ''n2'' (nw_cloud w') = instances_of ''n2'' (nw_cloud (demo_world ?xs))"
  proof (rule sweep_spares_other_entities [OF s [unfolded demo_bridge_def]])
    show "ids_by_entity (nw_cloud (demo_world ?xs))"
      by (simp add: ids_by_entity_def demo_world_def demo_instance_def)
  qed (auto simp: demo_world_def demo_cfg_def demo_stale less_Suc_eq)
  with s show ?thesis by (simp add: demo_world_def instances_of_def)
qed


section \<open>Resume\<close>

definition mark_event :: "entity_record \<Rightarrow> bridge_event" where
  "mark_event r = EvUpdate (er_entity r) (if er_terminal r \<noteq> None then ''down'' else ''drain'') (summary r)"

lemma writeback_log:
  "writeback (aws_bridge cfg acfg shw run gate closer asm order) recs is w =
   w\<lparr>nw_log := nw_log w @ map mark_event (filter (\<lambda>r. \<not> succeeded r) (List.map_filter recs is))\<rparr>"
proof (induction "is" arbitrary: w)
  case Nil
  then show ?case by (simp add: List.map_filter_def)
next
  case (Cons i "is")
  then show ?case
    by (cases "recs i") (auto simp: List.map_filter_def note_event_def mark_event_def node_state_def)
qed

text \<open>After a reconcile the bridge stores the outcome and then marks exactly the nodes whose record
  did not succeed, each once in the order of the map: down with its own fault, drain without one, with
  the record's summary as the reason; a node that is ready gets no update, and no instance or hold
  changes.\<close>

theorem finish_marks_failed_nodes:
  "finish (aws_bridge cfg acfg shw run gate closer asm order) out w =
   w\<lparr>nw_log := nw_log w @ EvRecords out #
      map mark_event (filter (\<lambda>r. \<not> succeeded r) (List.map_filter (out_records out) (order (out_records out))))\<rparr>"
  by (simp add: finish_def Let_def writeback_log note_event_def)

lemma refusal_records:
  "distinct (map i_id ms) \<Longrightarrow>
   fold (\<lambda>m f. f(i_id m \<mapsto> refusal_record now cid reason m)) ms f0 i =
     (case find (\<lambda>m. i_id m = i) ms of Some m \<Rightarrow> Some (refusal_record now cid reason m) | None \<Rightarrow> f0 i)"
proof (induction ms arbitrary: f0)
  case (Cons m ms)
  have "find (\<lambda>x. i_id x = i_id m) ms = None"
    using Cons.prems by (auto simp: find_None_iff image_iff)
  with Cons show ?case by auto
qed simp

definition refusal_text :: string where
  "refusal_text = ''terminal/BudgetExhausted at phase=launch-acked after 0 rung(s)''"

lemma refusal_mark:
  "mark_event (refusal_record now cid reason m) = EvUpdate (i_id m) ''down'' refusal_text"
  "\<not> succeeded (refusal_record now cid reason m)"
proof -
  have "show_nat 0 = ''0''" by code_simp
  then show "mark_event (refusal_record now cid reason m) = EvUpdate (i_id m) ''down'' refusal_text"
    by (simp add: mark_event_def refusal_record_def summary_def succeeded_def refusal_text_def fault_label_def)
qed (simp add: refusal_record_def succeeded_def)

text \<open>The refused fleet: its records, and the marks they give.\<close>

lemma refusal_marks:
  assumes "distinct (map i_id ms)" "set is \<subseteq> i_id ` set ms"
  shows "map mark_event (filter (\<lambda>r. \<not> succeeded r)
      (List.map_filter (out_records (record_refusal now ms cid reason)) is))
    = map (\<lambda>i. EvUpdate i ''down'' refusal_text) is"
  using assms(2)
proof (induction "is")
  case Nil
  then show ?case by (simp add: List.map_filter_def)
next
  case (Cons i "is")
  then obtain m where m: "find (\<lambda>m. i_id m = i) ms = Some m" "i_id m = i"
    by (cases "find (\<lambda>m. i_id m = i) ms") (auto simp: find_None_iff find_Some_iff)
  then have "out_records (record_refusal now ms cid reason) i = Some (refusal_record now cid reason m)"
    using assms(1) by (simp add: record_refusal_def refusal_records)
  with Cons m show ?case by (simp add: List.map_filter_def refusal_mark)
qed

text \<open>C15. A fleet the budget gate refuses launches nothing: the gate is asked once, the cohort core is
  not run, no hold is written and no instance changes, and every node is marked down. The mark says
  that the budget is exhausted whatever reason the gate gave.\<close>

theorem refused_fleet_launches_nothing:
  assumes b: "b = aws_bridge cfg acfg shw run (Some gate) closer asm order"
    and rq: "rq = admission_request_for cfg part (hd chain) (length nodes)"
    and c: "build_cohort b part cid intents (cohort_budget part) = Inr (c, a)"
    and v: "admission_verdict cfg (gate rq) = (True, reason, res)"
    and d: "distinct (map i_id intents)"
    and o: "set (order (out_records (record_refusal now intents cid reason))) \<subseteq> i_id ` set intents"
  shows "launch_fleet b now part nodes chain cid intents w =
    (None, w\<lparr>nw_log := nw_log w @ [EvAdmit rq, EvRecords (record_refusal now intents cid reason)] @
      map (\<lambda>i. EvUpdate i ''down'' refusal_text) (order (out_records (record_refusal now intents cid reason)))\<rparr>)"
proof -
  have "check_admission b (\<lambda>req w. (gate req, note_event (EvAdmit req) w)) part (hd chain) (length nodes) w
      = ((True, reason, res), note_event (EvAdmit rq) w)"
    using v by (auto simp: check_admission_def admission_verdict_def b rq split: sum.splits if_splits)
  moreover have "br_admitter b = Some (\<lambda>req w. (gate req, note_event (EvAdmit req) w))"
    by (simp add: b)
  ultimately have "launch_fleet b now part nodes chain cid intents w =
      (None, finish b (record_refusal now intents cid reason) (note_event (EvAdmit rq) w))"
    using c by (simp add: launch_fleet_def)
  also have "finish b (record_refusal now intents cid reason) (note_event (EvAdmit rq) w) =
      w\<lparr>nw_log := nw_log w @ [EvAdmit rq, EvRecords (record_refusal now intents cid reason)] @
        map (\<lambda>i. EvUpdate i ''down'' refusal_text) (order (out_records (record_refusal now intents cid reason)))\<rparr>"
    unfolding b finish_def using refusal_marks [OF d o]
    by (simp add: Let_def writeback_log note_event_def)
  finally show ?thesis .
qed

definition demo_intent :: "entity_id \<Rightarrow> entity_intent" where
  "demo_intent i = \<lparr>i_id = i, i_generation = ''g2'', i_cohort = ''gpu:x'',
     i_rung = zero_rung\<lparr>r_instance_type := ''p5.48xlarge''\<rparr>,
     i_fallback_chain = [zero_rung\<lparr>r_instance_type := ''p5.48xlarge''\<rparr>], i_token = ''q0-t''\<rparr>"

definition refuse_all :: "admission_request \<Rightarrow> go_error + admission_result" where
  "refuse_all rq = Inr (zero_result\<lparr>as_reason := ''grant expired''\<rparr>)"

theorem refused_fleet_launches_nothing_witness:
  "\<exists>out. launch_fleet (aws_bridge demo_cfg demo_acfg (\<lambda>_. None) no_outcome (Some refuse_all) None False (\<lambda>_. [''gpu-1'']))
      5 (gpu_partition ''gpu'') [''gpu-1''] (i_fallback_chain (demo_intent ''gpu-1'')) ''gpu:x'' [demo_intent ''gpu-1''] (demo_world [])
    = (None, \<lparr>nw_cloud = [], nw_holds = Map.empty,
        nw_log = [EvAdmit (admission_request_for demo_cfg (gpu_partition ''gpu'') (i_rung (demo_intent ''gpu-1'')) 1),
          EvRecords out, EvUpdate ''gpu-1'' ''down'' refusal_text], nw_out = []\<rparr>)"
proof -
  let ?b = "aws_bridge demo_cfg demo_acfg (\<lambda>_. None) no_outcome (Some refuse_all) None False (\<lambda>_. [''gpu-1''])"
  obtain c where c: "build_cohort ?b (gpu_partition ''gpu'') ''gpu:x'' [demo_intent ''gpu-1'']
      (cohort_budget (gpu_partition ''gpu'')) = Inr (c, False)"
  proof -
    have "validate_intent (demo_intent ''gpu-1'') = None"
      unfolding validate_intent_None by (simp add: valid_intent_def valid_rung_def demo_intent_def)
    with that show ?thesis by (simp add: build_cohort_def new_serial_cohort_def)
  qed
  have "admission_verdict demo_cfg (refuse_all rq) = (True, ''grant expired'', zero_result\<lparr>as_reason := ''grant expired''\<rparr>)" for rq
    by (simp add: admission_verdict_def refuse_all_def zero_result_def)
  from refused_fleet_launches_nothing [OF refl refl c this, where now = 5 and w = "demo_world []" and nodes = "[''gpu-1'']"
      and chain = "i_fallback_chain (demo_intent ''gpu-1'')"]
  show ?thesis by (simp add: demo_intent_def demo_world_def)
qed

lemma build_intents_Inr:
  assumes "list_all valid_rung (r # rs)" "'''' \<notin> set nodes"
  shows "\<exists>ms. build_intents cluster gen cid (r # rs) nodes = Inr ms \<and> map i_id ms = nodes \<and> list_all valid_intent ms \<and>
    list_all (\<lambda>m. i_rung m = r \<and> i_fallback_chain m = r # rs \<and> i_generation m = gen \<and>
      i_token m = token cluster (i_id m) gen) ms"
  using assms(2)
proof (induction nodes)
  case (Cons node nodes)
  then obtain ms where "build_intents cluster gen cid (r # rs) nodes = Inr ms" "map i_id ms = nodes"
    "list_all valid_intent ms"
    "list_all (\<lambda>m. i_rung m = r \<and> i_fallback_chain m = r # rs \<and> i_generation m = gen \<and>
      i_token m = token cluster (i_id m) gen) ms"
    by auto
  moreover obtain m where "new_entity_intent cluster node gen cid r (r # rs) '''' = Inr m" "valid_intent m"
    "m = \<lparr>i_id = node, i_generation = gen, i_cohort = cid, i_rung = r, i_fallback_chain = r # rs,
       i_token = token cluster node gen\<rparr>"
    using assms(1) Cons.prems by (auto simp: new_entity_intent_Inr valid_intent_def)
  ultimately show ?case by simp
qed simp

lemma resume_cohort:
  assumes "validate_partitions ps = None" "index_partitions ps n = Some part"
    and "nodes \<noteq> []" "'''' \<notin> set nodes"
    and "pa_collective part \<longrightarrow> length nodes = 1 \<or> br_assembler b"
  shows "\<exists>r rs ms c. cohort_fallback_chain part = Inr (r # rs) \<and>
    build_intents cluster gen cid (r # rs) nodes = Inr ms \<and>
    build_cohort b part cid ms (cohort_budget part) = Inr (c, length nodes \<noteq> 1 \<and> pa_collective part) \<and>
    wf_cohort c \<and> map i_id (c_members c) = nodes \<and> c_min_viable c = int (length nodes) \<and>
    c_budget c = apply_default_budget (cohort_budget part) \<and> \<not> r_warm_start r \<and>
    (pa_collective part \<longrightarrow> \<not> c_no_assembly c) \<and>
    (\<forall>m\<in>set (c_members c). i_rung m = r \<and> i_fallback_chain m = r # rs \<and> i_token m = token cluster (i_id m) gen)"
proof -
  obtain r rs where ch: "cohort_fallback_chain part = Inr (r # rs)" and v: "list_all valid_rung (r # rs)"
    and cold: "\<not> r_warm_start r"
    using index_lookup [OF assms(1,2)] chain_of_good by (metis list_all2_Cons2 rung_of_def)
  obtain ms where ms: "build_intents cluster gen cid (r # rs) nodes = Inr ms" "map i_id ms = nodes" "list_all valid_intent ms"
    and tok: "\<forall>m\<in>set ms. i_rung m = r \<and> i_fallback_chain m = r # rs \<and> i_token m = token cluster (i_id m) gen"
    using build_intents_Inr [OF v assms(4), of cluster gen cid] by (auto simp: list_all_iff)
  have len: "length ms = length nodes" and ne: "ms \<noteq> []" using ms(2) assms(3) by auto
  have "\<exists>c. build_cohort b part cid ms (cohort_budget part) = Inr (c, length nodes \<noteq> 1 \<and> pa_collective part) \<and>
      wf_cohort c \<and> c_members c = ms \<and> c_min_viable c = int (length nodes) \<and> (pa_collective part \<longrightarrow> \<not> c_no_assembly c) \<and>
      c_budget c = apply_default_budget (cohort_budget part)"
  proof -
    consider (one) m where "ms = [m]" | (mpi) "length ms \<noteq> 1" "pa_collective part" | (set) "length ms \<noteq> 1" "\<not> pa_collective part"
      by (cases ms; cases "tl ms") auto
    then show ?thesis
    proof cases
      case one
      obtain c where "new_serial_cohort cid m (cohort_budget part) = Inr c" "c_members c = [m]" "c_min_viable c = 1"
        "\<not> c_no_assembly c" "c_budget c = apply_default_budget (cohort_budget part)"
        using ms(3) one by (auto simp: new_serial_cohort_Inr)
      then show ?thesis using one len constructed_wf(1) by (auto simp: build_cohort_def)
    next
      case mpi
      then obtain c where "new_mpi_cohort cid ms (cohort_budget part) = Inr c" "c_members c = ms"
        "c_min_viable c = int (length ms)" "\<not> c_no_assembly c" "c_budget c = apply_default_budget (cohort_budget part)"
        using ms(3) ne by (auto simp: new_mpi_cohort_Inr)
      then show ?thesis using mpi len assms(5) constructed_wf(2) by (auto simp: build_cohort_def)
    next
      case set
      then obtain c where "new_partial_cohort cid ms (cohort_budget part) (int (length ms)) (None :: unit option) = Inr c"
        "c_members c = ms" "c_min_viable c = int (length ms)" "c_budget c = apply_default_budget (cohort_budget part)"
        using ms(3) ne by (auto simp: new_partial_cohort_Inr Suc_le_eq)
      then show ?thesis using set len constructed_wf(3) by (auto simp: build_cohort_def)
    qed
  qed
  then obtain c where c: "build_cohort b part cid ms (cohort_budget part) = Inr (c, length nodes \<noteq> 1 \<and> pa_collective part)"
    "wf_cohort c" "c_members c = ms" "c_min_viable c = int (length nodes)" "pa_collective part \<longrightarrow> \<not> c_no_assembly c"
    "c_budget c = apply_default_budget (cohort_budget part)"
    by blast
  show ?thesis
    using ch ms(1,2) c tok cold by (intro exI [of _ r] exI [of _ rs] exI [of _ ms] exI [of _ c]) simp
qed

text \<open>For a partition of a validated file and nodes with names, a resume gets as far as the gate
  with a well-formed cohort: one member per node in the hostlist's order, each at the first rung of the
  operator's chain with its deterministic token, all of them required; the assembler is used exactly
  for a collective partition with more than one node, and only a missing assembler there is an error.\<close>

theorem resume_cohort_shape:
  assumes "validate_partitions ps = None" "index_partitions ps n = Some part"
    and "nodes \<noteq> []" "'''' \<notin> set nodes"
    and "pa_collective part \<Longrightarrow> length nodes = 1 \<or> br_assembler b"
  shows "\<exists>r rs ms c. cohort_fallback_chain part = Inr (r # rs) \<and>
    build_intents cluster gen cid (r # rs) nodes = Inr ms \<and>
    build_cohort b part cid ms (cohort_budget part) = Inr (c, length nodes \<noteq> 1 \<and> pa_collective part) \<and>
    wf_cohort c \<and> map i_id (c_members c) = nodes \<and> c_min_viable c = int (length nodes) \<and>
    (pa_collective part \<longrightarrow> \<not> c_no_assembly c) \<and>
    (\<forall>m\<in>set (c_members c). i_rung m = r \<and> i_fallback_chain m = r # rs \<and> i_token m = token cluster (i_id m) gen)"
proof -
  have "pa_collective part \<longrightarrow> length nodes = 1 \<or> br_assembler b" using assms(5) by blast
  from resume_cohort [OF assms(1-4) this, of cluster gen cid] show ?thesis
    by (elim exE conjE) (intro exI conjI; assumption)
qed

theorem resume_cohort_shape_witness:
  "\<exists>r rs ms c. cohort_fallback_chain (gpu_partition ''gpu'') = Inr (r # rs) \<and>
    build_intents ''hpc'' ''g2'' ''gpu:x'' (r # rs) [''gpu-1'', ''gpu-2''] = Inr ms \<and>
    build_cohort demo_bridge (gpu_partition ''gpu'') ''gpu:x'' ms (cohort_budget (gpu_partition ''gpu'')) = Inr (c, False) \<and>
    wf_cohort c \<and> map i_id (c_members c) = [''gpu-1'', ''gpu-2''] \<and> c_min_viable c = 2 \<and>
    (\<forall>m\<in>set (c_members c). i_rung m = r \<and> i_fallback_chain m = r # rs \<and> i_token m = token ''hpc'' (i_id m) ''g2'')"
proof -
  have i: "index_partitions two_partitions ''gpu'' = Some (gpu_partition ''gpu'')"
    by (simp add: index_partitions_def two_partitions_def gpu_partition_def)
  have nc: "\<not> pa_collective (gpu_partition ''gpu'')" by (simp add: gpu_partition_def zero_partition_def)
  have e: "(length [''gpu-1'', ''gpu-2''] \<noteq> 1 \<and> pa_collective (gpu_partition ''gpu'')) = False"
    "int (length [''gpu-1'', ''gpu-2'']) = 2"
    using nc by simp_all
  obtain r rs ms c where "cohort_fallback_chain (gpu_partition ''gpu'') = Inr (r # rs)"
    "build_intents ''hpc'' ''g2'' ''gpu:x'' (r # rs) [''gpu-1'', ''gpu-2''] = Inr ms"
    "build_cohort demo_bridge (gpu_partition ''gpu'') ''gpu:x'' ms (cohort_budget (gpu_partition ''gpu'')) = Inr (c, False)"
    "wf_cohort c" "map i_id (c_members c) = [''gpu-1'', ''gpu-2'']" "c_min_viable c = 2"
    "\<forall>m\<in>set (c_members c). i_rung m = r \<and> i_fallback_chain m = r # rs \<and> i_token m = token ''hpc'' (i_id m) ''g2''"
    using resume_cohort_shape [OF two_partitions_valid i, of "[''gpu-1'', ''gpu-2'']" demo_bridge "''hpc''" "''g2''" "''gpu:x''",
        unfolded e] nc by (auto simp del: build_intents.simps)
  then show ?thesis by (intro exI conjI)
qed

section \<open>Budget holds\<close>

lemma persist_holds_world:
  assumes "as_transaction_id res \<noteq> ''''"
  shows "nw_holds (persist_holds (aws_bridge cfg acfg shw run gate closer asm order) now nodes part res w) =
      holds.put_all (map (hold_of part res (length nodes) now) nodes) (nw_holds w)"
    and "nw_log (persist_holds (aws_bridge cfg acfg shw run gate closer asm order) now nodes part res w) = nw_log w"
proof -
  let ?put = "\<lambda>n node w. complain (aws_bridge cfg acfg shw run gate closer asm order) (''slurm resume: persist hold for '' @ node)
    (hp_put file_holds (hold_of part res n now node) w)"
  have "nw_holds (fold (?put n) nodes w) = holds.put_all (map (hold_of part res n now) nodes) (nw_holds w) \<and>
      nw_log (fold (?put n) nodes w) = nw_log w" for n
    by (induction nodes arbitrary: w) (simp_all add: holds.put_all_def file_holds_def)
  with assms show "nw_holds (persist_holds (aws_bridge cfg acfg shw run gate closer asm order) now nodes part res w) =
      holds.put_all (map (hold_of part res (length nodes) now) nodes) (nw_holds w)"
    and "nw_log (persist_holds (aws_bridge cfg acfg shw run gate closer asm order) now nodes part res w) = nw_log w"
    by (simp_all add: persist_holds_def)
qed

lemma hold_of_entity [simp]: "h_entity (hold_of part res n now node) = node"
  by (simp add: hold_of_def)

lemma persisted_holds:
  assumes "'''' \<notin> set nodes" "distinct nodes" "as_transaction_id res \<noteq> ''''"
    and "w' = persist_holds (aws_bridge cfg acfg shw run gate closer asm order) now nodes part res w" "n \<noteq> ''''"
  shows "holds_get id_codec n (nw_holds w') =
    (if n \<in> set nodes then Some (hold_of part res (length nodes) now n) else holds_get id_codec n (nw_holds w))"
proof -
  let ?hs = "map (hold_of part res (length nodes) now) nodes"
  have "\<forall>v\<in>set ?hs. nonempty_id (h_entity v)"
    using assms(1) by (auto simp: nonempty_id_def)
  from holds.get_put_all [OF this, of n "nw_holds w"] assms
  have get: "holds_get id_codec n (nw_holds w') =
      (case filter (\<lambda>v. h_entity v = n) (rev ?hs) of [] \<Rightarrow> holds_get id_codec n (nw_holds w) | v # _ \<Rightarrow> Some v)"
    by (simp add: persist_holds_world nonempty_id_def)
  have all: "v \<in> set (filter (\<lambda>v. h_entity v = n) (rev ?hs)) \<longleftrightarrow> n \<in> set nodes \<and> v = hold_of part res (length nodes) now n" for v
    by auto
  show ?thesis
  proof (cases "filter (\<lambda>v. h_entity v = n) (rev ?hs)")
    case Nil
    with all [of "hold_of part res (length nodes) now n"] get show ?thesis by simp
  next
    case (Cons v vs)
    with all [of v] get show ?thesis by simp
  qed
qed

text \<open>A fleet's hold is split over its nodes without loss: after a resume each node has its hold on
  disk, with the fleet's transaction and an equal share of the admitted rate, the shares sum to the
  estimate of the budget service, and the holds of other nodes are what they were.\<close>

theorem fleet_hold_split:
  assumes "nodes \<noteq> []" "'''' \<notin> set nodes" "distinct nodes" "as_transaction_id res \<noteq> ''''"
    and "w' = persist_holds (aws_bridge cfg acfg shw run gate closer asm order) now nodes part res w"
  shows "(\<forall>n\<in>set nodes. holds_get id_codec n (nw_holds w') = Some (hold_of part res (length nodes) now n)) \<and>
    (\<forall>n. n \<noteq> '''' \<and> n \<notin> set nodes \<longrightarrow> holds_get id_codec n (nw_holds w') = holds_get id_codec n (nw_holds w)) \<and>
    (\<Sum>n\<leftarrow>nodes. h_hourly_rate (hold_of part res (length nodes) now n)) = as_estimated_cost res"
proof (intro conjI ballI allI impI)
  show "holds_get id_codec n (nw_holds w') = Some (hold_of part res (length nodes) now n)" if "n \<in> set nodes" for n
    using persisted_holds [OF assms(2-5), of n] that assms(2) by auto
  show "holds_get id_codec n (nw_holds w') = holds_get id_codec n (nw_holds w)" if "n \<noteq> '''' \<and> n \<notin> set nodes" for n
    using persisted_holds [OF assms(2-5), of n] that by auto
  have "(\<Sum>n\<leftarrow>nodes. h_hourly_rate (hold_of part res (length nodes) now n)) =
      of_nat (length nodes) * (as_estimated_cost res / of_nat (length nodes))"
    using assms(1) by (simp add: hold_of_def sum_list_triv)
  then show "(\<Sum>n\<leftarrow>nodes. h_hourly_rate (hold_of part res (length nodes) now n)) = as_estimated_cost res"
    using assms(1) by simp
qed

definition demo_result :: admission_result where
  "demo_result = \<lparr>as_allowed = True, as_reason = '''', as_estimated_cost = 10, as_budget_remaining = 90,
     as_transaction_id = ''tx-1''\<rparr>"

theorem fleet_hold_split_witness:
  "holds_get id_codec ''gpu-2'' (nw_holds (persist_holds demo_bridge 1 [''gpu-1'', ''gpu-2''] (gpu_partition ''gpu'')
      demo_result (demo_world []))) = Some (hold_of (gpu_partition ''gpu'') demo_result 2 1 ''gpu-2'')"
proof -
  let ?ns = "[''gpu-1'', ''gpu-2'']" and ?p = "gpu_partition ''gpu''"
  have t: "as_transaction_id demo_result \<noteq> ''''" by (simp add: demo_result_def)
  have "\<forall>n\<in>set ?ns. holds_get id_codec n (nw_holds (persist_holds demo_bridge 1 ?ns ?p demo_result (demo_world []))) =
      Some (hold_of ?p demo_result (length ?ns) 1 n)"
    unfolding demo_bridge_def by (rule conjunct1 [OF fleet_hold_split [OF _ _ _ t refl]]) simp_all
  then show ?thesis by (simp add: numeral_2_eq_2)
qed

lemma get_hold_holds: "holds_get id_codec i d = Some h \<longleftrightarrow> get_hold id_codec i None d = Inr h"
  by (auto simp: holds_get_def split: sum.split)

lemma holds_get_deleted:
  "holds_get id_codec j (d(hold_path i := None)) = (if j = i then None else holds_get id_codec j d)"
  by (auto simp: holds_get_def get_hold_def hold_path_inj split: option.split)

definition close_complaint :: "entity_id \<Rightarrow> hold \<Rightarrow> go_error option \<Rightarrow> string list" where
  "close_complaint i h reply =
     (case reply of
        Some err \<Rightarrow>
          [''slurm suspend: reconcile hold '' @ h_transaction_id h @ '' for '' @ i @ '': '' @ error_text err @ nl]
      | None \<Rightarrow> [])"

lemma reconcile_hold_world:
  "reconcile_hold (aws_bridge cfg acfg shw run gate (Some cl) asm order) now i w =
     (case holds_get id_codec i (nw_holds w) of
        None \<Rightarrow> w
      | Some h \<Rightarrow>
          (let w1 = note_event (EvClose (close_request cfg now i h)) w
           in if cl (close_request cfg now i h) = None then w1\<lparr>nw_holds := (nw_holds w)(hold_path i := None)\<rparr>
              else w1\<lparr>nw_out := nw_out w @ close_complaint i h (cl (close_request cfg now i h))\<rparr>))"
proof (cases "get_hold id_codec i None (nw_holds w)")
  case (Inl e)
  then have "e = ErrNoHold i" by (auto simp: get_hold_def id_codec_def split: option.splits)
  with Inl show ?thesis by (simp add: reconcile_hold_def file_holds_def holds_get_def)
next
  case (Inr h)
  then have "holds_get id_codec i (nw_holds w) = Some h" by (simp add: get_hold_holds)
  with Inr show ?thesis
    by (auto simp: reconcile_hold_def file_holds_def delete_hold_def Let_def complain_def close_complaint_def note_event_def
        split: option.split)
qed

text \<open>Closing a node's hold after its teardown: without a hold on disk nothing happens; with one, the
  budget service is asked once to close its transaction at the held rate times the hours since the
  resume, never a negative amount, and the hold is forgotten exactly when the service accepted, so that a
  refused close can be tried again and is reported; no instance is touched.\<close>

theorem hold_closed_once:
  fixes cl :: "reconcile_request \<Rightarrow> go_error option"
  assumes "w' = reconcile_hold (aws_bridge cfg acfg shw run gate (Some cl) asm order) now i w"
    and "rq = (\<lambda>h. close_request cfg now i h)"
  shows "nw_cloud w' = nw_cloud w \<and>
    (case holds_get id_codec i (nw_holds w) of
       None \<Rightarrow> w' = w
     | Some h \<Rightarrow>
         nw_log w' = nw_log w @ [EvClose (rq h)] \<and> nw_out w' = nw_out w @ close_complaint i h (cl (rq h)) \<and>
         (0 \<le> h_hourly_rate h \<longrightarrow> 0 \<le> rq_actual_cost (rq h)) \<and>
         (\<forall>j. holds_get id_codec j (nw_holds w') =
           (if j = i \<and> cl (rq h) = None then None else holds_get id_codec j (nw_holds w))))"
proof
  show "nw_cloud w' = nw_cloud w"
    unfolding assms(1) by (rule node.reconcile_hold_view)
  show "case holds_get id_codec i (nw_holds w) of
       None \<Rightarrow> w' = w
     | Some h \<Rightarrow>
         nw_log w' = nw_log w @ [EvClose (rq h)] \<and> nw_out w' = nw_out w @ close_complaint i h (cl (rq h)) \<and>
         (0 \<le> h_hourly_rate h \<longrightarrow> 0 \<le> rq_actual_cost (rq h)) \<and>
         (\<forall>j. holds_get id_codec j (nw_holds w') =
           (if j = i \<and> cl (rq h) = None then None else holds_get id_codec j (nw_holds w)))"
    by (auto simp: assms reconcile_hold_world Let_def holds_get_deleted close_request_def close_complaint_def
        note_event_def split: option.split)
qed

theorem hold_closed_once_witness:
  "nw_log (reconcile_hold demo_bridge (1 + 2 * hour) ''gpu-2'' (persist_holds demo_bridge 1 [''gpu-1'', ''gpu-2'']
     (gpu_partition ''gpu'') demo_result (demo_world [])))
   = [EvClose (close_request demo_cfg (1 + 2 * hour) ''gpu-2'' (hold_of (gpu_partition ''gpu'') demo_result 2 1 ''gpu-2''))]"
proof -
  let ?w = "persist_holds demo_bridge 1 [''gpu-1'', ''gpu-2''] (gpu_partition ''gpu'') demo_result (demo_world [])"
  have t: "as_transaction_id demo_result \<noteq> ''''" by (simp add: demo_result_def)
  have h: "holds_get id_codec ''gpu-2'' (nw_holds ?w) = Some (hold_of (gpu_partition ''gpu'') demo_result 2 1 ''gpu-2'')"
    "nw_log ?w = []"
    unfolding demo_bridge_def
    by (subst persisted_holds [OF _ _ t refl]) (simp_all add: numeral_2_eq_2 persist_holds_world t demo_world_def)
  from hold_closed_once [OF refl refl, of demo_cfg demo_acfg "\<lambda>_. None" no_outcome None "\<lambda>_. None" False "\<lambda>_. []"
      "1 + 2 * hour" "''gpu-2''" ?w]
  show ?thesis by (simp add: h demo_bridge_def [symmetric])
qed

section \<open>Suspend\<close>

definition teardowns :: "bridge_event list \<Rightarrow> bridge_event list" where
  "teardowns evs = filter (\<lambda>e. case e of EvTerminate i \<Rightarrow> True | EvStop i m \<Rightarrow> True | _ \<Rightarrow> False) evs"

definition closes :: "bridge_event list \<Rightarrow> reconcile_request list" where
  "closes evs = List.map_filter (\<lambda>e. case e of EvClose rq \<Rightarrow> Some rq | _ \<Rightarrow> None) evs"

lemma teardowns_append [simp]: "teardowns (xs @ ys) = teardowns xs @ teardowns ys"
  by (simp add: teardowns_def)

lemma closes_append [simp]: "closes (xs @ ys) = closes xs @ closes ys"
  by (simp add: closes_def List.map_filter_def)

lemma cloud_apply_sel [simp]:
  "nw_holds (cloud_apply acfg i st w) = nw_holds w" "nw_log (cloud_apply acfg i st w) = nw_log w"
  by (cases rule: cloud_apply_cases [of i w acfg st]; simp)+

lemma reconcile_hold_teardowns:
  "teardowns (nw_log (reconcile_hold (aws_bridge cfg acfg shw run gate closer asm order) now i w)) = teardowns (nw_log w)"
  by (cases closer)
    (auto simp: reconcile_hold_def file_holds_def teardowns_def Let_def split: sum.split option.split)

text \<open>C36. A suspend makes one teardown call per node of the hostlist, in its order, stops with the mode
  the warm pool asks for or terminates without one, and goes on past nodes that fail.\<close>

theorem suspend_tears_down_every_node:
  assumes "shw hostlist = Some (Inr nodes)"
    and "resolve_partition (aws_bridge cfg acfg shw run gate closer asm order) name (first_or nodes '''') = Inr part"
    and "suspend (aws_bridge cfg acfg shw run gate closer asm order) clk name hostlist w = Some (err, w')"
  shows "teardowns (nw_log w') = teardowns (nw_log w) @ map (\<lambda>n.
    if 0 < wp_hibernated (pa_warm_pool part) then EvStop n StopHibernate
    else if 0 < wp_stopped (pa_warm_pool part) then EvStop n StopWarm else EvTerminate n) nodes"
proof -
  let ?b = "aws_bridge cfg acfg shw run gate closer asm order"
  have step: "teardowns (nw_log (snd (suspend_nodes ?b (aws_port acfg) act clk k ns errs v))) =
      teardowns (nw_log v) @ map (\<lambda>n. if snd act then EvTerminate n else EvStop n (fst act)) ns" for act k ns errs v
  proof (induction ns arbitrary: k errs v)
    case (Cons n ns)
    then show ?case
      by (auto simp: aws_port_def reconcile_hold_teardowns split: prod.split option.split)
        (simp_all add: teardowns_def)
  qed simp
  obtain errs where "suspend_nodes ?b (aws_port acfg) (suspend_action part) clk 0 nodes [] w = (errs, w')"
    using assms by (auto simp: suspend_def split: prod.splits)
  with step [of "suspend_action part" 0 nodes "[]" w] show ?thesis
    by (auto simp: suspend_action_def)
qed

theorem suspend_tears_down_every_node_witness:
  "\<exists>err w'. suspend (aws_bridge demo_cfg demo_acfg (show_hostnames no_scontrol) no_outcome None None False (\<lambda>_. []))
      demo_clock '''' ''gpu-1,gpu-2'' (demo_world []) = Some (err, w') \<and>
    teardowns (nw_log w') = [EvTerminate ''gpu-1'', EvTerminate ''gpu-2'']"
proof -
  let ?b = "aws_bridge demo_cfg demo_acfg (show_hostnames no_scontrol) no_outcome None None False (\<lambda>_. [])"
  have n: "show_hostnames no_scontrol ''gpu-1,gpu-2'' = Some (Inr [''gpu-1'', ''gpu-2''])"
    by (simp add: show_hostnames_def no_scontrol_def expand_hostlist_def nonempty_trimmed_def trim_space_def
        trim_of_def trim_right_of_def is_space_def)
  have p: "resolve_partition ?b '''' (first_or [''gpu-1'', ''gpu-2''] '''') = Inr (gpu_partition ''gpu'')"
    by (simp add: resolve_partition_def demo_cfg_def index_partitions_def two_partitions_def gpu_partition_def)
  obtain err w' where s: "suspend ?b demo_clock '''' ''gpu-1,gpu-2'' (demo_world []) = Some (err, w')"
    by (cases "suspend_nodes ?b (aws_port demo_acfg) (suspend_action (gpu_partition ''gpu'')) demo_clock 0
          [''gpu-1'', ''gpu-2''] [] (demo_world [])")
      (simp add: suspend_def n p)
  from suspend_tears_down_every_node [where shw = "show_hostnames no_scontrol", OF n p s] s show ?thesis
    by (simp add: gpu_partition_def zero_partition_def demo_world_def) (simp add: teardowns_def)
qed

lemma cloud_client_terminate: "cl_terminate (cloud_client xs) pid = None"
  by (simp add: cloud_client_def)

lemma cloud_terminates: "terminate (cloud_client xs) acfg i = Some None"
  by (cases "instances_of i xs")
    (simp_all add: terminate_def resolve_cloud not_visible_def is_not_yet_visible_def cloud_client_terminate)

lemma fleet_close_step:
  assumes "distinct ns" "\<forall>n\<in>set ns. holds_get id_codec n (nw_holds v) = Some (h n)" "\<forall>rq. cl rq = None"
    and "suspend_nodes (aws_bridge cfg acfg shw run gate (Some cl) asm order) (aws_port acfg) (StopWarm, True)
      clk k ns errs v = (errs', v')"
  shows "errs' = errs \<and> (\<forall>n\<in>set ns. holds_get id_codec n (nw_holds v') = None) \<and>
    (\<forall>n. n \<notin> set ns \<longrightarrow> holds_get id_codec n (nw_holds v') = holds_get id_codec n (nw_holds v)) \<and>
    closes (nw_log v') = closes (nw_log v) @ map (\<lambda>(j, n). close_request cfg (clk j) n (h n)) (zip [k..<k + length ns] ns)"
  using assms
proof (induction ns arbitrary: k errs v)
  case Nil
  then show ?case by simp
next
  case (Cons n ns)
  let ?b = "aws_bridge cfg acfg shw run gate (Some cl) asm order"
  define v0 where "v0 = note_event (EvTerminate n) (cloud_apply acfg n ''shutting-down'' v)"
  define v1 where "v1 = reconcile_hold ?b (clk k) n v0"
  have v0: "nw_holds v0 = nw_holds v" "closes (nw_log v0) = closes (nw_log v)"
    by (simp_all add: v0_def) (simp add: closes_def List.map_filter_def)
  have h: "\<forall>j. holds_get id_codec j (nw_holds v1) = (if j = n then None else holds_get id_codec j (nw_holds v))"
    and c: "closes (nw_log v1) = closes (nw_log v) @ [close_request cfg (clk k) n (h n)]"
    using Cons.prems(2,3) v0
    by (simp_all add: v1_def reconcile_hold_world Let_def holds_get_deleted) (simp add: closes_def List.map_filter_def)
  have r: "suspend_nodes ?b (aws_port acfg) (StopWarm, True) clk (Suc k) ns errs v1 = (errs', v')"
    using Cons.prems(4) by (simp add: aws_port_def cloud_terminates v1_def v0_def)
  have ns: "n \<notin> set ns" "distinct ns" using Cons.prems(1) by simp_all
  then have "\<forall>m\<in>set ns. holds_get id_codec m (nw_holds v1) = Some (h m)"
    using Cons.prems(2) h by auto
  from Cons.IH [OF ns(2) this Cons.prems(3) r] h c ns(1) show ?case
    by (auto simp: upt_rec [of k] simp del: upt_Suc)
qed



end
