(* ===== verification/Mpi_Domain.thy ===== *)
theory Mpi_Domain
  imports Aws_Actuator "HOL-Library.Multiset"
begin

text \<open>
  \<^verbatim>\<open>internal/mpi\<close> and \<^verbatim>\<open>internal/slurm/domain.go\<close>: the enroller over a readiness probe and the
  assembler that ranks the members and publishes the peer manifest; the Slurm domain delegates to
  both. The serialization of the manifest (\<^verbatim>\<open>json.Marshal\<close>) and the publisher are parameters of
  \<^verbatim>\<open>Assemble\<close>. \<^verbatim>\<open>sort.Slice\<close> is a sort by entity id: members with equal ids are the only ones it may
  order differently.
\<close>

section \<open>Enroller\<close>

definition is_enrolled ::
  "(entity_id \<Rightarrow> go_error + readiness) option \<Rightarrow> entity_id \<Rightarrow> go_error + readiness"
where
  "is_enrolled probe i =
     (case probe of
        None \<Rightarrow> Inr \<lparr>rd_enrolled = True, rd_operational = True, rd_detail = ''no readiness probe configured''\<rparr>
      | Some read \<Rightarrow> read i)"

definition slurm_is_enrolled ::
  "(entity_id \<Rightarrow> go_error + readiness) option \<Rightarrow> entity_id \<Rightarrow> go_error + readiness"
where
  "slurm_is_enrolled probe i = is_enrolled probe i"

section \<open>Assembler\<close>

record peer =
  pr_rank :: nat
  pr_entity :: string
  pr_address :: string

record peer_manifest =
  pm_cohort :: string
  pm_peers :: "peer list"

definition cohort_key :: "observation list \<Rightarrow> string" where
  "cohort_key ordered = (if length ordered = 0 then ''empty'' else o_id (ordered ! 0))"

definition manifest_key :: "string \<Rightarrow> string" where
  "manifest_key cid = ''manifests/'' @ cid @ ''/peers.json''"

text \<open>The loop over the ordered members: the peers, or the first member without an address.\<close>

fun assign_ranks :: "nat \<Rightarrow> observation list \<Rightarrow> go_error + peer list" where
  "assign_ranks k [] = Inr []"
| "assign_ranks k (m # ms) =
     (if o_address m = '''' then
        Inl (ErrText (''mpi: member '' @ o_id m @ '' enrolled but has no address '' @ em_dash @
          '' cannot assign rank '' @ show_nat k))
      else (case assign_ranks (Suc k) ms of
              Inl e \<Rightarrow> Inl e
            | Inr ps \<Rightarrow> Inr (\<lparr>pr_rank = k, pr_entity = o_id m, pr_address = o_address m\<rparr> # ps)))"

definition peer_manifest :: "observation list \<Rightarrow> go_error + peer_manifest" where
  "peer_manifest members =
     (if length members = 0 then
        Inl (ErrText (''mpi: Assemble received zero members '' @ em_dash @
          '' barrier should never admit an empty cohort''))
      else (let ordered = sort_key o_id members
            in (case assign_ranks 0 ordered of
                  Inl e \<Rightarrow> Inl e
                | Inr peers \<Rightarrow> Inr \<lparr>pm_cohort = cohort_key ordered, pm_peers = peers\<rparr>)))"

definition assemble ::
  "(peer_manifest \<Rightarrow> go_error + string) \<Rightarrow> (string \<Rightarrow> string \<Rightarrow> go_error option) option \<Rightarrow>
   observation list \<Rightarrow> go_error option"
where
  "assemble marshal publisher members =
     (case peer_manifest members of
        Inl e \<Rightarrow> Some e
      | Inr manifest \<Rightarrow>
          (case marshal manifest of
             Inl e \<Rightarrow> Some (ErrWrap ''mpi: marshal peer manifest: '' e)
           | Inr data \<Rightarrow>
               (let key = manifest_key (pm_cohort manifest)
                in (case publisher of
                      None \<Rightarrow> Some (ErrText ''mpi: Assembler has no ManifestPublisher; cannot publish peer manifest'')
                    | Some pub \<Rightarrow>
                        (case pub key data of
                           Some e \<Rightarrow> Some (ErrWrap (''mpi: publish peer manifest to '' @ key @ '': '') e)
                         | None \<Rightarrow> None)))))"

definition slurm_assemble ::
  "(peer_manifest \<Rightarrow> go_error + string) \<Rightarrow> (string \<Rightarrow> string \<Rightarrow> go_error option) option \<Rightarrow>
   observation list \<Rightarrow> go_error option"
where
  "slurm_assemble marshal publisher members = assemble marshal publisher members"

section \<open>What a manifest is\<close>

fun ranks_of :: "nat \<Rightarrow> observation list \<Rightarrow> peer list" where
  "ranks_of k [] = []"
| "ranks_of k (m # ms) = \<lparr>pr_rank = k, pr_entity = o_id m, pr_address = o_address m\<rparr> # ranks_of (Suc k) ms"

lemma ranks_of_nth:
  "j < length ms \<Longrightarrow> ranks_of k ms ! j =
     \<lparr>pr_rank = k + j, pr_entity = o_id (ms ! j), pr_address = o_address (ms ! j)\<rparr>"
  by (induction ms arbitrary: j k) (auto simp: nth_Cons split: nat.split)

lemma length_ranks_of [simp]: "length (ranks_of k ms) = length ms"
  by (induction ms arbitrary: k) auto

lemma assign_ranks_ok: "\<forall>m\<in>set ms. o_address m \<noteq> '''' \<Longrightarrow> assign_ranks k ms = Inr (ranks_of k ms)"
  by (induction ms arbitrary: k) auto

lemma assign_ranks_bad: "\<exists>m\<in>set ms. o_address m = '''' \<Longrightarrow> \<exists>e. assign_ranks k ms = Inl e"
proof (induction ms arbitrary: k)
  case (Cons m ms)
  show ?case
  proof (cases "o_address m = ''''")
    case False
    with Cons.prems have "\<exists>m\<in>set ms. o_address m = ''''" by auto
    with Cons.IH [of "Suc k"] False show ?thesis by auto
  qed simp
qed simp

lemma peer_manifest_Inr:
  assumes "peer_manifest members = Inr pm"
  shows "members \<noteq> [] \<and> (\<forall>m\<in>set members. o_address m \<noteq> '''') \<and>
    pm_peers pm = ranks_of 0 (sort_key o_id members) \<and> pm_cohort pm = o_id (sort_key o_id members ! 0)"
proof -
  have ne: "members \<noteq> []" using assms by (auto simp: peer_manifest_def)
  have all: "\<forall>m\<in>set (sort_key o_id members). o_address m \<noteq> ''''"
  proof (rule ccontr)
    assume "\<not> ?thesis"
    then obtain e where "assign_ranks 0 (sort_key o_id members) = Inl e"
      using assign_ranks_bad by blast
    with assms ne show False by (simp add: peer_manifest_def Let_def)
  qed
  have "length (sort_key o_id members) \<noteq> 0" using ne by simp
  with assms ne assign_ranks_ok [OF all, of 0] have "pm = \<lparr>pm_cohort = o_id (sort_key o_id members ! 0),
      pm_peers = ranks_of 0 (sort_key o_id members)\<rparr>"
    by (simp add: peer_manifest_def Let_def cohort_key_def)
  with ne all show ?thesis by simp
qed

text \<open>The manifest does not depend on the order in which the reconciler lists the members.\<close>

lemma peer_manifest_perm:
  assumes "mset ms = mset ms'" "distinct (map o_id ms)"
  shows "peer_manifest ms = peer_manifest ms'"
proof -
  have "inj_on o_id (set ms)" using assms(2) by (simp add: distinct_map)
  then have "sort_key o_id ms = sort_key o_id ms'"
    using assms(1) by (intro sort_key_inj_key_eq) simp_all
  moreover have "length ms = length ms'" using assms(1) by (rule mset_eq_length)
  ultimately show ?thesis by (simp add: peer_manifest_def)
qed

end
