(* ===== verification/Spored.thy ===== *)
theory Spored
  imports Mpi_Domain Cohort_Tracker Go_Library
begin

text \<open>
  The on-node reporter: \<^verbatim>\<open>internal/spored\<close> (probes, the pass that evaluates them and writes the
  readiness tags, the reporting loop) and the configuration of \<^verbatim>\<open>cmd/q0-spored\<close> (the mount paths it
  probes). File status and the liveness command are parameters, as is the identity source.
\<close>

section \<open>Probes\<close>

record stat_info =
  st_is_dir :: bool
  st_dev :: "nat option"

datatype probe = MountProbe string | SlurmdProbe

definition probe_name :: "probe \<Rightarrow> string" where
  "probe_name p = (case p of MountProbe path \<Rightarrow> ''mount:'' @ path | SlurmdProbe \<Rightarrow> ''slurmd'')"

definition device_id :: "(string \<Rightarrow> go_error + stat_info) \<Rightarrow> string \<Rightarrow> go_error + nat" where
  "device_id stat path =
     (case stat path of
        Inl e \<Rightarrow> Inl (ErrWrap (''stat '' @ path @ '': '') e)
      | Inr fi \<Rightarrow>
          (case st_dev fi of
             None \<Rightarrow> Inl (ErrText (path @ '': no syscall.Stat_t (unsupported platform)''))
           | Some d \<Rightarrow> Inr d))"

text \<open>The build for systems without device numbers.\<close>

definition device_id_other :: "string \<Rightarrow> go_error + nat" where
  "device_id_other path = Inl (ErrText ''mount probe unsupported on this platform'')"

definition check_mount :: "(string \<Rightarrow> go_error + stat_info) \<Rightarrow> string \<Rightarrow> go_error option" where
  "check_mount stat path =
     (case stat path of
        Inl e \<Rightarrow> Some (ErrWrap (''stat '' @ path @ '': '') e)
      | Inr fi \<Rightarrow>
          (if \<not> st_is_dir fi then Some (ErrText (path @ '' is not a directory''))
           else (case device_id stat path of
                   Inl e \<Rightarrow> Some e
                 | Inr dev \<Rightarrow>
                     (case device_id stat (parent_dir path) of
                        Inl e \<Rightarrow> Some e
                      | Inr pdev \<Rightarrow>
                          (if dev = pdev then
                             Some (ErrText (path @ '' is not a mount point (same device as parent)''))
                           else None)))))"

definition check_slurmd :: "go_error option \<Rightarrow> go_error option" where
  "check_slurmd run = map_option (ErrWrap ''slurmd not active: '') run"

definition check_probe ::
  "(string \<Rightarrow> go_error + stat_info) \<Rightarrow> go_error option \<Rightarrow> probe \<Rightarrow> go_error option"
where
  "check_probe stat run p =
     (case p of MountProbe path \<Rightarrow> check_mount stat path | SlurmdProbe \<Rightarrow> check_slurmd run)"

section \<open>The reporter\<close>

record identity =
  id_provider_id :: string
  id_entity :: string
  id_cluster :: string

definition bool_str :: "bool \<Rightarrow> string" where
  "bool_str b = (if b then ''true'' else ''false'')"

fun failures :: "(probe \<Rightarrow> go_error option) \<Rightarrow> probe list \<Rightarrow> string list" where
  "failures check [] = []"
| "failures check (p # ps) =
     (case check p of
        Some e \<Rightarrow> (probe_name p @ '': '' @ error_text e) # failures check ps
      | None \<Rightarrow> failures check ps)"

definition evaluate :: "(probe \<Rightarrow> go_error option) \<Rightarrow> probe list \<Rightarrow> string \<times> bool \<times> string" where
  "evaluate check probes =
     (let fs = failures check probes
      in if length fs = 0 then (phase_enrolled, True, ''all probes ok'')
         else (phase_booting, False, join_with ''; '' fs))"

definition readiness_tags :: "string \<times> bool \<times> string \<Rightarrow> (string \<times> string) list" where
  "readiness_tags r = (case r of (ph, ready, detail) \<Rightarrow>
     [(tag_phase, ph), (tag_ready, bool_str ready), (tag_detail, detail)])"

definition report_once ::
  "go_error + identity \<Rightarrow> (string \<Rightarrow> (string \<times> string) list \<Rightarrow> go_error option) \<Rightarrow>
   (probe \<Rightarrow> go_error option) \<Rightarrow> probe list \<Rightarrow> bool \<times> go_error option"
where
  "report_once ident write check probes =
     (case ident of
        Inl e \<Rightarrow> (False, Some (ErrWrap ''spored: identify: '' e))
      | Inr i \<Rightarrow>
          (let r = evaluate check probes
           in (case write (id_provider_id i) (readiness_tags r) of
                 Some e \<Rightarrow> (fst (snd r), Some (ErrWrap ''spored: write readiness tags: '' e))
               | None \<Rightarrow> (fst (snd r), None))))"

text \<open>The waits of the loop, given what its passes report, from a count of stable passes.\<close>

fun run_waits :: "duration \<Rightarrow> nat \<Rightarrow> (bool \<times> go_error option) list \<Rightarrow> duration list" where
  "run_waits interval cnt [] = []"
| "run_waits interval cnt ((ready, err) # ps) =
     (let cnt = (if err = None \<and> ready then cnt + 1 else 0);
          wait = (if cnt \<ge> 2 then interval * 10 else interval)
      in wait # run_waits interval cnt ps)"

section \<open>The probes of q0-spored\<close>

definition parse_mount_paths_line :: "string \<Rightarrow> string" where
  "parse_mount_paths_line content =
     (case find (\<lambda>l. has_prefix (trim_space l) ''Q0_MOUNT_PATHS='') (split_on (CHR 0x0A) content) of
        None \<Rightarrow> ''''
      | Some line \<Rightarrow>
          trim_of (\<lambda>c. c = CHR 0x27 \<or> c = dquote) (trim_prefix (trim_space line) ''Q0_MOUNT_PATHS=''))"

definition spored_mount_paths :: "(string \<Rightarrow> string) \<Rightarrow> (string \<Rightarrow> string option) \<Rightarrow> string" where
  "spored_mount_paths getenv read_file =
     (if getenv ''Q0_MOUNT_PATHS'' \<noteq> '''' then getenv ''Q0_MOUNT_PATHS''
      else (let path = (if getenv ''Q0_MOUNTS_FILE'' = '''' then mounts_file else getenv ''Q0_MOUNTS_FILE'')
            in (case read_file path of None \<Rightarrow> '''' | Some data \<Rightarrow> parse_mount_paths_line data)))"

definition probes_from_env :: "(string \<Rightarrow> string) \<Rightarrow> (string \<Rightarrow> string option) \<Rightarrow> probe list" where
  "probes_from_env getenv read_file =
     map MountProbe (filter (\<lambda>p. p \<noteq> '''') (map trim_space (split_on (CHR '','') (spored_mount_paths getenv read_file)))) @
     (if getenv ''Q0_CHECK_SLURMD'' \<noteq> ''false'' then [SlurmdProbe] else [])"

definition imds_identify ::
  "go_error + string \<Rightarrow> (string \<Rightarrow> go_error + (string \<rightharpoonup> string)) \<Rightarrow> go_error + identity"
where
  "imds_identify doc read_tags =
     (case doc of
        Inl e \<Rightarrow> Inl (ErrWrap ''imds identity document: '' e)
      | Inr pid \<Rightarrow>
          (case read_tags pid of
             Inl e \<Rightarrow> Inl (ErrWrap ''read own tags: '' e)
           | Inr kv \<Rightarrow> Inr \<lparr>id_provider_id = pid, id_entity = map_get kv tag_entity,
                          id_cluster = map_get kv tag_cluster\<rparr>))"

section \<open>From the probes to the reconciler\<close>

lemma failures_Nil: "failures check ps = [] \<longleftrightarrow> (\<forall>p\<in>set ps. check p = None)"
  by (induction ps) (auto split: option.splits)

lemma evaluate_ready: "fst (snd (evaluate check ps)) \<longleftrightarrow> (\<forall>p\<in>set ps. check p = None)"
  by (simp add: evaluate_def Let_def failures_Nil)

text \<open>The instance's tags once the reporter has written its set over what was there.\<close>

definition tags_after :: "(string \<rightharpoonup> string) \<Rightarrow> string \<times> bool \<times> string \<Rightarrow> (string \<rightharpoonup> string)" where
  "tags_after old r = old ++ map_of (readiness_tags r)"

lemma tags_after_get:
  "map_get (tags_after old (ph, ready, detail)) tag_phase = ph"
  "map_get (tags_after old (ph, ready, detail)) tag_ready = bool_str ready"
  "map_get (tags_after old (ph, ready, detail)) tag_detail = detail"
  by (simp_all add: tags_after_def readiness_tags_def map_get_def tag_defs map_add_def)

lemma readiness_of_report:
  assumes "cl_describe sc (entity_filter cfg i) = Some (Inr (inst # rest))"
    and "cl_tags sc (si_provider_id inst) = Inr (tags_after old (evaluate check ps))"
  shows "read_readiness sc cfg i = Some (if \<forall>p\<in>set ps. check p = None
     then \<lparr>rd_enrolled = True, rd_operational = True, rd_detail = ''all probes ok''\<rparr>
     else \<lparr>rd_enrolled = False, rd_operational = False, rd_detail = join_with ''; '' (failures check ps)\<rparr>)"
proof -
  have fold: "equal_fold phase_enrolled phase_enrolled" "\<not> equal_fold phase_booting phase_enrolled"
    by (simp_all add: equal_fold_def to_lower_def phase_booting_def phase_enrolled_def)
  show ?thesis
    using assms fold
    by (cases "\<forall>p\<in>set ps. check p = None")
      (auto simp: read_readiness_def evaluate_def Let_def failures_Nil tags_after_get parse_bool_def bool_str_def)
qed

text \<open>An entity that enrols on what the reporter of a healthy node wrote.\<close>

definition enrols_healthy ::
  "ports \<Rightarrow> phase_budget \<Rightarrow> (ctx_err \<times> time) option \<Rightarrow> substrate_client \<Rightarrow> actuator_config \<Rightarrow> io_event \<Rightarrow> entity \<Rightarrow> bool"
where
  "enrols_healthy P b c sc cfg ev e \<longleftrightarrow>
     e_pc e = PcEnrolled \<and> phase_ctx c (e_deadline e) (ev_at ev) = None \<and> port_enroller P \<and>
     map_option Inr (read_readiness sc cfg (i_id (t_intent (e_tr e)))) = Some (ev_enroll ev) \<and>
     (\<exists>inst rest old check ps.
        cl_describe sc (entity_filter cfg (i_id (t_intent (e_tr e)))) = Some (Inr (inst # rest)) \<and>
        cl_tags sc (si_provider_id inst) = Inr (tags_after old (evaluate check ps)) \<and>
        (\<forall>p\<in>set ps. check p = None))"

lemma enrols_healthy_address:
  assumes "enrols_healthy P b c sc cfg ev e"
  shows "o_address (t_obs (e_tr (fst (entity_iter P b c ev e)))) = ''all probes ok''"
proof -
  obtain inst rest old check ps where
    "cl_describe sc (entity_filter cfg (i_id (t_intent (e_tr e)))) = Some (Inr (inst # rest))"
    "cl_tags sc (si_provider_id inst) = Inr (tags_after old (evaluate check ps))"
    "\<forall>p\<in>set ps. check p = None"
    using assms unfolding enrols_healthy_def by blast
  from readiness_of_report [OF this(1,2)] this(3) assms
  have "ev_enroll ev = Inr \<lparr>rd_enrolled = True, rd_operational = True, rd_detail = ''all probes ok''\<rparr>"
    by (simp add: enrols_healthy_def)
  with assms show ?thesis
    by (simp add: enrols_healthy_def entity_iter_def wait_enrolled_iter_def Let_def readiness_ok_def set_enrolled_def)
qed

section \<open>Properties\<close>

text \<open>
  What the node reports is what the reconciler waits for: with the reporter's tag set written
  on the entity's first instance, the readiness the observer reads is OK exactly when every probe
  passed, and the detail names the failing probes.
\<close>

theorem ready_iff_probes_pass:
  assumes "cl_describe sc (entity_filter cfg i) = Some (Inr (inst # rest))"
    and "cl_tags sc (si_provider_id inst) = Inr (tags_after old (evaluate check ps))"
  shows "\<exists>rd. read_readiness sc cfg i = Some rd \<and> (readiness_ok rd \<longleftrightarrow> (\<forall>p\<in>set ps. check p = None)) \<and>
    (\<not> readiness_ok rd \<longrightarrow> rd_detail rd = join_with ''; '' (failures check ps))"
  using readiness_of_report [OF assms] by (simp add: readiness_ok_def)

definition demo_node :: substrate_client where
  "demo_node = \<lparr>cl_run = (\<lambda>_. None), cl_start = (\<lambda>_. None), cl_stop = (\<lambda>_ _. None), cl_terminate = (\<lambda>_. None),
     cl_describe = (\<lambda>_. Some (Inr [zero_instance])),
     cl_tags = (\<lambda>_. Inr (tags_after Map.empty (evaluate (\<lambda>_. None) [SlurmdProbe])))\<rparr>"

definition demo_cfg :: actuator_config where
  "demo_cfg = \<lparr>ac_cluster_name = ''c1'', ac_default_bootstrap_s3 = '''', ac_region = ''us-east-1'',
     ac_cross_account_role_arn = '''', ac_instance_profile_arn = '''', ac_mounts = [], ac_controller_host = ''''\<rparr>"

lemma ready_iff_probes_pass_witness:
  "\<exists>rd. read_readiness demo_node demo_cfg ''n0'' = Some rd \<and> readiness_ok rd"
  using ready_iff_probes_pass [of demo_node demo_cfg "''n0''" zero_instance "[]" Map.empty "\<lambda>_. None" "[SlurmdProbe]"]
  by (auto simp: demo_node_def)

text \<open>
  The peer manifest has no addresses: an enrolled entity's address is overwritten with the
  readiness detail, so the assembler publishes the reporter's message as the address of
  every rank, in the order of the entity ids.
\<close>

theorem manifest_addresses_are_details:
  assumes "\<forall>(ev, e)\<in>set es. enrols_healthy P b c sc cfg ev e"
    and "peer_manifest (map (\<lambda>(ev, e). t_obs (e_tr (fst (entity_iter P b c ev e)))) es) = Inr pm"
  shows "length (pm_peers pm) = length es \<and>
    (\<forall>j<length es. pr_rank (pm_peers pm ! j) = j \<and> pr_address (pm_peers pm ! j) = ''all probes ok'') \<and>
    sorted (map pr_entity (pm_peers pm))"
proof -
  let ?obs = "map (\<lambda>(ev, e). t_obs (e_tr (fst (entity_iter P b c ev e)))) es"
  let ?o = "sort_key o_id ?obs"
  have pm: "pm_peers pm = ranks_of 0 ?o" using peer_manifest_Inr [OF assms(2)] by blast
  have "o_address ob = ''all probes ok''" if "ob \<in> set ?o" for ob
    using that assms(1) enrols_healthy_address by fastforce
  then have addr: "o_address (?o ! j) = ''all probes ok''" if "j < length es" for j
    using that by (metis (no_types, lifting) length_map length_sort nth_mem)
  have "map pr_entity (ranks_of k ms) = map o_id ms" for k ms
    by (induction ms arbitrary: k) auto
  then show ?thesis using pm addr by (simp add: ranks_of_nth)
qed

definition demo_waiting :: "string \<Rightarrow> entity" where
  "demo_waiting i = \<lparr>e_tr = new_tracker 0 \<lparr>i_id = i, i_generation = ''g'', i_cohort = ''c'', i_rung = zero_rung,
     i_fallback_chain = [], i_token = ''t''\<rparr>\<lparr>t_obs := zero_observation\<lparr>o_id := i\<rparr>\<rparr>, e_pc = PcEnrolled, e_deadline = 9\<rparr>"

definition demo_reply :: io_event where
  "demo_reply = \<lparr>ev_at = 1, ev_done = 1, ev_rand = 0, ev_launch = Inl ErrNotExist, ev_observe = Inl ErrNotExist,
     ev_enroll = Inr \<lparr>rd_enrolled = True, rd_operational = True, rd_detail = ''all probes ok''\<rparr>\<rparr>"

definition demo_enrol_ports :: ports where
  "demo_enrol_ports = \<lparr>port_classify = (\<lambda>_. mk_fault FaultTerminal '''' ''''), port_enroller = True,
     port_assembler = True, port_limiter = True\<rparr>"

lemma demo_enrols: "enrols_healthy demo_enrol_ports default_budget None demo_node demo_cfg demo_reply (demo_waiting i)"
proof -
  have d: "cl_describe demo_node f = Some (Inr [zero_instance])"
    "cl_tags demo_node p = Inr (tags_after Map.empty (evaluate (\<lambda>_. None) [SlurmdProbe]))" for f p
    by (simp_all add: demo_node_def)
  have "\<exists>inst rest old check ps.
        cl_describe demo_node (entity_filter demo_cfg (i_id (t_intent (e_tr (demo_waiting i))))) = Some (Inr (inst # rest)) \<and>
        cl_tags demo_node (si_provider_id inst) = Inr (tags_after old (evaluate check ps)) \<and>
        (\<forall>p\<in>set ps. check p = None)"
    using d by fastforce
  moreover have "read_readiness demo_node demo_cfg j =
      Some \<lparr>rd_enrolled = True, rd_operational = True, rd_detail = ''all probes ok''\<rparr>" for j
    using readiness_of_report [of demo_node demo_cfg j zero_instance "[]" Map.empty "\<lambda>_. None" "[SlurmdProbe]"] d by simp
  ultimately show ?thesis
    by (simp add: enrols_healthy_def demo_enrol_ports_def demo_reply_def phase_ctx_def) (simp add: demo_waiting_def)
qed

lemma manifest_addresses_are_details_witness:
  "\<exists>pm. peer_manifest (map (\<lambda>(ev, e). t_obs (e_tr (fst (entity_iter demo_enrol_ports default_budget None ev e))))
          [(demo_reply, demo_waiting ''n1''), (demo_reply, demo_waiting ''n0'')]) = Inr pm \<and>
     pr_address (pm_peers pm ! 1) = ''all probes ok''"
proof -
  let ?es = "[(demo_reply, demo_waiting ''n1''), (demo_reply, demo_waiting ''n0'')]"
  let ?obs = "map (\<lambda>(ev, e). t_obs (e_tr (fst (entity_iter demo_enrol_ports default_budget None ev e)))) ?es"
  have all: "\<forall>(ev, e)\<in>set ?es. enrols_healthy demo_enrol_ports default_budget None demo_node demo_cfg ev e"
    using demo_enrols by simp
  have "\<forall>ob\<in>set (sort_key o_id ?obs). o_address ob \<noteq> ''''"
    using enrols_healthy_address [OF demo_enrols] by simp
  from assign_ranks_ok [OF this, of 0] obtain pm where pm: "peer_manifest ?obs = Inr pm"
    by (auto simp: peer_manifest_def Let_def simp del: list.map)
  from manifest_addresses_are_details [OF all pm] pm show ?thesis by auto
qed

end
