(* ===== verification/Spec_Cluster.thy ===== *)
theory Spec_Cluster
  imports Go_Library Sha256 "HOL-Library.Sublist"
begin

text \<open>
  \<^verbatim>\<open>internal/spec/types.go\<close> (\<^verbatim>\<open>Cluster\<close> and what it holds) and \<^verbatim>\<open>internal/spec/load_cluster.go\<close>:
  the static substrate's file after YAML decoding, its validation with every error, the durability
  check of the state directory, and the content hash. The YAML codec is a parameter.
\<close>

section \<open>The file\<close>

record network_spec =
  nw_byo :: bool
  nw_vpc_id :: string
  nw_subnet_ids :: "string list"
  nw_cidr :: string
  nw_egress :: string

definition egress_nat_gateway :: string where "egress_nat_gateway = ''nat-gateway''"
definition egress_nat_instance :: string where "egress_nat_instance = ''nat-instance''"
definition egress_endpoints_only :: string where "egress_endpoints_only = ''endpoints-only''"

record controller_spec =
  cs_instance_type :: string
  cs_standby_host :: string
  cs_state_dir :: string
  cs_accounting_db :: string
  cs_ami_hash :: string

definition zero_controller :: controller_spec where
  "zero_controller = \<lparr>cs_instance_type = '''', cs_standby_host = '''', cs_state_dir = '''',
     cs_accounting_db = '''', cs_ami_hash = ''''\<rparr>"

record storage_spec =
  sg_kind :: string
  sg_mount_path :: string
  sg_s3_linkage :: string
  sg_capacity_gib :: int
  sg_deployment_type :: string

record cluster =
  cl_name :: string
  cl_control_account :: string
  cl_region :: string
  cl_network :: network_spec
  cl_controller :: controller_spec
  cl_storage :: "storage_spec list"

section \<open>Validation\<close>

definition cluster_prefix :: "string \<Rightarrow> string" where
  "cluster_prefix name = ''spec: cluster '' @ go_quote name"

definition validate_network :: "string \<Rightarrow> network_spec \<Rightarrow> go_error option" where
  "validate_network name n =
     (if nw_egress n \<notin> {'''', egress_nat_gateway, egress_nat_instance, egress_endpoints_only} then
        Some (ErrText (cluster_prefix name @ '' network.egress '' @ go_quote (nw_egress n) @
          '' is not one of nat-gateway|nat-instance|endpoints-only''))
      else if nw_byo n then
        (if nw_vpc_id n = '''' then
           Some (ErrText (cluster_prefix name @ '' network.byo=true but vpcId is empty''))
         else if nw_subnet_ids n = [] then
           Some (ErrText (cluster_prefix name @ '' network.byo=true but subnetIds is empty''))
         else None)
      else if nw_cidr n = '''' then
        Some (ErrText (cluster_prefix name @ '' network is generated (byo=false) but cidr is empty''))
      else (case parse_cidr (nw_cidr n) of
          Some e \<Rightarrow> Some (ErrWrap (cluster_prefix name @ '' network.cidr '' @ go_quote (nw_cidr n) @
            '' is not a valid CIDR: '') e)
        | None \<Rightarrow> None))"

definition validate_controller :: "string \<Rightarrow> controller_spec \<Rightarrow> go_error option" where
  "validate_controller name c =
     (if c = zero_controller then None
      else if cs_instance_type c = '''' then
        Some (ErrText (cluster_prefix name @ '' controller requested but instanceType is empty''))
      else if cs_ami_hash c = '''' then
        Some (ErrText (cluster_prefix name @
          '' controller requested but amiHash is empty (the controller must be AMI-pinned)''))
      else None)"

definition fsx_deployment_types :: "string list" where
  "fsx_deployment_types = [''SCRATCH_1'', ''SCRATCH_2'', ''PERSISTENT_1'', ''PERSISTENT_2'']"

definition storage_prefix :: "string \<Rightarrow> nat \<Rightarrow> string" where
  "storage_prefix name i = cluster_prefix name @ '' storage['' @ show_nat i @ '']''"

text \<open>The remainder is only taken of a positive capacity, where Go's and HOL's agree.\<close>

definition validate_fsx_lustre :: "string \<Rightarrow> nat \<Rightarrow> storage_spec \<Rightarrow> go_error option" where
  "validate_fsx_lustre name i s =
     (if sg_deployment_type s \<noteq> '''' \<and> sg_deployment_type s \<notin> set fsx_deployment_types then
        Some (ErrText (storage_prefix name i @ '' fsx-lustre deploymentType '' @
          go_quote (sg_deployment_type s) @
          '' is not one of SCRATCH_1|SCRATCH_2|PERSISTENT_1|PERSISTENT_2''))
      else if sg_capacity_gib s \<noteq> 0 \<and> (sg_capacity_gib s < 0 \<or> sg_capacity_gib s mod 1200 \<noteq> 0) then
        Some (ErrText (storage_prefix name i @ '' fsx-lustre capacityGiB '' @
          show_int (sg_capacity_gib s) @ '' must be a positive multiple of 1200''))
      else None)"

text \<open>The loop of \<^verbatim>\<open>validateStorage\<close>, with the mount paths seen and the index.\<close>

fun validate_storage :: "string \<Rightarrow> string list \<Rightarrow> nat \<Rightarrow> storage_spec list \<Rightarrow> go_error option" where
  "validate_storage name seen i [] = None"
| "validate_storage name seen i (s # ss) =
     (if sg_mount_path s = '''' then
        Some (ErrText (storage_prefix name i @ '' has empty mountPath''))
      else if sg_kind s \<noteq> ''efs'' \<and> sg_kind s \<noteq> ''fsx-lustre'' then
        Some (ErrText (storage_prefix name i @ '' has unknown kind '' @ go_quote (sg_kind s) @
          '' (want efs|fsx-lustre)''))
      else (case (if sg_kind s = ''fsx-lustre'' then validate_fsx_lustre name i s else None) of
          Some e \<Rightarrow> Some e
        | None \<Rightarrow>
            if sg_mount_path s \<in> set seen then
              Some (ErrText (cluster_prefix name @ '' has duplicate storage mountPath '' @
                go_quote (sg_mount_path s)))
            else validate_storage name (sg_mount_path s # seen) (Suc i) ss))"

text \<open>\<^verbatim>\<open>underMount\<close>: both paths cleaned, then equality or a prefix up to a slash.\<close>

definition under_mount :: "string \<Rightarrow> string \<Rightarrow> bool" where
  "under_mount path mount =
     (let p = clean_path path; m = clean_path mount in p = m \<or> has_prefix p (m @ ''/''))"

definition validate_state_dir :: "cluster \<Rightarrow> go_error option" where
  "validate_state_dir c =
     (if cs_instance_type (cl_controller c) = '''' \<or> cs_state_dir (cl_controller c) = '''' then None
      else if list_ex (\<lambda>s. under_mount (cs_state_dir (cl_controller c)) (sg_mount_path s)) (cl_storage c)
      then None
      else Some (ErrText (cluster_prefix (cl_name c) @ '' controller stateDir '' @
        go_quote (cs_state_dir (cl_controller c)) @
        '' must live under a declared shared-storage mountPath (ARCHITECTURE '' @ sect_sign @ ''9)'')))"

definition validate_cluster :: "cluster \<Rightarrow> go_error option" where
  "validate_cluster c =
     (if cl_name c = '''' then Some (ErrText ''spec: cluster.yaml has empty name'')
      else if cl_control_account c = '''' then
        Some (ErrText (cluster_prefix (cl_name c) @ '' has empty controlAccount''))
      else if cl_region c = '''' then
        Some (ErrText (cluster_prefix (cl_name c) @ '' has empty region''))
      else (case validate_network (cl_name c) (cl_network c) of
          Some e \<Rightarrow> Some e
        | None \<Rightarrow>
            (case validate_storage (cl_name c) [] 0 (cl_storage c) of
               Some e \<Rightarrow> Some e
             | None \<Rightarrow>
                 (case validate_controller (cl_name c) (cl_controller c) of
                    Some e \<Rightarrow> Some e
                  | None \<Rightarrow> validate_state_dir c))))"

text \<open>\<^verbatim>\<open>ParseCluster\<close> after the decoder, and \<^verbatim>\<open>LoadCluster\<close> over what reading the file returns.\<close>

definition parse_cluster :: "go_error + cluster \<Rightarrow> go_error + cluster" where
  "parse_cluster decoded =
     (case decoded of
        Inl e \<Rightarrow> Inl (ErrWrap ''spec: parse cluster: '' e)
      | Inr c \<Rightarrow> (case validate_cluster c of Some e \<Rightarrow> Inl e | None \<Rightarrow> Inr c))"

definition load_cluster :: "(string \<Rightarrow> go_error + cluster) \<Rightarrow> string \<Rightarrow> go_error + string \<Rightarrow> go_error + cluster" where
  "load_cluster decode path file =
     (case file of
        Inl e \<Rightarrow> Inl (ErrWrap (''spec: read cluster '' @ path @ '': '') e)
      | Inr data \<Rightarrow> parse_cluster (decode data))"

definition content_hash :: "(cluster \<Rightarrow> go_error + string) \<Rightarrow> cluster \<Rightarrow> go_error + string" where
  "content_hash marshal c =
     (case marshal c of
        Inl e \<Rightarrow> Inl (ErrWrap ''spec: canonicalize cluster: '' e)
      | Inr canon \<Rightarrow> Inr (''q0-'' @ hex_encode (take 16 (sha256 canon))))"

section \<open>The reference predicate\<close>

text \<open>What a well-formed cluster is, stated on the data and without an order of checks.\<close>

definition network_ok :: "network_spec \<Rightarrow> bool" where
  "network_ok n \<longleftrightarrow>
     nw_egress n \<in> {'''', ''nat-gateway'', ''nat-instance'', ''endpoints-only''} \<and>
     (if nw_byo n then nw_vpc_id n \<noteq> '''' \<and> nw_subnet_ids n \<noteq> [] else parse_cidr (nw_cidr n) = None)"

definition storage_ok :: "storage_spec \<Rightarrow> bool" where
  "storage_ok s \<longleftrightarrow>
     sg_mount_path s \<noteq> '''' \<and>
     (sg_kind s = ''efs'' \<or>
      sg_kind s = ''fsx-lustre'' \<and>
      sg_deployment_type s \<in> {'''', ''SCRATCH_1'', ''SCRATCH_2'', ''PERSISTENT_1'', ''PERSISTENT_2''} \<and>
      0 \<le> sg_capacity_gib s \<and> 1200 dvd sg_capacity_gib s)"

definition controller_ok :: "cluster \<Rightarrow> bool" where
  "controller_ok c \<longleftrightarrow>
     cl_controller c = zero_controller \<or>
     cs_instance_type (cl_controller c) \<noteq> '''' \<and> cs_ami_hash (cl_controller c) \<noteq> '''' \<and>
     (cs_state_dir (cl_controller c) = '''' \<or>
      (\<exists>s\<in>set (cl_storage c). under_mount (cs_state_dir (cl_controller c)) (sg_mount_path s)))"

definition cluster_ok :: "cluster \<Rightarrow> bool" where
  "cluster_ok c \<longleftrightarrow>
     cl_name c \<noteq> '''' \<and> cl_control_account c \<noteq> '''' \<and> cl_region c \<noteq> '''' \<and> network_ok (cl_network c) \<and>
     list_all storage_ok (cl_storage c) \<and> distinct (map sg_mount_path (cl_storage c)) \<and> controller_ok c"

lemma parse_cidr_empty [simp]: "parse_cidr '''' \<noteq> None"
  by (simp add: parse_cidr_def)

lemma validate_network_iff: "validate_network name n = None \<longleftrightarrow> network_ok n"
  using parse_cidr_empty
  by (auto simp: validate_network_def network_ok_def egress_nat_gateway_def egress_nat_instance_def
      egress_endpoints_only_def split: option.splits)

lemma validate_fsx_lustre_iff:
  "validate_fsx_lustre name i s = None \<longleftrightarrow>
     sg_deployment_type s \<in> {'''', ''SCRATCH_1'', ''SCRATCH_2'', ''PERSISTENT_1'', ''PERSISTENT_2''} \<and>
     0 \<le> sg_capacity_gib s \<and> 1200 dvd sg_capacity_gib s"
  by (auto simp: validate_fsx_lustre_def fsx_deployment_types_def mod_eq_0_iff_dvd)

lemma validate_storage_iff:
  "validate_storage name seen i ss = None \<longleftrightarrow>
     list_all storage_ok ss \<and> distinct (map sg_mount_path ss) \<and>
     set (map sg_mount_path ss) \<inter> set seen = {}"
proof (induction ss arbitrary: seen i)
  case (Cons s ss)
  show ?case
    by (simp add: validate_fsx_lustre_iff storage_ok_def Cons.IH split: option.splits) argo
qed simp

lemma validate_controller_iff:
  "validate_controller name c = None \<longleftrightarrow>
     c = zero_controller \<or> cs_instance_type c \<noteq> '''' \<and> cs_ami_hash c \<noteq> ''''"
  by (auto simp: validate_controller_def)

lemma validate_state_dir_iff:
  "validate_state_dir c = None \<longleftrightarrow>
     cs_instance_type (cl_controller c) = '''' \<or> cs_state_dir (cl_controller c) = '''' \<or>
     (\<exists>s\<in>set (cl_storage c). under_mount (cs_state_dir (cl_controller c)) (sg_mount_path s))"
  by (auto simp: validate_state_dir_def list_ex_iff)

lemma validate_cluster_None_iff: "validate_cluster c = None \<longleftrightarrow> cluster_ok c"
proof -
  have "cs_instance_type zero_controller = ''''" by (simp add: zero_controller_def)
  then show ?thesis
    by (auto simp: validate_cluster_def cluster_ok_def controller_ok_def validate_network_iff
        validate_storage_iff validate_controller_iff validate_state_dir_iff)
qed


section \<open>State on shared storage\<close>

lemma clean_rooted:
  "is_rooted p \<Longrightarrow> clean_path p = CHR ''/'' # join_with ''/'' (path_elements p)"
  by (simp add: clean_path_def unclean_path_def Let_def)

lemma under_mount_prefix:
  assumes "is_rooted p" "is_rooted m"
  shows "under_mount p m \<longleftrightarrow>
    (if path_elements m = [] then path_elements p = [] else prefix (path_elements m) (path_elements p))"
proof -
  let ?p = "path_elements p" and ?m = "path_elements m"
  have pl: "\<forall>e\<in>set ?p. plain_element e" "\<forall>e\<in>set ?m. plain_element e"
    using path_elements_plain by blast+
  have eq: "clean_path p = clean_path m \<longleftrightarrow> ?p = ?m"
    using join_elements_inj [OF pl] by (auto simp: clean_rooted assms)
  have pre: "has_prefix (clean_path p) (clean_path m @ ''/'') \<longleftrightarrow>
      has_prefix (join_with ''/'' ?p) (join_with ''/'' ?m @ ''/'')"
    by (simp add: clean_rooted assms has_prefix_def)
  show ?thesis
  proof (cases "?m = []")
    case True
    have "\<not> has_prefix (join_with ''/'' ?p) ''/''"
      using pl(1) by (cases ?p rule: remdups_adj.cases) (auto simp: has_prefix_def plain_element_def take_Suc hd_append dest: hd_in_set)
    then show ?thesis using True eq pre by (simp add: under_mount_def)
  next
    case False
    show ?thesis
      using eq pre join_elements_prefix [OF pl(2) pl(1) False] False
      by (auto simp: under_mount_def prefix_def)
  qed
qed

text \<open>
  The state directory check compares path segments and not characters: for absolute paths a
  directory is under a mount exactly when the mount's segments are a prefix of its own, so that
  \<^verbatim>\<open>/shared-x\<close> is not under \<^verbatim>\<open>/shared\<close> and \<^verbatim>\<open>/shared/../tmp\<close> is not either. The root
  mount is the exception: below it the check finds nothing but the root itself.
\<close>

theorem under_mount_is_segment_prefix:
  "is_rooted p \<and> is_rooted m \<longrightarrow>
     (under_mount p m \<longleftrightarrow> prefix (path_elements m) (path_elements p) \<and>
        (path_elements m = [] \<longrightarrow> path_elements p = []))"
  using under_mount_prefix by auto

lemma under_mount_is_segment_prefix_witness:
  "under_mount ''/shared/slurm/./state'' ''/shared/'' \<and> \<not> under_mount ''/shared-x/state'' ''/shared'' \<and>
   \<not> under_mount ''/shared/../tmp'' ''/shared'' \<and> \<not> under_mount ''/state'' ''/''"
  using under_mount_is_segment_prefix [of "''/shared/slurm/./state''" "''/shared/''"]
    under_mount_is_segment_prefix [of "''/shared-x/state''" "''/shared''"]
    under_mount_is_segment_prefix [of "''/shared/../tmp''" "''/shared''"]
    under_mount_is_segment_prefix [of "''/state''" "''/''"]
  by (simp add: is_rooted_def has_prefix_def path_elements_def)

text \<open>
  A content hash is \<^verbatim>\<open>q0-\<close> followed by 32 lower-case hexadecimal digits.
\<close>

theorem content_hash_shape:
  "content_hash marshal c = Inr h \<longrightarrow>
     length h = 35 \<and> take 3 h = ''q0-'' \<and> (\<forall>x\<in>set (drop 3 h). is_hex_char x)"
  by (auto simp: content_hash_def hex_encode_chars split: sum.splits)

definition demo_cluster :: cluster where
  "demo_cluster = \<lparr>cl_name = ''hpc'', cl_control_account = ''123'', cl_region = ''us-east-1'',
     cl_network = \<lparr>nw_byo = False, nw_vpc_id = '''', nw_subnet_ids = [], nw_cidr = ''10.0.0.0/16'', nw_egress = ''''\<rparr>,
     cl_controller = \<lparr>cs_instance_type = ''m6i.large'', cs_standby_host = ''standby'',
       cs_state_dir = ''/shared/slurm'', cs_accounting_db = '''', cs_ami_hash = ''ami-1''\<rparr>,
     cl_storage = [
       \<lparr>sg_kind = ''efs'', sg_mount_path = ''/shared'', sg_s3_linkage = '''', sg_capacity_gib = 0,
         sg_deployment_type = ''''\<rparr>,
       \<lparr>sg_kind = ''fsx-lustre'', sg_mount_path = ''/scratch'', sg_s3_linkage = ''s3://data'',
         sg_capacity_gib = 2400, sg_deployment_type = ''''\<rparr>]\<rparr>"

lemma demo_cluster_valid: "validate_cluster demo_cluster = None"
  by code_simp

lemma content_hash_shape_witness:
  "length (''q0-'' @ hex_encode (take 16 (sha256 ''canonical''))) = 35"
  using content_hash_shape [of "\<lambda>c. Inr ''canonical''" demo_cluster "''q0-'' @ hex_encode (take 16 (sha256 ''canonical''))"]
  by (simp add: content_hash_def)

end
