(* ===== verification/Node_Mounts.thy ===== *)
theory Node_Mounts
  imports Spored Spec_Cluster
begin

text \<open>
  From the userdata shim to the probes: the mounts file that the shim writes (\<^verbatim>\<open>internal/bootstrap\<close>) is
  the configuration that the reporter reads (\<^verbatim>\<open>cmd/q0-spored\<close>), and a mount path decides whether its
  probe can ever pass. Last, the program of \<^verbatim>\<open>cmd/q0-spored/main.go\<close> around the reporter.
\<close>

section \<open>The mounts file\<close>

text \<open>A mount whose name and path go through the file as they are.\<close>

definition deliverable :: "mount \<Rightarrow> bool" where
  "deliverable m \<longleftrightarrow> plain_mount m \<and> CHR 0x0A \<notin> set (m_dns m) \<and> CHR 0x0A \<notin> set (m_path m) \<and>
     CHR 0x27 \<notin> set (m_path m) \<and> dquote \<notin> set (m_path m) \<and> \<not> is_space (hd (m_path m))"

lemma join_with_in_set: "c \<in> set (join_with sep ws) \<Longrightarrow> c \<in> set sep \<or> (\<exists>w\<in>set ws. c \<in> set w)"
  by (induction sep ws rule: join_with.induct) auto

lemma trim_of_ends:
  assumes "x \<noteq> []" "\<not> p (hd x)" "\<not> p (last x)" "p q"
  shows "trim_of p (q # x @ [q]) = x"
proof -
  have "dropWhile p (x @ [q]) = x @ [q]" using assms(1,2) by (cases x) auto
  moreover have "dropWhile p (rev x) = rev x" using assms(1,3) by (cases x rule: rev_cases) auto
  ultimately show ?thesis using assms(4) by (simp add: trim_of_def trim_right_of_def)
qed

lemma trimmed_line: "x \<noteq> '''' \<Longrightarrow> \<not> is_space (hd x) \<Longrightarrow> trim_space (x @ squoted y) = x @ squoted y"
  by (rule trim_space_id) (simp_all add: squoted_def is_space_def)

lemma mount_paths_of: "\<forall>m\<in>set ms. deliverable m \<Longrightarrow> mount_paths ms = join_with '','' (map m_path ms)"
  unfolding mount_paths_def by (subst filter_True) (auto simp: deliverable_def plain_mount_def)

lemma delivered_line:
  assumes "\<forall>m\<in>set (sp_mounts p). deliverable m" "sp_mounts p \<noteq> []"
  shows "parse_mount_paths_line (mounts_content p) = join_with '','' (map m_path (sp_mounts p))"
proof -
  let ?ms = "sp_mounts p" and ?paths = "join_with '','' (map m_path (sp_mounts p))"
  define l1 where "l1 = ''Q0_MOUNT_SPEC='' @ squoted (format_mount_spec ?ms)"
  define l2 where "l2 = ''Q0_MOUNT_PATHS='' @ squoted ?paths"
  have spec: "format_mount_spec ?ms \<noteq> ''''"
    using parse_format_plain [of ?ms] assms by (fastforce simp: parse_mount_spec_def deliverable_def)
  have nl1: "CHR 0x0A \<notin> set (format_mount_spec ?ms)"
    using assms(1) unfolding format_mount_spec_def by (auto dest!: join_with_in_set simp: deliverable_def)
  have p: "x \<in> set ?paths \<Longrightarrow> x = CHR '','' \<or> (\<exists>m\<in>set ?ms. x \<in> set (m_path m))" for x
    using join_with_in_set by fastforce
  have quotes: "CHR 0x27 \<notin> set ?paths" "dquote \<notin> set ?paths" "CHR 0x0A \<notin> set ?paths"
    using p assms(1) by (force simp: deliverable_def dquote_def)+
  have ne: "?paths \<noteq> ''''"
    using join_ends [of "map m_path ?ms" "'',''"] assms by (auto simp: deliverable_def plain_mount_def)
  then have ends: "hd ?paths \<in> set ?paths" "last ?paths \<in> set ?paths" by simp_all
  have l: "CHR 0x0A \<notin> set l1" "CHR 0x0A \<notin> set l2" using nl1 quotes by (simp_all add: l1_def l2_def squoted_def)
  obtain rest where "mounts_content p = l1 @ CHR 0x0A # (l2 @ CHR 0x0A # rest)"
    using spec mount_paths_of [OF assms(1)]
    by (simp add: mounts_content_def Let_def l1_def l2_def squoted_def nl_def)
  then have lines: "split_on (CHR 0x0A) (mounts_content p) = l1 # l2 # split_on (CHR 0x0A) rest"
    using l by (simp add: split_on_append_sep)
  have t: "trim_space l1 = l1" "trim_space l2 = l2" unfolding l1_def l2_def by (rule trimmed_line; simp add: is_space_def)+
  have find: "find (\<lambda>l. has_prefix (trim_space l) ''Q0_MOUNT_PATHS='') (split_on (CHR 0x0A) (mounts_content p)) = Some l2"
    unfolding lines by (simp add: t) (simp add: l1_def l2_def has_prefix_def)
  have "trim_prefix l2 ''Q0_MOUNT_PATHS='' = CHR 0x27 # ?paths @ [CHR 0x27]"
    by (simp add: l2_def trim_prefix_def has_prefix_def squoted_def)
  moreover have "hd ?paths \<noteq> CHR 0x27 \<and> hd ?paths \<noteq> dquote" "last ?paths \<noteq> CHR 0x27 \<and> last ?paths \<noteq> dquote"
    using ends quotes by metis+
  ultimately show ?thesis
    using ne by (simp add: parse_mount_paths_line_def find t trim_of_ends)
qed

text \<open>An environment that leaves the configuration to the mounts file of the shim.\<close>

definition shim_configured :: "(string \<Rightarrow> string) \<Rightarrow> (string \<Rightarrow> string option) \<Rightarrow> shim_params \<Rightarrow> bool" where
  "shim_configured getenv read_file p \<longleftrightarrow>
     getenv ''Q0_MOUNT_PATHS'' = '''' \<and> getenv ''Q0_MOUNTS_FILE'' = '''' \<and> read_file mounts_file = Some (mounts_content p)"

lemma delivered_probes:
  assumes "\<forall>m\<in>set (sp_mounts p). deliverable m" "sp_mounts p \<noteq> []" "shim_configured getenv read_file p"
  shows "probes_from_env getenv read_file =
     map (\<lambda>m. MountProbe (m_path m)) (sp_mounts p) @ (if getenv ''Q0_CHECK_SLURMD'' \<noteq> ''false'' then [SlurmdProbe] else [])"
proof -
  let ?ms = "sp_mounts p"
  have "spored_mount_paths getenv read_file = join_with '','' (map m_path ?ms)"
    using assms delivered_line [OF assms(1,2)] by (simp add: spored_mount_paths_def shim_configured_def)
  moreover have "split_on (CHR '','') (join_with '','' (map m_path ?ms)) = map m_path ?ms"
    using assms(1,2) by (intro split_join) (auto simp: deliverable_def plain_mount_def)
  moreover have "map trim_space (map m_path ?ms) = map m_path ?ms"
    using assms(1) by (auto simp: deliverable_def plain_mount_def intro!: trim_space_id)
  moreover have "filter (\<lambda>p. p \<noteq> '''') (map m_path ?ms) = map m_path ?ms"
    using assms(1) by (intro filter_True) (auto simp: deliverable_def plain_mount_def)
  ultimately show ?thesis unfolding probes_from_env_def by (simp del: map_map) simp
qed

text \<open>
  C33. What is mounted is what is probed: for a launch whose mounts have plain names and paths, the probes
  that \<^verbatim>\<open>q0-spored\<close> builds from the mounts file of the userdata shim are the mounts in their order, each
  path as it was specified, and the liveness check of \<^verbatim>\<open>slurmd\<close> unless it is switched off.
\<close>

theorem delivered_paths_probed:
  assumes "\<forall>m\<in>set (sp_mounts p). deliverable m" "sp_mounts p \<noteq> []" "shim_configured getenv read_file p"
  shows "probes_from_env getenv read_file =
     map (\<lambda>m. MountProbe (m_path m)) (sp_mounts p) @ (if getenv ''Q0_CHECK_SLURMD'' \<noteq> ''false'' then [SlurmdProbe] else [])"
  using assms by (rule delivered_probes)

definition slash_shim :: shim_params where
  "slash_shim = \<lparr>sp_s3_uri = ''s3://b/k'', sp_sha256 = ''00ff'', sp_region = ''us-east-1'', sp_log_path = '''',
     sp_mounts = [\<lparr>m_dns = ''fs-1.efs'', m_path = ''/shared/''\<rparr>, \<lparr>m_dns = ''fs-2.efs'', m_path = ''/data''\<rparr>],
     sp_controller_host = ''''\<rparr>"

definition slash_file :: "string \<Rightarrow> string option" where
  "slash_file path = (if path = mounts_file then Some (mounts_content slash_shim) else None)"

lemma slash_delivered:
  "\<forall>m\<in>set (sp_mounts slash_shim). deliverable m" "sp_mounts slash_shim \<noteq> []"
  "shim_configured (\<lambda>_. '''') slash_file slash_shim"
  by (simp_all add: slash_shim_def deliverable_def plain_mount_def is_space_def dquote_def shim_configured_def slash_file_def)

lemma delivered_paths_probed_witness:
  "probes_from_env (\<lambda>_. '''') slash_file = [MountProbe ''/shared/'', MountProbe ''/data'', SlurmdProbe]"
  using delivered_paths_probed [OF slash_delivered] by (simp add: slash_shim_def)

section \<open>The mount probe\<close>

text \<open>An absolute path from its elements; its parent lacks the last.\<close>

definition rooted_path :: "string list \<Rightarrow> string" where
  "rooted_path es = ''/'' @ join_with ''/'' es"

lemma parent_of_rooted:
  assumes "\<forall>e\<in>set (es @ [d]). plain_element e \<and> e \<noteq> ''.'' \<and> e \<noteq> ''..''"
  shows "parent_dir (rooted_path (es @ [d])) = rooted_path es"
proof -
  have cut: "rev (dropWhile (\<lambda>c. c \<noteq> CHR ''/'') (rev (q @ ''/'' @ d))) = q @ ''/''" for q
    using assms by (auto simp: plain_element_def dropWhile_append3)
  show ?thesis
  proof (cases "es = []")
    case True
    then show ?thesis
      using cut [of "[]"] by (simp add: parent_dir_def rooted_path_def clean_path_def unclean_path_def path_elements_def
          is_rooted_def has_prefix_def)
  next
    case False
    let ?j = "join_with ''/'' es"
    have "rooted_path (es @ [d]) = (CHR ''/'' # ?j) @ ''/'' @ d"
      using False by (simp add: rooted_path_def join_with_append)
    then have "parent_dir (rooted_path (es @ [d])) = clean_path (CHR ''/'' # ?j @ ''/'')"
      using cut [of "CHR ''/'' # ?j"] by (simp add: parent_dir_def)
    moreover have "split_on (CHR ''/'') (CHR ''/'' # ?j @ ''/'') = '''' # es @ ['''']"
    proof -
      have "split_on (CHR ''/'') (join_with ''/'' (es @ [''''])) = es @ ['''']"
      proof (rule split_join)
        fix w assume "w \<in> set (es @ [''''])"
        then consider "w \<in> set es" | "w = ''''" by auto
        then show "CHR ''/'' \<notin> set w"
        proof cases
          case 1
          with assms have "plain_element w" by (metis Un_iff set_append)
          then show ?thesis by (simp add: plain_element_def)
        qed simp
      qed simp
      then show ?thesis using False by (simp add: join_with_append)
    qed
    moreover have "clean_elements True [] (es @ ['''']) = es"
    proof -
      have "clean_elements True acc (es @ ['''']) = rev acc @ es" for acc
        using assms
      proof (induction es arbitrary: acc)
        case (Cons e es)
        then have "e \<noteq> ''''" "e \<noteq> ''.''" "e \<noteq> ''..''" by (simp_all add: plain_element_def)
        with Cons.IH [of "e # acc"] Cons.prems show ?case by simp
      qed simp
      then show ?thesis by simp
    qed
    ultimately show ?thesis
      by (simp add: clean_path_def unclean_path_def path_elements_def rooted_path_def is_rooted_def has_prefix_def)
  qed
qed

lemma check_mount_None:
  "check_mount stat p = None \<longleftrightarrow>
     (\<exists>fi pfi d pd. stat p = Inr fi \<and> st_is_dir fi \<and> st_dev fi = Some d \<and>
        stat (parent_dir p) = Inr pfi \<and> st_dev pfi = Some pd \<and> d \<noteq> pd)"
  by (auto simp: check_mount_def device_id_def split: sum.splits option.splits)

text \<open>
  The mount probe passes on an absolute path without redundant elements exactly when the path is a
  directory that lies on another device than the directory it is in.
\<close>

theorem mount_probe_exact:
  assumes "\<forall>e\<in>set (es @ [d]). plain_element e \<and> e \<noteq> ''.'' \<and> e \<noteq> ''..''"
  shows "check_mount stat (rooted_path (es @ [d])) = None \<longleftrightarrow>
    (\<exists>fi pfi dev pdev. stat (rooted_path (es @ [d])) = Inr fi \<and> st_is_dir fi \<and> st_dev fi = Some dev \<and>
       stat (rooted_path es) = Inr pfi \<and> st_dev pfi = Some pdev \<and> dev \<noteq> pdev)"
  by (simp add: check_mount_None parent_of_rooted [OF assms])

definition demo_stat :: "string \<Rightarrow> go_error + stat_info" where
  "demo_stat path =
     Inr \<lparr>st_is_dir = True, st_dev = Some (if path \<in> {''/shared'', ''/shared/'', ''/data''} then 2 else 1)\<rparr>"

lemma mount_probe_exact_witness: "check_mount demo_stat ''/shared'' = None"
  using mount_probe_exact [of "[]" "''shared''" demo_stat] by (simp add: plain_element_def rooted_path_def demo_stat_def)

text \<open>
  C39. A mount path with a trailing slash is never ready: the parent of such a path is the path itself
  without the slash, so where both name one file the probe compares the mount with itself. The specification accepts the
  path, the shim delivers it as it is, and the node reports that it is booting whatever is mounted.
\<close>

theorem trailing_slash_mount_never_ready:
  assumes "\<forall>m\<in>set (sp_mounts p). deliverable m" "shim_configured getenv read_file p"
    and "m \<in> set (sp_mounts p)" "last (m_path m) = CHR ''/''" "stat (clean_path (m_path m)) = stat (m_path m)"
  shows "evaluate (check_probe stat run) (probes_from_env getenv read_file) =
     (phase_booting, False, join_with ''; '' (failures (check_probe stat run) (probes_from_env getenv read_file)))"
proof -
  have "sp_mounts p \<noteq> []" using assms(3) by auto
  then have "MountProbe (m_path m) \<in> set (probes_from_env getenv read_file)"
    using delivered_probes [OF assms(1) _ assms(2)] assms(3) by auto
  moreover have "m_path m \<noteq> ''''" using assms(1,3) by (auto simp: deliverable_def plain_mount_def)
  then have "check_probe stat run (MountProbe (m_path m)) \<noteq> None"
    using check_mount_None [of stat "m_path m"] parent_dir_slash [OF assms(4)] assms(5) by (auto simp: check_probe_def)
  ultimately show ?thesis
    using failures_Nil [of "check_probe stat run" "probes_from_env getenv read_file"] by (auto simp: evaluate_def Let_def)
qed

text \<open>The file system is mounted, the specification that asks for it is valid, and the node keeps booting.\<close>

lemma trailing_slash_mount_never_ready_witness:
  "evaluate (check_probe demo_stat None) (probes_from_env (\<lambda>_. '''') slash_file) =
     (phase_booting, False, ''mount:/shared/: /shared/ is not a mount point (same device as parent)'') \<and>
   validate_cluster (demo_cluster\<lparr>cl_storage :=
     [\<lparr>sg_kind = ''efs'', sg_mount_path = ''/shared/'', sg_s3_linkage = '''', sg_capacity_gib = 0, sg_deployment_type = ''''\<rparr>]\<rparr>) = None"
proof
  let ?m = "\<lparr>m_dns = ''fs-1.efs'', m_path = ''/shared/''\<rparr>"
  have m: "?m \<in> set (sp_mounts slash_shim)" "last (m_path ?m) = CHR ''/''" by (simp_all add: slash_shim_def)
  have st: "demo_stat (clean_path (m_path ?m)) = demo_stat (m_path ?m)" by code_simp
  have "probes_from_env (\<lambda>_. '''') slash_file = [MountProbe ''/shared/'', MountProbe ''/data'', SlurmdProbe]"
    using delivered_probes [OF slash_delivered] by (simp add: slash_shim_def)
  moreover have "failures (check_probe demo_stat None) [MountProbe ''/shared/'', MountProbe ''/data'', SlurmdProbe] =
      [''mount:/shared/: /shared/ is not a mount point (same device as parent)'']"
    by code_simp
  ultimately show "evaluate (check_probe demo_stat None) (probes_from_env (\<lambda>_. '''') slash_file) =
     (phase_booting, False, ''mount:/shared/: /shared/ is not a mount point (same device as parent)'')"
    using trailing_slash_mount_never_ready [OF slash_delivered(1,3) m st, of None] by simp
  show "validate_cluster (demo_cluster\<lparr>cl_storage :=
     [\<lparr>sg_kind = ''efs'', sg_mount_path = ''/shared/'', sg_s3_linkage = '''', sg_capacity_gib = 0, sg_deployment_type = ''''\<rparr>]\<rparr>) = None"
    by code_simp
qed

section \<open>The program q0-spored\<close>

definition resolve_region :: "string \<Rightarrow> go_error + string \<Rightarrow> go_error + string" where
  "resolve_region env_value imds =
     (if env_value \<noteq> '''' then Inr env_value
      else (case imds of
              Inl e \<Rightarrow> Inl (ErrWrap ''region: Q0_REGION unset and IMDS lookup failed: '' e)
            | Inr r \<Rightarrow>
                (if r = '''' then Inl (ErrText ''region: Q0_REGION unset and IMDS returned an empty region'')
                 else Inr r)))"

text \<open>What a reporting pass meets: the replies of the metadata service and of EC2, and of the probes.\<close>

record node_pass =
  np_document :: "go_error + string"
  np_tags :: "string \<Rightarrow> go_error + (string \<rightharpoonup> string)"
  np_check :: "probe \<Rightarrow> go_error option"
  np_write :: "string \<Rightarrow> (string \<times> string) list \<Rightarrow> go_error option"

definition pass_report :: "probe list \<Rightarrow> node_pass \<Rightarrow> bool \<times> go_error option" where
  "pass_report probes np = report_once (imds_identify (np_document np) (np_tags np)) (np_write np) (np_check np) probes"

text \<open>
  \<^verbatim>\<open>main\<close>: how it ends, and the waits of the loop. The passes are those before the signal that ends
  the program, the first of which is always made; with \<open>once\<close> it is the only one.
\<close>

definition q0_spored ::
  "(string \<Rightarrow> string) \<Rightarrow> (string \<Rightarrow> string option) \<Rightarrow> go_error + string \<Rightarrow> (string \<Rightarrow> go_error option) \<Rightarrow>
   bool \<Rightarrow> duration \<Rightarrow> node_pass \<Rightarrow> node_pass list \<Rightarrow> exit_report \<times> duration list"
where
  "q0_spored getenv read_file imds aws_config once interval np nps =
     (case resolve_region (getenv ''Q0_REGION'') imds of
        Inl err \<Rightarrow> (exit_failed ''q0-spored'' err, [])
      | Inr region \<Rightarrow>
          (case aws_config region of
             Some err \<Rightarrow> (exit_failed ''q0-spored'' (ErrWrap ''load AWS config: '' err), [])
           | None \<Rightarrow>
               (let probes = probes_from_env getenv read_file
                in if once then
                     (case pass_report probes np of
                        (_, Some err) \<Rightarrow> (exit_failed ''q0-spored'' err, [])
                      | (_, None) \<Rightarrow> (exits_well, []))
                   else (exits_well, run_waits interval 0 (map (pass_report probes) (np # nps))))))"

lemma pass_report_ready:
  "pass_report probes np = (True, None) \<longleftrightarrow>
     (\<exists>pid kv. np_document np = Inr pid \<and> np_tags np pid = Inr kv \<and> (\<forall>p\<in>set probes. np_check np p = None) \<and>
        np_write np pid (readiness_tags (phase_enrolled, True, ''all probes ok'')) = None)"
proof (cases "\<forall>p\<in>set probes. np_check np p = None")
  case True
  then have "evaluate (np_check np) probes = (phase_enrolled, True, ''all probes ok'')"
    using failures_Nil [of "np_check np" probes] by (simp add: evaluate_def)
  with True show ?thesis
    by (auto simp: pass_report_def report_once_def imds_identify_def Let_def split: sum.splits option.splits)
next
  case False
  then have "\<not> fst (snd (evaluate (np_check np) probes))" by (simp add: evaluate_ready)
  with False show ?thesis
    by (auto simp: pass_report_def report_once_def imds_identify_def Let_def split: sum.splits option.splits)
qed

lemma length_run_waits [simp]: "length (run_waits i c ps) = length ps"
  by (induction i c ps rule: run_waits.induct) (auto simp: Let_def)

lemma run_waits_nth:
  "k < length ps \<Longrightarrow> run_waits i c ps ! k =
     (if ps ! k = (True, None) \<and> (if k = 0 then 1 \<le> c else ps ! (k - 1) = (True, None)) then i * 10 else i)"
proof (induction ps arbitrary: c k)
  case (Cons p ps)
  obtain r e where p: "p = (r, e)" by fastforce
  show ?case
  proof (cases k)
    case 0
    then show ?thesis by (auto simp: p Let_def)
  next
    case (Suc j)
    then have j: "j < length ps" using Cons.prems by simp
    then show ?thesis using Cons.IH [OF j] Suc by (cases j) (auto simp: p Let_def)
  qed
qed simp

text \<open>
  The reporter is a sensor that does not give up: once its region and configuration are known it ends
  only by the signal, with exit code 0 and no message, whatever its passes meet; and it slows down to a tenth of its
  pace after a pass exactly when that pass and the one before it found the node known, healthy and
  tagged as enrolled.
\<close>

theorem reporter_paced:
  assumes "resolve_region (getenv ''Q0_REGION'') imds = Inr region" "aws_config region = None"
    and "probes = probes_from_env getenv read_file"
  shows "\<exists>waits. q0_spored getenv read_file imds aws_config False interval np nps = (exits_well, waits) \<and>
    length waits = Suc (length nps) \<and>
    (\<forall>k\<le>length nps. waits ! k =
       (if 0 < k \<and> pass_report probes ((np # nps) ! k) = (True, None) \<and>
           pass_report probes ((np # nps) ! (k - 1)) = (True, None) then interval * 10 else interval)) \<and>
    (\<forall>q. pass_report probes q = (True, None) \<longleftrightarrow>
       (\<exists>pid kv. np_document q = Inr pid \<and> np_tags q pid = Inr kv \<and> (\<forall>p\<in>set probes. np_check q p = None) \<and>
          np_write q pid (readiness_tags (phase_enrolled, True, ''all probes ok'')) = None))"
proof -
  let ?ps = "map (pass_report probes) (np # nps)"
  have "q0_spored getenv read_file imds aws_config False interval np nps = (exits_well, run_waits interval 0 ?ps)"
    using assms by (simp add: q0_spored_def Let_def)
  moreover have "run_waits interval 0 ?ps ! k =
       (if 0 < k \<and> pass_report probes ((np # nps) ! k) = (True, None) \<and>
           pass_report probes ((np # nps) ! (k - 1)) = (True, None) then interval * 10 else interval)" if "k \<le> length nps" for k
  proof -
    have "k < length ?ps" "?ps ! k = pass_report probes ((np # nps) ! k)"
      "?ps ! (k - 1) = pass_report probes ((np # nps) ! (k - 1))"
      using that by (simp_all add: nth_map [of _ "np # nps"] del: list.map)
    then show ?thesis using run_waits_nth [of k ?ps interval 0] by auto
  qed
  ultimately show ?thesis
    using pass_report_ready by (intro exI [of _ "run_waits interval 0 ?ps"]) simp
qed

text \<open>A healthy pass.\<close>

definition demo_pass :: node_pass where
  "demo_pass = \<lparr>np_document = Inr ''i-1'', np_tags = (\<lambda>_. Inr Map.empty), np_check = (\<lambda>_. None), np_write = (\<lambda>_ _. None)\<rparr>"

lemma reporter_paced_witness:
  "snd (q0_spored (\<lambda>_. '''') (\<lambda>_. None) (Inr ''us-east-1'') (\<lambda>_. None) False 15 demo_pass [demo_pass]) ! 1 = 150"
proof -
  let ?probes = "probes_from_env (\<lambda>_. '''') (\<lambda>_. None)"
  have r: "resolve_region ((\<lambda>_. '''') ''Q0_REGION'') (Inr ''us-east-1'') = Inr ''us-east-1''"
    by (simp add: resolve_region_def)
  have "pass_report ?probes demo_pass = (True, None)"
    by (simp add: pass_report_ready demo_pass_def)
  with reporter_paced [where getenv = "\<lambda>_. ''''", OF r, of "\<lambda>_. None" ?probes "\<lambda>_. None" 15 demo_pass "[demo_pass]"]
  show ?thesis by auto
qed

end
