(* ===== verification/Tofu_Hcl.thy ===== *)
theory Tofu_Hcl
  imports Spec_Cluster Bootstrap
begin

text \<open>
  The templates of \<^verbatim>\<open>internal/tofu/generate.go\<close>: the text of every generated file as a function of
  the template data. A text is a list of pieces, so that what it declares and what it refers to can
  be read off: a piece is raw text, a line, the head of a block that declares an address, or a
  reference to an address. Rendering the pieces one after the other gives the bytes that
  \<^verbatim>\<open>text/template\<close> writes. Trim markers of the templates are already applied.
\<close>

section \<open>Pieces of a configuration\<close>

datatype address = Resource string string | DataSource string string | Local string

datatype hcl = Raw string | Line string | Declares address | Refers address | Output string

fun declaration_text :: "address \<Rightarrow> string" where
  "declaration_text (Resource ty nm) = ''resource '' @ quoted ty @ '' '' @ quoted nm"
| "declaration_text (DataSource ty nm) = ''data '' @ quoted ty @ '' '' @ quoted nm"
| "declaration_text (Local nm) = nm"

fun reference_text :: "address \<Rightarrow> string" where
  "reference_text (Resource ty nm) = ty @ ''.'' @ nm"
| "reference_text (DataSource ty nm) = ''data.'' @ ty @ ''.'' @ nm"
| "reference_text (Local nm) = ''local.'' @ nm"

fun hcl_text :: "hcl \<Rightarrow> string" where
  "hcl_text (Raw s) = s"
| "hcl_text (Line s) = s @ nl"
| "hcl_text (Declares a) = declaration_text a"
| "hcl_text (Refers a) = reference_text a"
| "hcl_text (Output nm) = ''output '' @ quoted nm"

definition render_hcl :: "hcl list \<Rightarrow> string" where
  "render_hcl ps = concat (map hcl_text ps)"

section \<open>Template data\<close>

record storage_tmpl =
  st_index :: nat
  st_kind :: string
  st_mount_path :: string
  st_token :: string
  st_capacity_gib :: int
  st_deployment_type :: string
  st_s3_import_path :: string

record template_data =
  td_cluster :: cluster
  td_name :: string
  td_region :: string
  td_scripts_bucket :: string
  td_manifest_bucket :: string
  td_node_role :: string
  td_controller_role :: string
  td_az_count :: int
  td_admin_cidr :: string
  td_storage :: "storage_tmpl list"
  td_has_efs :: bool
  td_has_lustre :: bool
  td_egress_mode :: string

abbreviation net :: "template_data \<Rightarrow> network_spec" where "net d \<equiv> cl_network (td_cluster d)"
abbreviation ctl :: "template_data \<Rightarrow> controller_spec" where "ctl d \<equiv> cl_controller (td_cluster d)"

text \<open>The range over the subnets of a brought network, with its separator.\<close>

definition subnet_list :: "template_data \<Rightarrow> hcl list" where
  "subnet_list d = [Raw (join_with '', '' (map quoted (nw_subnet_ids (net d))))]"

section \<open>\<^verbatim>\<open>main.tf\<close>\<close>

text \<open>The provider, the buckets, the role and the profile of the nodes.\<close>

definition main_scripts :: "template_data \<Rightarrow> hcl list" where
  \<open>main_scripts d =
    [Line (''# GENERATED by q0 apply '' @ em_dash @ '' do not edit by hand. Edit cluster.yaml and re-apply.''),
     Line ''terraform {'',
     Line ''  backend "s3" {}'',
     Line ''  required_providers {'',
     Line ''    aws = {'',
     Line ''      source  = "hashicorp/aws"'',
     Line ''      version = "~> 5.0"'',
     Line ''    }'',
     Line ''  }'',
     Line ''}'',
     Line '''',
     Line ''provider "aws" {'',
     Line (''  region = "'' @ td_region d @ ''"''),
     Line ''}'',
     Line '''',
     Line ''# --- Bootstrap script-set bucket (q0 bootstrap push target; shim fetches from here) ---'',
     Declares (Resource ''aws_s3_bucket'' ''scripts''), Line '' {'',
     Line (''  bucket = "'' @ td_scripts_bucket d @ ''"''),
     Line ''}'',
     Line '''',
     Declares (Resource ''aws_s3_bucket_versioning'' ''scripts''), Line '' {'',
     Raw ''  bucket = '', Refers (Resource ''aws_s3_bucket'' ''scripts''), Line ''.id'',
     Line ''  versioning_configuration {'',
     Line ''    status = "Enabled"'',
     Line ''  }'',
     Line ''}'',
     Line '''',
     Declares (Resource ''aws_s3_bucket_public_access_block'' ''scripts''), Line '' {'',
     Raw ''  bucket                  = '', Refers (Resource ''aws_s3_bucket'' ''scripts''), Line ''.id'',
     Line ''  block_public_acls       = true'',
     Line ''  block_public_policy     = true'',
     Line ''  ignore_public_acls      = true'',
     Line ''  restrict_public_buckets = true'',
     Line ''}'']\<close>

definition main_manifest :: "template_data \<Rightarrow> hcl list" where
  \<open>main_manifest d =
    [Line '''',
     Line ''# --- Collective peer-manifest bucket (cohort assembler publishes here) ---'',
     Declares (Resource ''aws_s3_bucket'' ''manifest''), Line '' {'',
     Line (''  bucket = "'' @ td_manifest_bucket d @ ''"''),
     Line ''}'',
     Line '''',
     Declares (Resource ''aws_s3_bucket_public_access_block'' ''manifest''), Line '' {'',
     Raw ''  bucket                  = '', Refers (Resource ''aws_s3_bucket'' ''manifest''), Line ''.id'',
     Line ''  block_public_acls       = true'',
     Line ''  block_public_policy     = true'',
     Line ''  ignore_public_acls      = true'',
     Line ''  restrict_public_buckets = true'',
     Line ''}'']\<close>

definition main_node_role :: "template_data \<Rightarrow> hcl list" where
  \<open>main_node_role d =
    [Line '''',
     Line ''# --- Node IAM role + instance profile (the bootstrap shim runs under this) ---'',
     Declares (Resource ''aws_iam_role'' ''node''), Line '' {'',
     Line (''  name = "'' @ td_node_role d @ ''"''),
     Line ''  assume_role_policy = jsonencode({'',
     Line ''    Version = "2012-10-17"'',
     Line ''    Statement = [{'',
     Line ''      Effect    = "Allow"'',
     Line ''      Principal = { Service = "ec2.amazonaws.com" }'',
     Line ''      Action    = "sts:AssumeRole"'',
     Line ''    }]'',
     Line ''  })'',
     Line ''}'',
     Line '''',
     Line (''# Scoped to GetObject on the scripts bucket only '' @ em_dash @ '' least privilege for the shim.''),
     Declares (Resource ''aws_iam_role_policy'' ''node_scripts_read''), Line '' {'',
     Line (''  name = "'' @ td_node_role d @ ''-scripts-read"''),
     Raw ''  role = '', Refers (Resource ''aws_iam_role'' ''node''), Line ''.id'',
     Line ''  policy = jsonencode({'',
     Line ''    Version = "2012-10-17"'',
     Line ''    Statement = [{'',
     Line ''      Effect   = "Allow"'',
     Line ''      Action   = ["s3:GetObject"]'',
     Raw ''      Resource = "${'', Refers (Resource ''aws_s3_bucket'' ''scripts''), Line ''.arn}/*"'',
     Line ''    }]'',
     Line ''  })'',
     Line ''}'',
     Line '''',
     Declares (Resource ''aws_iam_instance_profile'' ''node''), Line '' {'',
     Line (''  name = "'' @ td_node_role d @ ''"''),
     Raw ''  role = '', Refers (Resource ''aws_iam_role'' ''node''), Line ''.name'',
     Line ''}'']\<close>

definition main_tf :: "template_data \<Rightarrow> hcl list" where
  \<open>main_tf d =
    main_scripts d @
     (if td_manifest_bucket d \<noteq> '''' then
       main_manifest d
      else []) @
     main_node_role d\<close>

section \<open>\<^verbatim>\<open>network.tf\<close>\<close>

text \<open>A brought network, or a generated one with one of three egress modes; the security groups.\<close>

definition network_byo :: "template_data \<Rightarrow> hcl list" where
  \<open>network_byo d =
    [Line '''',
     Line ''# --- Bring-your-own network: use the operator-supplied VPC + subnets ---'',
     Line ''locals {'',
     Raw ''  '', Declares (Local ''vpc_id''), Line (''     = "'' @ nw_vpc_id (net d) @ ''"''),
     Raw ''  '', Declares (Local ''subnet_ids''), Raw '' = ['']\<close>

definition network_vpc :: "template_data \<Rightarrow> hcl list" where
  \<open>network_vpc d =
    [Line '''',
     Line (''# --- Generated network: VPC across '' @ show_int (td_az_count d) @ '' AZ(s), private subnets for''),
     Line ''# compute+controller, public subnets + NAT for egress ---'',
     Declares (DataSource ''aws_availability_zones'' ''available''), Line '' {'',
     Line ''  state = "available"'',
     Line ''}'',
     Line '''',
     Declares (Resource ''aws_vpc'' ''this''), Line '' {'',
     Line (''  cidr_block           = "'' @ nw_cidr (net d) @ ''"''),
     Line ''  enable_dns_support   = true'',
     Line ''  enable_dns_hostnames = true'',
     Line (''  tags = { Name = "'' @ td_name d @ ''", "q0:cluster" = "'' @ td_name d @ ''" }''),
     Line ''}'',
     Line '''',
     Declares (Resource ''aws_internet_gateway'' ''this''), Line '' {'',
     Raw ''  vpc_id = '', Refers (Resource ''aws_vpc'' ''this''), Line ''.id'',
     Line (''  tags   = { Name = "'' @ td_name d @ ''-igw", "q0:cluster" = "'' @ td_name d @ ''" }''),
     Line ''}'',
     Line '''',
     Declares (Resource ''aws_subnet'' ''private''), Line '' {'',
     Line (''  count             = '' @ show_int (td_az_count d)),
     Raw ''  vpc_id            = '', Refers (Resource ''aws_vpc'' ''this''), Line ''.id'',
     Raw ''  availability_zone = '', Refers (DataSource ''aws_availability_zones'' ''available''), Line ''.names[count.index]'',
     Raw ''  cidr_block        = cidrsubnet('', Refers (Resource ''aws_vpc'' ''this''), Line ''.cidr_block, 8, count.index)'',
     Line (''  tags = { Name = "'' @ td_name d @ ''-private-${count.index}", "q0:cluster" = "'' @ td_name d @ ''" }''),
     Line ''}'',
     Line '''',
     Declares (Resource ''aws_subnet'' ''public''), Line '' {'',
     Line (''  count                   = '' @ show_int (td_az_count d)),
     Raw ''  vpc_id                  = '', Refers (Resource ''aws_vpc'' ''this''), Line ''.id'',
     Raw ''  availability_zone       = '', Refers (DataSource ''aws_availability_zones'' ''available''), Line ''.names[count.index]'',
     Raw ''  cidr_block              = cidrsubnet('', Refers (Resource ''aws_vpc'' ''this''), Line ''.cidr_block, 8, count.index + 128)'',
     Line ''  map_public_ip_on_launch = true'',
     Line (''  tags = { Name = "'' @ td_name d @ ''-public-${count.index}", "q0:cluster" = "'' @ td_name d @ ''" }''),
     Line ''}'',
     Line '''',
     Line ''# Private-subnet egress mode (cluster.yaml network.egress; issue #10):'',
     Line (''#   nat-gateway     '' @ em_dash @ '' managed NAT gateway (default; priciest, ~$32/mo + $/GB)''),
     Line (''#   nat-instance    '' @ em_dash @ '' a t4g.nano NAT instance (~$3/mo)''),
     Line (''#   endpoints-only  '' @ em_dash @ '' no general egress; S3/DynamoDB gateway endpoints only''),
     Line ''# S3 + DynamoDB gateway endpoints are added in ALL modes (free; keep bootstrap'',
     Raw ''# fetch + tofu-state off the priced path).'']\<close>

definition nat_gateway :: "template_data \<Rightarrow> hcl list" where
  \<open>nat_gateway d =
    [Line '''',
     Declares (Resource ''aws_eip'' ''nat''), Line '' {'',
     Line ''  domain = "vpc"'',
     Line (''  tags   = { Name = "'' @ td_name d @ ''-nat", "q0:cluster" = "'' @ td_name d @ ''" }''),
     Line ''}'',
     Line '''',
     Declares (Resource ''aws_nat_gateway'' ''this''), Line '' {'',
     Raw ''  allocation_id = '', Refers (Resource ''aws_eip'' ''nat''), Line ''.id'',
     Raw ''  subnet_id     = '', Refers (Resource ''aws_subnet'' ''public''), Line ''[0].id'',
     Line (''  tags          = { Name = "'' @ td_name d @ ''-nat", "q0:cluster" = "'' @ td_name d @ ''" }''),
     Raw ''  depends_on    = ['', Refers (Resource ''aws_internet_gateway'' ''this''), Line '']'',
     Raw ''}'']\<close>

definition nat_instance :: "template_data \<Rightarrow> hcl list" where
  \<open>nat_instance d =
    [Line '''',
     Line ''# A cheap NAT instance (t4g.nano) instead of the managed gateway. Amazon Linux'',
     Line (''# 2023 via the public SSM parameter (deterministic '' @ em_dash @ '' no AMI id baked into HCL).''),
     Declares (DataSource ''aws_ssm_parameter'' ''nat_ami''), Line '' {'',
     Line ''  name = "/aws/service/ami-amazon-linux-latest/al2023-ami-kernel-default-arm64"'',
     Line ''}'',
     Line '''',
     Declares (Resource ''aws_security_group'' ''nat''), Line '' {'',
     Line (''  name        = "'' @ td_name d @ ''-nat"''),
     Line ''  description = "queuezero NAT instance: egress all, ingress from the VPC CIDR"'',
     Raw ''  vpc_id      = '', Refers (Resource ''aws_vpc'' ''this''), Line ''.id'',
     Line ''  ingress {'',
     Line ''    description = "all from VPC"'',
     Line ''    from_port   = 0'',
     Line ''    to_port     = 0'',
     Line ''    protocol    = "-1"'',
     Line (''    cidr_blocks = ["'' @ nw_cidr (net d) @ ''"]''),
     Line ''  }'',
     Line ''  egress {'',
     Line ''    from_port   = 0'',
     Line ''    to_port     = 0'',
     Line ''    protocol    = "-1"'',
     Line ''    cidr_blocks = ["0.0.0.0/0"]'',
     Line ''  }'',
     Line (''  tags = { Name = "'' @ td_name d @ ''-nat", "q0:cluster" = "'' @ td_name d @ ''" }''),
     Line ''}'',
     Line '''',
     Declares (Resource ''aws_instance'' ''nat''), Line '' {'',
     Raw ''  ami                         = '', Refers (DataSource ''aws_ssm_parameter'' ''nat_ami''), Line ''.value'',
     Line ''  instance_type               = "t4g.nano"'',
     Raw ''  subnet_id                   = '', Refers (Resource ''aws_subnet'' ''public''), Line ''[0].id'',
     Raw ''  vpc_security_group_ids      = ['', Refers (Resource ''aws_security_group'' ''nat''), Line ''.id]'',
     Line ''  associate_public_ip_address = true'',
     Line ''  source_dest_check           = false'',
     Line ''  user_data = <<-NATEOF'',
     Line ''    #!/bin/bash'',
     Line ''    set -euo pipefail'',
     Line ''    sysctl -w net.ipv4.ip_forward=1'',
     Line ''    iface=$(ip route show default | awk '{print $5; exit}')'',
     Line ''    iptables -t nat -A POSTROUTING -o "$iface" -j MASQUERADE'',
     Line ''  NATEOF'',
     Line (''  tags = { Name = "'' @ td_name d @ ''-nat", "q0:cluster" = "'' @ td_name d @ ''", "q0:role" = "nat" }''),
     Raw ''}'']\<close>

definition route_tables :: "template_data \<Rightarrow> hcl list" where
  \<open>route_tables d =
    [Line '''',
     Line '''',
     Declares (Resource ''aws_route_table'' ''public''), Line '' {'',
     Raw ''  vpc_id = '', Refers (Resource ''aws_vpc'' ''this''), Line ''.id'',
     Line ''  route {'',
     Line ''    cidr_block = "0.0.0.0/0"'',
     Raw ''    gateway_id = '', Refers (Resource ''aws_internet_gateway'' ''this''), Line ''.id'',
     Line ''  }'',
     Line (''  tags = { Name = "'' @ td_name d @ ''-public", "q0:cluster" = "'' @ td_name d @ ''" }''),
     Line ''}'',
     Line '''',
     Line ''# Private route table. The default (0.0.0.0/0) route is added as a separate,'',
     Line ''# mode-gated resource below; endpoints-only has no default route at all.'',
     Declares (Resource ''aws_route_table'' ''private''), Line '' {'',
     Raw ''  vpc_id = '', Refers (Resource ''aws_vpc'' ''this''), Line ''.id'',
     Line (''  tags   = { Name = "'' @ td_name d @ ''-private", "q0:cluster" = "'' @ td_name d @ ''" }''),
     Raw ''}'']\<close>

definition default_route_gateway :: "template_data \<Rightarrow> hcl list" where
  \<open>default_route_gateway d =
    [Line '''',
     Declares (Resource ''aws_route'' ''private_default''), Line '' {'',
     Raw ''  route_table_id         = '', Refers (Resource ''aws_route_table'' ''private''), Line ''.id'',
     Line ''  destination_cidr_block = "0.0.0.0/0"'',
     Raw ''  nat_gateway_id         = '', Refers (Resource ''aws_nat_gateway'' ''this''), Line ''.id'',
     Raw ''}'']\<close>

definition default_route_instance :: "template_data \<Rightarrow> hcl list" where
  \<open>default_route_instance d =
    [Line '''',
     Declares (Resource ''aws_route'' ''private_default''), Line '' {'',
     Raw ''  route_table_id         = '', Refers (Resource ''aws_route_table'' ''private''), Line ''.id'',
     Line ''  destination_cidr_block = "0.0.0.0/0"'',
     Raw ''  network_interface_id   = '', Refers (Resource ''aws_instance'' ''nat''), Line ''.primary_network_interface_id'',
     Raw ''}'']\<close>

definition network_endpoints :: "template_data \<Rightarrow> hcl list" where
  \<open>network_endpoints d =
    [Line '''',
     Line '''',
     Line (''# S3 + DynamoDB gateway endpoints (free) '' @ em_dash @ '' associated with the private route''),
     Line ''# table so bootstrap S3 fetches and tofu-state DynamoDB never traverse NAT.'',
     Declares (Resource ''aws_vpc_endpoint'' ''s3''), Line '' {'',
     Raw ''  vpc_id            = '', Refers (Resource ''aws_vpc'' ''this''), Line ''.id'',
     Line (''  service_name      = "com.amazonaws.'' @ td_region d @ ''.s3"''),
     Line ''  vpc_endpoint_type = "Gateway"'',
     Raw ''  route_table_ids   = ['', Refers (Resource ''aws_route_table'' ''private''), Line ''.id]'',
     Line (''  tags = { Name = "'' @ td_name d @ ''-s3", "q0:cluster" = "'' @ td_name d @ ''" }''),
     Line ''}'',
     Line '''',
     Declares (Resource ''aws_vpc_endpoint'' ''dynamodb''), Line '' {'',
     Raw ''  vpc_id            = '', Refers (Resource ''aws_vpc'' ''this''), Line ''.id'',
     Line (''  service_name      = "com.amazonaws.'' @ td_region d @ ''.dynamodb"''),
     Line ''  vpc_endpoint_type = "Gateway"'',
     Raw ''  route_table_ids   = ['', Refers (Resource ''aws_route_table'' ''private''), Line ''.id]'',
     Line (''  tags = { Name = "'' @ td_name d @ ''-dynamodb", "q0:cluster" = "'' @ td_name d @ ''" }''),
     Line ''}'',
     Line '''',
     Declares (Resource ''aws_route_table_association'' ''public''), Line '' {'',
     Line (''  count          = '' @ show_int (td_az_count d)),
     Raw ''  subnet_id      = '', Refers (Resource ''aws_subnet'' ''public''), Line ''[count.index].id'',
     Raw ''  route_table_id = '', Refers (Resource ''aws_route_table'' ''public''), Line ''.id'',
     Line ''}'',
     Line '''',
     Declares (Resource ''aws_route_table_association'' ''private''), Line '' {'',
     Line (''  count          = '' @ show_int (td_az_count d)),
     Raw ''  subnet_id      = '', Refers (Resource ''aws_subnet'' ''private''), Line ''[count.index].id'',
     Raw ''  route_table_id = '', Refers (Resource ''aws_route_table'' ''private''), Line ''.id'',
     Line ''}'',
     Line '''',
     Line ''locals {'',
     Raw ''  '', Declares (Local ''vpc_id''), Raw ''     = '', Refers (Resource ''aws_vpc'' ''this''), Line ''.id'',
     Raw ''  '', Declares (Local ''subnet_ids''), Raw '' = '', Refers (Resource ''aws_subnet'' ''private''), Line ''[*].id'',
     Raw ''}'']\<close>

definition network_groups :: "template_data \<Rightarrow> hcl list" where
  \<open>network_groups d =
    [Line '''',
     Line '''',
     Line ''# --- Security groups (referenced by the controller and by launched compute) ---'',
     Declares (Resource ''aws_security_group'' ''compute''), Line '' {'',
     Line (''  name        = "'' @ td_name d @ ''-compute"''),
     Line ''  description = "queuezero compute nodes: intra-cluster all-traffic (MPI/EFA), egress all"'',
     Raw ''  vpc_id      = '', Refers (Local ''vpc_id''), Line '''',
     Line ''  ingress {'',
     Line ''    description = "intra-cluster (self)"'',
     Line ''    from_port   = 0'',
     Line ''    to_port     = 0'',
     Line ''    protocol    = "-1"'',
     Line ''    self        = true'',
     Line ''  }'',
     Line ''  egress {'',
     Line ''    from_port   = 0'',
     Line ''    to_port     = 0'',
     Line ''    protocol    = "-1"'',
     Line ''    cidr_blocks = ["0.0.0.0/0"]'',
     Line ''  }'',
     Line (''  tags = { Name = "'' @ td_name d @ ''-compute", "q0:cluster" = "'' @ td_name d @ ''" }''),
     Line ''}'',
     Line '''',
     Declares (Resource ''aws_security_group'' ''controller''), Line '' {'',
     Line (''  name        = "'' @ td_name d @ ''-controller"''),
     Line ''  description = "queuezero slurmctld: slurmctld port from compute, SSH from admin, egress all"'',
     Raw ''  vpc_id      = '', Refers (Local ''vpc_id''), Line '''',
     Line ''  ingress {'',
     Line ''    description     = "slurmctld from compute"'',
     Line ''    from_port       = 6817'',
     Line ''    to_port         = 6817'',
     Line ''    protocol        = "tcp"'',
     Raw ''    security_groups = ['', Refers (Resource ''aws_security_group'' ''compute''), Line ''.id]'',
     Line ''  }'',
     Line ''  ingress {'',
     Line ''    description = "SSH from admin"'',
     Line ''    from_port   = 22'',
     Line ''    to_port     = 22'',
     Line ''    protocol    = "tcp"'',
     Line (''    cidr_blocks = ["'' @ td_admin_cidr d @ ''"]''),
     Line ''  }'',
     Line ''  egress {'',
     Line ''    from_port   = 0'',
     Line ''    to_port     = 0'',
     Line ''    protocol    = "-1"'',
     Line ''    cidr_blocks = ["0.0.0.0/0"]'',
     Line ''  }'',
     Line (''  tags = { Name = "'' @ td_name d @ ''-controller", "q0:cluster" = "'' @ td_name d @ ''" }''),
     Line ''}'']\<close>

definition network_tf :: "template_data \<Rightarrow> hcl list" where
  \<open>network_tf d =
    [Raw (''# GENERATED by q0 apply '' @ em_dash @ '' do not edit by hand. Edit cluster.yaml and re-apply.'')] @
     (if nw_byo (net d) then
       network_byo d @
       subnet_list d @
       [Line '']'',
        Raw ''}'']
      else network_vpc d @
           (if td_egress_mode d = ''nat-gateway'' then
             nat_gateway d
            else if td_egress_mode d = ''nat-instance'' then
             nat_instance d
            else []) @
           route_tables d @
           (if td_egress_mode d = ''nat-gateway'' then
             default_route_gateway d
            else if td_egress_mode d = ''nat-instance'' then
             default_route_instance d
            else []) @
           network_endpoints d) @
     network_groups d\<close>

section \<open>\<^verbatim>\<open>controller.tf\<close>\<close>

text \<open>The controller and its named standby.\<close>

definition controller_primary :: "template_data \<Rightarrow> hcl list" where
  \<open>controller_primary d =
    [Line '''',
     Declares (Resource ''aws_iam_role'' ''controller''), Line '' {'',
     Line (''  name = "'' @ td_controller_role d @ ''"''),
     Line ''  assume_role_policy = jsonencode({'',
     Line ''    Version = "2012-10-17"'',
     Line ''    Statement = [{'',
     Line ''      Effect    = "Allow"'',
     Line ''      Principal = { Service = "ec2.amazonaws.com" }'',
     Line ''      Action    = "sts:AssumeRole"'',
     Line ''    }]'',
     Line ''  })'',
     Line ''}'',
     Line '''',
     Line ''# The controller forks the resume/suspend programs, which describe/launch EC2.'',
     Declares (Resource ''aws_iam_role_policy'' ''controller_ec2''), Line '' {'',
     Line (''  name = "'' @ td_controller_role d @ ''-ec2"''),
     Raw ''  role = '', Refers (Resource ''aws_iam_role'' ''controller''), Line ''.id'',
     Line ''  policy = jsonencode({'',
     Line ''    Version = "2012-10-17"'',
     Line ''    Statement = [{'',
     Line ''      Effect = "Allow"'',
     Line ''      Action = ['',
     Line ''        "ec2:DescribeInstances",'',
     Line ''        "ec2:RunInstances",'',
     Line ''        "ec2:StartInstances",'',
     Line ''        "ec2:StopInstances",'',
     Line ''        "ec2:TerminateInstances",'',
     Line ''        "ec2:CreateTags",'',
     Line ''        "ec2:DescribeTags",'',
     Line ''      ]'',
     Line ''      Resource = "*"'',
     Line ''    }]'',
     Line ''  })'',
     Line ''}'',
     Line '''',
     Declares (Resource ''aws_iam_instance_profile'' ''controller''), Line '' {'',
     Line (''  name = "'' @ td_controller_role d @ ''"''),
     Raw ''  role = '', Refers (Resource ''aws_iam_role'' ''controller''), Line ''.name'',
     Line ''}'',
     Line '''',
     Line (''# The slurmctld controller: a named, AMI-pinned, stateful singleton '' @ em_dash @ '' a pet, not''),
     Line (''# an ASG of one (ARCHITECTURE '' @ sect_sign @ ''9). When a StandbyHost is declared, a second''),
     Line ''# identical pet is provisioned below as the Slurm backup SlurmctldHost; both'',
     Line ''# share the durable StateDir, so failover is Slurm's runtime behavior (the'',
     Line (''# backup takes over the same StateSaveLocation) '' @ em_dash @ '' never an ASG.''),
     Declares (Resource ''aws_instance'' ''controller''), Line '' {'',
     Line (''  ami                    = "'' @ cs_ami_hash (ctl d) @ ''"''),
     Line (''  instance_type          = "'' @ cs_instance_type (ctl d) @ ''"''),
     Raw ''  subnet_id              = '', Refers (Local ''subnet_ids''), Line ''[0]'',
     Raw ''  vpc_security_group_ids = ['', Refers (Resource ''aws_security_group'' ''controller''), Line ''.id]'',
     Raw ''  iam_instance_profile   = '', Refers (Resource ''aws_iam_instance_profile'' ''controller''), Line ''.name'',
     Line ''  tags = {'',
     Line (''    Name          = "'' @ td_name d @ ''-slurmctld"''),
     Line (''    "q0:cluster"  = "'' @ td_name d @ ''"''),
     Raw ''    "q0:role"     = "controller"'']\<close>

definition controller_standby :: "template_data \<Rightarrow> hcl list" where
  \<open>controller_standby d =
    [Line '''',
     Line '''',
     Line ''# The named standby slurmctld (Slurm backup SlurmctldHost): an identical pet'',
     Line ''# sharing the controller SG, subnet, and instance profile. It runs slurmctld'',
     Line ''# against the same shared StateDir; Slurm promotes it when the primary is'',
     Line (''# unreachable. A separate named resource, NOT a count '' @ em_dash @ '' the controller pair is''),
     Line (''# two pets, never an ASG ('' @ sect_sign @ ''9).''),
     Declares (Resource ''aws_instance'' ''controller_standby''), Line '' {'',
     Line (''  ami                    = "'' @ cs_ami_hash (ctl d) @ ''"''),
     Line (''  instance_type          = "'' @ cs_instance_type (ctl d) @ ''"''),
     Raw ''  subnet_id              = '', Refers (Local ''subnet_ids''), Line ''[0]'',
     Raw ''  vpc_security_group_ids = ['', Refers (Resource ''aws_security_group'' ''controller''), Line ''.id]'',
     Raw ''  iam_instance_profile   = '', Refers (Resource ''aws_iam_instance_profile'' ''controller''), Line ''.name'',
     Line ''  tags = {'',
     Line (''    Name          = "'' @ cs_standby_host (ctl d) @ ''"''),
     Line (''    "q0:cluster"  = "'' @ td_name d @ ''"''),
     Line ''    "q0:role"     = "controller-standby"'',
     Line ''  }'',
     Raw ''}'']\<close>

definition controller_tf :: "template_data \<Rightarrow> hcl list" where
  \<open>controller_tf d =
    [Raw (''# GENERATED by q0 apply '' @ em_dash @ '' do not edit by hand.'')] @
     (if cs_instance_type (ctl d) \<noteq> '''' then
       controller_primary d @
       (if cs_standby_host (ctl d) \<noteq> '''' then
         [Line '''',
          Raw (''    "q0:standby"  = "'' @ cs_standby_host (ctl d) @ ''"'')]
        else []) @
       [Line '''',
        Line ''  }'',
        Raw ''}''] @
       (if cs_standby_host (ctl d) \<noteq> '''' then
         controller_standby d
        else [])
      else [Line '''',
            Raw ''# No controller requested in cluster.yaml (network-only bring-up).'']) @
     [Line '''']\<close>

section \<open>\<^verbatim>\<open>storage.tf\<close>\<close>

text \<open>The security groups of the kinds in use, then one file system per entry.\<close>

definition nfs_group :: "template_data \<Rightarrow> hcl list" where
  \<open>nfs_group d =
    [Line '''',
     Line ''# --- NFS security group: EFS mount targets accept 2049 from compute+controller ---'',
     Declares (Resource ''aws_security_group'' ''nfs''), Line '' {'',
     Line (''  name        = "'' @ td_name d @ ''-nfs"''),
     Line ''  description = "queuezero shared EFS: NFS 2049 from compute + controller, egress all"'',
     Raw ''  vpc_id      = '', Refers (Local ''vpc_id''), Line '''',
     Line ''  ingress {'',
     Line ''    description     = "NFS from compute"'',
     Line ''    from_port       = 2049'',
     Line ''    to_port         = 2049'',
     Line ''    protocol        = "tcp"'',
     Raw ''    security_groups = ['', Refers (Resource ''aws_security_group'' ''compute''), Line ''.id]'',
     Line ''  }'',
     Line ''  ingress {'',
     Line ''    description     = "NFS from controller"'',
     Line ''    from_port       = 2049'',
     Line ''    to_port         = 2049'',
     Line ''    protocol        = "tcp"'',
     Raw ''    security_groups = ['', Refers (Resource ''aws_security_group'' ''controller''), Line ''.id]'',
     Line ''  }'',
     Line ''  egress {'',
     Line ''    from_port   = 0'',
     Line ''    to_port     = 0'',
     Line ''    protocol    = "-1"'',
     Line ''    cidr_blocks = ["0.0.0.0/0"]'',
     Line ''  }'',
     Line (''  tags = { Name = "'' @ td_name d @ ''-nfs", "q0:cluster" = "'' @ td_name d @ ''" }''),
     Raw ''}'']\<close>

definition lustre_group :: "template_data \<Rightarrow> hcl list" where
  \<open>lustre_group d =
    [Line '''',
     Line ''# --- Lustre security group: FSx-Lustre accepts 988 + 1018-1023 from compute+controller ---'',
     Declares (Resource ''aws_security_group'' ''lustre''), Line '' {'',
     Line (''  name        = "'' @ td_name d @ ''-lustre"''),
     Line ''  description = "queuezero shared FSx-Lustre: ports 988,1018-1023 from compute + controller, egress all"'',
     Raw ''  vpc_id      = '', Refers (Local ''vpc_id''), Line '''',
     Line ''  ingress {'',
     Line ''    description     = "Lustre 988 from compute"'',
     Line ''    from_port       = 988'',
     Line ''    to_port         = 988'',
     Line ''    protocol        = "tcp"'',
     Raw ''    security_groups = ['', Refers (Resource ''aws_security_group'' ''compute''), Line ''.id]'',
     Line ''  }'',
     Line ''  ingress {'',
     Line ''    description     = "Lustre 988 from controller"'',
     Line ''    from_port       = 988'',
     Line ''    to_port         = 988'',
     Line ''    protocol        = "tcp"'',
     Raw ''    security_groups = ['', Refers (Resource ''aws_security_group'' ''controller''), Line ''.id]'',
     Line ''  }'',
     Line ''  ingress {'',
     Line ''    description     = "Lustre 1018-1023 from compute"'',
     Line ''    from_port       = 1018'',
     Line ''    to_port         = 1023'',
     Line ''    protocol        = "tcp"'',
     Raw ''    security_groups = ['', Refers (Resource ''aws_security_group'' ''compute''), Line ''.id]'',
     Line ''  }'',
     Line ''  ingress {'',
     Line ''    description     = "Lustre 1018-1023 from controller"'',
     Line ''    from_port       = 1018'',
     Line ''    to_port         = 1023'',
     Line ''    protocol        = "tcp"'',
     Raw ''    security_groups = ['', Refers (Resource ''aws_security_group'' ''controller''), Line ''.id]'',
     Line ''  }'',
     Line ''  egress {'',
     Line ''    from_port   = 0'',
     Line ''    to_port     = 0'',
     Line ''    protocol    = "-1"'',
     Line ''    cidr_blocks = ["0.0.0.0/0"]'',
     Line ''  }'',
     Line (''  tags = { Name = "'' @ td_name d @ ''-lustre", "q0:cluster" = "'' @ td_name d @ ''" }''),
     Raw ''}'']\<close>

definition efs_mount :: "template_data \<Rightarrow> storage_tmpl \<Rightarrow> hcl list" where
  \<open>efs_mount d s =
    [Line '''',
     Line '''',
     Line (''# --- Shared EFS for mount '' @ st_mount_path s @ '' (encrypted at rest) ---''),
     Declares (Resource ''aws_efs_file_system'' (''efs_'' @ show_nat (st_index s))), Line '' {'',
     Line (''  creation_token = "'' @ st_token s @ ''"''),
     Line ''  encrypted      = true'',
     Line (''  tags = { Name = "'' @ st_token s @ ''", "q0:cluster" = "'' @ td_name d @ ''", "q0:mount" = "'' @ st_mount_path s @ ''" }''),
     Line ''}'',
     Line '''',
     Declares (Resource ''aws_efs_mount_target'' (''efs_'' @ show_nat (st_index s))), Line '' {'',
     Line (''  count           = '' @ show_int (td_az_count d)),
     Raw ''  file_system_id  = '', Refers (Resource ''aws_efs_file_system'' (''efs_'' @ show_nat (st_index s))), Line ''.id'',
     Raw ''  subnet_id       = '', Refers (Local ''subnet_ids''), Line ''[count.index]'',
     Raw ''  security_groups = ['', Refers (Resource ''aws_security_group'' ''nfs''), Line ''.id]'',
     Raw ''}'']\<close>

definition fsx_mount :: "template_data \<Rightarrow> storage_tmpl \<Rightarrow> hcl list" where
  \<open>fsx_mount d s =
    [Line '''',
     Line '''',
     Line (''# --- Shared FSx-Lustre for mount '' @ st_mount_path s @ '' ('' @ st_deployment_type s @ '', '' @ show_int (st_capacity_gib s) @ '' GiB) ---''),
     Declares (Resource ''aws_fsx_lustre_file_system'' (''fsx_'' @ show_nat (st_index s))), Line '' {'',
     Line (''  storage_capacity   = '' @ show_int (st_capacity_gib s)),
     Raw ''  subnet_ids         = ['', Refers (Local ''subnet_ids''), Line ''[0]]'',
     Line (''  deployment_type    = "'' @ st_deployment_type s @ ''"''),
     Raw ''  security_group_ids = ['', Refers (Resource ''aws_security_group'' ''lustre''), Line ''.id]'',
     Line (''  tags = { Name = "'' @ st_token s @ ''", "q0:cluster" = "'' @ td_name d @ ''", "q0:mount" = "'' @ st_mount_path s @ ''" }''),
     Raw ''}'']\<close>

definition fsx_association :: "template_data \<Rightarrow> storage_tmpl \<Rightarrow> hcl list" where
  \<open>fsx_association d s =
    [Line '''',
     Line '''',
     Declares (Resource ''aws_fsx_data_repository_association'' (''fsx_'' @ show_nat (st_index s))), Line '' {'',
     Raw ''  file_system_id       = '', Refers (Resource ''aws_fsx_lustre_file_system'' (''fsx_'' @ show_nat (st_index s))), Line ''.id'',
     Line (''  file_system_path     = "'' @ st_mount_path s @ ''"''),
     Line (''  data_repository_path = "'' @ st_s3_import_path s @ ''"''),
     Line ''  s3 {'',
     Line ''    auto_import_policy { events = ["NEW", "CHANGED", "DELETED"] }'',
     Line ''    auto_export_policy { events = ["NEW", "CHANGED", "DELETED"] }'',
     Line ''  }'',
     Raw ''}'']\<close>

definition storage_entry :: "template_data \<Rightarrow> storage_tmpl \<Rightarrow> hcl list" where
  \<open>storage_entry d s =
    (if st_kind s = ''efs'' then
    efs_mount d s
   else if st_kind s = ''fsx-lustre'' then
    fsx_mount d s @
    (if st_s3_import_path s \<noteq> '''' then
      fsx_association d s
     else [])
   else [])\<close>

definition storage_tf :: "template_data \<Rightarrow> hcl list" where
  \<open>storage_tf d =
    [Raw (''# GENERATED by q0 apply '' @ em_dash @ '' do not edit by hand.'')] @
     (if td_storage d \<noteq> [] then
       (if td_has_efs d then
         nfs_group d
        else []) @
       (if td_has_lustre d then
         lustre_group d
        else []) @
       concat (map (storage_entry d) (td_storage d))
      else [Line '''',
            Raw ''# No shared storage declared in cluster.yaml.'']) @
     [Line '''']\<close>

section \<open>\<^verbatim>\<open>variables.tf\<close>\<close>

definition variables_tf :: "template_data \<Rightarrow> hcl list" where
  \<open>variables_tf d =
    [Line (''# GENERATED by q0 apply '' @ em_dash @ '' do not edit by hand.''),
      Line ''# The foundation layer takes no input variables; all values are rendered from'',
      Line ''# cluster.yaml at generation time. Backend values are supplied via'',
      Line ''# -backend-config at init.'']\<close>

section \<open>\<^verbatim>\<open>outputs.tf\<close>\<close>

text \<open>What the command line reads back.\<close>

definition outputs_scripts :: "template_data \<Rightarrow> hcl list" where
  \<open>outputs_scripts d =
    [Line (''# GENERATED by q0 apply '' @ em_dash @ '' do not edit by hand.''),
     Output ''node_instance_profile_arn'', Line '' {'',
     Raw ''  value       = '', Refers (Resource ''aws_iam_instance_profile'' ''node''), Line ''.arn'',
     Line ''  description = "Set Q0_INSTANCE_PROFILE_ARN to this for q0-resume."'',
     Line ''}'',
     Line '''',
     Output ''scripts_bucket'', Line '' {'',
     Raw ''  value       = '', Refers (Resource ''aws_s3_bucket'' ''scripts''), Line ''.id'',
     Line ''  description = "Set Q0_SCRIPTS_BUCKET to this for q0 bootstrap push."'',
     Line ''}'']\<close>

definition outputs_manifest :: "template_data \<Rightarrow> hcl list" where
  \<open>outputs_manifest d =
    [Line '''',
     Output ''manifest_bucket'', Line '' {'',
     Raw ''  value       = '', Refers (Resource ''aws_s3_bucket'' ''manifest''), Line ''.id'',
     Line ''  description = "Set Q0_MANIFEST_BUCKET to this for collective resume."'',
     Line ''}'']\<close>

definition outputs_network :: "template_data \<Rightarrow> hcl list" where
  \<open>outputs_network d =
    [Line '''',
     Output ''vpc_id'', Line '' {'',
     Raw ''  value       = '', Refers (Local ''vpc_id''), Line '''',
     Line ''  description = "The cluster VPC (generated or BYO)."'',
     Line ''}'',
     Line '''',
     Output ''subnet_ids'', Line '' {'',
     Raw ''  value       = '', Refers (Local ''subnet_ids''), Line '''',
     Line ''  description = "Private subnets compute + controller launch into."'',
     Line ''}'',
     Line '''',
     Output ''controller_sg_id'', Line '' {'',
     Raw ''  value       = '', Refers (Resource ''aws_security_group'' ''controller''), Line ''.id'',
     Line ''  description = "Security group for the slurmctld controller."'',
     Line ''}'',
     Line '''',
     Output ''compute_sg_id'', Line '' {'',
     Raw ''  value       = '', Refers (Resource ''aws_security_group'' ''compute''), Line ''.id'',
     Line ''  description = "Security group for launched compute nodes."'',
     Line ''}'']\<close>

definition outputs_controller :: "template_data \<Rightarrow> hcl list" where
  \<open>outputs_controller d =
    [Line '''',
     Output ''controller_private_ip'', Line '' {'',
     Raw ''  value       = '', Refers (Resource ''aws_instance'' ''controller''), Line ''.private_ip'',
     Line ''  description = "The slurmctld controller's private IP (SlurmctldHost)."'',
     Line ''}'',
     Line '''',
     Output ''controller_instance_id'', Line '' {'',
     Raw ''  value       = '', Refers (Resource ''aws_instance'' ''controller''), Line ''.id'',
     Line ''  description = "The slurmctld controller instance id."'',
     Line ''}'']\<close>

definition outputs_standby :: "template_data \<Rightarrow> hcl list" where
  \<open>outputs_standby d =
    [Line '''',
     Output ''controller_standby_private_ip'', Line '' {'',
     Raw ''  value       = '', Refers (Resource ''aws_instance'' ''controller_standby''), Line ''.private_ip'',
     Line ''  description = "The standby slurmctld's private IP (the backup SlurmctldHost)."'',
     Line ''}'',
     Line '''',
     Output ''controller_standby_instance_id'', Line '' {'',
     Raw ''  value       = '', Refers (Resource ''aws_instance'' ''controller_standby''), Line ''.id'',
     Line ''  description = "The standby slurmctld instance id."'',
     Line ''}'']\<close>

definition outputs_efs :: "template_data \<Rightarrow> storage_tmpl \<Rightarrow> hcl list" where
  \<open>outputs_efs d s =
    [Line '''',
     Output (''efs_'' @ show_nat (st_index s) @ ''_id''), Line '' {'',
     Raw ''  value       = '', Refers (Resource ''aws_efs_file_system'' (''efs_'' @ show_nat (st_index s))), Line ''.id'',
     Line (''  description = "EFS file system id for mount '' @ st_mount_path s @ ''."''),
     Line ''}'',
     Line '''',
     Output (''efs_'' @ show_nat (st_index s) @ ''_dns''), Line '' {'',
     Raw ''  value       = '', Refers (Resource ''aws_efs_file_system'' (''efs_'' @ show_nat (st_index s))), Line ''.dns_name'',
     Line (''  description = "EFS DNS name to mount '' @ st_mount_path s @ '' (used by the bootstrap script)."''),
     Raw ''}'']\<close>

definition outputs_fsx :: "template_data \<Rightarrow> storage_tmpl \<Rightarrow> hcl list" where
  \<open>outputs_fsx d s =
    [Line '''',
     Output (''fsx_'' @ show_nat (st_index s) @ ''_id''), Line '' {'',
     Raw ''  value       = '', Refers (Resource ''aws_fsx_lustre_file_system'' (''fsx_'' @ show_nat (st_index s))), Line ''.id'',
     Line (''  description = "FSx-Lustre file system id for mount '' @ st_mount_path s @ ''."''),
     Line ''}'',
     Line '''',
     Output (''fsx_'' @ show_nat (st_index s) @ ''_dns''), Line '' {'',
     Raw ''  value       = '', Refers (Resource ''aws_fsx_lustre_file_system'' (''fsx_'' @ show_nat (st_index s))), Line ''.dns_name'',
     Line (''  description = "FSx-Lustre DNS name for mount '' @ st_mount_path s @ '' (used by the bootstrap script)."''),
     Line ''}'',
     Line '''',
     Output (''fsx_'' @ show_nat (st_index s) @ ''_mountname''), Line '' {'',
     Raw ''  value       = '', Refers (Resource ''aws_fsx_lustre_file_system'' (''fsx_'' @ show_nat (st_index s))), Line ''.mount_name'',
     Line (''  description = "FSx-Lustre mount name for mount '' @ st_mount_path s @ '' (the <dns>@tcp:/<mountname> Lustre target)."''),
     Raw ''}'']\<close>

definition outputs_entry :: "template_data \<Rightarrow> storage_tmpl \<Rightarrow> hcl list" where
  \<open>outputs_entry d s =
    (if st_kind s = ''efs'' then
    outputs_efs d s
   else if st_kind s = ''fsx-lustre'' then
    outputs_fsx d s
   else []) @
  [Line '''']\<close>

definition outputs_tf :: "template_data \<Rightarrow> hcl list" where
  \<open>outputs_tf d =
    outputs_scripts d @
     (if td_manifest_bucket d \<noteq> '''' then
       outputs_manifest d
      else []) @
     outputs_network d @
     (if cs_instance_type (ctl d) \<noteq> '''' then
       outputs_controller d @
       (if cs_standby_host (ctl d) \<noteq> '''' then
         outputs_standby d
        else []) @
       [Line '''']
      else []) @
     [Line ''''] @
     concat (map (outputs_entry d) (td_storage d))\<close>

end
