(* ===== verification/Tofu_Pieces.thy ===== *)
theory Tofu_Pieces
  imports Tofu_Hcl
begin

text \<open>
  What each part of the generated configuration declares, refers to and outputs.
\<close>

fun declarations :: "hcl list \<Rightarrow> address list" where
  "declarations [] = []"
| "declarations (Declares a # ps) = a # declarations ps"
| "declarations (_ # ps) = declarations ps"

fun references :: "hcl list \<Rightarrow> address list" where
  "references [] = []"
| "references (Refers a # ps) = a # references ps"
| "references (_ # ps) = references ps"

fun outputs :: "hcl list \<Rightarrow> string list" where
  "outputs [] = []"
| "outputs (Output nm # ps) = nm # outputs ps"
| "outputs (_ # ps) = outputs ps"

lemma pieces_append [simp]:
  "declarations (ps @ qs) = declarations ps @ declarations qs"
  "references (ps @ qs) = references ps @ references qs"
  "outputs (ps @ qs) = outputs ps @ outputs qs"
  by (induction ps rule: declarations.induct; simp)+

lemma pieces_concat:
  "declarations (concat pss) = concat (map declarations pss)"
  "references (concat pss) = concat (map references pss)"
  "outputs (concat pss) = concat (map outputs pss)"
  by (induction pss) auto

lemma subnet_list_pieces [simp]:
  "declarations (subnet_list d) = []" "references (subnet_list d) = []" "outputs (subnet_list d) = []"
  by (simp_all add: subnet_list_def)

section \<open>The parts\<close>

lemma main_scripts_pieces [simp]:
  "declarations (main_scripts d) = [Resource ''aws_s3_bucket'' ''scripts'', Resource ''aws_s3_bucket_versioning'' ''scripts'',
     Resource ''aws_s3_bucket_public_access_block'' ''scripts'']"
  "set (references (main_scripts d)) = {Resource ''aws_s3_bucket'' ''scripts''}"
  "outputs (main_scripts d) = []"
  by (auto simp: main_scripts_def)

lemma main_manifest_pieces [simp]:
  "declarations (main_manifest d) = [Resource ''aws_s3_bucket'' ''manifest'', Resource ''aws_s3_bucket_public_access_block'' ''manifest'']"
  "set (references (main_manifest d)) = {Resource ''aws_s3_bucket'' ''manifest''}"
  "outputs (main_manifest d) = []"
  by (auto simp: main_manifest_def)

lemma main_node_role_pieces [simp]:
  "declarations (main_node_role d) = [Resource ''aws_iam_role'' ''node'', Resource ''aws_iam_role_policy'' ''node_scripts_read'',
     Resource ''aws_iam_instance_profile'' ''node'']"
  "set (references (main_node_role d)) = {Resource ''aws_iam_role'' ''node'', Resource ''aws_s3_bucket'' ''scripts''}"
  "outputs (main_node_role d) = []"
  by (auto simp: main_node_role_def)

lemma network_byo_pieces [simp]:
  "declarations (network_byo d) = [Local ''vpc_id'', Local ''subnet_ids'']"
  "references (network_byo d) = []"
  "outputs (network_byo d) = []"
  by (auto simp: network_byo_def)

lemma network_vpc_pieces [simp]:
  "declarations (network_vpc d) = [DataSource ''aws_availability_zones'' ''available'', Resource ''aws_vpc'' ''this'',
     Resource ''aws_internet_gateway'' ''this'', Resource ''aws_subnet'' ''private'',
     Resource ''aws_subnet'' ''public'']"
  "set (references (network_vpc d)) = {Resource ''aws_vpc'' ''this'', DataSource ''aws_availability_zones'' ''available''}"
  "outputs (network_vpc d) = []"
  by (auto simp: network_vpc_def)

lemma nat_gateway_pieces [simp]:
  "declarations (nat_gateway d) = [Resource ''aws_eip'' ''nat'', Resource ''aws_nat_gateway'' ''this'']"
  "set (references (nat_gateway d)) = {Resource ''aws_eip'' ''nat'', Resource ''aws_subnet'' ''public'',
       Resource ''aws_internet_gateway'' ''this''}"
  "outputs (nat_gateway d) = []"
  by (auto simp: nat_gateway_def)

lemma nat_instance_pieces [simp]:
  "declarations (nat_instance d) = [DataSource ''aws_ssm_parameter'' ''nat_ami'', Resource ''aws_security_group'' ''nat'',
     Resource ''aws_instance'' ''nat'']"
  "set (references (nat_instance d)) = {Resource ''aws_vpc'' ''this'', DataSource ''aws_ssm_parameter'' ''nat_ami'',
       Resource ''aws_subnet'' ''public'', Resource ''aws_security_group'' ''nat''}"
  "outputs (nat_instance d) = []"
  by (auto simp: nat_instance_def)

lemma route_tables_pieces [simp]:
  "declarations (route_tables d) = [Resource ''aws_route_table'' ''public'', Resource ''aws_route_table'' ''private'']"
  "set (references (route_tables d)) = {Resource ''aws_vpc'' ''this'', Resource ''aws_internet_gateway'' ''this''}"
  "outputs (route_tables d) = []"
  by (auto simp: route_tables_def)

lemma default_route_gateway_pieces [simp]:
  "declarations (default_route_gateway d) = [Resource ''aws_route'' ''private_default'']"
  "set (references (default_route_gateway d)) = {Resource ''aws_route_table'' ''private'', Resource ''aws_nat_gateway'' ''this''}"
  "outputs (default_route_gateway d) = []"
  by (auto simp: default_route_gateway_def)

lemma default_route_instance_pieces [simp]:
  "declarations (default_route_instance d) = [Resource ''aws_route'' ''private_default'']"
  "set (references (default_route_instance d)) = {Resource ''aws_route_table'' ''private'', Resource ''aws_instance'' ''nat''}"
  "outputs (default_route_instance d) = []"
  by (auto simp: default_route_instance_def)

lemma network_endpoints_pieces [simp]:
  "declarations (network_endpoints d) = [Resource ''aws_vpc_endpoint'' ''s3'', Resource ''aws_vpc_endpoint'' ''dynamodb'',
     Resource ''aws_route_table_association'' ''public'', Resource ''aws_route_table_association'' ''private'',
     Local ''vpc_id'', Local ''subnet_ids'']"
  "set (references (network_endpoints d)) = {Resource ''aws_vpc'' ''this'', Resource ''aws_route_table'' ''private'',
       Resource ''aws_subnet'' ''public'', Resource ''aws_route_table'' ''public'',
       Resource ''aws_subnet'' ''private''}"
  "outputs (network_endpoints d) = []"
  by (auto simp: network_endpoints_def)

lemma network_groups_pieces [simp]:
  "declarations (network_groups d) = [Resource ''aws_security_group'' ''compute'', Resource ''aws_security_group'' ''controller'']"
  "set (references (network_groups d)) = {Local ''vpc_id'', Resource ''aws_security_group'' ''compute''}"
  "outputs (network_groups d) = []"
  by (auto simp: network_groups_def)

lemma controller_primary_pieces [simp]:
  "declarations (controller_primary d) = [Resource ''aws_iam_role'' ''controller'', Resource ''aws_iam_role_policy'' ''controller_ec2'',
     Resource ''aws_iam_instance_profile'' ''controller'', Resource ''aws_instance'' ''controller'']"
  "set (references (controller_primary d)) = {Resource ''aws_iam_role'' ''controller'', Local ''subnet_ids'',
       Resource ''aws_security_group'' ''controller'', Resource ''aws_iam_instance_profile'' ''controller''}"
  "outputs (controller_primary d) = []"
  by (auto simp: controller_primary_def)

lemma controller_standby_pieces [simp]:
  "declarations (controller_standby d) = [Resource ''aws_instance'' ''controller_standby'']"
  "set (references (controller_standby d)) = {Local ''subnet_ids'', Resource ''aws_security_group'' ''controller'',
       Resource ''aws_iam_instance_profile'' ''controller''}"
  "outputs (controller_standby d) = []"
  by (auto simp: controller_standby_def)

lemma nfs_group_pieces [simp]:
  "declarations (nfs_group d) = [Resource ''aws_security_group'' ''nfs'']"
  "set (references (nfs_group d)) = {Local ''vpc_id'', Resource ''aws_security_group'' ''compute'',
       Resource ''aws_security_group'' ''controller''}"
  "outputs (nfs_group d) = []"
  by (auto simp: nfs_group_def)

lemma lustre_group_pieces [simp]:
  "declarations (lustre_group d) = [Resource ''aws_security_group'' ''lustre'']"
  "set (references (lustre_group d)) = {Local ''vpc_id'', Resource ''aws_security_group'' ''compute'',
       Resource ''aws_security_group'' ''controller''}"
  "outputs (lustre_group d) = []"
  by (auto simp: lustre_group_def)

lemma efs_mount_pieces [simp]:
  "declarations (efs_mount d s) = [Resource ''aws_efs_file_system'' (''efs_'' @ show_nat (st_index s)),
     Resource ''aws_efs_mount_target'' (''efs_'' @ show_nat (st_index s))]"
  "set (references (efs_mount d s)) = {Resource ''aws_efs_file_system'' (''efs_'' @ show_nat (st_index s)), Local ''subnet_ids'',
       Resource ''aws_security_group'' ''nfs''}"
  "outputs (efs_mount d s) = []"
  by (auto simp: efs_mount_def)

lemma fsx_mount_pieces [simp]:
  "declarations (fsx_mount d s) = [Resource ''aws_fsx_lustre_file_system'' (''fsx_'' @ show_nat (st_index s))]"
  "set (references (fsx_mount d s)) = {Local ''subnet_ids'', Resource ''aws_security_group'' ''lustre''}"
  "outputs (fsx_mount d s) = []"
  by (auto simp: fsx_mount_def)

lemma fsx_association_pieces [simp]:
  "declarations (fsx_association d s) = [Resource ''aws_fsx_data_repository_association'' (''fsx_'' @ show_nat (st_index s))]"
  "set (references (fsx_association d s)) = {Resource ''aws_fsx_lustre_file_system'' (''fsx_'' @ show_nat (st_index s))}"
  "outputs (fsx_association d s) = []"
  by (auto simp: fsx_association_def)

lemma outputs_scripts_pieces [simp]:
  "declarations (outputs_scripts d) = []"
  "set (references (outputs_scripts d)) = {Resource ''aws_iam_instance_profile'' ''node'', Resource ''aws_s3_bucket'' ''scripts''}"
  "outputs (outputs_scripts d) = [''node_instance_profile_arn'', ''scripts_bucket'']"
  by (auto simp: outputs_scripts_def)

lemma outputs_manifest_pieces [simp]:
  "declarations (outputs_manifest d) = []"
  "set (references (outputs_manifest d)) = {Resource ''aws_s3_bucket'' ''manifest''}"
  "outputs (outputs_manifest d) = [''manifest_bucket'']"
  by (auto simp: outputs_manifest_def)

lemma outputs_network_pieces [simp]:
  "declarations (outputs_network d) = []"
  "set (references (outputs_network d)) = {Local ''vpc_id'', Local ''subnet_ids'', Resource ''aws_security_group'' ''controller'',
       Resource ''aws_security_group'' ''compute''}"
  "outputs (outputs_network d) = [''vpc_id'', ''subnet_ids'', ''controller_sg_id'', ''compute_sg_id'']"
  by (auto simp: outputs_network_def)

lemma outputs_controller_pieces [simp]:
  "declarations (outputs_controller d) = []"
  "set (references (outputs_controller d)) = {Resource ''aws_instance'' ''controller''}"
  "outputs (outputs_controller d) = [''controller_private_ip'', ''controller_instance_id'']"
  by (auto simp: outputs_controller_def)

lemma outputs_standby_pieces [simp]:
  "declarations (outputs_standby d) = []"
  "set (references (outputs_standby d)) = {Resource ''aws_instance'' ''controller_standby''}"
  "outputs (outputs_standby d) = [''controller_standby_private_ip'', ''controller_standby_instance_id'']"
  by (auto simp: outputs_standby_def)

lemma outputs_efs_pieces [simp]:
  "declarations (outputs_efs d s) = []"
  "set (references (outputs_efs d s)) = {Resource ''aws_efs_file_system'' (''efs_'' @ show_nat (st_index s))}"
  "outputs (outputs_efs d s) = [''efs_'' @ show_nat (st_index s) @ ''_id'', ''efs_'' @ show_nat (st_index s) @ ''_dns'']"
  by (auto simp: outputs_efs_def)

lemma outputs_fsx_pieces [simp]:
  "declarations (outputs_fsx d s) = []"
  "set (references (outputs_fsx d s)) = {Resource ''aws_fsx_lustre_file_system'' (''fsx_'' @ show_nat (st_index s))}"
  "outputs (outputs_fsx d s) = [''fsx_'' @ show_nat (st_index s) @ ''_id'', ''fsx_'' @ show_nat (st_index s) @ ''_dns'',
     ''fsx_'' @ show_nat (st_index s) @ ''_mountname'']"
  by (auto simp: outputs_fsx_def)

end
