(* ===== verification/Tofu_Generate.thy ===== *)
theory Tofu_Generate
  imports Tofu_Pieces
begin

text \<open>
  \<^verbatim>\<open>internal/tofu/generate.go\<close>: the options and their defaults, the storage entries as template
  inputs, the generation of the foundation layer, and the writing of its files. The properties
  are about the configuration as \<^verbatim>\<open>tofu\<close> reads it: every reference is declared, nothing is
  declared twice, and every valid cluster has one.
\<close>

section \<open>Inputs of the templates\<close>

record foundation_opts =
  fo_scripts_bucket :: string
  fo_manifest_bucket :: string
  fo_node_role_name :: string
  fo_az_count :: int
  fo_admin_cidr :: string

definition default_node_role :: string where "default_node_role = ''q0-node''"
definition default_controller_role :: string where "default_controller_role = ''q0-controller''"
definition default_az_count :: int where "default_az_count = 2"
definition default_admin_cidr :: string where "default_admin_cidr = ''0.0.0.0/0''"
definition default_fsx_capacity_gib :: int where "default_fsx_capacity_gib = 1200"
definition default_fsx_deployment_type :: string where "default_fsx_deployment_type = ''SCRATCH_2''"

definition efs_tmpl :: "string \<Rightarrow> nat \<Rightarrow> storage_spec \<Rightarrow> storage_tmpl" where
  "efs_tmpl name i s =
     \<lparr>st_index = i, st_kind = ''efs'', st_mount_path = sg_mount_path s,
      st_token = name @ ''-efs-'' @ show_nat i, st_capacity_gib = 0, st_deployment_type = '''',
      st_s3_import_path = ''''\<rparr>"

definition fsx_tmpl :: "string \<Rightarrow> nat \<Rightarrow> storage_spec \<Rightarrow> storage_tmpl" where
  "fsx_tmpl name i s =
     \<lparr>st_index = i, st_kind = ''fsx-lustre'', st_mount_path = sg_mount_path s,
      st_token = name @ ''-fsx-'' @ show_nat i,
      st_capacity_gib = (if sg_capacity_gib s = 0 then default_fsx_capacity_gib else sg_capacity_gib s),
      st_deployment_type =
        (if sg_deployment_type s = '''' then default_fsx_deployment_type else sg_deployment_type s),
      st_s3_import_path = sg_s3_linkage s\<rparr>"

text \<open>The loop of \<^verbatim>\<open>buildStorage\<close>: the entries, and whether each kind has been met.\<close>

fun build_storage_from :: "string \<Rightarrow> nat \<Rightarrow> storage_spec list \<Rightarrow> go_error + storage_tmpl list \<times> bool \<times> bool" where
  "build_storage_from name i [] = Inr ([], False, False)"
| "build_storage_from name i (s # ss) =
     (if sg_kind s = ''efs'' then
        (case build_storage_from name (Suc i) ss of
           Inl e \<Rightarrow> Inl e
         | Inr (out, efs, lustre) \<Rightarrow> Inr (efs_tmpl name i s # out, True, lustre))
      else if sg_kind s = ''fsx-lustre'' then
        (case build_storage_from name (Suc i) ss of
           Inl e \<Rightarrow> Inl e
         | Inr (out, efs, lustre) \<Rightarrow> Inr (fsx_tmpl name i s # out, efs, True))
      else Inl (ErrText (''tofu: storage['' @ show_nat i @ ''] unknown kind '' @ go_quote (sg_kind s))))"

definition build_storage :: "cluster \<Rightarrow> go_error + storage_tmpl list \<times> bool \<times> bool" where
  "build_storage c = build_storage_from (cl_name c) 0 (cl_storage c)"

definition resolve_egress_mode :: "string \<Rightarrow> string" where
  "resolve_egress_mode mode = (if mode = '''' then egress_nat_gateway else mode)"

section \<open>Generation\<close>

definition with_defaults :: "foundation_opts \<Rightarrow> foundation_opts" where
  "with_defaults o1 =
     (let o2 = (if fo_node_role_name o1 = '''' then o1\<lparr>fo_node_role_name := default_node_role\<rparr> else o1);
          o3 = (if fo_az_count o2 \<le> 0 then o2\<lparr>fo_az_count := default_az_count\<rparr> else o2)
      in if fo_admin_cidr o3 = '''' then o3\<lparr>fo_admin_cidr := default_admin_cidr\<rparr> else o3)"

definition foundation_data :: "cluster option \<Rightarrow> foundation_opts \<Rightarrow> go_error + template_data" where
  "foundation_data cl opts =
     (case cl of
        None \<Rightarrow> Inl (ErrText ''tofu: nil cluster'')
      | Some c \<Rightarrow>
          (if fo_scripts_bucket opts = '''' then
             Inl (ErrText ''tofu: ScriptsBucket is required (the bootstrap shim fetches from it)'')
           else (let opts = with_defaults opts in
             (case build_storage c of
                Inl e \<Rightarrow> Inl e
              | Inr (storage, has_efs, has_lustre) \<Rightarrow>
                  Inr \<lparr>td_cluster = c, td_name = cl_name c, td_region = cl_region c,
                       td_scripts_bucket = fo_scripts_bucket opts,
                       td_manifest_bucket = fo_manifest_bucket opts,
                       td_node_role = fo_node_role_name opts, td_controller_role = default_controller_role,
                       td_az_count = fo_az_count opts, td_admin_cidr = fo_admin_cidr opts,
                       td_storage = storage, td_has_efs = has_efs, td_has_lustre = has_lustre,
                       td_egress_mode = resolve_egress_mode (nw_egress (cl_network c))\<rparr>))))"

text \<open>The templates by file name, and the files as \<^verbatim>\<open>GenerateClusterFoundation\<close> returns them.\<close>

definition foundation_templates :: "(string \<times> (template_data \<Rightarrow> hcl list)) list" where
  "foundation_templates =
     [(''main.tf'', main_tf), (''network.tf'', network_tf), (''controller.tf'', controller_tf),
      (''storage.tf'', storage_tf), (''variables.tf'', variables_tf), (''outputs.tf'', outputs_tf)]"

definition foundation_pieces :: "template_data \<Rightarrow> hcl list" where
  "foundation_pieces d = concat (map (\<lambda>(name, t). t d) foundation_templates)"

text \<open>A Go map of files is the list of its entries, here in the order of the templates.\<close>

type_synonym file_list = "(string \<times> string) list"

definition generate_cluster_foundation :: "cluster option \<Rightarrow> foundation_opts \<Rightarrow> go_error + file_list" where
  "generate_cluster_foundation cl opts =
     (case foundation_data cl opts of
        Inl e \<Rightarrow> Inl e
      | Inr d \<Rightarrow> Inr (map (\<lambda>(name, t). (name, render_hcl (t d))) foundation_templates))"

text \<open>
  \<^verbatim>\<open>WriteFiles\<close>: the directory is made, then the files are written in the order of their names;
  the first failing write ends the loop. \<open>write\<close> answers a write attempt, and the disk maps paths to
  contents; the names are listed in the map's order and sorted.
\<close>

type_synonym disk = "string \<rightharpoonup> string"

fun write_loop :: "(string \<Rightarrow> go_error option) \<Rightarrow> string \<Rightarrow> file_list \<Rightarrow> disk \<Rightarrow> go_error option \<times> disk" where
  "write_loop write dir [] disk = (None, disk)"
| "write_loop write dir ((n, content) # fs) disk =
     (case write (join_path [dir, n]) of
        Some e \<Rightarrow> (Some (ErrWrap (''tofu: write '' @ n @ '': '') e), disk)
      | None \<Rightarrow> write_loop write dir fs (disk(join_path [dir, n] \<mapsto> content)))"

definition write_files ::
  "go_error option \<Rightarrow> (string \<Rightarrow> go_error option) \<Rightarrow> string \<Rightarrow> file_list \<Rightarrow> disk \<Rightarrow> go_error option \<times> disk" where
  "write_files mkdir write dir files disk =
     (case mkdir of
        Some e \<Rightarrow> (Some (ErrWrap (''tofu: mkdir '' @ dir @ '': '') e), disk)
      | None \<Rightarrow> write_loop write dir (sort_key fst files) disk)"

end
