(* ===== verification/Tofu_Properties.thy ===== *)
theory Tofu_Properties
  imports Tofu_Generate
begin

text \<open>
  The generated configuration: it refers only to what it declares, it declares nothing twice, a
  valid cluster always has one, and what its storage part leaves open for a brought network.
\<close>

section \<open>Storage entries\<close>

lemma tmpl_fields [simp]:
  "st_index (efs_tmpl name i s) = i" "st_kind (efs_tmpl name i s) = ''efs''"
  "st_mount_path (efs_tmpl name i s) = sg_mount_path s"
  "st_index (fsx_tmpl name i s) = i" "st_kind (fsx_tmpl name i s) = ''fsx-lustre''"
  "st_mount_path (fsx_tmpl name i s) = sg_mount_path s"
  by (simp_all add: efs_tmpl_def fsx_tmpl_def)

lemma build_storage_from_facts:
  "build_storage_from name i ss = Inr (out, efs, lustre) \<Longrightarrow>
     map st_index out = [i..<i + length ss] \<and>
     (\<forall>t\<in>set out. st_kind t = ''efs'' \<or> st_kind t = ''fsx-lustre'') \<and>
     (efs \<longleftrightarrow> (\<exists>t\<in>set out. st_kind t = ''efs'')) \<and>
     (lustre \<longleftrightarrow> (\<exists>t\<in>set out. st_kind t = ''fsx-lustre'')) \<and>
     map st_kind out = map sg_kind ss \<and> map st_mount_path out = map sg_mount_path ss"
proof (induction ss arbitrary: i out efs lustre)
  case (Cons s ss)
  have "[i..<i + length (s # ss)] = i # [Suc i..<Suc i + length ss]" by (simp add: upt_conv_Cons del: upt_Suc)
  moreover obtain out' efs' lustre' where r: "build_storage_from name (Suc i) ss = Inr (out', efs', lustre')"
    using Cons.prems by (auto split: if_splits sum.splits)
  moreover note Cons.IH [OF r]
  moreover have "sg_kind s = ''efs'' \<and> (out, efs, lustre) = (efs_tmpl name i s # out', True, lustre') \<or>
      sg_kind s = ''fsx-lustre'' \<and> (out, efs, lustre) = (fsx_tmpl name i s # out', efs', True)"
    using Cons.prems r by (simp split: if_splits)
  ultimately show ?case by (elim disjE conjE) simp_all
qed simp

lemma build_storage_from_total:
  "list_all storage_ok ss \<Longrightarrow> \<exists>r. build_storage_from name i ss = Inr r"
proof (induction ss arbitrary: i)
  case (Cons s ss)
  then obtain out efs lustre where "build_storage_from name (Suc i) ss = Inr (out, efs, lustre)"
    by (metis list.pred_inject(2) prod_cases3)
  then show ?case using Cons.prems by (auto simp: storage_ok_def)
qed auto

text \<open>The data of a generated layer: what the proofs below need of it.\<close>

definition layer_ok :: "template_data \<Rightarrow> bool" where
  "layer_ok d \<longleftrightarrow>
     distinct (map st_index (td_storage d)) \<and>
     (\<forall>t\<in>set (td_storage d). st_kind t = ''efs'' \<or> st_kind t = ''fsx-lustre'') \<and>
     (td_has_efs d \<longleftrightarrow> (\<exists>t\<in>set (td_storage d). st_kind t = ''efs'')) \<and>
     (td_has_lustre d \<longleftrightarrow> (\<exists>t\<in>set (td_storage d). st_kind t = ''fsx-lustre''))"

lemma foundation_data_facts:
  assumes "foundation_data (Some c) opts = Inr d"
  shows "layer_ok d" "td_cluster d = c"
    and "td_az_count d = fo_az_count (with_defaults opts)"
    and "map st_index (td_storage d) = [0..<length (cl_storage c)]"
    and "map st_kind (td_storage d) = map sg_kind (cl_storage c)"
    and "map st_mount_path (td_storage d) = map sg_mount_path (cl_storage c)"
proof -
  obtain out efs lustre where b: "build_storage_from (cl_name c) 0 (cl_storage c) = Inr (out, efs, lustre)"
    and d: "td_storage d = out" "td_has_efs d = efs" "td_has_lustre d = lustre" "td_cluster d = c"
      "td_az_count d = fo_az_count (with_defaults opts)"
    using assms by (auto simp: foundation_data_def build_storage_def Let_def split: if_splits sum.splits)
  note f = build_storage_from_facts [OF b]
  show "layer_ok d" using f distinct_upt by (simp add: layer_ok_def d)
  show "td_cluster d = c" "td_az_count d = fo_az_count (with_defaults opts)" by (simp_all add: d)
  show "map st_index (td_storage d) = [0..<length (cl_storage c)]"
    "map st_kind (td_storage d) = map sg_kind (cl_storage c)"
    "map st_mount_path (td_storage d) = map sg_mount_path (cl_storage c)"
    using f by (simp_all add: d)
qed

section \<open>The parts put together\<close>

definition fs_address :: "storage_tmpl \<Rightarrow> address" where
  "fs_address s =
     (if st_kind s = ''efs'' then Resource ''aws_efs_file_system'' (''efs_'' @ show_nat (st_index s))
      else Resource ''aws_fsx_lustre_file_system'' (''fsx_'' @ show_nat (st_index s)))"

lemma storage_entry_pieces:
  "st_kind s = ''efs'' \<or> st_kind s = ''fsx-lustre'' \<Longrightarrow> fs_address s \<in> set (declarations (storage_entry d s))"
  "set (references (storage_entry d s)) \<subseteq>
     {fs_address s, Local ''subnet_ids''} \<union>
     (if st_kind s = ''efs'' then {Resource ''aws_security_group'' ''nfs''} else {}) \<union>
     (if st_kind s = ''fsx-lustre'' then {Resource ''aws_security_group'' ''lustre''} else {})"
  "outputs (storage_entry d s) = []"
  by (auto simp: storage_entry_def fs_address_def)

lemma outputs_entry_pieces:
  "declarations (outputs_entry d s) = []"
  "set (references (outputs_entry d s)) \<subseteq> {fs_address s}"
  by (auto simp: outputs_entry_def fs_address_def)

lemma foundation_pieces_files:
  "foundation_pieces d =
     main_tf d @ network_tf d @ controller_tf d @ storage_tf d @ variables_tf d @ outputs_tf d"
  by (simp add: foundation_pieces_def foundation_templates_def)

lemma main_tf_closed:
  "set (references (main_tf d)) \<subseteq> set (declarations (main_tf d))"
  "Resource ''aws_s3_bucket'' ''scripts'' \<in> set (declarations (main_tf d))"
  "Resource ''aws_iam_instance_profile'' ''node'' \<in> set (declarations (main_tf d))"
  "td_manifest_bucket d \<noteq> '''' \<Longrightarrow> Resource ''aws_s3_bucket'' ''manifest'' \<in> set (declarations (main_tf d))"
  by (auto simp: main_tf_def)

lemma network_tf_closed:
  "set (references (network_tf d)) \<subseteq> set (declarations (network_tf d))"
  "{Local ''vpc_id'', Local ''subnet_ids'', Resource ''aws_security_group'' ''compute'',
    Resource ''aws_security_group'' ''controller''} \<subseteq> set (declarations (network_tf d))"
  by (auto simp: network_tf_def)

lemma controller_tf_closed:
  "set (references (controller_tf d)) \<subseteq>
     set (declarations (controller_tf d)) \<union> {Local ''subnet_ids'', Resource ''aws_security_group'' ''controller''}"
  "cs_instance_type (ctl d) \<noteq> '''' \<Longrightarrow> Resource ''aws_instance'' ''controller'' \<in> set (declarations (controller_tf d))"
  "cs_instance_type (ctl d) \<noteq> '''' \<Longrightarrow> cs_standby_host (ctl d) \<noteq> '''' \<Longrightarrow>
     Resource ''aws_instance'' ''controller_standby'' \<in> set (declarations (controller_tf d))"
  by (auto simp: controller_tf_def)

lemma storage_tf_references:
  "set (references (storage_tf d)) \<subseteq>
     {Local ''vpc_id'', Resource ''aws_security_group'' ''compute'', Resource ''aws_security_group'' ''controller''} \<union>
     (\<Union>t\<in>set (td_storage d). set (references (storage_entry d t)))"
  by (auto simp: storage_tf_def pieces_concat)

lemma storage_tf_closed:
  assumes "layer_ok d"
  shows "set (references (storage_tf d)) \<subseteq>
      set (declarations (storage_tf d)) \<union>
      {Local ''vpc_id'', Local ''subnet_ids'', Resource ''aws_security_group'' ''compute'',
       Resource ''aws_security_group'' ''controller''}"
    and "\<forall>t\<in>set (td_storage d). fs_address t \<in> set (declarations (storage_tf d))"
proof -
  let ?D = "set (declarations (storage_tf d))"
  have part: "set (declarations (storage_entry d t)) \<subseteq> ?D" if "t \<in> set (td_storage d)" for t
    using that by (auto simp: storage_tf_def pieces_concat)
  have kind: "st_kind t = ''efs'' \<or> st_kind t = ''fsx-lustre''" if "t \<in> set (td_storage d)" for t
    using assms that by (simp add: layer_ok_def)
  show own: "\<forall>t\<in>set (td_storage d). fs_address t \<in> ?D"
    using part kind storage_entry_pieces(1) by blast
  have nfs: "Resource ''aws_security_group'' ''nfs'' \<in> ?D" if "t \<in> set (td_storage d)" "st_kind t = ''efs''" for t
    using assms that by (auto simp: storage_tf_def layer_ok_def)
  have lustre: "Resource ''aws_security_group'' ''lustre'' \<in> ?D"
    if "t \<in> set (td_storage d)" "st_kind t = ''fsx-lustre''" for t
    using assms that by (auto simp: storage_tf_def layer_ok_def)
  have entry: "set (references (storage_entry d t)) \<subseteq> ?D \<union> {Local ''subnet_ids''}"
    if t: "t \<in> set (td_storage d)" for t
    using storage_entry_pieces(2) [of d t] own nfs [OF t] lustre [OF t] t by (auto split: if_splits)
  then show "set (references (storage_tf d)) \<subseteq> ?D \<union>
      {Local ''vpc_id'', Local ''subnet_ids'', Resource ''aws_security_group'' ''compute'',
       Resource ''aws_security_group'' ''controller''}"
    using storage_tf_references [of d] by blast
qed

lemma outputs_tf_closed:
  "set (references (outputs_tf d)) \<subseteq>
     {Resource ''aws_iam_instance_profile'' ''node'', Resource ''aws_s3_bucket'' ''scripts'', Local ''vpc_id'',
      Local ''subnet_ids'', Resource ''aws_security_group'' ''controller'', Resource ''aws_security_group'' ''compute''} \<union>
     (if td_manifest_bucket d \<noteq> '''' then {Resource ''aws_s3_bucket'' ''manifest''} else {}) \<union>
     (if cs_instance_type (ctl d) \<noteq> '''' then {Resource ''aws_instance'' ''controller''} else {}) \<union>
     (if cs_instance_type (ctl d) \<noteq> '''' \<and> cs_standby_host (ctl d) \<noteq> ''''
      then {Resource ''aws_instance'' ''controller_standby''} else {}) \<union>
     fs_address ` set (td_storage d)"
proof -
  have "(\<Union>t\<in>set (td_storage d). set (references (outputs_entry d t))) \<subseteq> fs_address ` set (td_storage d)"
    using outputs_entry_pieces(2) [of d] by blast
  then show ?thesis by (auto simp: outputs_tf_def pieces_concat)
qed

lemma file_declarations:
  "set (declarations (foundation_pieces d)) =
     set (declarations (main_tf d)) \<union> set (declarations (network_tf d)) \<union> set (declarations (controller_tf d)) \<union>
     set (declarations (storage_tf d))"
proof -
  have "declarations (variables_tf d) = []" "declarations (outputs_tf d) = []"
    by (simp_all add: variables_tf_def outputs_tf_def pieces_concat outputs_entry_pieces)
  then show ?thesis by (simp add: foundation_pieces_files Un_assoc)
qed

lemma outputs_declared:
  assumes "layer_ok d"
  shows "set (references (outputs_tf d)) \<subseteq> set (declarations (foundation_pieces d))"
proof -
  let ?D = "set (declarations (foundation_pieces d))"
  have "Resource ''aws_iam_instance_profile'' ''node'' \<in> ?D" "Resource ''aws_s3_bucket'' ''scripts'' \<in> ?D"
    using main_tf_closed(2,3) [of d] by (simp_all add: file_declarations)
  moreover have "{Local ''vpc_id'', Local ''subnet_ids'', Resource ''aws_security_group'' ''compute'',
      Resource ''aws_security_group'' ''controller''} \<subseteq> ?D"
    using network_tf_closed(2) [of d] by (simp add: file_declarations)
  moreover have "Resource ''aws_s3_bucket'' ''manifest'' \<in> ?D" if "td_manifest_bucket d \<noteq> ''''"
    using main_tf_closed(4) [OF that] by (simp add: file_declarations)
  moreover have "Resource ''aws_instance'' ''controller'' \<in> ?D" if "cs_instance_type (ctl d) \<noteq> ''''"
    using controller_tf_closed(2) [OF that] by (simp add: file_declarations)
  moreover have "Resource ''aws_instance'' ''controller_standby'' \<in> ?D"
    if "cs_instance_type (ctl d) \<noteq> ''''" "cs_standby_host (ctl d) \<noteq> ''''"
    using controller_tf_closed(3) [OF that] by (simp add: file_declarations)
  moreover have "fs_address ` set (td_storage d) \<subseteq> ?D"
    using storage_tf_closed(2) [OF assms] by (auto simp: file_declarations)
  ultimately show ?thesis by (intro subset_trans [OF outputs_tf_closed]) simp
qed

lemma layer_closed:
  assumes "layer_ok d"
  shows "set (references (foundation_pieces d)) \<subseteq> set (declarations (foundation_pieces d))"
proof -
  let ?D = "set (declarations (foundation_pieces d))"
  have net: "{Local ''vpc_id'', Local ''subnet_ids'', Resource ''aws_security_group'' ''compute'',
      Resource ''aws_security_group'' ''controller''} \<subseteq> ?D"
    using network_tf_closed(2) [of d] by (simp add: file_declarations)
  have "set (references (main_tf d)) \<subseteq> ?D" using main_tf_closed(1) [of d] by (auto simp: file_declarations)
  moreover have "set (references (network_tf d)) \<subseteq> ?D"
    using network_tf_closed(1) [of d] by (auto simp: file_declarations)
  moreover have "set (declarations (controller_tf d)) \<subseteq> ?D" "set (declarations (storage_tf d)) \<subseteq> ?D"
    by (auto simp: file_declarations)
  then have "set (references (controller_tf d)) \<subseteq> ?D" "set (references (storage_tf d)) \<subseteq> ?D"
    using controller_tf_closed(1) [of d] storage_tf_closed(1) [OF assms] net by blast+
  moreover have "references (variables_tf d) = []" by (simp add: variables_tf_def)
  ultimately show ?thesis
    using outputs_declared [OF assms] by (simp add: foundation_pieces_files [of d])
qed

section \<open>Names are used once\<close>

lemma distinct_concat_key:
  "distinct (map g xs) \<Longrightarrow> (\<And>x. x \<in> set xs \<Longrightarrow> distinct (f x)) \<Longrightarrow>
     (\<And>x a. x \<in> set xs \<Longrightarrow> a \<in> set (f x) \<Longrightarrow> key a = g x) \<Longrightarrow> distinct (concat (map f xs))"
proof (induction xs)
  case (Cons x xs)
  have "key a \<noteq> g x" if "y \<in> set xs" "a \<in> set (f y)" for y a
    using Cons.prems(1) Cons.prems(3) [of y a] that by (auto simp: image_iff)
  then have "set (f x) \<inter> set (concat (map f xs)) = {}"
    using Cons.prems(3) [of x] by fastforce
  then show ?case using Cons by simp
qed simp

fun address_name :: "address \<Rightarrow> string" where
  "address_name (Resource ty nm) = nm"
| "address_name (DataSource ty nm) = nm"
| "address_name (Local nm) = nm"

definition index_of_name :: "string \<Rightarrow> string" where
  "index_of_name nm = takeWhile is_digit (drop 4 nm)"

lemma digits_of_index [simp]:
  "takeWhile is_digit (show_nat n) = show_nat n"
  "takeWhile is_digit (show_nat n @ CHR ''_'' # w) = show_nat n"
proof -
  have "\<forall>c\<in>set (show_nat n). is_digit c" using show_nat_digits by blast
  moreover have "\<not> is_digit (CHR ''_'')" by (simp add: is_digit_def)
  ultimately show "takeWhile is_digit (show_nat n) = show_nat n"
    "takeWhile is_digit (show_nat n @ CHR ''_'' # w) = show_nat n"
    by (simp_all add: takeWhile_append takeWhile_eq_all_conv)
qed

lemma distinct_indices: "distinct (map st_index ts) \<Longrightarrow> distinct (map (\<lambda>t. show_nat (st_index t)) ts)"
  using show_nat_inj by (auto simp: distinct_map inj_on_def)

lemma storage_entries_distinct:
  assumes "layer_ok d"
  shows "distinct (concat (map (\<lambda>t. declarations (storage_entry d t)) (td_storage d)))"
    and "distinct (concat (map (\<lambda>t. outputs (outputs_entry d t)) (td_storage d)))"
proof -
  have ix: "distinct (map (\<lambda>t. show_nat (st_index t)) (td_storage d))"
    using assms by (intro distinct_indices) (simp add: layer_ok_def)
  show "distinct (concat (map (\<lambda>t. declarations (storage_entry d t)) (td_storage d)))"
    by (rule distinct_concat_key [OF ix, where key = "\<lambda>a. index_of_name (address_name a)"])
      (auto simp: storage_entry_def index_of_name_def split: if_splits)
  show "distinct (concat (map (\<lambda>t. outputs (outputs_entry d t)) (td_storage d)))"
    by (rule distinct_concat_key [OF ix, where key = index_of_name])
      (auto simp: outputs_entry_def index_of_name_def split: if_splits)
qed

fun address_type :: "address \<Rightarrow> string" where
  "address_type (Resource ty nm) = ty"
| "address_type (DataSource ty nm) = ty"
| "address_type (Local nm) = '''' "

definition storage_types :: "string set" where
  "storage_types = {''aws_efs_file_system'', ''aws_efs_mount_target'', ''aws_fsx_lustre_file_system'',
     ''aws_fsx_data_repository_association''}"

lemma storage_entry_types:
  "a \<in> set (declarations (storage_entry d t)) \<Longrightarrow> address_type a \<in> storage_types"
  by (auto simp: storage_entry_def storage_types_def split: if_splits)

definition fixed_address :: "address \<Rightarrow> bool" where
  "fixed_address a \<longleftrightarrow>
     address_type a \<notin> storage_types \<and> a \<noteq> Resource ''aws_security_group'' ''nfs'' \<and>
     a \<noteq> Resource ''aws_security_group'' ''lustre''"

lemma file_distinct:
  "distinct (declarations (main_tf d))" "distinct (declarations (network_tf d))"
  "distinct (declarations (controller_tf d))"
  by (simp_all add: main_tf_def network_tf_def controller_tf_def)

lemma file_disjoint:
  "set (declarations (main_tf d)) \<inter> set (declarations (network_tf d)) = {}"
  "set (declarations (main_tf d)) \<inter> set (declarations (controller_tf d)) = {}"
  "set (declarations (network_tf d)) \<inter> set (declarations (controller_tf d)) = {}"
  by (simp_all add: main_tf_def network_tf_def controller_tf_def)

lemma file_fixed:
  "\<forall>a\<in>set (declarations (main_tf d)). fixed_address a"
  "\<forall>a\<in>set (declarations (network_tf d)). fixed_address a"
  "\<forall>a\<in>set (declarations (controller_tf d)). fixed_address a"
  by (simp_all add: main_tf_def network_tf_def controller_tf_def fixed_address_def storage_types_def)

lemma fixed_declarations:
  "distinct (declarations (main_tf d @ network_tf d @ controller_tf d))"
  "\<forall>a\<in>set (declarations (main_tf d @ network_tf d @ controller_tf d)). fixed_address a"
  using file_distinct [of d] file_disjoint [of d] file_fixed [of d] by (auto simp: Int_Un_distrib)

text \<open>The outputs: a fixed part, and what the storage entries add.\<close>

definition fixed_outputs :: "template_data \<Rightarrow> string list" where
  "fixed_outputs d =
     [''node_instance_profile_arn'', ''scripts_bucket''] @
     (if td_manifest_bucket d \<noteq> '''' then [''manifest_bucket''] else []) @
     [''vpc_id'', ''subnet_ids'', ''controller_sg_id'', ''compute_sg_id''] @
     (if cs_instance_type (ctl d) \<noteq> '''' then
        [''controller_private_ip'', ''controller_instance_id''] @
        (if cs_standby_host (ctl d) \<noteq> ''''
         then [''controller_standby_private_ip'', ''controller_standby_instance_id''] else [])
      else [])"

definition entry_outputs :: "template_data \<Rightarrow> string list" where
  "entry_outputs d = concat (map (\<lambda>t. outputs (outputs_entry d t)) (td_storage d))"

lemma layer_outputs: "outputs (foundation_pieces d) = fixed_outputs d @ entry_outputs d"
proof -
  have "outputs (main_tf d) = []" "outputs (network_tf d) = []" "outputs (controller_tf d) = []"
    "outputs (storage_tf d) = []" "outputs (variables_tf d) = []"
    by (simp_all add: main_tf_def network_tf_def controller_tf_def storage_tf_def variables_tf_def
        pieces_concat storage_entry_pieces)
  then show ?thesis
    by (simp add: foundation_pieces_files outputs_tf_def fixed_outputs_def entry_outputs_def pieces_concat comp_def)
qed

lemma fixed_outputs_plain:
  "distinct (fixed_outputs d)"
  "nm \<in> set (fixed_outputs d) \<Longrightarrow> take 4 nm \<noteq> ''efs_'' \<and> take 4 nm \<noteq> ''fsx_''"
  by (auto simp: fixed_outputs_def split: if_splits)

lemma entry_outputs_prefix:
  "nm \<in> set (entry_outputs d) \<Longrightarrow> take 4 nm = ''efs_'' \<or> take 4 nm = ''fsx_''"
  by (auto simp: entry_outputs_def outputs_entry_def split: if_splits)

lemma layer_distinct:
  assumes "layer_ok d"
  shows "distinct (declarations (foundation_pieces d))" "distinct (outputs (foundation_pieces d))"
proof -
  let ?E = "concat (map (\<lambda>t. declarations (storage_entry d t)) (td_storage d))"
  let ?G = "(if td_has_efs d then [Resource ''aws_security_group'' ''nfs''] else []) @
    (if td_has_lustre d then [Resource ''aws_security_group'' ''lustre''] else [])"
  have decl: "declarations (storage_tf d) = (if td_storage d = [] then [] else ?G @ ?E)"
    by (simp add: storage_tf_def pieces_concat comp_def)
  have none: "declarations (variables_tf d) = []" "declarations (outputs_tf d) = []"
    by (simp_all add: variables_tf_def outputs_tf_def pieces_concat outputs_entry_pieces)
  have E: "\<forall>a\<in>set ?E. address_type a \<in> storage_types" using storage_entry_types by auto
  have "''aws_security_group'' \<notin> storage_types" by (simp add: storage_types_def)
  with E have "Resource ''aws_security_group'' nm \<notin> set ?E" for nm by (metis address_type.simps(1))
  then have "distinct (?G @ ?E)" using storage_entries_distinct(1) [OF assms] by (simp del: set_concat)
  moreover have "set (declarations (main_tf d @ network_tf d @ controller_tf d)) \<inter> set (?G @ ?E) = {}"
    using fixed_declarations(2) [of d] E by (auto simp: fixed_address_def split: if_splits)
  ultimately show "distinct (declarations (foundation_pieces d))"
    using fixed_declarations(1) [of d] unfolding foundation_pieces_files
    by (simp only: pieces_append decl none distinct_append append_assoc [symmetric] append_Nil2) (simp only: append_assoc split: if_splits, auto)
  show "distinct (outputs (foundation_pieces d))"
    using storage_entries_distinct(2) [OF assms] fixed_outputs_plain [where d = d] entry_outputs_prefix [where d = d]
    unfolding layer_outputs distinct_append entry_outputs_def [symmetric] by blast
qed

section \<open>Properties\<close>

definition demo_opts :: foundation_opts where
  "demo_opts = \<lparr>fo_scripts_bucket = ''hpc-q0-scripts'', fo_manifest_bucket = '''', fo_node_role_name = '''',
     fo_az_count = 0, fo_admin_cidr = ''''\<rparr>"

text \<open>A cluster on a brought network with a single subnet.\<close>

definition demo_byo :: cluster where
  "demo_byo = demo_cluster\<lparr>cl_network := \<lparr>nw_byo = True, nw_vpc_id = ''vpc-1'', nw_subnet_ids = [''subnet-1''],
     nw_cidr = '''', nw_egress = ''''\<rparr>\<rparr>"

definition demo_layer :: "cluster \<Rightarrow> template_data" where
  "demo_layer c = (case foundation_data (Some c) demo_opts of Inr d \<Rightarrow> d)"

lemma demo_layer_data:
  "foundation_data (Some demo_cluster) demo_opts = Inr (demo_layer demo_cluster)"
  "foundation_data (Some demo_byo) demo_opts = Inr (demo_layer demo_byo)"
  by (simp_all add: demo_layer_def foundation_data_def demo_opts_def demo_byo_def demo_cluster_def build_storage_def Let_def)

text \<open>
  C21. The generated configuration is closed: every resource, data source and local value that any of its
  files refers to is declared in one of them, for a brought or a generated network, every egress
  mode, with and without controller, standby and manifest bucket, and every list of storage entries.
\<close>

theorem generated_references_declared:
  "foundation_data (Some c) opts = Inr d \<longrightarrow>
     set (references (foundation_pieces d)) \<subseteq> set (declarations (foundation_pieces d))"
  using foundation_data_facts(1) layer_closed by blast

lemma generated_references_declared_witness:
  "set (references (foundation_pieces (demo_layer demo_cluster))) \<subseteq>
     set (declarations (foundation_pieces (demo_layer demo_cluster)))"
  using generated_references_declared [of demo_cluster demo_opts "demo_layer demo_cluster"] demo_layer_data by simp

text \<open>
  No address and no output is declared twice in the generated configuration, whatever the storage
  entries: the index in the name of an entry's resources and outputs keeps the entries apart.
\<close>

theorem generated_names_unique:
  "foundation_data (Some c) opts = Inr d \<longrightarrow>
     distinct (declarations (foundation_pieces d)) \<and> distinct (outputs (foundation_pieces d))"
  using foundation_data_facts(1) layer_distinct by blast

lemma generated_names_unique_witness:
  "distinct (declarations (foundation_pieces (demo_layer demo_cluster))) \<and>
   distinct (outputs (foundation_pieces (demo_layer demo_cluster)))"
  using generated_names_unique [of demo_cluster demo_opts "demo_layer demo_cluster"] demo_layer_data by simp

lemma valid_cluster_data:
  assumes "validate_cluster c = None" "fo_scripts_bucket opts \<noteq> ''''"
  obtains d where "foundation_data (Some c) opts = Inr d"
proof -
  have "list_all storage_ok (cl_storage c)"
    using assms(1) by (simp add: validate_cluster_None_iff cluster_ok_def)
  then obtain out efs lustre where "build_storage c = Inr (out, efs, lustre)"
    using build_storage_from_total [of "cl_storage c" "cl_name c" 0] by (auto simp: build_storage_def)
  then show thesis using assms(2) that by (simp add: foundation_data_def Let_def)
qed

definition foundation_names :: "string list" where
  "foundation_names =
     [''main.tf'', ''network.tf'', ''controller.tf'', ''storage.tf'', ''variables.tf'', ''outputs.tf'']"

lemma generated_file_names:
  assumes "foundation_data cl opts = Inr d"
  shows "\<exists>files. generate_cluster_foundation cl opts = Inr files \<and> map fst files = foundation_names \<and>
    map snd files = map (\<lambda>(name, t). render_hcl (t d)) foundation_templates"
  using assms
  by (simp add: generate_cluster_foundation_def foundation_templates_def foundation_names_def)



lemma efs_mount_count:
  "Line (''  count           = '' @ show_int (td_az_count d)) \<in> set (efs_mount d s)"
  by (simp add: efs_mount_def)

text \<open>
  The number of mount targets of a shared file system is the zone count of the options, on a brought
  network too: the subnets that the targets index are the brought ones, whatever their number.
\<close>

theorem byo_mount_targets_follow_az_count:
  assumes "foundation_data (Some c) opts = Inr d" "nw_byo (cl_network c)"
    and "t \<in> set (td_storage d)" "st_kind t = ''efs''"
  shows "Line (''  count           = '' @ show_int (fo_az_count (with_defaults opts))) \<in> set (storage_tf d) \<and>
    Raw (join_with '', '' (map quoted (nw_subnet_ids (cl_network c)))) \<in> set (network_tf d)"
proof -
  note f = foundation_data_facts(2,3) [OF assms(1)]
  have "set (storage_entry d t) \<subseteq> set (storage_tf d)" using assms(3) by (auto simp: storage_tf_def)
  moreover have "set (efs_mount d t) \<subseteq> set (storage_entry d t)" using assms(4) by (simp add: storage_entry_def)
  ultimately show ?thesis
    using efs_mount_count [of d t] f assms(2) by (auto simp: network_tf_def subnet_list_def)
qed

lemma byo_mount_targets_follow_az_count_witness:
  "validate_cluster demo_byo = None \<and>
   Line ''  count           = 2'' \<in> set (storage_tf (demo_layer demo_byo)) \<and>
   Raw (quoted ''subnet-1'') \<in> set (network_tf (demo_layer demo_byo))"
proof -
  let ?t = "efs_tmpl ''hpc'' 0 (hd (cl_storage demo_byo))"
  have t: "?t \<in> set (td_storage (demo_layer demo_byo))"
    by (simp add: demo_layer_def foundation_data_def demo_opts_def demo_byo_def demo_cluster_def build_storage_def Let_def)
  have o: "fo_az_count (with_defaults demo_opts) = 2"
    by (simp add: with_defaults_def demo_opts_def default_az_count_def)
  have n: "nw_byo (cl_network demo_byo)" "nw_subnet_ids (cl_network demo_byo) = [''subnet-1'']"
    by (simp_all add: demo_byo_def)
  have s: "show_int 2 = ''2''" by code_simp
  have "validate_cluster demo_byo = None" by code_simp
  then show ?thesis
    using byo_mount_targets_follow_az_count [OF demo_layer_data(2) n(1) t] n o s by simp
qed

section \<open>Writing the files\<close>

lemma split_on_append:
  "split_on c (xs @ c # ys) = split_on c xs @ split_on c ys"
  by (induction xs) (auto split: list.splits)

definition file_name :: "string \<Rightarrow> bool" where
  "file_name n \<longleftrightarrow> plain_element n \<and> n \<noteq> ''.'' \<and> n \<noteq> ''..''"

lemma clean_elements_file:
  "file_name n \<Longrightarrow> clean_elements r acc (es @ [n]) = clean_elements r acc es @ [n]"
  by (induction r acc es rule: clean_elements.induct)
    (auto simp: file_name_def plain_element_def split: list.splits)

lemma join_path_file:
  assumes "dir \<noteq> ''''" "file_name n"
  shows "join_path [dir, n] = (if is_rooted dir then ''/'' else '''') @ join_with ''/'' (path_elements dir @ [n])"
proof -
  have n: "n \<noteq> ''''" "CHR ''/'' \<notin> set n" using assms(2) by (simp_all add: file_name_def plain_element_def)
  have "is_rooted (dir @ ''/'' @ n) = is_rooted dir"
    using assms(1) by (cases dir) (simp_all add: is_rooted_def has_prefix_def)
  moreover have "path_elements (dir @ ''/'' @ n) = path_elements dir @ [n]"
    using clean_elements_file [OF assms(2)] n calculation by (simp add: path_elements_def split_on_append)
  moreover have "join_path [dir, n] = clean_path (dir @ ''/'' @ n)"
    using assms(1) by (simp add: join_path_def)
  moreover have "join_with ''/'' (path_elements dir @ [n]) \<noteq> ''''"
    using n path_elements_plain [of _ dir]
    by (subst join_with_Nil_iff) (auto simp: plain_element_def)
  ultimately show ?thesis by (auto simp: clean_path_def unclean_path_def Let_def)
qed

lemma join_path_file_inj:
  assumes "dir \<noteq> ''''" "file_name n" "file_name m" "join_path [dir, n] = join_path [dir, m]"
  shows "n = m"
proof -
  have "join_with ''/'' (path_elements dir @ [n]) = join_with ''/'' (path_elements dir @ [m])"
    using assms by (simp add: join_path_file)
  then have "path_elements dir @ [n] = path_elements dir @ [m]"
    by (rule join_elements_inj [rotated 2]) (use assms path_elements_plain in \<open>auto simp: file_name_def\<close>)
  then show ?thesis by simp
qed

definition paths_of :: "string \<Rightarrow> file_list \<Rightarrow> string set" where
  "paths_of dir fs = (\<lambda>n. join_path [dir, n]) ` set (map fst fs)"

definition on_disk :: "string \<Rightarrow> file_list \<Rightarrow> disk \<Rightarrow> bool" where
  "on_disk dir fs d \<longleftrightarrow> (\<forall>f\<in>set fs. d (join_path [dir, fst f]) = Some (snd f))"

definition same_elsewhere :: "string set \<Rightarrow> disk \<Rightarrow> disk \<Rightarrow> bool" where
  "same_elsewhere ps d d' \<longleftrightarrow> (\<forall>p. p \<notin> ps \<longrightarrow> d' p = d p)"

lemma write_loop_all:
  assumes "dir \<noteq> ''''" "distinct (map fst fs)" "\<forall>n\<in>set (map fst fs). file_name n"
  shows "\<exists>d'. write_loop (\<lambda>_. None) dir fs d = (None, d') \<and> on_disk dir fs d' \<and> same_elsewhere (paths_of dir fs) d d'"
  using assms(2,3)
proof (induction fs arbitrary: d)
  case (Cons f fs)
  let ?p = "join_path [dir, fst f]" and ?d = "d(join_path [dir, fst f] \<mapsto> snd f)"
  have "distinct (map fst fs)" "\<forall>n\<in>set (map fst fs). file_name n" using Cons.prems by simp_all
  from Cons.IH [OF this, of ?d] obtain d' where d:
    "write_loop (\<lambda>_. None) dir fs ?d = (None, d')" "on_disk dir fs d'" "same_elsewhere (paths_of dir fs) ?d d'"
    by blast
  have "?p \<notin> paths_of dir fs"
  proof
    assume "?p \<in> paths_of dir fs"
    then obtain n where n: "n \<in> set (map fst fs)" "?p = join_path [dir, n]" by (auto simp: paths_of_def)
    then have "fst f = n" using join_path_file_inj [OF assms(1) _ _ n(2)] Cons.prems(2) by simp
    then show False using n(1) Cons.prems(1) by simp
  qed
  then have "d' ?p = Some (snd f)" using d(3) by (simp add: same_elsewhere_def)
  then have "on_disk dir (f # fs) d'" using d(2) by (simp add: on_disk_def)
  moreover have "same_elsewhere (paths_of dir (f # fs)) d d'"
    using d(3) by (simp add: same_elsewhere_def paths_of_def)
  moreover have "write_loop (\<lambda>_. None) dir (f # fs) d = (None, d')" using d(1) by (cases f) simp
  ultimately show ?case by blast
qed (simp add: on_disk_def same_elsewhere_def)

lemma write_files_all:
  assumes "dir \<noteq> ''''" "distinct (map fst fs)" "\<forall>n\<in>set (map fst fs). file_name n"
  shows "\<exists>d'. write_files None (\<lambda>_. None) dir fs d = (None, d') \<and> on_disk dir fs d' \<and> same_elsewhere (paths_of dir fs) d d'"
proof -
  have "distinct (map fst (sort_key fst fs))" using assms(2) by (simp add: distinct_map distinct_sort)
  from write_loop_all [OF assms(1) this, of d] assms(3) show ?thesis
    by (simp add: write_files_def on_disk_def paths_of_def)
qed

lemma foundation_names_plain: "n \<in> set foundation_names \<Longrightarrow> file_name n" "distinct foundation_names"
  by (auto simp: foundation_names_def file_name_def plain_element_def)

lemma written_files:
  assumes "generate_cluster_foundation cl opts = Inr files" "dir \<noteq> ''''"
  shows "\<exists>d'. write_files None (\<lambda>_. None) dir files d = (None, d') \<and> map fst files = foundation_names \<and>
    on_disk dir files d' \<and> same_elsewhere (paths_of dir files) d d'"
proof -
  obtain td where "foundation_data cl opts = Inr td"
    using assms(1) by (auto simp: generate_cluster_foundation_def split: sum.splits)
  then have n: "map fst files = foundation_names" using generated_file_names [of cl opts td] assms(1) by auto
  show ?thesis using write_files_all [OF assms(2), of files d] foundation_names_plain unfolding n by blast
qed

text \<open>
  What is generated is what is on disk: when no write fails, each of the six files is under the work
  directory with its rendered text, and nothing else on the disk has changed.
\<close>

theorem generated_files_written:
  assumes "generate_cluster_foundation cl opts = Inr files" "dir \<noteq> ''''"
  shows "\<exists>d'. write_files None (\<lambda>_. None) dir files d = (None, d') \<and> map fst files = foundation_names \<and>
    on_disk dir files d' \<and> same_elsewhere (paths_of dir files) d d'"
  using assms by (rule written_files)

lemma generated_files_written_witness:
  "\<exists>files d'. generate_cluster_foundation (Some demo_cluster) demo_opts = Inr files \<and>
     write_files None (\<lambda>_. None) ''.q0/tofu/cluster'' files Map.empty = (None, d') \<and> on_disk ''.q0/tofu/cluster'' files d'"
proof -
  obtain files where f: "generate_cluster_foundation (Some demo_cluster) demo_opts = Inr files"
    using generated_file_names [OF demo_layer_data(1)] by blast
  show ?thesis using generated_files_written [OF f, of "''.q0/tofu/cluster''" Map.empty] f by auto
qed

end
