(* ===== verification/Tofu_Run.thy ===== *)
theory Tofu_Run
  imports Tofu_Generate
begin

text \<open>
  \<^verbatim>\<open>internal/tofu/backend.go\<close> and \<^verbatim>\<open>executor.go\<close>: the state bucket and the lock table, and the runs of
  the \<^verbatim>\<open>tofu\<close> binary. S3, DynamoDB and the binary are parameters; what is modelled is what the code
  asks of them and what it makes of their answers. The world \<open>'w\<close> is whatever the services keep.
\<close>

section \<open>The state backend\<close>

record backend_config =
  bc_bucket :: string
  bc_lock_table :: string
  bc_region :: string
  bc_key :: string

definition init_args :: "backend_config \<Rightarrow> string list" where
  "init_args b =
     [''bucket='' @ bc_bucket b, ''key='' @ bc_key b, ''region='' @ bc_region b,
      ''dynamodb_table='' @ bc_lock_table b]"

definition render_backend_hcl :: string where
  "render_backend_hcl = ''terraform {'' @ nl @ ''  backend '' @ quoted ''s3'' @ '' {}'' @ nl @ ''}'' @ nl"

text \<open>The input of \<^verbatim>\<open>CreateBucket\<close>: the location constraint is a pointer.\<close>

record create_bucket_input =
  cb_bucket :: string
  cb_location :: "string option"

record create_table_input =
  ct_table_name :: string
  ct_billing_mode :: string
  ct_attributes :: "(string \<times> string) list"
  ct_key_schema :: "(string \<times> string) list"

text \<open>The four calls the bootstrap needs, on a world; a call that changes nothing returns no world.\<close>

record 'w backend_api =
  head_bucket :: "string \<Rightarrow> 'w \<Rightarrow> go_error option"
  create_bucket :: "create_bucket_input \<Rightarrow> 'w \<Rightarrow> go_error option \<times> 'w"
  describe_table :: "string \<Rightarrow> 'w \<Rightarrow> go_error option"
  create_table :: "create_table_input \<Rightarrow> 'w \<Rightarrow> go_error option \<times> 'w"

definition bucket_input :: "string \<Rightarrow> string \<Rightarrow> create_bucket_input" where
  "bucket_input bucket region =
     \<lparr>cb_bucket = bucket, cb_location = (if region \<noteq> ''us-east-1'' then Some region else None)\<rparr>"

definition table_input :: "string \<Rightarrow> create_table_input" where
  "table_input table =
     \<lparr>ct_table_name = table, ct_billing_mode = ''PAY_PER_REQUEST'', ct_attributes = [(''LockID'', ''S'')],
      ct_key_schema = [(''LockID'', ''HASH'')]\<rparr>"

definition ensure_bucket :: "'w backend_api \<Rightarrow> string \<Rightarrow> string \<Rightarrow> 'w \<Rightarrow> go_error option \<times> 'w" where
  "ensure_bucket api bucket region w =
     (case head_bucket api bucket w of
        None \<Rightarrow> (None, w)
      | Some err \<Rightarrow>
          (if \<not> is_sentinel S3NotFound err then
             (Some (ErrWrap (''tofu: head state bucket '' @ bucket @ '': '') err), w)
           else (case create_bucket api (bucket_input bucket region) w of
                   (Some err, w) \<Rightarrow> (Some (ErrWrap (''tofu: create state bucket '' @ bucket @ '': '') err), w)
                 | (None, w) \<Rightarrow> (None, w))))"

text \<open>
  \<^verbatim>\<open>errors.As\<close> for \<^verbatim>\<open>*ddbtypes.ResourceNotFoundException\<close>: the SDK decodes an API error of this
  code to that type.
\<close>

definition is_table_missing :: "go_error \<Rightarrow> bool" where
  "is_table_missing err = (case as_api_err err of Some (code, _) \<Rightarrow> code = ''ResourceNotFoundException'' | None \<Rightarrow> False)"

definition ensure_lock_table :: "'w backend_api \<Rightarrow> string \<Rightarrow> 'w \<Rightarrow> go_error option \<times> 'w" where
  "ensure_lock_table api table w =
     (case describe_table api table w of
        None \<Rightarrow> (None, w)
      | Some err \<Rightarrow>
          (if \<not> is_table_missing err then
             (Some (ErrWrap (''tofu: describe lock table '' @ table @ '': '') err), w)
           else (case create_table api (table_input table) w of
                   (Some err, w) \<Rightarrow> (Some (ErrWrap (''tofu: create lock table '' @ table @ '': '') err), w)
                 | (None, w) \<Rightarrow> (None, w))))"

definition ensure_backend :: "'w backend_api \<Rightarrow> backend_config \<Rightarrow> 'w \<Rightarrow> go_error option \<times> 'w" where
  "ensure_backend api cfg w =
     (if bc_bucket cfg = '''' \<or> bc_lock_table cfg = '''' \<or> bc_region cfg = '''' then
        (Some (ErrText ''tofu: backend requires bucket, lock table, and region''), w)
      else (case ensure_bucket api (bc_bucket cfg) (bc_region cfg) w of
              (Some err, w) \<Rightarrow> (Some err, w)
            | (None, w) \<Rightarrow> ensure_lock_table api (bc_lock_table cfg) w))"

text \<open>
  What S3 and DynamoDB promise, as the documentation states it: a bucket that has been created is
  found, a table that has been created is found, and creating the one leaves the other's answers
  alone.
\<close>

definition backend_contract :: "'w backend_api \<Rightarrow> bool" where
  "backend_contract api \<longleftrightarrow>
     (\<forall>b w w'. create_bucket api b w = (None, w') \<longrightarrow> head_bucket api (cb_bucket b) w' = None) \<and>
     (\<forall>t w w'. create_table api t w = (None, w') \<longrightarrow>
        describe_table api (ct_table_name t) w' = None \<and> (\<forall>n. head_bucket api n w' = head_bucket api n w))"

locale state_backend =
  fixes api :: "'w backend_api"
  assumes contract: "backend_contract api"
begin

lemma bucket_found:
  assumes "ensure_bucket api bucket region w = (None, w')"
  shows "head_bucket api bucket w' = None"
proof -
  have "cb_bucket (bucket_input bucket region) = bucket" by (simp add: bucket_input_def)
  then show ?thesis
    using assms contract
    by (fastforce simp: ensure_bucket_def backend_contract_def split: option.splits if_splits prod.splits)
qed

lemma lock_table_found:
  assumes "ensure_lock_table api table w = (None, w')"
  shows "describe_table api table w' = None" "head_bucket api n w' = head_bucket api n w"
proof -
  have "ct_table_name (table_input table) = table" by (simp add: table_input_def)
  then have "describe_table api table w' = None \<and> head_bucket api n w' = head_bucket api n w"
    using assms contract
    by (fastforce simp: ensure_lock_table_def backend_contract_def split: option.splits if_splits prod.splits)
  then show "describe_table api table w' = None" "head_bucket api n w' = head_bucket api n w" by blast+
qed

lemma backend_found:
  assumes "ensure_backend api cfg w = (None, w')"
  shows "head_bucket api (bc_bucket cfg) w' = None \<and> describe_table api (bc_lock_table cfg) w' = None"
  using assms bucket_found lock_table_found
  by (fastforce simp: ensure_backend_def split: if_splits prod.splits option.splits)

lemma ensured_again:
  assumes "ensure_backend api cfg w = (None, w')"
  shows "ensure_backend api cfg w' = (None, w')"
proof -
  have "\<not> (bc_bucket cfg = '''' \<or> bc_lock_table cfg = '''' \<or> bc_region cfg = '''')"
    using assms by (auto simp: ensure_backend_def split: if_splits)
  then show ?thesis
    using backend_found [OF assms] by (simp add: ensure_backend_def ensure_bucket_def ensure_lock_table_def)
qed

end

lemma ensure_backend_existing:
  "head_bucket api (bc_bucket cfg) w = None \<Longrightarrow> describe_table api (bc_lock_table cfg) w = None \<Longrightarrow>
     snd (ensure_backend api cfg w) = w"
  by (simp add: ensure_backend_def ensure_bucket_def ensure_lock_table_def)

section \<open>The binary\<close>

text \<open>The binary on the path, \<^verbatim>\<open>tofu\<close> before \<^verbatim>\<open>terraform\<close>; \<open>look\<close> is \<^verbatim>\<open>exec.LookPath\<close>.\<close>

definition new_executor :: "(string \<Rightarrow> string option) \<Rightarrow> go_error + string" where
  "new_executor look =
     (case find_some look [''tofu'', ''terraform''] of
        Some path \<Rightarrow> Inr path
      | None \<Rightarrow> Inl (ErrText ''tofu: neither `tofu` nor `terraform` found on PATH''))"

text \<open>What running a command returns: its output, and its error with the exit code if it has one.\<close>

type_synonym exec_reply = "string \<times> (go_error \<times> int option) option"
type_synonym tofu_env = "string list \<Rightarrow> exec_reply"

definition tofu_init_command :: "string \<Rightarrow> backend_config \<Rightarrow> string list" where
  "tofu_init_command dir b =
     [''-chdir='' @ dir, ''init'', ''-input=false''] @ map (\<lambda>kv. ''-backend-config='' @ kv) (init_args b)"

definition tofu_plan_command :: "string \<Rightarrow> string list" where
  "tofu_plan_command dir = [''-chdir='' @ dir, ''plan'', ''-input=false'', ''-detailed-exitcode'']"

definition tofu_apply_command :: "string \<Rightarrow> string list" where
  "tofu_apply_command dir = [''-chdir='' @ dir, ''apply'', ''-input=false'', ''-auto-approve'']"

definition tofu_output_command :: "string \<Rightarrow> string list" where
  "tofu_output_command dir = [''-chdir='' @ dir, ''output'', ''-json'']"

definition tofu_run :: "tofu_env \<Rightarrow> string list \<Rightarrow> go_error option" where
  "tofu_run env args =
     (case env args of
        (out, None) \<Rightarrow> None
      | (out, Some (err, code)) \<Rightarrow> Some (ErrWrap (''tofu ['' @ join_with '' '' args @ '']: '') err))"

record plan_summary =
  pl_changes_pending :: bool
  pl_output :: string

definition tofu_plan :: "tofu_env \<Rightarrow> string \<Rightarrow> plan_summary \<times> go_error option" where
  "tofu_plan env dir =
     (case env (tofu_plan_command dir) of
        (out, None) \<Rightarrow> (\<lparr>pl_changes_pending = False, pl_output = out\<rparr>, None)
      | (out, Some (err, code)) \<Rightarrow>
          (if code = Some 2 then (\<lparr>pl_changes_pending = True, pl_output = out\<rparr>, None)
           else (\<lparr>pl_changes_pending = False, pl_output = out\<rparr>,
                 Some (ErrJoin [ErrWrap ''tofu plan: '' err, ErrText out]))))"

text \<open>
  \<^verbatim>\<open>parseOutputJSON\<close>. The decoder yields the raw encoding of each output's value, and \<open>unquote\<close> the
  text of an encoding that is a JSON string.
\<close>

record json_decoder =
  jd_values :: "string \<Rightarrow> go_error + (string \<rightharpoonup> string)"
  jd_unquote :: "string \<Rightarrow> string option"

definition parse_output_json :: "json_decoder \<Rightarrow> string \<Rightarrow> go_error + (string \<rightharpoonup> string)" where
  "parse_output_json json data =
     (if data = '''' then Inr Map.empty
      else (case jd_values json data of
              Inl err \<Rightarrow> Inl (ErrWrap ''tofu: parse output json: '' err)
            | Inr raw \<Rightarrow>
                Inr (\<lambda>name. map_option
                  (\<lambda>v. case jd_unquote json v of Some s \<Rightarrow> s | None \<Rightarrow> v) (raw name))))"

definition tofu_output :: "json_decoder \<Rightarrow> tofu_env \<Rightarrow> string \<Rightarrow> go_error + (string \<rightharpoonup> string)" where
  "tofu_output json env dir =
     (case env (tofu_output_command dir) of
        (out, Some _) \<Rightarrow> (case parse_output_json json out of Inr m \<Rightarrow> Inr m | Inl _ \<Rightarrow> Inr Map.empty)
      | (out, None) \<Rightarrow> parse_output_json json out)"

section \<open>Properties\<close>


text \<open>An account, by what it keeps: the buckets with their locations, and the tables.\<close>

type_synonym account = "(string \<times> string option) list \<times> string list"

definition account_api :: "account backend_api" where
  "account_api =
     \<lparr>head_bucket = (\<lambda>b (bs, ts). if b \<in> set (map fst bs) then None else Some S3NotFound),
      create_bucket = (\<lambda>i (bs, ts). (None, ((cb_bucket i, cb_location i) # bs, ts))),
      describe_table = (\<lambda>t (bs, ts). if t \<in> set ts then None else Some (ApiErr ''ResourceNotFoundException'' t)),
      create_table = (\<lambda>i (bs, ts). (None, (bs, ct_table_name i # ts)))\<rparr>"

lemma account_contract: "backend_contract account_api"
  by (auto simp: backend_contract_def account_api_def)

interpretation account: state_backend account_api
  by unfold_locales (rule account_contract)

definition demo_backend :: backend_config where
  "demo_backend = \<lparr>bc_bucket = ''hpc-q0-state'', bc_lock_table = ''hpc-q0-lock'', bc_region = ''eu-west-1'',
     bc_key = ''cluster/terraform.tfstate''\<rparr>"


text \<open>
  A plan fails only when the binary fails with an exit code other than two: exit code two is
  reported as pending changes, success as none.
\<close>

theorem plan_exit_codes:
  "snd (tofu_plan env dir) = None \<longleftrightarrow>
     (case snd (env (tofu_plan_command dir)) of None \<Rightarrow> True | Some (err, code) \<Rightarrow> code = Some 2)"
  "pl_changes_pending (fst (tofu_plan env dir)) \<longleftrightarrow>
     (\<exists>err. snd (env (tofu_plan_command dir)) = Some (err, Some 2))"
  by (auto simp: tofu_plan_def split: prod.splits option.splits)

end
