(* ===== verification/Asbb_Client.thy ===== *)
theory Asbb_Client
  imports Slurm_World
begin

text \<open>
  \<^verbatim>\<open>internal/asbb/client.go\<close>: the client of the budget service, which is the admitter and the hold
  closer of the bridge. A request body is its JSON object, key by key; the HTTP client and the
  decoder of a response body are parameters. Costs are exact rationals where the code has floats.
\<close>

section \<open>The wire\<close>

datatype json = JString string | JNumber rat | JInt int

type_synonym json_object = "(string \<times> json) list"

text \<open>The object of an admission; \<^verbatim>\<open>omitempty\<close> drops an empty capacity model.\<close>

definition fleet_admission_request :: "admission_request \<Rightarrow> json_object" where
  "fleet_admission_request rq =
     [(''account'', JString (aq_account rq)), (''partition'', JString (aq_partition rq)),
      (''region'', JString (aq_region rq)), (''instance_type'', JString (aq_instance_type rq))] @
     (if aq_capacity_model rq = '''' then [] else [(''capacity_model'', JString (aq_capacity_model rq))]) @
     [(''count'', JInt (int (aq_count rq)))]"

definition job_reconcile_request :: "reconcile_request \<Rightarrow> json_object" where
  "job_reconcile_request rq =
     [(''job_id'', JString (rq_job_id rq)), (''actual_cost'', JNumber (rq_actual_cost rq)),
      (''transaction_id'', JString (rq_transaction_id rq))]"

record budget_check_response =
  bk_available :: bool
  bk_estimated_cost :: rat
  bk_budget_remaining :: rat
  bk_transaction_id :: string
  bk_message :: string
  bk_recommendation :: string

record http_response =
  ht_status_code :: int
  ht_status :: string
  ht_body :: string

record 'w http_port =
  hc_post :: "string \<Rightarrow> json_object \<Rightarrow> 'w \<Rightarrow> (go_error + http_response) \<times> 'w"
  hc_decode :: "string \<Rightarrow> go_error + budget_check_response"

section \<open>The client\<close>

text \<open>\<^verbatim>\<open>postJSON\<close>: transport error, then status, then the body where the caller wants one.\<close>

definition post_json ::
  "'w http_port \<Rightarrow> string \<Rightarrow> string \<Rightarrow> json_object \<Rightarrow> (string \<Rightarrow> go_error + 'a) \<Rightarrow> 'w \<Rightarrow> (go_error + 'a) \<times> 'w"
where
  "post_json hc endpoint path body decode w =
     (let url = endpoint @ path
      in case hc_post hc url body w of
           (Inl err, w) \<Rightarrow> (Inl (ErrWrap (''asbb: POST '' @ url @ '': '') err), w)
         | (Inr resp, w) \<Rightarrow>
             (if ht_status_code resp < 200 \<or> 300 \<le> ht_status_code resp then
                (Inl (ErrText (''asbb: '' @ url @ '' returned '' @ ht_status resp)), w)
              else (case decode (ht_body resp) of
                      Inl err \<Rightarrow> (Inl (ErrWrap ''asbb: decode response: '' err), w)
                    | Inr out \<Rightarrow> (Inr out, w))))"

text \<open>The verb \<^verbatim>\<open>%.2f\<close>: the nearest hundredth, the even one on a tie.\<close>

definition hundredths :: "rat \<Rightarrow> nat" where
  "hundredths x =
     (let y = \<bar>x\<bar> * 100; f = \<lfloor>y\<rfloor>; r = y - of_int f
      in nat (if 1 / 2 < r \<or> (r = 1 / 2 \<and> odd f) then f + 1 else f))"

definition show_fixed2 :: "rat \<Rightarrow> string" where
  "show_fixed2 x =
     (if x < 0 then ''-'' else '''') @ show_nat (hundredths x div 100) @ ''.'' @
     pad_zero 2 (show_nat (hundredths x mod 100))"

definition refusal_reason :: "budget_check_response \<Rightarrow> string" where
  "refusal_reason br =
     (let msg = bk_message br;
          msg = (if msg = '''' then bk_recommendation br else msg);
          msg = (if msg = '''' then ''budget exhausted'' else msg)
      in msg @ '' (estimated $'' @ show_fixed2 (bk_estimated_cost br) @ ''/hr, remaining $'' @
         show_fixed2 (bk_budget_remaining br) @ '')'')"

definition asbb_admit ::
  "'w http_port \<Rightarrow> string \<Rightarrow> admission_request \<Rightarrow> 'w \<Rightarrow> (go_error + admission_result) \<times> 'w"
where
  "asbb_admit hc endpoint rq w =
     (case post_json hc endpoint ''/api/v1/budget/admit'' (fleet_admission_request rq) (hc_decode hc) w of
        (Inl err, w) \<Rightarrow> (Inl err, w)
      | (Inr br, w) \<Rightarrow>
          (Inr \<lparr>as_allowed = bk_available br, as_reason = refusal_reason br,
                as_estimated_cost = bk_estimated_cost br, as_budget_remaining = bk_budget_remaining br,
                as_transaction_id = bk_transaction_id br\<rparr>, w))"

definition asbb_reconcile :: "'w http_port \<Rightarrow> string \<Rightarrow> reconcile_request \<Rightarrow> 'w \<Rightarrow> go_error option \<times> 'w" where
  "asbb_reconcile hc endpoint rq w =
     (case post_json hc endpoint ''/api/v1/budget/reconcile'' (job_reconcile_request rq) (\<lambda>_. Inr ()) w of
        (Inl err, w) \<Rightarrow> (Some err, w)
      | (Inr _, w) \<Rightarrow> (None, w))"

section \<open>What the bridge sees\<close>

definition service_answers :: "go_error + http_response \<Rightarrow> bool" where
  "service_answers reply =
     (case reply of Inl _ \<Rightarrow> False | Inr resp \<Rightarrow> 200 \<le> ht_status_code resp \<and> ht_status_code resp < 300)"

lemma asbb_admit_cases:
  assumes "hc_post hc (endpoint @ ''/api/v1/budget/admit'') (fleet_admission_request rq) w = (reply, w1)"
  shows "\<not> service_answers reply \<Longrightarrow> \<exists>e. asbb_admit hc endpoint rq w = (Inl e, w1)"
    and "service_answers reply \<Longrightarrow> reply = Inr resp \<Longrightarrow> hc_decode hc (ht_body resp) = Inl e \<Longrightarrow>
      \<exists>e'. asbb_admit hc endpoint rq w = (Inl e', w1)"
    and "service_answers reply \<Longrightarrow> reply = Inr resp \<Longrightarrow> hc_decode hc (ht_body resp) = Inr br \<Longrightarrow>
      \<exists>res. asbb_admit hc endpoint rq w = (Inr res, w1) \<and> as_allowed res = bk_available br \<and>
        as_reason res = refusal_reason br \<and> as_transaction_id res = bk_transaction_id br \<and>
        as_estimated_cost res = bk_estimated_cost br"
  using assms by (auto simp: asbb_admit_def post_json_def service_answers_def split: sum.splits if_splits)

lemma refusal_reason_nonempty: "refusal_reason br \<noteq> ''''"
  by (simp add: refusal_reason_def Let_def)

text \<open>
  The budget service decides: the gate refuses a fleet exactly when the service answers that the
  budget is not available, or when it does not answer and the fail mode is strict. The reason of a
  refusal by the service is its message with the numbers, never the bridge's own default. Besides the
  request, the gate at most prints that it lets the fleet pass unchecked.
\<close>

theorem admission_follows_service:
  "hc_post hc (endpoint @ ''/api/v1/budget/admit'')
      (fleet_admission_request (admission_request_for (br_cfg b) part rung n)) w = (reply, w1) \<and>
   check_admission b (asbb_admit hc endpoint) part rung n w = ((refused, reason, res), w2) \<longrightarrow>
     (w2 = w1 \<or> \<not> refused \<and> (\<exists>msg. w2 = br_print b msg w1)) \<and>
     (if service_answers reply
      then (case reply of Inr resp \<Rightarrow>
              (case hc_decode hc (ht_body resp) of
                 Inr br \<Rightarrow> refused = (\<not> bk_available br) \<and> (refused \<longrightarrow> reason = refusal_reason br)
               | Inl _ \<Rightarrow> refused = (cf_fail_mode (br_cfg b) = ''strict''))
            | Inl _ \<Rightarrow> False)
      else refused = (cf_fail_mode (br_cfg b) = ''strict''))"
proof (intro impI, elim conjE)
  assume p: "hc_post hc (endpoint @ ''/api/v1/budget/admit'')
      (fleet_admission_request (admission_request_for (br_cfg b) part rung n)) w = (reply, w1)"
    and c: "check_admission b (asbb_admit hc endpoint) part rung n w = ((refused, reason, res), w2)"
  obtain out w3 where a: "asbb_admit hc endpoint (admission_request_for (br_cfg b) part rung n) w = (out, w3)"
    and v: "admission_verdict (br_cfg b) out = (refused, reason, res)"
    and w2: "w2 = w3 \<or> \<not> refused \<and> (\<exists>msg. w2 = br_print b msg w3)"
    using c by (auto simp: check_admission_def complain_def admission_verdict_def split: prod.splits sum.splits if_splits)
  note cases = asbb_admit_cases [OF p]
  show "(w2 = w1 \<or> \<not> refused \<and> (\<exists>msg. w2 = br_print b msg w1)) \<and> (if service_answers reply
      then (case reply of Inr resp \<Rightarrow>
              (case hc_decode hc (ht_body resp) of
                 Inr br \<Rightarrow> refused = (\<not> bk_available br) \<and> (refused \<longrightarrow> reason = refusal_reason br)
               | Inl _ \<Rightarrow> refused = (cf_fail_mode (br_cfg b) = ''strict''))
            | Inl _ \<Rightarrow> False)
      else refused = (cf_fail_mode (br_cfg b) = ''strict''))"
  proof (cases "service_answers reply")
    case False
    with cases(1) a v w2 show ?thesis by (auto simp: admission_verdict_def split: if_splits)
  next
    case True
    then obtain resp where r: "reply = Inr resp" by (auto simp: service_answers_def split: sum.splits)
    show ?thesis
    proof (cases "hc_decode hc (ht_body resp)")
      case (Inl e)
      with cases(2) [OF True r Inl] a v w2 r True show ?thesis by (auto simp: admission_verdict_def split: if_splits)
    next
      case (Inr br)
      with cases(3) [OF True r Inr] a v w2 r True refusal_reason_nonempty [of br] show ?thesis
        by (auto simp: admission_verdict_def split: if_splits)
    qed
  qed
qed

text \<open>A service that answers every request alike, for the witnesses; the world counts the requests.\<close>

definition fixed_service :: "go_error + http_response \<Rightarrow> go_error + budget_check_response \<Rightarrow> nat http_port" where
  "fixed_service reply br = \<lparr>hc_post = (\<lambda>url body w. (reply, Suc w)), hc_decode = (\<lambda>_. br)\<rparr>"

definition exhausted :: budget_check_response where
  "exhausted = \<lparr>bk_available = False, bk_estimated_cost = 393 / 4, bk_budget_remaining = 253 / 25,
     bk_transaction_id = '''', bk_message = '''', bk_recommendation = ''wait for the next grant''\<rparr>"

definition answer_ok :: "go_error + http_response" where
  "answer_ok = Inr \<lparr>ht_status_code = 200, ht_status = ''200 OK'', ht_body = '''' \<rparr>"

definition answer_down :: "go_error + http_response" where
  "answer_down = Inr \<lparr>ht_status_code = 503, ht_status = ''503 Service Unavailable'', ht_body = '''' \<rparr>"

lemma exhausted_reason:
  "refusal_reason exhausted = ''wait for the next grant (estimated $98.25/hr, remaining $10.12)''"
proof -
  have "hundredths (393 / 4) = 9825" "hundredths (253 / 25) = 1012" by (simp_all add: hundredths_def Let_def)
  moreover have "show_nat 98 = ''98''" "show_nat 25 = ''25''" "show_nat 10 = ''10''" "show_nat 12 = ''12''" by code_simp+
  ultimately show ?thesis by (simp add: refusal_reason_def exhausted_def show_fixed2_def pad_zero_def)
qed

definition demo_gate_cfg :: "string \<Rightarrow> config" where
  "demo_gate_cfg mode = \<lparr>cf_cluster = ''hpc'', cf_region = ''us-east-1'', cf_generation = ''g2'', cf_partitions = None,
     cf_default_partition = '''', cf_bootstrap_s3 = '''', cf_fail_mode = mode\<rparr>"

definition demo_gate :: "string \<Rightarrow> nat bridge" where
  "demo_gate mode = \<lparr>br_cfg = demo_gate_cfg mode, br_show = (\<lambda>_. None), br_update = (\<lambda>_ _ _ w. (None, w)),
     br_reconcile = (\<lambda>_ c w. (\<lparr>out_cohort = c_id c, out_ready = False, out_records = Map.empty\<rparr>, w)),
     br_actuator = None, br_assembler = False, br_records = None, br_describer = None, br_admitter = None,
     br_closer = None, br_holds = None, br_print = (\<lambda>_ w. w), br_map_order = (\<lambda>_. []), br_index_order = (\<lambda>_. [])\<rparr>"

lemma admission_follows_service_witness:
  "(\<exists>res. check_admission (demo_gate ''graceful'') (asbb_admit (fixed_service answer_ok (Inr exhausted)) ''http://b'')
      zero_partition zero_rung 2 0 =
      ((True, ''wait for the next grant (estimated $98.25/hr, remaining $10.12)'', res), 1)) \<and>
   (\<exists>reason res. check_admission (demo_gate ''strict'') (asbb_admit (fixed_service answer_down (Inr exhausted)) ''http://b'')
      zero_partition zero_rung 2 0 = ((True, reason, res), 1)) \<and>
   (\<exists>reason res. check_admission (demo_gate ''graceful'') (asbb_admit (fixed_service answer_down (Inr exhausted)) ''http://b'')
      zero_partition zero_rung 2 0 = ((False, reason, res), 1))"
proof -
  have run: "\<exists>refused reason res w2. x = ((refused, reason, res), w2)" for x :: "(bool \<times> string \<times> admission_result) \<times> nat"
    by (metis surj_pair)
  have post: "hc_post (fixed_service reply br) url body 0 = (reply, 1)" for reply br url body
    by (simp add: fixed_service_def)
  have dec: "hc_decode (fixed_service reply br) body = br" for reply br body
    by (simp add: fixed_service_def)
  have up: "service_answers answer_ok" "\<not> service_answers answer_down" "\<exists>r. answer_ok = Inr r"
    by (simp_all add: service_answers_def answer_ok_def answer_down_def)
  have mode: "cf_fail_mode (br_cfg (demo_gate m)) = m" "br_print (demo_gate m) = (\<lambda>_ w. w)" for m
    by (simp_all add: demo_gate_def demo_gate_cfg_def)
  have no: "\<not> bk_available exhausted" by (simp add: exhausted_def)
  obtain ok where ok: "answer_ok = Inr ok" using up by blast
  obtain f1 r1 s1 w1 where c1: "check_admission (demo_gate ''graceful'')
      (asbb_admit (fixed_service answer_ok (Inr exhausted)) ''http://b'') zero_partition zero_rung 2 0 = ((f1, r1, s1), w1)"
    using run by blast
  obtain f2 r2 s2 w2 where c2: "check_admission (demo_gate ''strict'')
      (asbb_admit (fixed_service answer_down (Inr exhausted)) ''http://b'') zero_partition zero_rung 2 0 = ((f2, r2, s2), w2)"
    using run by blast
  obtain f3 r3 s3 w3 where c3: "check_admission (demo_gate ''graceful'')
      (asbb_admit (fixed_service answer_down (Inr exhausted)) ''http://b'') zero_partition zero_rung 2 0 = ((f3, r3, s3), w3)"
    using run by blast
  have "w1 = 1 \<and> f1 \<and> r1 = refusal_reason exhausted"
    using admission_follows_service [of "fixed_service answer_ok (Inr exhausted)" "''http://b''"
        "demo_gate ''graceful''" zero_partition zero_rung 2 0 answer_ok 1 f1 r1 s1 w1] c1 up no unfolding ok by (auto simp: post dec mode)
  moreover have "w2 = 1 \<and> f2" using admission_follows_service [of "fixed_service answer_down (Inr exhausted)" "''http://b''"
        "demo_gate ''strict''" zero_partition zero_rung 2 0 answer_down 1 f2 r2 s2 w2] c2 up by (auto simp: post dec mode)
  moreover have "w3 = 1 \<and> \<not> f3" using admission_follows_service [of "fixed_service answer_down (Inr exhausted)" "''http://b''"
        "demo_gate ''graceful''" zero_partition zero_rung 2 0 answer_down 1 f3 r3 s3 w3] c3 up by (auto simp: post dec mode)
  ultimately show ?thesis using c1 c2 c3 exhausted_reason by auto
qed

end
