(* ===== verification/Asbx_Wire.thy ===== *)
theory Asbx_Wire
  imports Asbb_Client Go_Library
begin

text \<open>
  \<^verbatim>\<open>internal/asbx/wire.go\<close> and the programs \<^verbatim>\<open>cmd/q0-resume\<close> and \<^verbatim>\<open>cmd/q0-suspend\<close>: the settings
  from the environment, their validation, the bridge that is built from them, and the two forked
  programs with their exit codes. What the constructors of the AWS layer, the file system and the
  binaries provide is the record \<open>wiring\<close>, whose fields take the configuration the code passes them.
\<close>

section \<open>Settings\<close>

definition env_cluster :: string where "env_cluster = ''Q0_CLUSTER''"
definition env_region :: string where "env_region = ''Q0_REGION''"
definition env_partitions :: string where "env_partitions = ''Q0_PARTITIONS_YAML''"
definition env_state_dir :: string where "env_state_dir = ''Q0_STATE_DIR''"
definition env_generation :: string where "env_generation = ''Q0_GENERATION''"
definition env_bootstrap_s3 :: string where "env_bootstrap_s3 = ''Q0_BOOTSTRAP_S3''"
definition env_manifest_bucket :: string where "env_manifest_bucket = ''Q0_MANIFEST_BUCKET''"
definition env_scripts_bucket :: string where "env_scripts_bucket = ''Q0_SCRIPTS_BUCKET''"
definition env_state_bucket :: string where "env_state_bucket = ''Q0_STATE_BUCKET''"
definition env_lock_table :: string where "env_lock_table = ''Q0_LOCK_TABLE''"
definition env_instance_profile :: string where "env_instance_profile = ''Q0_INSTANCE_PROFILE_ARN''"
definition env_controller_host :: string where "env_controller_host = ''Q0_CONTROLLER_HOST''"
definition env_controller_standby_host :: string where
  "env_controller_standby_host = ''Q0_CONTROLLER_STANDBY_HOST''"
definition env_mount_spec :: string where "env_mount_spec = ''Q0_MOUNT_SPEC''"
definition env_asbb_endpoint :: string where "env_asbb_endpoint = ''Q0_ASBB_ENDPOINT''"
definition env_fail_mode :: string where "env_fail_mode = ''Q0_ADMISSION_FAILMODE''"
definition env_partition :: string where "env_partition = ''Q0_PARTITION''"
definition env_slurm_resume_partition :: string where "env_slurm_resume_partition = ''SLURM_RESUME_PARTITION''"

lemmas env_names = env_cluster_def env_region_def env_partitions_def env_state_dir_def env_generation_def
  env_bootstrap_s3_def env_manifest_bucket_def env_scripts_bucket_def env_state_bucket_def env_lock_table_def
  env_instance_profile_def env_controller_host_def env_controller_standby_host_def env_mount_spec_def
  env_asbb_endpoint_def env_fail_mode_def env_partition_def env_slurm_resume_partition_def

definition default_state_dir :: string where "default_state_dir = ''/var/lib/queuezero''"

record settings =
  s_cluster :: string
  s_region :: string
  s_partitions_yaml :: string
  s_state_dir :: string
  s_generation :: string
  s_bootstrap_s3 :: string
  s_manifest_bucket :: string
  s_instance_profile_arn :: string
  s_asbb_endpoint :: string
  s_fail_mode :: string
  s_controller_host :: string
  s_controller_standby_host :: string
  s_mount_spec :: string
  s_partition :: string

fun first_non_empty :: "string list \<Rightarrow> string" where
  "first_non_empty [] = ''''"
| "first_non_empty (v # vs) = (if v \<noteq> '''' then v else first_non_empty vs)"

type_synonym environ = "string \<Rightarrow> string"

text \<open>\<^verbatim>\<open>os.Getenv\<close> is a function: an unset variable is empty.\<close>

definition settings_from_env :: "environ \<Rightarrow> string \<Rightarrow> settings" where
  "settings_from_env getenv flag =
     \<lparr>s_cluster = getenv env_cluster, s_region = getenv env_region, s_partitions_yaml = getenv env_partitions,
      s_state_dir = (if getenv env_state_dir = '''' then default_state_dir else getenv env_state_dir),
      s_generation = getenv env_generation, s_bootstrap_s3 = getenv env_bootstrap_s3,
      s_manifest_bucket = getenv env_manifest_bucket, s_instance_profile_arn = getenv env_instance_profile,
      s_asbb_endpoint = getenv env_asbb_endpoint, s_fail_mode = getenv env_fail_mode,
      s_controller_host = getenv env_controller_host,
      s_controller_standby_host = getenv env_controller_standby_host, s_mount_spec = getenv env_mount_spec,
      s_partition = (if flag = '''' then
          first_non_empty [getenv env_slurm_resume_partition, getenv env_partition] else flag)\<rparr>"

definition required :: "string \<Rightarrow> go_error" where
  "required env = ErrText (''asbx: '' @ env @ '' is required'')"

definition validate_settings :: "settings \<Rightarrow> go_error option" where
  "validate_settings s =
     (if s_cluster s = '''' then Some (required env_cluster)
      else if s_region s = '''' then Some (required env_region)
      else if s_partitions_yaml s = '''' then Some (required env_partitions)
      else None)"

section \<open>The bridge\<close>

record 'w wiring =
  wr_load_partitions :: "string \<Rightarrow> go_error + partitions"
  wr_aws_config :: "string \<Rightarrow> go_error option"
  wr_mkdir :: "string \<Rightarrow> go_error option"
  wr_core :: "actuator_config \<Rightarrow> string \<Rightarrow> bool \<Rightarrow> cohort \<Rightarrow> 'w \<Rightarrow> outcome \<times> 'w"
  wr_actuator :: "actuator_config \<Rightarrow> 'w actuator_port"
  wr_describer :: "actuator_config \<Rightarrow> string \<Rightarrow> 'w \<Rightarrow> go_error + instance_view list"
  wr_records :: "string \<Rightarrow> outcome \<Rightarrow> 'w \<Rightarrow> go_error option \<times> 'w"
  wr_holds :: "string \<Rightarrow> 'w hold_port"
  wr_show :: "string \<Rightarrow> (go_error + string list) option"
  wr_update :: "string \<Rightarrow> string \<Rightarrow> string \<Rightarrow> 'w \<Rightarrow> go_error option \<times> 'w"
  wr_http :: "'w http_port"
  wr_print :: "string \<Rightarrow> 'w \<Rightarrow> 'w"
  wr_map_order :: "(entity_id \<rightharpoonup> entity_record) \<Rightarrow> entity_id list"
  wr_index_order :: "partition_index \<Rightarrow> partition list"

definition actuator_config_of :: "settings \<Rightarrow> actuator_config" where
  "actuator_config_of s =
     \<lparr>ac_cluster_name = s_cluster s, ac_default_bootstrap_s3 = s_bootstrap_s3 s, ac_region = s_region s,
      ac_cross_account_role_arn = '''', ac_instance_profile_arn = s_instance_profile_arn s,
      ac_mounts = parse_mount_spec (s_mount_spec s), ac_controller_host = s_controller_host s\<rparr>"

definition bridge_config_of :: "settings \<Rightarrow> partitions \<Rightarrow> config" where
  "bridge_config_of s parts =
     \<lparr>cf_cluster = s_cluster s, cf_region = s_region s, cf_generation = s_generation s,
      cf_partitions = Some parts, cf_default_partition = s_partition s, cf_bootstrap_s3 = s_bootstrap_s3 s,
      cf_fail_mode = (if s_fail_mode s = '''' then ''graceful'' else s_fail_mode s)\<rparr>"

text \<open>
  The composite literal at the end of \<^verbatim>\<open>BuildBridge\<close>: \<open>gate\<close> says that an endpoint is set, and
  \<open>holds\<close> is the directory of the hold store then. The client is the admitter and, by its type, the
  closer of holds.
\<close>

definition wire_bridge :: "'w wiring \<Rightarrow> settings \<Rightarrow> partitions \<Rightarrow> string \<Rightarrow> string option \<Rightarrow> 'w bridge" where
  "wire_bridge wr s parts records holds =
     (let acfg = actuator_config_of s
      in \<lparr>br_cfg = bridge_config_of s parts, br_show = wr_show wr, br_update = wr_update wr,
          br_reconcile = wr_core wr acfg (s_manifest_bucket s),
          br_actuator = Some (wr_actuator wr acfg), br_assembler = (s_manifest_bucket s \<noteq> ''''),
          br_records = Some (wr_records wr records), br_describer = Some (wr_describer wr acfg),
          br_admitter = map_option (\<lambda>_. asbb_admit (wr_http wr) (s_asbb_endpoint s)) holds,
          br_closer = map_option (\<lambda>_. asbb_reconcile (wr_http wr) (s_asbb_endpoint s)) holds,
          br_holds = map_option (wr_holds wr) holds,
          br_print = wr_print wr, br_map_order = wr_map_order wr, br_index_order = wr_index_order wr\<rparr>)"

definition build_bridge :: "'w wiring \<Rightarrow> settings \<Rightarrow> go_error + 'w bridge" where
  "build_bridge wr s =
     (case validate_settings s of
        Some e \<Rightarrow> Inl e
      | None \<Rightarrow>
          (case wr_load_partitions wr (s_partitions_yaml s) of
             Inl e \<Rightarrow> Inl e
           | Inr parts \<Rightarrow>
               (case wr_aws_config wr (s_region s) of
                  Some e \<Rightarrow> Inl (ErrWrap ''asbx: load AWS config: '' e)
                | None \<Rightarrow>
                    (let rdir = join_path [s_state_dir s, ''records'']
                     in case new_file_store rdir (wr_mkdir wr rdir) of
                          Inl e \<Rightarrow> Inl e
                        | Inr records \<Rightarrow>
                            (if s_asbb_endpoint s = '''' then Inr (wire_bridge wr s parts records None)
                             else (let hdir = join_path [s_state_dir s, ''holds'']
                                   in case new_file_hold_store hdir (wr_mkdir wr hdir) of
                                        Inl e \<Rightarrow> Inl e
                                      | Inr holds \<Rightarrow> Inr (wire_bridge wr s parts records (Some holds))))))))"

section \<open>The forked programs\<close>

text \<open>
  \<^verbatim>\<open>main\<close> of q0-resume: \<^verbatim>\<open>--strict\<close> sets the fail mode before the settings are read. The result is
  the exit code with what is printed to standard error, or \<open>None\<close> when the hostlist expansion does not
  return.
\<close>

definition strict_env :: "bool \<Rightarrow> environ \<Rightarrow> environ" where
  "strict_env strict getenv = (if strict then getenv(''Q0_ADMISSION_FAILMODE'' := ''strict'') else getenv)"

definition exit_usage :: "string \<Rightarrow> exit_report" where
  "exit_usage prog = \<lparr>xr_code = 2, xr_stderr = prog @ '': usage: '' @ prog @ '' [--partition NAME] <hostlist>'' @ nl\<rparr>"

definition q0_resume :: "'w wiring \<Rightarrow> environ \<Rightarrow> time \<Rightarrow> string \<Rightarrow> bool \<Rightarrow> string list \<Rightarrow> 'w \<Rightarrow> (exit_report \<times> 'w) option" where
  "q0_resume wr getenv now flag strict args w =
     (case args of
        [] \<Rightarrow> Some (exit_usage ''q0-resume'', w)
      | hostlist # _ \<Rightarrow>
          (let s = settings_from_env (strict_env strict getenv) flag
           in case build_bridge wr s of
                Inl e \<Rightarrow> Some (exit_failed ''q0-resume'' e, w)
              | Inr b \<Rightarrow>
                  (case resume b now (s_partition s) hostlist w of
                     None \<Rightarrow> None
                   | Some (Some e, w) \<Rightarrow> Some (exit_failed ''q0-resume'' e, w)
                   | Some (None, w) \<Rightarrow> Some (exits_well, w))))"

definition q0_suspend :: "'w wiring \<Rightarrow> environ \<Rightarrow> (nat \<Rightarrow> time) \<Rightarrow> string \<Rightarrow> string list \<Rightarrow> 'w \<Rightarrow> (exit_report \<times> 'w) option" where
  "q0_suspend wr getenv clk flag args w =
     (case args of
        [] \<Rightarrow> Some (exit_usage ''q0-suspend'', w)
      | hostlist # _ \<Rightarrow>
          (let s = settings_from_env getenv flag
           in case build_bridge wr s of
                Inl e \<Rightarrow> Some (exit_failed ''q0-suspend'' e, w)
              | Inr b \<Rightarrow>
                  (case suspend b clk (s_partition s) hostlist w of
                     None \<Rightarrow> None
                   | Some (Some e, w) \<Rightarrow> Some (exit_failed ''q0-suspend'' e, w)
                   | Some (None, w) \<Rightarrow> Some (exits_well, w))))"

section \<open>What the wiring decides\<close>

lemma build_bridge_wired:
  assumes "build_bridge wr s = Inr b"
  obtains parts records holds where "b = wire_bridge wr s parts records holds"
    "(holds = None) = (s_asbb_endpoint s = '''')"
    "wr_load_partitions wr (s_partitions_yaml s) = Inr parts" "validate_settings s = None"
  using assms by (auto simp: build_bridge_def Let_def split: option.splits sum.splits if_splits)

lemma wire_bridge_sel:
  "br_admitter (wire_bridge wr s parts records holds) =
     map_option (\<lambda>_. asbb_admit (wr_http wr) (s_asbb_endpoint s)) holds"
  "br_assembler (wire_bridge wr s parts records holds) = (s_manifest_bucket s \<noteq> '''')"
  "br_cfg (wire_bridge wr s parts records holds) = bridge_config_of s parts"
  "br_reconcile (wire_bridge wr s parts records holds) = wr_core wr (actuator_config_of s) (s_manifest_bucket s)"
  by (simp_all add: wire_bridge_def Let_def)

lemma build_cohort_gated:
  "length intents \<noteq> 1 \<Longrightarrow> pa_collective part \<Longrightarrow> \<not> br_assembler b \<Longrightarrow>
     \<exists>e. build_cohort b part cid intents budget = Inl e"
  by (simp add: build_cohort_def)

text \<open>
  The settings decide which gates a bridge has. Without a manifest bucket a collective fleet of
  more than one node is refused with an error and the world is left as it was; without a budget
  endpoint a fleet is reconciled without asking anyone; with an endpoint the gate is the budget
  client of that endpoint, and an empty fail mode is the graceful one.
\<close>

theorem wiring_gates:
  assumes "build_bridge wr s = Inr b"
  shows "(s_manifest_bucket s = '''' \<and> pa_collective part \<and> length intents \<noteq> 1 \<longrightarrow>
        (\<exists>e. launch_fleet b now part nodes chain cid intents w = (Some e, w))) \<and>
     (s_asbb_endpoint s = '''' \<and> build_cohort b part cid intents (cohort_budget part) = Inr (c, asm) \<and>
        wr_core wr (actuator_config_of s) (s_manifest_bucket s) asm c w = (out, w1) \<longrightarrow>
        launch_fleet b now part nodes chain cid intents w = (None, finish b out w1)) \<and>
     (s_asbb_endpoint s \<noteq> '''' \<longrightarrow> br_admitter b = Some (asbb_admit (wr_http wr) (s_asbb_endpoint s))) \<and>
     (cf_fail_mode (br_cfg b) = ''strict'' \<longleftrightarrow> s_fail_mode s = ''strict'')"
proof -
  obtain parts records holds where w: "b = wire_bridge wr s parts records holds"
    and h: "(holds = None) = (s_asbb_endpoint s = '''')"
    using build_bridge_wired [OF assms] by metis
  note sel = wire_bridge_sel [of wr s parts records holds, folded w]
  show ?thesis
    using build_cohort_gated [of intents part b cid "cohort_budget part"] h sel
    by (auto simp: launch_fleet_def bridge_config_of_def)
qed

text \<open>
  C25. With \<^verbatim>\<open>--strict\<close>, or the strict fail mode, a budget service that does not answer stops the fleet:
  the cohort core is not run, and all that happens after the request is the bookkeeping of a
  refusal.
\<close>

theorem strict_outage_launches_nothing:
  assumes "build_bridge wr (settings_from_env (strict_env True getenv) flag) = Inr b"
    and "getenv env_asbb_endpoint \<noteq> ''''"
    and "build_cohort b part cid intents (cohort_budget part) = Inr (c, asm)"
    and "hc_post (wr_http wr) (getenv env_asbb_endpoint @ ''/api/v1/budget/admit'')
      (fleet_admission_request (admission_request_for (br_cfg b) part (hd chain) (length nodes))) w = (reply, w1)"
    and "\<not> service_answers reply"
  shows "\<exists>reason. launch_fleet b now part nodes chain cid intents w =
    (None, finish b (record_refusal now intents cid reason) w1)"
proof -
  let ?s = "settings_from_env (strict_env True getenv) flag"
  have s: "s_asbb_endpoint ?s = getenv env_asbb_endpoint" "s_fail_mode ?s = ''strict''"
    by (simp_all add: settings_from_env_def strict_env_def env_names)
  obtain parts records holds where w: "b = wire_bridge wr ?s parts records holds"
    and h: "(holds = None) = (s_asbb_endpoint ?s = '''')"
    using build_bridge_wired [OF assms(1)] by metis
  note sel = wire_bridge_sel [of wr ?s parts records holds, folded w]
  obtain e where "asbb_admit (wr_http wr) (getenv env_asbb_endpoint)
      (admission_request_for (br_cfg b) part (hd chain) (length nodes)) w = (Inl e, w1)"
    using asbb_admit_cases(1) [OF assms(4,5)] by blast
  moreover have "br_admitter b = Some (asbb_admit (wr_http wr) (getenv env_asbb_endpoint))"
    using h s assms(2) by (auto simp: sel)
  moreover have "cf_fail_mode (br_cfg b) = ''strict''" by (simp add: sel bridge_config_of_def s)
  ultimately show ?thesis
    using assms(3) by (auto simp: launch_fleet_def check_admission_def admission_verdict_def)
qed

text \<open>A wiring over a counter of requests, for the witnesses.\<close>

definition demo_wiring :: "nat wiring" where
  "demo_wiring =
     \<lparr>wr_load_partitions = (\<lambda>_. Inr \<lparr>ps_stack_hash = '''', ps_partitions = [gpu_partition ''gpu'']\<rparr>),
      wr_aws_config = (\<lambda>_. None), wr_mkdir = (\<lambda>_. None),
      wr_core = (\<lambda>_ _ _ c w. (\<lparr>out_cohort = c_id c, out_ready = True, out_records = Map.empty\<rparr>, w + 100)),
      wr_actuator = (\<lambda>_. \<lparr>ap_stop = (\<lambda>_ _ w. (None, w)), ap_terminate = (\<lambda>_ w. (None, w))\<rparr>),
      wr_describer = (\<lambda>_ _ _. Inr []), wr_records = (\<lambda>_ _ w. (None, w)),
      wr_holds = (\<lambda>_. \<lparr>hp_put = (\<lambda>_ w. (None, w)), hp_get = (\<lambda>i _. Inl (ErrNoHold i)), hp_delete = (\<lambda>_ w. (None, w))\<rparr>),
      wr_show = (\<lambda>_. Some (Inr [''gpu-1''])), wr_update = (\<lambda>_ _ _ w. (None, w)),
      wr_http = fixed_service answer_down (Inr exhausted), wr_print = (\<lambda>_ w. w), wr_map_order = (\<lambda>_. []), wr_index_order = (\<lambda>_. [])\<rparr>"

definition demo_environ :: "string \<Rightarrow> environ" where
  "demo_environ endpoint =
     (\<lambda>_. '''')(''Q0_CLUSTER'' := ''hpc'', ''Q0_REGION'' := ''us-east-1'', ''Q0_PARTITIONS_YAML'' := ''p.yaml'',
       ''Q0_PARTITION'' := ''gpu'', ''Q0_ASBB_ENDPOINT'' := endpoint)"

lemma demo_settings [simp]:
  "s_cluster (settings_from_env (strict_env strict (demo_environ e)) flag) = ''hpc''"
  "s_region (settings_from_env (strict_env strict (demo_environ e)) flag) = ''us-east-1''"
  "s_partitions_yaml (settings_from_env (strict_env strict (demo_environ e)) flag) = ''p.yaml''"
  "s_state_dir (settings_from_env (strict_env strict (demo_environ e)) flag) = ''/var/lib/queuezero''"
  "s_manifest_bucket (settings_from_env (strict_env strict (demo_environ e)) flag) = ''''"
  "s_asbb_endpoint (settings_from_env (strict_env strict (demo_environ e)) flag) = e"
  by (simp_all add: settings_from_env_def strict_env_def demo_environ_def env_names default_state_dir_def)

lemma demo_store_dirs:
  "join_path [''/var/lib/queuezero'', ''records''] = ''/var/lib/queuezero/records''"
  "join_path [''/var/lib/queuezero'', ''holds''] = ''/var/lib/queuezero/holds''"
  by code_simp+

lemma demo_build: "\<exists>b. build_bridge demo_wiring (settings_from_env (strict_env strict (demo_environ e)) flag) = Inr b"
  by (simp add: build_bridge_def validate_settings_def demo_wiring_def new_file_store_def new_file_hold_store_def
      demo_store_dirs Let_def)

definition wired_intent :: "entity_id \<Rightarrow> entity_intent" where
  "wired_intent i = \<lparr>i_id = i, i_generation = ''g2'', i_cohort = ''gpu:x'',
     i_rung = zero_rung\<lparr>r_instance_type := ''p5.48xlarge''\<rparr>,
     i_fallback_chain = [zero_rung\<lparr>r_instance_type := ''p5.48xlarge''\<rparr>], i_token = ''q0-t''\<rparr>"

lemma demo_cohort:
  "\<exists>c. build_cohort b (gpu_partition ''gpu'') ''gpu:x'' [wired_intent i] (cohort_budget (gpu_partition ''gpu'')) = Inr (c, False)"
  if "i \<noteq> ''''"
proof -
  have "validate_intent (wired_intent i) = None"
    unfolding validate_intent_None using that by (simp add: valid_intent_def valid_rung_def wired_intent_def)
  then show ?thesis by (simp add: build_cohort_def new_serial_cohort_def)
qed

lemma wiring_gates_witness:
  "\<exists>b e. build_bridge demo_wiring (settings_from_env (strict_env False (demo_environ '''')) '''') = Inr b \<and>
     launch_fleet b 5 ((gpu_partition ''gpu'')\<lparr>pa_collective := True\<rparr>) [''gpu-1'', ''gpu-2''] [] ''gpu:x''
       [wired_intent ''gpu-1'', wired_intent ''gpu-2''] 0 = (Some e, 0)"
proof -
  obtain b where b: "build_bridge demo_wiring (settings_from_env (strict_env False (demo_environ '''')) '''') = Inr b"
    using demo_build by blast
  show ?thesis
    using b wiring_gates [OF b, of "(gpu_partition ''gpu'')\<lparr>pa_collective := True\<rparr>"
        "[wired_intent ''gpu-1'', wired_intent ''gpu-2'']" 5 "[''gpu-1'', ''gpu-2'']" "[]" "''gpu:x''" 0] by auto
qed

lemma strict_outage_launches_nothing_witness:
  "\<exists>b reason. build_bridge demo_wiring (settings_from_env (strict_env True (demo_environ ''http://b'')) '''') = Inr b \<and>
     launch_fleet b 5 (gpu_partition ''gpu'') [''gpu-1''] [zero_rung] ''gpu:x'' [wired_intent ''gpu-1''] 0 =
       (None, finish b (record_refusal 5 [wired_intent ''gpu-1''] ''gpu:x'' reason) 1)"
proof -
  obtain b where b: "build_bridge demo_wiring (settings_from_env (strict_env True (demo_environ ''http://b'')) '''') = Inr b"
    using demo_build by blast
  obtain c where c: "build_cohort b (gpu_partition ''gpu'') ''gpu:x'' [wired_intent ''gpu-1'']
      (cohort_budget (gpu_partition ''gpu'')) = Inr (c, False)"
    using demo_cohort [of "''gpu-1''" b] by auto
  have e: "demo_environ ''http://b'' env_asbb_endpoint = ''http://b''"
    by (simp add: demo_environ_def env_names)
  have h: "hc_post (wr_http demo_wiring) url body 0 = (answer_down, 1)" for url body
    by (simp add: demo_wiring_def fixed_service_def)
  have d: "\<not> service_answers answer_down" by (simp add: service_answers_def answer_down_def)
  show ?thesis
    using strict_outage_launches_nothing [OF b _ c h d] b e by simp
qed

end
