(* ===== verification/Preflight.thy ===== *)
theory Preflight
  imports Spec_Cluster Spec_Partitions Aws_Client
begin

text \<open>
  \<^verbatim>\<open>internal/preflight/preflight.go\<close> and \<^verbatim>\<open>truffleck/truffleck.go\<close>: the read-only checks of a cluster
  and its partitions, and the quota checker with its caches. A checker is a record of the replies of
  the cloud; the quota capability is an option, as the type assertion makes it. The spore.host
  quota library is a parameter.
\<close>

section \<open>Checks\<close>

record checker =
  ck_zones :: "go_error + string list"
  ck_image :: "string \<Rightarrow> go_error + bool"
  ck_subnet :: "string \<Rightarrow> go_error + bool"
  ck_offered :: "string \<Rightarrow> string \<Rightarrow> go_error + bool"
  ck_quota :: "(string \<Rightarrow> string \<Rightarrow> string \<Rightarrow> go_error + bool \<times> string) option"

record check_result =
  rs_check :: string
  rs_target :: string
  rs_ok :: bool
  rs_detail :: string

type_synonym report = "check_result list"

definition report_ok :: "report \<Rightarrow> bool" where
  "report_ok rep = list_all rs_ok rep"

definition ok_text :: "bool \<Rightarrow> string \<Rightarrow> string \<Rightarrow> string" where
  "ok_text ok yes no = (if ok then yes else no)"

definition check_subnet_result :: "string \<Rightarrow> bool \<Rightarrow> check_result" where
  "check_subnet_result sn ok =
     \<lparr>rs_check = ''subnet-exists'', rs_target = sn, rs_ok = ok,
      rs_detail = ok_text ok ''subnet found'' ''subnet not found''\<rparr>"

text \<open>The loops return what they have appended, and the error that ended them.\<close>

fun check_subnets :: "checker \<Rightarrow> string list \<Rightarrow> report \<times> go_error option" where
  "check_subnets c [] = ([], None)"
| "check_subnets c (sn # sns) =
     (case ck_subnet c sn of
        Inl err \<Rightarrow> ([], Some (ErrWrap (''preflight: describe subnet '' @ go_quote sn @ '': '') err))
      | Inr ok \<Rightarrow> (case check_subnets c sns of (rs, e) \<Rightarrow> (check_subnet_result sn ok # rs, e)))"

definition rung_target :: "spec_rung \<Rightarrow> string" where
  "rung_target r = sr_instance_type r @ ''@'' @ sr_avail_zone r"

definition partition_detail :: "string \<Rightarrow> string \<Rightarrow> string" where
  "partition_detail name text = ''partition '' @ go_quote name @ '': '' @ text"

definition zone_result :: "string \<Rightarrow> string \<Rightarrow> spec_rung \<Rightarrow> check_result" where
  "zone_result region name r =
     \<lparr>rs_check = ''az-valid'', rs_target = sr_avail_zone r, rs_ok = False,
      rs_detail = partition_detail name (''availability zone not in region '' @ go_quote region)\<rparr>"

definition offered_result :: "string \<Rightarrow> spec_rung \<Rightarrow> bool \<Rightarrow> check_result" where
  "offered_result name r ok =
     \<lparr>rs_check = ''instance-type-offered'', rs_target = rung_target r, rs_ok = ok,
      rs_detail = ok_text ok (partition_detail name ''offered'')
        (partition_detail name ''instance type not offered in this AZ'')\<rparr>"

definition quota_result :: "string \<Rightarrow> spec_rung \<Rightarrow> bool \<times> string \<Rightarrow> check_result" where
  "quota_result name r q =
     \<lparr>rs_check = ''service-quota'', rs_target = rung_target r, rs_ok = fst q,
      rs_detail = partition_detail name (snd q)\<rparr>"

text \<open>One rung: the zone first, then the offering, then the quota where the checker can tell.\<close>

definition check_rung :: "checker \<Rightarrow> string \<Rightarrow> string list \<Rightarrow> string \<Rightarrow> spec_rung \<Rightarrow> report \<times> go_error option" where
  "check_rung c region zones name r =
     (if sr_avail_zone r \<notin> set zones then ([zone_result region name r], None)
      else (case ck_offered c (sr_instance_type r) (sr_avail_zone r) of
          Inl err \<Rightarrow> ([], Some (ErrWrap (''preflight: instance-type offerings '' @ rung_target r @ '': '') err))
        | Inr ok \<Rightarrow>
            (case ck_quota c of
               None \<Rightarrow> ([offered_result name r ok], None)
             | Some quota \<Rightarrow>
                 (case quota (sr_instance_type r) (sr_avail_zone r) (sr_capacity_model r) of
                    Inl err \<Rightarrow> ([offered_result name r ok],
                      Some (ErrWrap (''preflight: service quota '' @ rung_target r @ '': '') err))
                  | Inr q \<Rightarrow> ([offered_result name r ok, quota_result name r q], None)))))"

fun check_rungs :: "checker \<Rightarrow> string \<Rightarrow> string list \<Rightarrow> (string \<times> spec_rung) list \<Rightarrow> report \<times> go_error option" where
  "check_rungs c region zones [] = ([], None)"
| "check_rungs c region zones ((name, r) # rs) =
     (case check_rung c region zones name r of
        (res, Some err) \<Rightarrow> (res, Some err)
      | (res, None) \<Rightarrow> (case check_rungs c region zones rs of (more_res, e) \<Rightarrow> (res @ more_res, e)))"

definition all_rungs :: "partitions option \<Rightarrow> (string \<times> spec_rung) list" where
  "all_rungs parts =
     (case parts of None \<Rightarrow> []
      | Some ps \<Rightarrow> concat (map (\<lambda>p. map (Pair (pa_name p)) (pa_fallback_chain p)) (ps_partitions ps)))"

definition check_ami :: "checker \<Rightarrow> cluster \<Rightarrow> report \<times> go_error option" where
  "check_ami c cl =
     (let ami = cs_ami_hash (cl_controller cl)
      in if ami = '''' then ([], None)
         else (case ck_image c ami of
             Inl err \<Rightarrow> ([], Some (ErrWrap (''preflight: describe image '' @ go_quote ami @ '': '') err))
           | Inr ok \<Rightarrow>
               ([\<lparr>rs_check = ''ami-exists'', rs_target = ami, rs_ok = ok,
                  rs_detail = ok_text ok ''controller AMI found'' ''controller AMI not found in region''\<rparr>], None)))"

text \<open>\<^verbatim>\<open>Run\<close>: the report so far comes with the error that ends it.\<close>

definition preflight_run :: "cluster option \<Rightarrow> partitions option \<Rightarrow> checker \<Rightarrow> report \<times> go_error option" where
  "preflight_run cluster parts c =
     (case cluster of
        None \<Rightarrow> ([], Some (ErrText ''preflight: nil cluster''))
      | Some cl \<Rightarrow>
          (case ck_zones c of
             Inl err \<Rightarrow> ([], Some (ErrWrap (''preflight: list availability zones (region '' @
               go_quote (cl_region cl) @ ''): '') err))
           | Inr zones \<Rightarrow>
               (case check_ami c cl of
                  (r1, Some err) \<Rightarrow> (r1, Some err)
                | (r1, None) \<Rightarrow>
                    (case (if nw_byo (cl_network cl) then check_subnets c (nw_subnet_ids (cl_network cl)) else ([], None)) of
                       (r2, Some err) \<Rightarrow> (r1 @ r2, Some err)
                     | (r2, None) \<Rightarrow>
                         (case check_rungs c (cl_region cl) zones (all_rungs parts) of
                            (r3, e) \<Rightarrow> (r1 @ r2 @ r3, e))))))"

section \<open>The reference\<close>

text \<open>What the checks come down to, with no order and no early end.\<close>

definition rung_good :: "checker \<Rightarrow> string list \<Rightarrow> spec_rung \<Rightarrow> bool" where
  "rung_good c zones r \<longleftrightarrow>
     sr_avail_zone r \<in> set zones \<and> ck_offered c (sr_instance_type r) (sr_avail_zone r) = Inr True \<and>
     (case ck_quota c of None \<Rightarrow> True
      | Some quota \<Rightarrow> (\<exists>d. quota (sr_instance_type r) (sr_avail_zone r) (sr_capacity_model r) = Inr (True, d)))"

definition preflight_good :: "cluster \<Rightarrow> partitions option \<Rightarrow> checker \<Rightarrow> bool" where
  "preflight_good cl parts c \<longleftrightarrow>
     (\<exists>zones. ck_zones c = Inr zones \<and>
        (cs_ami_hash (cl_controller cl) \<noteq> '''' \<longrightarrow> ck_image c (cs_ami_hash (cl_controller cl)) = Inr True) \<and>
        (nw_byo (cl_network cl) \<longrightarrow> (\<forall>sn\<in>set (nw_subnet_ids (cl_network cl)). ck_subnet c sn = Inr True)) \<and>
        (\<forall>(name, r)\<in>set (all_rungs parts). rung_good c zones r))"

lemma check_subnets_ok:
  "check_subnets c sns = (rs, None) \<Longrightarrow>
     (report_ok rs \<longleftrightarrow> (\<forall>sn\<in>set sns. ck_subnet c sn = Inr True)) \<and> map rs_target rs = sns"
  by (induction sns arbitrary: rs)
    (auto simp: report_ok_def check_subnet_result_def split: sum.splits prod.splits)

lemma check_rung_ok:
  "check_rung c region zones name r = (rs, None) \<Longrightarrow> (report_ok rs \<longleftrightarrow> rung_good c zones r) \<and> rs \<noteq> []"
  by (auto simp: check_rung_def report_ok_def rung_good_def zone_result_def offered_result_def quota_result_def
      split: if_splits sum.splits option.splits prod.splits)

lemma check_rungs_ok:
  "check_rungs c region zones rs = (res, None) \<Longrightarrow>
     (report_ok res \<longleftrightarrow> (\<forall>(name, r)\<in>set rs. rung_good c zones r)) \<and>
     (\<forall>(name, r)\<in>set rs. set (fst (check_rung c region zones name r)) \<subseteq> set res)"
proof (induction rs arbitrary: res)
  case (Cons p rs)
  obtain name r where p: "p = (name, r)" by (cases p)
  obtain res1 res2 where
    "check_rung c region zones name r = (res1, None)" "check_rungs c region zones rs = (res2, None)" "res = res1 @ res2"
    using Cons.prems by (auto simp: p split: prod.splits option.splits)
  then show ?case using Cons.IH [of res2] check_rung_ok [of c region zones name r res1]
    by (auto simp: p report_ok_def)
qed (simp add: report_ok_def)

lemma check_ami_ok:
  "check_ami c cl = (rs, None) \<Longrightarrow>
     report_ok rs \<longleftrightarrow> (cs_ami_hash (cl_controller cl) \<noteq> '''' \<longrightarrow> ck_image c (cs_ami_hash (cl_controller cl)) = Inr True)"
  by (auto simp: check_ami_def report_ok_def Let_def split: if_splits sum.splits)

lemma preflight_run_parts:
  assumes "preflight_run (Some cl) parts c = (rep, None)"
  obtains zones r1 r2 r3 where "ck_zones c = Inr zones" "check_ami c cl = (r1, None)"
    "(if nw_byo (cl_network cl) then check_subnets c (nw_subnet_ids (cl_network cl)) else ([], None)) = (r2, None)"
    "check_rungs c (cl_region cl) zones (all_rungs parts) = (r3, None)" "rep = r1 @ r2 @ r3"
  using assms by (auto simp: preflight_run_def split: sum.splits prod.splits option.splits)

text \<open>
  C22. A preflight that runs to its end passes exactly when everything the specification asks for is
  there: the zones answer, the controller image and every brought subnet exist, and every rung of
  every partition is in a zone of the region, offered and within quota. A single failing check never
  hides another: the report holds the results of every rung.
\<close>

theorem preflight_verdict:
  assumes "preflight_run (Some cl) parts c = (rep, None)"
  shows "(report_ok rep \<longleftrightarrow> preflight_good cl parts c) \<and>
    (\<forall>zones. \<forall>(name, r)\<in>set (all_rungs parts). ck_zones c = Inr zones \<longrightarrow>
      set (fst (check_rung c (cl_region cl) zones name r)) \<subseteq> set rep)"
proof -
  obtain zs r1 r2 r3 where p: "ck_zones c = Inr zs" "check_ami c cl = (r1, None)"
    "(if nw_byo (cl_network cl) then check_subnets c (nw_subnet_ids (cl_network cl)) else ([], None)) = (r2, None)"
    "check_rungs c (cl_region cl) zs (all_rungs parts) = (r3, None)" "rep = r1 @ r2 @ r3"
    using preflight_run_parts [OF assms] by metis
  have "report_ok r2 \<longleftrightarrow>
      (nw_byo (cl_network cl) \<longrightarrow> (\<forall>sn\<in>set (nw_subnet_ids (cl_network cl)). ck_subnet c sn = Inr True))"
    using p(3) check_subnets_ok by (auto simp: report_ok_def split: if_splits)
  moreover have "report_ok rep \<longleftrightarrow> report_ok r1 \<and> report_ok r2 \<and> report_ok r3"
    by (simp add: p(5) report_ok_def)
  ultimately have "report_ok rep \<longleftrightarrow> preflight_good cl parts c"
    using p(1) check_ami_ok [OF p(2)] check_rungs_ok [OF p(4)] by (simp add: preflight_good_def)
  moreover have "set (fst (check_rung c (cl_region cl) zones name r)) \<subseteq> set rep"
    if "ck_zones c = Inr zones" "(name, r) \<in> set (all_rungs parts)" for zones name r
    using that p(1,5) check_rungs_ok [OF p(4)] by auto
  ultimately show ?thesis by blast
qed

text \<open>A cloud that offers everything in one zone, and two partitions with a second rung that names no zone: the specification
accepts them and the launch leaves the choice to EC2, but preflight looks the empty name up and fails.\<close>

definition demo_checker :: checker where
  "demo_checker =
     \<lparr>ck_zones = Inr [''us-west-2a''], ck_image = (\<lambda>_. Inr True), ck_subnet = (\<lambda>_. Inr True),
      ck_offered = (\<lambda>_ _. Inr True), ck_quota = None\<rparr>"

lemma preflight_verdict_witness:
  "\<exists>rep. preflight_run (Some demo_cluster) (Some two_partitions) demo_checker = (rep, None) \<and>
     (report_ok rep \<longleftrightarrow> preflight_good demo_cluster (Some two_partitions) demo_checker) \<and> length rep = 5 \<and>
     \<not> report_ok rep \<and> validate_partitions two_partitions = None"
proof -
  let ?rep = "fst (preflight_run (Some demo_cluster) (Some two_partitions) demo_checker)"
  have r: "preflight_run (Some demo_cluster) (Some two_partitions) demo_checker = (?rep, None)" and "length ?rep = 5"
    and "\<not> report_ok ?rep"
    by code_simp+
  with preflight_verdict [OF r] two_partitions_valid show ?thesis by blast
qed

section \<open>The quota checker\<close>

text \<open>
  The library of truffle: a snapshot \<open>'q\<close> of the quotas of a region, the virtual CPUs of the instance
  types a search returns, and its verdict, which is a reason when it is negative.
\<close>

record 'q truffle =
  tr_get_quotas :: "go_error + 'q"
  tr_search :: "string \<Rightarrow> go_error + int list"
  tr_can_launch :: "string \<Rightarrow> int \<Rightarrow> 'q \<Rightarrow> bool \<Rightarrow> bool \<times> string"
  tr_family :: "string \<Rightarrow> string"

record 'q quota_cache =
  qc_quotas :: "'q option"
  qc_vcpus :: "string \<rightharpoonup> int"
  qc_calls :: nat

definition empty_cache :: "'q quota_cache" where
  "empty_cache = \<lparr>qc_quotas = None, qc_vcpus = Map.empty, qc_calls = 0\<rparr>"

text \<open>The cached reads. \<open>qc_calls\<close> counts the snapshots that have been asked for.\<close>

definition get_quotas :: "'q truffle \<Rightarrow> 'q quota_cache \<Rightarrow> (go_error + 'q) \<times> 'q quota_cache" where
  "get_quotas t qc =
     (case qc_quotas qc of
        Some q \<Rightarrow> (Inr q, qc)
      | None \<Rightarrow>
          (let qc = qc\<lparr>qc_calls := qc_calls qc + 1\<rparr>
           in case tr_get_quotas t of
                Inl err \<Rightarrow> (Inl err, qc)
              | Inr q \<Rightarrow> (Inr q, qc\<lparr>qc_quotas := Some q\<rparr>)))"

definition vcpus :: "'q truffle \<Rightarrow> string \<Rightarrow> string \<Rightarrow> 'q quota_cache \<Rightarrow> (go_error + int) \<times> 'q quota_cache" where
  "vcpus t region ty qc =
     (case qc_vcpus qc ty of
        Some v \<Rightarrow> (Inr v, qc)
      | None \<Rightarrow>
          (case tr_search t ty of
             Inl err \<Rightarrow> (Inl err, qc)
           | Inr [] \<Rightarrow> (Inl (ErrText (''instance type '' @ go_quote ty @ '' not found in region '' @ region)), qc)
           | Inr (v # _) \<Rightarrow> (Inr v, qc\<lparr>qc_vcpus := (qc_vcpus qc)(ty \<mapsto> v)\<rparr>)))"

definition verdict :: "'q truffle \<Rightarrow> string \<Rightarrow> int \<Rightarrow> string \<Rightarrow> 'q \<Rightarrow> bool \<times> string" where
  "verdict t ty v model q =
     (let spot = (model = ''spot'')
      in case tr_can_launch t ty v q spot of
           (True, _) \<Rightarrow>
             (True, show_int v @ '' vCPU within '' @ (if spot then ''spot'' else ''on-demand'') @ '' quota for '' @ tr_family t ty)
         | (False, reason) \<Rightarrow> (False, reason))"

definition service_quota_ok ::
  "'q truffle \<Rightarrow> string \<Rightarrow> string \<Rightarrow> string \<Rightarrow> string \<Rightarrow> 'q quota_cache \<Rightarrow> (go_error + bool \<times> string) \<times> 'q quota_cache"
where
  "service_quota_ok t region ty az model qc =
     (if model = ''reserved'' then (Inr (True, ''reserved capacity: not vCPU-quota-bound''), qc)
      else (case get_quotas t qc of
          (Inl err, qc) \<Rightarrow> (Inl (ErrWrap (''truffleck: get quotas (region '' @ region @ ''): '') err), qc)
        | (Inr q, qc) \<Rightarrow>
            (case vcpus t region ty qc of
               (Inl err, qc) \<Rightarrow> (Inl (ErrWrap (''truffleck: vcpu lookup '' @ ty @ '': '') err), qc)
             | (Inr v, qc) \<Rightarrow> (Inr (verdict t ty v model q), qc))))"

text \<open>The rungs of a run, one quota question after the other.\<close>

fun quota_answers ::
  "'q truffle \<Rightarrow> string \<Rightarrow> (string \<times> string \<times> string) list \<Rightarrow> 'q quota_cache \<Rightarrow> (go_error + bool \<times> string) list \<times> 'q quota_cache"
where
  "quota_answers t region [] qc = ([], qc)"
| "quota_answers t region ((ty, az, model) # qs) qc =
     (case service_quota_ok t region ty az model qc of
        (a, qc) \<Rightarrow> (case quota_answers t region qs qc of (as, qc) \<Rightarrow> (a # as, qc)))"

text \<open>The caches hold what the service says.\<close>

definition cache_ok :: "'q truffle \<Rightarrow> 'q quota_cache \<Rightarrow> bool" where
  "cache_ok t qc \<longleftrightarrow>
     (\<forall>q. qc_quotas qc = Some q \<longrightarrow> tr_get_quotas t = Inr q) \<and>
     (\<forall>ty v. qc_vcpus qc ty = Some v \<longrightarrow> (\<exists>vs. tr_search t ty = Inr (v # vs))) \<and>
     ((\<exists>q. tr_get_quotas t = Inr q) \<longrightarrow> qc_calls qc = (if qc_quotas qc = None then 0 else 1))"

lemma get_quotas_cached:
  "cache_ok t qc \<Longrightarrow> fst (get_quotas t qc) = tr_get_quotas t \<and> cache_ok t (snd (get_quotas t qc))"
  by (auto simp: get_quotas_def cache_ok_def Let_def split: option.splits sum.splits)

lemma vcpus_cached:
  "cache_ok t qc \<Longrightarrow>
     fst (vcpus t region ty qc) = fst (vcpus t region ty (empty_cache :: 'q quota_cache)) \<and>
     cache_ok t (snd (vcpus t region ty qc))"
  for t :: "'q truffle"
proof -
  assume c: "cache_ok t qc"
  show ?thesis
  proof (cases "qc_vcpus qc ty")
    case (Some v)
    then obtain vs where "tr_search t ty = Inr (v # vs)" using c unfolding cache_ok_def by blast
    then show ?thesis using Some c by (simp add: vcpus_def empty_cache_def)
  next
    case None
    then show ?thesis using c
      by (simp add: vcpus_def empty_cache_def cache_ok_def split: sum.split list.split)
  qed
qed

lemma service_quota_cached:
  fixes t :: "'q truffle"
  assumes "cache_ok t qc"
  shows "fst (service_quota_ok t region ty az model qc) =
      fst (service_quota_ok t region ty az model (empty_cache :: 'q quota_cache))"
    and "cache_ok t (snd (service_quota_ok t region ty az model qc))"
proof -
  have e: "cache_ok t (empty_cache :: 'q quota_cache)" by (simp add: cache_ok_def empty_cache_def)
  obtain r1 c1 where g: "get_quotas t qc = (r1, c1)" by fastforce
  obtain r0 c0 where g0: "get_quotas t (empty_cache :: 'q quota_cache) = (r0, c0)" by fastforce
  have r: "r1 = r0" "cache_ok t c1" "cache_ok t c0"
    using get_quotas_cached [OF assms] get_quotas_cached [OF e] g g0 by auto
  obtain v1 d1 where v: "vcpus t region ty c1 = (v1, d1)" by fastforce
  obtain v0 d0 where v0: "vcpus t region ty c0 = (v0, d0)" by fastforce
  have w: "v1 = v0" "cache_ok t d1"
    using vcpus_cached [OF r(2), of region ty] vcpus_cached [OF r(3), of region ty] v v0 by auto
  show "fst (service_quota_ok t region ty az model qc) =
      fst (service_quota_ok t region ty az model (empty_cache :: 'q quota_cache))"
    using g g0 r v v0 w by (simp add: service_quota_ok_def split: sum.splits)
  show "cache_ok t (snd (service_quota_ok t region ty az model qc))"
    using assms g r v w by (simp add: service_quota_ok_def split: sum.splits)
qed

lemma quota_answers_cached:
  fixes t :: "'q truffle"
  assumes "cache_ok t qc"
  shows "fst (quota_answers t region qs qc) =
      map (\<lambda>(ty, az, model). fst (service_quota_ok t region ty az model (empty_cache :: 'q quota_cache))) qs \<and>
    cache_ok t (snd (quota_answers t region qs qc))"
  using assms
proof (induction qs arbitrary: qc)
  case (Cons q qs)
  obtain ty az model where q: "q = (ty, az, model)" by (metis surj_pair)
  obtain a c1 where a: "service_quota_ok t region ty az model qc = (a, c1)" by fastforce
  show ?case
    using Cons.IH [of c1] service_quota_cached [OF Cons.prems, of region ty az model] a
    by (auto simp: q split: prod.splits)
qed simp

text \<open>
  C35. The caches of the quota checker are invisible: over any sequence of rungs every answer is the one
  an empty cache gives, and a service that delivers its snapshot is asked for it at most once.
\<close>

theorem quota_cache_transparent:
  fixes t :: "'q truffle"
  shows "fst (quota_answers t region qs (empty_cache :: 'q quota_cache)) =
      map (\<lambda>(ty, az, model). fst (service_quota_ok t region ty az model (empty_cache :: 'q quota_cache))) qs \<and>
    (tr_get_quotas t = Inr q \<longrightarrow> qc_calls (snd (quota_answers t region qs (empty_cache :: 'q quota_cache))) \<le> 1)"
proof -
  have "cache_ok t (empty_cache :: 'q quota_cache)" by (simp add: cache_ok_def empty_cache_def)
  note c = quota_answers_cached [OF this, of region qs]
  then show ?thesis by (auto simp: cache_ok_def)
qed

definition demo_truffle :: "nat truffle" where
  "demo_truffle =
     \<lparr>tr_get_quotas = Inr 64, tr_search = (\<lambda>_. Inr [192]),
      tr_can_launch = (\<lambda>ty v q spot. if v \<le> int q then (True, '''') else (False, ''quota exceeded'')),
      tr_family = (\<lambda>_. ''P'')\<rparr>"

lemma quota_cache_transparent_witness:
  "qc_calls (snd (quota_answers demo_truffle ''r'' [(''p5'', ''a'', ''spot''), (''p4d'', ''a'', '''')]
     (empty_cache :: nat quota_cache))) \<le> 1"
  using quota_cache_transparent [of demo_truffle "''r''" "[(''p5'', ''a'', ''spot''), (''p4d'', ''a'', '''')]" 64]
  by (simp add: demo_truffle_def)

text \<open>
  The quota checker compares the capacity model as it is written, and not as the specification reads
  it: a model that validation accepts as reserved but that is spelled otherwise is judged against the
  on-demand quota, and so refused where a reservation would have run.
\<close>

theorem reserved_alias_judged_on_demand:
  assumes "model \<noteq> ''reserved''" "capacity_model_from_string model = Inr CapacityReserved"
    and "tr_get_quotas t = Inr q" "tr_search t ty = Inr (v # vs)" "tr_can_launch t ty v q False = (False, reason)"
  shows "fst (service_quota_ok t region ty az model empty_cache) = Inr (False, reason)"
proof -
  have "capacity_model_from_string ''spot'' = Inr CapacitySpot" by code_simp
  then have "model \<noteq> ''spot''" using assms(2) by auto
  then show ?thesis
    using assms by (simp add: service_quota_ok_def get_quotas_def vcpus_def verdict_def empty_cache_def)
qed

lemma reserved_alias_judged_on_demand_witness:
  "capacity_model_from_string '' ODCR'' = Inr CapacityReserved \<and>
   fst (service_quota_ok demo_truffle ''r'' ''p5.48xlarge'' ''a'' '' ODCR'' empty_cache) = Inr (False, ''quota exceeded'')"
proof -
  have c: "capacity_model_from_string '' ODCR'' = Inr CapacityReserved" by code_simp
  show ?thesis
    using reserved_alias_judged_on_demand [OF _ c, of demo_truffle 64 "''p5.48xlarge''" 192 "[]" "''quota exceeded''" "''r''" "''a''"] c
    by (simp add: demo_truffle_def)
qed

end
