(* ===== verification/Q0_Cli.thy ===== *)
theory Q0_Cli
  imports Tofu_Properties Tofu_Run Asbx_Wire Preflight Spored
begin

text \<open>
  \<^verbatim>\<open>cmd/q0/main.go\<close> and \<^verbatim>\<open>cmd/q0-spored/region.go\<close>: the commands of the \<^verbatim>\<open>q0\<close> program as functions of
  their flags, the environment and the replies of what they call. A command returns its error and
  what it did, step by step: the files it wrote, the backend it prepared, the runs of \<^verbatim>\<open>tofu\<close>, and the
  lines it printed.
\<close>

section \<open>The environment to pin\<close>

definition output_value :: "(string \<rightharpoonup> string) \<Rightarrow> string \<Rightarrow> string" where
  "output_value out key = (case out key of Some v \<Rightarrow> v | None \<Rightarrow> '''')"

definition env_line :: "string \<Rightarrow> string \<Rightarrow> string" where
  "env_line env v = ''export '' @ env @ ''='' @ v"

definition env_entry :: "(string \<rightharpoonup> string) \<Rightarrow> string \<times> string \<Rightarrow> string list" where
  "env_entry out = (\<lambda>(env, key). if output_value out key \<noteq> '''' then [env_line env (output_value out key)] else [])"

definition efs_dns_key :: "nat \<Rightarrow> string" where
  "efs_dns_key i = ''efs_'' @ show_nat i @ ''_dns''"

text \<open>The loop over the storage entries, with the index.\<close>

fun zip_mounts :: "(string \<rightharpoonup> string) \<Rightarrow> nat \<Rightarrow> storage_spec list \<Rightarrow> mount list" where
  "zip_mounts out i [] = []"
| "zip_mounts out i (s # ss) =
     (let dns = output_value out (efs_dns_key i)
      in if dns = '''' \<or> sg_mount_path s = '''' then zip_mounts out (Suc i) ss
         else \<lparr>m_dns = dns, m_path = sg_mount_path s\<rparr> # zip_mounts out (Suc i) ss)"

definition env_outputs :: "(string \<times> string) list" where
  "env_outputs =
     [(env_instance_profile, ''node_instance_profile_arn''), (env_scripts_bucket, ''scripts_bucket''),
      (env_manifest_bucket, ''manifest_bucket''), (env_controller_host, ''controller_private_ip''),
      (env_controller_standby_host, ''controller_standby_private_ip'')]"

definition env_mounts :: "cluster option \<Rightarrow> (string \<rightharpoonup> string) \<Rightarrow> mount list" where
  "env_mounts cl out = (case cl of None \<Rightarrow> [] | Some c \<Rightarrow> zip_mounts out 0 (cl_storage c))"

definition apply_env_lines :: "cluster option \<Rightarrow> (string \<rightharpoonup> string) \<Rightarrow> string list" where
  "apply_env_lines cl out =
     concat (map (env_entry out) env_outputs) @
     (let spec = format_mount_spec (env_mounts cl out)
      in if spec \<noteq> '''' then [env_line env_mount_spec spec] else [])"

definition print_apply_env :: "cluster \<Rightarrow> (string \<rightharpoonup> string) \<Rightarrow> string list" where
  "print_apply_env cl out =
     ''# pin these into the resume/suspend environment:'' # apply_env_lines (Some cl) out"

section \<open>q0 apply\<close>

record apply_flags =
  af_file :: string
  af_region :: string
  af_scripts_bucket :: string
  af_manifest_bucket :: string
  af_state_bucket :: string
  af_lock_table :: string
  af_workdir :: string
  af_az_count :: int
  af_admin_cidr :: string
  af_approve :: bool
  af_dry_run :: bool
  af_show_env :: bool

text \<open>The flags that are empty, filled from the cluster and the environment.\<close>

definition resolve_flags :: "environ \<Rightarrow> cluster \<Rightarrow> apply_flags \<Rightarrow> apply_flags" where
  "resolve_flags getenv cl f =
     f\<lparr>af_region := (if af_region f = '''' then first_non_empty [cl_region cl, getenv env_region] else af_region f),
       af_scripts_bucket := (if af_scripts_bucket f = '''' then
           first_non_empty [getenv env_scripts_bucket, cl_name cl @ ''-q0-scripts''] else af_scripts_bucket f),
       af_manifest_bucket := (if af_manifest_bucket f = '''' then getenv env_manifest_bucket else af_manifest_bucket f),
       af_state_bucket := (if af_state_bucket f = '''' then
           first_non_empty [getenv env_state_bucket, cl_name cl @ ''-q0-state''] else af_state_bucket f),
       af_lock_table := (if af_lock_table f = '''' then
           first_non_empty [getenv env_lock_table, cl_name cl @ ''-q0-lock''] else af_lock_table f),
       af_workdir := (if af_workdir f = '''' then join_path [''.q0'', ''tofu'', ''cluster''] else af_workdir f)\<rparr>"

definition flag_opts :: "apply_flags \<Rightarrow> foundation_opts" where
  "flag_opts f =
     \<lparr>fo_scripts_bucket = af_scripts_bucket f, fo_manifest_bucket = af_manifest_bucket f, fo_node_role_name = '''',
      fo_az_count = af_az_count f, fo_admin_cidr = af_admin_cidr f\<rparr>"

definition flag_backend :: "apply_flags \<Rightarrow> backend_config" where
  "flag_backend f =
     \<lparr>bc_bucket = af_state_bucket f, bc_lock_table = af_lock_table f, bc_region = af_region f,
      bc_key = ''cluster/terraform.tfstate''\<rparr>"

definition net_desc :: "apply_flags \<Rightarrow> cluster \<Rightarrow> string" where
  "net_desc f cl =
     (if nw_byo (cl_network cl) then ''BYO VPC '' @ nw_vpc_id (cl_network cl)
      else ''generated VPC '' @ nw_cidr (cl_network cl) @ '' across '' @ show_int (af_az_count f) @
        '' AZ(s), egress='' @ (if nw_egress (cl_network cl) = '''' then egress_nat_gateway else nw_egress (cl_network cl)))"

definition ctl_desc :: "cluster \<Rightarrow> string" where
  "ctl_desc cl =
     (if cs_instance_type (cl_controller cl) \<noteq> '''' then
        ''controller '' @ cs_instance_type (cl_controller cl) @ '' (ami '' @ cs_ami_hash (cl_controller cl) @ '')''
      else ''no controller'')"

definition storage_desc :: "cluster \<Rightarrow> string" where
  "storage_desc cl =
     (if cl_storage cl \<noteq> [] then
        join_with '', '' (map (\<lambda>s. sg_kind s @ '' at '' @ sg_mount_path s) (cl_storage cl))
      else ''no shared storage'')"

definition dry_run_lines :: "apply_flags \<Rightarrow> cluster \<Rightarrow> string \<Rightarrow> string list" where
  "dry_run_lines f cl hash =
     [''layer=cluster hash='' @ hash @ '' region='' @ af_region f @ '' workdir='' @ af_workdir f,
      ''would provision: '' @ net_desc f cl @ ''; '' @ ctl_desc cl @ ''; storage: '' @ storage_desc cl @
        ''; scripts bucket '' @ go_quote (af_scripts_bucket f) @ '', manifest bucket '' @
        go_quote (af_manifest_bucket f) @ '', IAM profile q0-node, state backend '' @
        go_quote (af_state_bucket f) @ ''/'' @ go_quote (af_lock_table f),
      ''rendered HCL written; no AWS touched (--dry-run)'']"

datatype cli_step =
    StepFiles string
  | StepAwsConfig string
  | StepBackend backend_config
  | StepTofu "string list"
  | StepLine string

record 'w cli_env =
  ce_getenv :: environ
  ce_load_cluster :: "string \<Rightarrow> go_error + cluster"
  ce_marshal :: "cluster \<Rightarrow> go_error + string"
  ce_mkdir :: "string \<Rightarrow> go_error option"
  ce_write :: "string \<Rightarrow> go_error option"
  ce_aws_config :: "string \<Rightarrow> go_error option"
  ce_backend :: "'w backend_api"
  ce_look_path :: "string \<Rightarrow> string option"
  ce_tofu :: tofu_env
  ce_json :: json_decoder

type_synonym 'w cli_run = "go_error option \<times> cli_step list \<times> disk \<times> 'w"

text \<open>From \<^verbatim>\<open>Plan\<close> to the end of the command.\<close>

definition plan_and_apply :: "'w cli_env \<Rightarrow> apply_flags \<Rightarrow> cluster \<Rightarrow> string \<Rightarrow> go_error option \<times> cli_step list" where
  "plan_and_apply ce f cl hash =
     (let dir = af_workdir f; planned = StepTofu (tofu_plan_command dir)
      in case tofu_plan (ce_tofu ce) dir of
           (plan, Some err) \<Rightarrow> (Some err, [planned])
         | (plan, None) \<Rightarrow>
             (if \<not> af_approve f then
                (None, [planned, StepLine (''layer=cluster hash='' @ hash @ '' '' @ em_dash @
                     '' plan complete (changes pending: '' @ bool_str (pl_changes_pending plan) @ '')''),
                   StepLine ''re-run with --approve to apply''])
              else (case tofu_run (ce_tofu ce) (tofu_apply_command dir) of
                      Some err \<Rightarrow> (Some err, [planned, StepTofu (tofu_apply_command dir)])
                    | None \<Rightarrow>
                        (None, [planned, StepTofu (tofu_apply_command dir),
                            StepLine (''layer=cluster hash='' @ hash @ '' applied''),
                            StepTofu (tofu_output_command dir)] @
                          (case tofu_output (ce_json ce) (ce_tofu ce) dir of
                             Inl _ \<Rightarrow> []
                           | Inr out \<Rightarrow> map StepLine (print_apply_env cl out))))))"

text \<open>From \<^verbatim>\<open>EnsureBackend\<close> on.\<close>

definition run_tofu :: "'w cli_env \<Rightarrow> apply_flags \<Rightarrow> cluster \<Rightarrow> string \<Rightarrow> 'w \<Rightarrow> (go_error option \<times> cli_step list) \<times> 'w" where
  "run_tofu ce f cl hash w =
     (let backend = flag_backend f; dir = af_workdir f; init = tofu_init_command dir backend
      in case ensure_backend (ce_backend ce) backend w of
           (Some err, w) \<Rightarrow> ((Some err, [StepBackend backend]), w)
         | (None, w) \<Rightarrow>
             (case new_executor (ce_look_path ce) of
                Inl err \<Rightarrow> ((Some err, [StepBackend backend]), w)
              | Inr bin \<Rightarrow>
                  (case tofu_run (ce_tofu ce) init of
                     Some err \<Rightarrow> ((Some err, [StepBackend backend, StepTofu init]), w)
                   | None \<Rightarrow>
                       (if af_show_env f then
                          (case tofu_output (ce_json ce) (ce_tofu ce) dir of
                             Inl err \<Rightarrow> ((Some err, [StepBackend backend, StepTofu init, StepTofu (tofu_output_command dir)]), w)
                           | Inr out \<Rightarrow>
                               ((None, [StepBackend backend, StepTofu init, StepTofu (tofu_output_command dir)] @
                                  map StepLine (print_apply_env cl out)), w))
                        else (case plan_and_apply ce f cl hash of
                                (e, steps) \<Rightarrow> ((e, [StepBackend backend, StepTofu init] @ steps), w))))))"

definition admin_warning :: "apply_flags \<Rightarrow> cli_step list" where
  "admin_warning f =
     (if af_admin_cidr f = ''0.0.0.0/0'' then
        [StepLine ''warning: --admin-cidr is 0.0.0.0/0 (controller SSH open to the world); set it to your admin range'']
      else [])"

definition apply_cluster :: "'w cli_env \<Rightarrow> apply_flags \<Rightarrow> cluster \<Rightarrow> disk \<Rightarrow> 'w \<Rightarrow> 'w cli_run" where
  "apply_cluster ce f0 cl disk w =
     (let f = resolve_flags (ce_getenv ce) cl f0
      in case generate_cluster_foundation (Some cl) (flag_opts f) of
           Inl err \<Rightarrow> (Some err, admin_warning f, disk, w)
         | Inr files \<Rightarrow>
             (case write_files (ce_mkdir ce (af_workdir f)) (ce_write ce) (af_workdir f) files disk of
                (Some err, disk) \<Rightarrow> (Some err, admin_warning f @ [StepFiles (af_workdir f)], disk, w)
              | (None, disk) \<Rightarrow>
                  (let hash = (case content_hash (ce_marshal ce) cl of Inl _ \<Rightarrow> '''' | Inr h \<Rightarrow> h);
                       done = admin_warning f @ [StepFiles (af_workdir f)]
                   in if af_dry_run f then
                        (None, done @ map StepLine (dry_run_lines f cl hash), disk, w)
                      else if af_region f = '''' then
                        (Some (ErrText (''no region: set cluster.yaml region, --region, or '' @ env_region)), done, disk, w)
                      else (case ce_aws_config ce (af_region f) of
                          Some err \<Rightarrow> (Some (ErrWrap ''load AWS config: '' err), done @ [StepAwsConfig (af_region f)], disk, w)
                        | None \<Rightarrow>
                            (case run_tofu ce f cl hash w of
                               ((e, steps), w) \<Rightarrow> (e, done @ StepAwsConfig (af_region f) # steps, disk, w))))))"

definition cmd_apply :: "'w cli_env \<Rightarrow> apply_flags \<Rightarrow> string \<Rightarrow> disk \<Rightarrow> 'w \<Rightarrow> 'w cli_run" where
  "cmd_apply ce f layer disk w =
     (if layer \<noteq> ''cluster'' then
        (Some (ErrText (''layer '' @ go_quote layer @ '' not yet implemented (this phase: cluster '' @ em_dash @
           '' the IAM/buckets foundation)'')), [], disk, w)
      else (case ce_load_cluster ce (if af_file f = '''' then ''cluster.yaml'' else af_file f) of
              Inl err \<Rightarrow> (Some err, [], disk, w)
            | Inr cl \<Rightarrow> apply_cluster ce f cl disk w))"

end
