(* ===== verification/Q0_Commands.thy ===== *)
theory Q0_Commands
  imports Q0_Cli
begin

text \<open>
  The other commands of \<^verbatim>\<open>cmd/q0/main.go\<close>: preflight, explain, sweep, bootstrap push and the two that
  are not implemented. A command returns its error and
  the lines it printed, and what else it changed.
\<close>

section \<open>q0 preflight\<close>

definition load_partitions :: "(string \<Rightarrow> go_error + partitions) \<Rightarrow> string \<Rightarrow> go_error + string \<Rightarrow> go_error + partitions" where
  "load_partitions decode path file =
     (case file of
        Inl e \<Rightarrow> Inl (ErrWrap (''spec: read partitions '' @ path @ '': '') e)
      | Inr data \<Rightarrow> parse_partitions (decode data))"

text \<open>\<^verbatim>\<open>errors.Unwrap\<close>, and \<^verbatim>\<open>os.IsNotExist\<close> of a path error, which is a wrapping of the errno.\<close>

definition unwrap_error :: "go_error \<Rightarrow> go_error option" where
  "unwrap_error e = (case e of ErrWrap _ inner \<Rightarrow> Some inner | _ \<Rightarrow> None)"

definition is_not_exist :: "go_error option \<Rightarrow> bool" where
  "is_not_exist e =
     (case e of Some ErrNotExist \<Rightarrow> True | Some (ErrWrap _ ErrNotExist) \<Rightarrow> True | _ \<Rightarrow> False)"

definition path_error :: "string \<Rightarrow> go_error" where
  "path_error path = ErrWrap (''open '' @ path @ '': '') ErrNotExist"

definition optional_partitions :: "go_error + partitions \<Rightarrow> go_error + partitions option" where
  "optional_partitions loaded =
     (case loaded of
        Inr p \<Rightarrow> Inr (Some p)
      | Inl e \<Rightarrow> (if is_not_exist (unwrap_error e) then Inr None else Inl e))"

definition pad_right :: "nat \<Rightarrow> string \<Rightarrow> string" where
  "pad_right n s = s @ replicate (n - length s) (CHR '' '')"

definition result_line :: "check_result \<Rightarrow> string" where
  "result_line r =
     (if rs_ok r then ''OK  '' else ''FAIL'') @ ''  '' @ pad_right 22 (rs_check r) @ '' '' @
     pad_right 28 (rs_target r) @ '' '' @ rs_detail r"

text \<open>
  \<open>checker\<close> is what the region's clients answer; without the quota capability when \<^verbatim>\<open>--no-quota\<close> is
  given.
\<close>

definition cmd_preflight ::
  "environ \<Rightarrow> (string \<Rightarrow> go_error + cluster) \<Rightarrow> (string \<Rightarrow> go_error + partitions) \<Rightarrow> (string \<Rightarrow> go_error option) \<Rightarrow>
   (string \<Rightarrow> checker) \<Rightarrow> string \<Rightarrow> string \<Rightarrow> string \<Rightarrow> bool \<Rightarrow> go_error option \<times> string list"
where
  "cmd_preflight getenv load_cl load_parts aws_config checker file parts_file region no_quota =
     (case load_cl (if file = '''' then ''cluster.yaml'' else file) of
        Inl e \<Rightarrow> (Some e, [])
      | Inr cl \<Rightarrow>
          (case optional_partitions (load_parts (if parts_file = '''' then ''partitions.yaml'' else parts_file)) of
             Inl e \<Rightarrow> (Some e, [])
           | Inr parts \<Rightarrow>
               (let region = (if region = '''' then first_non_empty [cl_region cl, getenv env_region] else region)
                in if region = '''' then
                     (Some (ErrText (''no region: set cluster.yaml region, --region, or '' @ env_region)), [])
                   else (case aws_config region of
                       Some e \<Rightarrow> (Some (ErrWrap ''load AWS config: '' e), [])
                     | None \<Rightarrow>
                         (let c = (if no_quota then (checker region)\<lparr>ck_quota := None\<rparr> else checker region)
                          in case preflight_run (Some cl) parts c of
                               (rep, Some e) \<Rightarrow> (Some e, [])
                             | (rep, None) \<Rightarrow>
                                 (if \<not> report_ok rep then
                                    (Some (ErrText ''preflight: one or more checks failed''), map result_line rep)
                                  else (None, map result_line rep @ [''preflight: all checks passed''])))))))"

section \<open>q0 explain\<close>

definition default_records_dir :: "environ \<Rightarrow> string" where
  "default_records_dir getenv =
     (if getenv ''Q0_RECORDS_DIR'' \<noteq> '''' then getenv ''Q0_RECORDS_DIR'' else ''/var/lib/queuezero/records'')"

definition list_line :: "(entity_id \<Rightarrow> go_error + entity_record) \<Rightarrow> entity_id \<Rightarrow> string" where
  "list_line get i =
     (case get i of
        Inl e \<Rightarrow> ''  '' @ pad_right 24 i @ '' (unreadable: '' @ error_text e @ '')''
      | Inr rec \<Rightarrow> ''  '' @ pad_right 24 i @ '' '' @ summary rec)"

text \<open>\<open>names\<close> are the file names in the directory, \<open>get\<close> the store's lookup.\<close>

definition cmd_explain ::
  "(time \<Rightarrow> string) \<Rightarrow> string \<Rightarrow> go_error option \<Rightarrow> string list \<Rightarrow> (entity_id \<Rightarrow> go_error + entity_record) \<Rightarrow> string list \<Rightarrow>
   go_error option \<times> string list"
where
  "cmd_explain rfc3339 dir mkdir names get args =
     (case new_file_store dir mkdir of
        Inl e \<Rightarrow> (Some e, [])
      | Inr _ \<Rightarrow>
          (case args of
             [] \<Rightarrow>
               (let ids = list_records names
                in if ids = [] then
                     (Some (ErrText (''no reconciliation records found under '' @ dir)), [])
                   else (None, (''records under '' @ dir @ '':'') # map (list_line get) ids))
           | i # _ \<Rightarrow>
               (case get i of
                  Inl e \<Rightarrow> (Some e, [])
                | Inr rec \<Rightarrow> (None, [explain rfc3339 rec]))))"

section \<open>q0 sweep\<close>

definition reaped_line :: "string \<Rightarrow> sweep_decision \<Rightarrow> string" where
  "reaped_line verb d =
     verb @ '' '' @ sd_entity d @ '' ('' @ sd_provider_id d @ '', gen='' @ sd_generation d @ ''): '' @ sd_reason d"

definition cmd_sweep ::
  "'w wiring \<Rightarrow> environ \<Rightarrow> (duration \<Rightarrow> string) \<Rightarrow> duration \<Rightarrow> bool \<Rightarrow> string \<Rightarrow> (nat \<Rightarrow> time) \<Rightarrow> 'w \<Rightarrow>
   (go_error option \<times> string list) \<times> 'w"
where
  "cmd_sweep wr getenv dur grace dry flag clk w =
     (case build_bridge wr (settings_from_env getenv flag) of
        Inl e \<Rightarrow> ((Some e, []), w)
      | Inr b \<Rightarrow>
          (case sweep b dur grace dry clk w of
             (Inl e, w) \<Rightarrow> ((Some e, []), w)
           | (Inr res, w) \<Rightarrow>
               (let verb = (if dry then ''would reap'' else ''reaped'')
                in ((None, map (reaped_line verb) (sw_reaped res) @ map (reaped_line ''spared'') (sw_spared res) @
                     [''sweep: '' @ show_nat (length (sw_reaped res)) @ '' '' @ verb @ '', '' @
                      show_nat (length (sw_spared res)) @ '' spared'']), w))))"

section \<open>q0 bootstrap push\<close>

definition cmd_bootstrap_push ::
  "environ \<Rightarrow> (tar_entry list \<Rightarrow> string) \<Rightarrow> (string \<Rightarrow> go_error option) \<Rightarrow> (string \<Rightarrow> string \<Rightarrow> go_error option) \<Rightarrow>
   (put_object \<Rightarrow> go_error option) \<Rightarrow> string \<Rightarrow> string \<Rightarrow> bool \<Rightarrow> string \<Rightarrow> walk_entry list \<Rightarrow>
   (go_error option \<times> string list) \<times> put_object list"
where
  "cmd_bootstrap_push getenv archive aws_config s3_head s3_put bucket region dry dir es =
     (let bucket = (if bucket = '''' then getenv env_scripts_bucket else bucket)
      in case pack archive dir es of
           Inl e \<Rightarrow> ((Some e, []), [])
         | Inr (buf, digest) \<Rightarrow>
             (if dry then
                (let uri = (if bucket = '''' then ''s3://<bucket>/'' @ script_key digest
                            else ''s3://'' @ bucket @ ''/'' @ script_key digest)
                 in ((None, [''would upload '' @ uri @ '' ('' @ show_nat (length buf) @ '' bytes, sha256='' @ digest @ '')'']), []))
              else if bucket = '''' then
                ((Some (ErrText (''no scripts bucket: set --bucket or '' @ env_scripts_bucket)), []), [])
              else (let region = (if region = '''' then getenv env_region else region)
                    in if region = '''' then
                         ((Some (ErrText (''no region: set --region or '' @ env_region)), []), [])
                       else (case aws_config region of
                           Some e \<Rightarrow> ((Some (ErrWrap ''load AWS config: '' e), []), [])
                         | None \<Rightarrow>
                             (case put_script_set s3_head s3_put bucket digest buf of
                                (Inl e, puts) \<Rightarrow> ((Some e, []), puts)
                              | (Inr (uri, skipped), puts) \<Rightarrow>
                                  ((None, [uri @ (if skipped then '' (already present)'' else ''''),
                                           ''pin it: '' @ env_line env_bootstrap_s3 uri]), puts))))))"

definition cmd_import :: "go_error option" where
  "cmd_import = Some (ErrText (''not yet implemented '' @ em_dash @ '' see internal/capture''))"

definition cmd_capture :: "go_error option" where
  "cmd_capture = Some (ErrText (''not yet implemented '' @ em_dash @ '' see internal/capture''))"

end
