(* ===== verification/Q0_Properties.thy ===== *)
theory Q0_Properties
  imports Q0_Commands
begin

text \<open>
  The command line: when an apply may change the cloud, how the outputs of an applied layer reach the
  nodes that are launched later, and what the other commands leave alone.
\<close>

section \<open>q0 apply\<close>

definition is_apply :: "cli_step \<Rightarrow> bool" where
  "is_apply s = (case s of StepTofu (_ # cmd # _) \<Rightarrow> cmd = ''apply'' | _ \<Rightarrow> False)"

definition is_local :: "cli_step \<Rightarrow> bool" where
  "is_local s = (case s of StepFiles _ \<Rightarrow> True | StepLine _ \<Rightarrow> True | _ \<Rightarrow> False)"

lemma step_kinds [simp]:
  "\<not> is_apply (StepLine l)" "\<not> is_apply (StepFiles p)" "\<not> is_apply (StepAwsConfig r)" "\<not> is_apply (StepBackend b)"
  "\<not> is_apply (StepTofu (tofu_plan_command dir))" "\<not> is_apply (StepTofu (tofu_init_command dir b))"
  "\<not> is_apply (StepTofu (tofu_output_command dir))" "is_apply (StepTofu (tofu_apply_command dir))"
  "is_local (StepLine l)" "is_local (StepFiles p)"
  by (simp_all add: is_apply_def is_local_def tofu_plan_command_def tofu_init_command_def tofu_output_command_def
      tofu_apply_command_def)

lemma admin_warning_local: "s \<in> set (admin_warning f) \<Longrightarrow> is_local s \<and> \<not> is_apply s"
  by (auto simp: admin_warning_def split: if_splits)

lemma plan_and_apply_apply:
  assumes "plan_and_apply ce f cl hash = (e, steps)" "\<exists>s\<in>set steps. is_apply s"
  shows "af_approve f \<and> snd (tofu_plan (ce_tofu ce) (af_workdir f)) = None \<and>
    (\<exists>post. steps = [StepTofu (tofu_plan_command (af_workdir f)), StepTofu (tofu_apply_command (af_workdir f))] @ post \<and>
       (\<forall>s\<in>set post. \<not> is_apply s))"
proof -
  obtain plan err where p: "tofu_plan (ce_tofu ce) (af_workdir f) = (plan, err)" by fastforce
  show ?thesis
  proof (cases err)
    case (Some x)
    with assms p show ?thesis by (auto simp: plan_and_apply_def)
  next
    case None
    show ?thesis
    proof (cases "af_approve f")
      case False
      with assms p None show ?thesis by (auto simp: plan_and_apply_def)
    next
      case True
      with assms p None show ?thesis by (auto simp: plan_and_apply_def Let_def split: option.splits sum.splits)
    qed
  qed
qed

lemma run_tofu_apply:
  assumes "run_tofu ce f cl hash w = ((e, steps), w')" "\<exists>s\<in>set steps. is_apply s"
  shows "af_approve f \<and> \<not> af_show_env f \<and> snd (tofu_plan (ce_tofu ce) (af_workdir f)) = None \<and>
    (\<exists>post. steps = [StepBackend (flag_backend f), StepTofu (tofu_init_command (af_workdir f) (flag_backend f)),
       StepTofu (tofu_plan_command (af_workdir f)), StepTofu (tofu_apply_command (af_workdir f))] @ post \<and>
       (\<forall>s\<in>set post. \<not> is_apply s))"
proof -
  obtain be w1 where b: "ensure_backend (ce_backend ce) (flag_backend f) w = (be, w1)" by fastforce
  obtain pe ps where p: "plan_and_apply ce f cl hash = (pe, ps)" by fastforce
  have "be = None" "\<exists>bin. new_executor (ce_look_path ce) = Inr bin"
    "tofu_run (ce_tofu ce) (tofu_init_command (af_workdir f) (flag_backend f)) = None" "\<not> af_show_env f"
    using assms b p by (auto simp: run_tofu_def Let_def split: option.splits sum.splits if_splits)
  then have "steps = [StepBackend (flag_backend f), StepTofu (tofu_init_command (af_workdir f) (flag_backend f))] @ ps"
    "\<not> af_show_env f"
    using assms(1) b p by (auto simp: run_tofu_def Let_def)
  then show ?thesis using plan_and_apply_apply [OF p] assms(2) by auto
qed

text \<open>Where a command ends: before the cloud, or in the runs of the binary.\<close>

lemma apply_cluster_cases:
  assumes "apply_cluster ce f0 cl disk w = (e, steps, disk', w')"
  defines "f \<equiv> resolve_flags (ce_getenv ce) cl f0"
  obtains (before) "w' = w" "\<forall>s\<in>set steps. (is_local s \<or> \<not> af_dry_run f0 \<and> s = StepAwsConfig (af_region f))"
  | (tofu) hash pre ts where "\<not> af_dry_run f0" "run_tofu ce f cl hash w = ((e, ts), w')"
      "steps = pre @ ts" "\<forall>s\<in>set pre. \<not> is_apply s"
      "\<exists>files. generate_cluster_foundation (Some cl) (flag_opts f) = Inr files \<and>
         write_files (ce_mkdir ce (af_workdir f)) (ce_write ce) (af_workdir f) files disk = (None, disk')"
proof -
  have dry: "af_dry_run f = af_dry_run f0" by (simp add: f_def resolve_flags_def)
  show thesis
  proof (cases "generate_cluster_foundation (Some cl) (flag_opts f)")
    case (Inl err)
    then show thesis using assms before admin_warning_local by (auto simp: apply_cluster_def Let_def)
  next
    case (Inr files)
    obtain we d where wf: "write_files (ce_mkdir ce (af_workdir f)) (ce_write ce) (af_workdir f) files disk = (we, d)"
      by fastforce
    define hash where "hash = (case content_hash (ce_marshal ce) cl of Inl _ \<Rightarrow> '''' | Inr h \<Rightarrow> h)"
    obtain r ts w1 where r: "run_tofu ce f cl hash w = ((r, ts), w1)" by (metis surj_pair)
    consider "we \<noteq> None \<or> af_dry_run f \<or> af_region f = '''' \<or> ce_aws_config ce (af_region f) \<noteq> None"
      | "we = None" "\<not> af_dry_run f" "af_region f \<noteq> ''''" "ce_aws_config ce (af_region f) = None" by blast
    then show thesis
    proof cases
      case 1
      have "w' = w \<and> (\<forall>s\<in>set steps. (is_local s \<or> \<not> af_dry_run f0 \<and> s = StepAwsConfig (af_region f)))"
        using assms(1) 1 Inr wf dry admin_warning_local [of _ f]
        by (auto simp: apply_cluster_def Let_def f_def [symmetric] split: option.splits if_splits)
      then show thesis using before by blast
    next
      case 2
      let ?pre = "admin_warning f @ [StepFiles (af_workdir f), StepAwsConfig (af_region f)]"
      have "(e, steps, disk', w') = (r, ?pre @ ts, d, w1)"
        using assms(1) 2 Inr wf r by (simp add: apply_cluster_def Let_def f_def [symmetric] hash_def [symmetric])
      then show thesis using tofu [of hash ts ?pre] 2 dry r wf Inr admin_warning_local [of _ f] by auto
    qed
  qed
qed

text \<open>What must hold of a command that has run \<^verbatim>\<open>tofu apply\<close>.\<close>

definition approved_apply :: "'w cli_env \<Rightarrow> apply_flags \<Rightarrow> cli_step list \<Rightarrow> bool" where
  "approved_apply ce f steps \<longleftrightarrow>
     af_approve f \<and> \<not> af_dry_run f \<and> \<not> af_show_env f \<and>
     (\<exists>pre backend dir post. steps = pre @ [StepBackend backend, StepTofu (tofu_init_command dir backend),
        StepTofu (tofu_plan_command dir), StepTofu (tofu_apply_command dir)] @ post \<and>
        snd (tofu_plan (ce_tofu ce) dir) = None \<and> (\<forall>s\<in>set (pre @ post). \<not> is_apply s))"

lemma apply_cluster_safe:
  assumes "apply_cluster ce f cl disk w = (e, steps, disk', w')"
  shows "(af_dry_run f \<longrightarrow> w' = w \<and> (\<forall>s\<in>set steps. is_local s)) \<and>
    ((\<exists>s\<in>set steps. is_apply s) \<longrightarrow> approved_apply ce f steps)"
  using assms
proof (cases rule: apply_cluster_cases)
  case before
  then have "\<not> is_apply s" if "s \<in> set steps" for s using that by (cases s) (auto simp: is_local_def)
  with before show ?thesis by blast
next
  case (tofu hash pre ts)
  have flags: "af_approve (resolve_flags env c f) = af_approve f" "af_show_env (resolve_flags env c f) = af_show_env f"
    for env c by (simp_all add: resolve_flags_def)
  have "approved_apply ce f steps" if "\<exists>s\<in>set steps. is_apply s"
  proof -
    have "\<exists>s\<in>set ts. is_apply s" using that tofu(3,4) by auto
    from run_tofu_apply [OF tofu(2) this] tofu(1,3,4) show ?thesis
      unfolding approved_apply_def flags by (auto simp: ball_Un intro!: exI [of _ pre])
  qed
  with tofu(1) show ?thesis by blast
qed

lemma cmd_apply_safe:
  assumes "cmd_apply ce f layer disk w = (e, steps, disk', w')"
  shows "(af_dry_run f \<longrightarrow> w' = w \<and> (\<forall>s\<in>set steps. is_local s)) \<and>
    ((\<exists>s\<in>set steps. is_apply s) \<longrightarrow> approved_apply ce f steps)"
proof -
  consider "w' = w" "steps = []"
    | cl where "apply_cluster ce f cl disk w = (e, steps, disk', w')"
    using assms by (auto simp: cmd_apply_def split: if_splits sum.splits)
  then show ?thesis
  proof cases
    case (2 cl)
    then show ?thesis by (rule apply_cluster_safe)
  qed auto
qed


definition demo_flags :: apply_flags where
  "demo_flags = \<lparr>af_file = '''', af_region = '''', af_scripts_bucket = ''hpc-q0-scripts'', af_manifest_bucket = '''',
     af_state_bucket = ''hpc-q0-state'', af_lock_table = ''hpc-q0-lock'', af_workdir = ''out'', af_az_count = 2,
     af_admin_cidr = ''10.0.0.0/8'', af_approve = True, af_dry_run = False, af_show_env = False\<rparr>"

text \<open>A binary that plans changes, applies them and has no outputs.\<close>

definition demo_tofu :: tofu_env where
  "demo_tofu args = (if args ! 1 = ''plan'' then ('''', Some (ErrText ''exit status 2'', Some 2)) else ('''', None))"

definition demo_cli :: "account cli_env" where
  "demo_cli =
     \<lparr>ce_getenv = (\<lambda>_. ''''), ce_load_cluster = (\<lambda>_. Inr demo_cluster), ce_marshal = (\<lambda>_. Inr ''name: hpc''),
      ce_mkdir = (\<lambda>_. None), ce_write = (\<lambda>_. None), ce_aws_config = (\<lambda>_. None), ce_backend = account_api,
      ce_look_path = (\<lambda>n. Some n), ce_tofu = demo_tofu,
      ce_json = \<lparr>jd_values = (\<lambda>_. Inr Map.empty), jd_unquote = (\<lambda>_. None)\<rparr>\<rparr>"

lemma demo_resolved:
  "resolve_flags (\<lambda>_. '''') demo_cluster demo_flags = demo_flags\<lparr>af_region := ''us-east-1''\<rparr>"
  by (simp add: resolve_flags_def demo_flags_def demo_cluster_def)

lemma demo_run:
  "run_tofu demo_cli (demo_flags\<lparr>af_region := ''us-east-1''\<rparr>) demo_cluster hash ([], []) =
     ((None, [StepBackend (flag_backend (demo_flags\<lparr>af_region := ''us-east-1''\<rparr>)),
        StepTofu (tofu_init_command ''out'' (flag_backend (demo_flags\<lparr>af_region := ''us-east-1''\<rparr>))),
        StepTofu (tofu_plan_command ''out''), StepTofu (tofu_apply_command ''out''),
        StepLine (''layer=cluster hash='' @ hash @ '' applied''), StepTofu (tofu_output_command ''out'')] @
        map StepLine (print_apply_env demo_cluster Map.empty)),
      ([(''hpc-q0-state'', None)], [''hpc-q0-lock'']))"
  by (simp add: run_tofu_def plan_and_apply_def tofu_plan_def tofu_run_def tofu_output_def parse_output_json_def
      demo_cli_def demo_tofu_def demo_flags_def flag_backend_def tofu_init_command_def tofu_plan_command_def
      tofu_apply_command_def tofu_output_command_def new_executor_def ensure_backend_def ensure_bucket_def
      ensure_lock_table_def account_api_def bucket_input_def table_input_def is_table_missing_def Let_def)

text \<open>The files of the sample cluster are generated and written.\<close>

lemma demo_files:
  assumes "fo_scripts_bucket opts \<noteq> ''''"
  obtains files d where "generate_cluster_foundation (Some demo_cluster) opts = Inr files"
    and "write_files None (\<lambda>_. None) ''out'' files Map.empty = (None, d)"
proof -
  obtain files where files: "generate_cluster_foundation (Some demo_cluster) opts = Inr files"
    using valid_cluster_data [OF demo_cluster_valid assms] generated_file_names by metis
  then have "\<exists>d. write_files None (\<lambda>_. None) ''out'' files Map.empty = (None, d)"
    using written_files [OF files, of "''out''" Map.empty] by auto
  with files that show thesis by blast
qed

lemma demo_cli_sel [simp]:
  "ce_getenv demo_cli = (\<lambda>_. '''')" "ce_load_cluster demo_cli = (\<lambda>_. Inr demo_cluster)"
  "ce_mkdir demo_cli = (\<lambda>_. None)" "ce_write demo_cli = (\<lambda>_. None)" "ce_aws_config demo_cli = (\<lambda>_. None)"
  by (simp_all add: demo_cli_def)


text \<open>The environment alone: what is run and printed.\<close>

lemma run_tofu_show:
  assumes "run_tofu ce f cl hash w = ((None, steps), w')" "af_show_env f"
  shows "\<exists>out. tofu_output (ce_json ce) (ce_tofu ce) (af_workdir f) = Inr out \<and>
    steps = [StepBackend (flag_backend f), StepTofu (tofu_init_command (af_workdir f) (flag_backend f)),
       StepTofu (tofu_output_command (af_workdir f))] @ map StepLine (print_apply_env cl out)"
proof -
  obtain be w1 where b: "ensure_backend (ce_backend ce) (flag_backend f) w = (be, w1)" by fastforce
  with assms show ?thesis
    by (auto simp: run_tofu_def Let_def split: option.splits sum.splits)
qed

lemma admin_warning_resolved [simp]: "admin_warning (resolve_flags env cl f) = admin_warning f"
  by (simp add: admin_warning_def resolve_flags_def)

text \<open>
  With \<^verbatim>\<open>--show-env\<close> a run that succeeds ends by printing the environment of the outputs that the
  binary reports for the loaded cluster, and the binary has run \<^verbatim>\<open>init\<close> and \<^verbatim>\<open>output\<close> only. With the
  default range of the administrators the first line on the same output is the warning, which a shell
  that evaluates the output runs as a command.
\<close>

theorem show_env_prints_outputs:
  assumes "cmd_apply ce f ''cluster'' disk w = (None, steps, disk', w')" "af_show_env f" "\<not> af_dry_run f"
  shows "\<exists>cl out dir backend. ce_load_cluster ce (if af_file f = '''' then ''cluster.yaml'' else af_file f) = Inr cl \<and>
    tofu_output (ce_json ce) (ce_tofu ce) dir = Inr out \<and>
    steps = admin_warning f @ [StepFiles dir, StepAwsConfig (bc_region backend), StepBackend backend,
      StepTofu (tofu_init_command dir backend), StepTofu (tofu_output_command dir)] @ map StepLine (print_apply_env cl out) \<and>
    (af_admin_cidr f = ''0.0.0.0/0'' \<longrightarrow> (\<exists>l. hd steps = StepLine (''warning: '' @ l)))"
proof -
  obtain cl where cl: "ce_load_cluster ce (if af_file f = '''' then ''cluster.yaml'' else af_file f) = Inr cl"
    and run: "apply_cluster ce f cl disk w = (None, steps, disk', w')"
    using assms(1) by (auto simp: cmd_apply_def split: sum.splits)
  let ?f = "resolve_flags (ce_getenv ce) cl f"
  have kept: "af_dry_run ?f = af_dry_run f" "af_show_env ?f = af_show_env f" by (simp_all add: resolve_flags_def)
  obtain hash ts where t: "run_tofu ce ?f cl hash w = ((None, ts), w')"
    and s: "steps = admin_warning f @ [StepFiles (af_workdir ?f), StepAwsConfig (af_region ?f)] @ ts"
    using run assms(3) kept
    by (auto simp: apply_cluster_def Let_def split: sum.splits option.splits prod.splits if_splits)
  obtain out where out: "tofu_output (ce_json ce) (ce_tofu ce) (af_workdir ?f) = Inr out"
    "ts = [StepBackend (flag_backend ?f), StepTofu (tofu_init_command (af_workdir ?f) (flag_backend ?f)),
       StepTofu (tofu_output_command (af_workdir ?f))] @ map StepLine (print_apply_env cl out)"
    using run_tofu_show [OF t] assms(2) kept(2) by auto
  have "bc_region (flag_backend ?f) = af_region ?f" by (simp add: flag_backend_def)
  moreover have "af_admin_cidr f = ''0.0.0.0/0'' \<longrightarrow> (\<exists>l. hd steps = StepLine (''warning: '' @ l))"
    using s by (auto simp: admin_warning_def)
  ultimately show ?thesis
    using cl out s by (intro exI [of _ cl] exI [of _ out] exI [of _ "af_workdir ?f"] exI [of _ "flag_backend ?f"]) simp
qed

lemma show_env_prints_outputs_witness:
  "\<exists>steps d l. cmd_apply demo_cli (demo_flags\<lparr>af_region := ''us-east-1'', af_show_env := True, af_admin_cidr := ''0.0.0.0/0''\<rparr>)
       ''cluster'' Map.empty ([], []) = (None, steps, d, ([(''hpc-q0-state'', None)], [''hpc-q0-lock''])) \<and>
     hd steps = StepLine (''warning: '' @ l)"
proof -
  let ?f = "demo_flags\<lparr>af_region := ''us-east-1'', af_show_env := True, af_admin_cidr := ''0.0.0.0/0''\<rparr>"
  obtain files d where files: "generate_cluster_foundation (Some demo_cluster) (flag_opts ?f) = Inr files"
    and d: "write_files None (\<lambda>_. None) ''out'' files Map.empty = (None, d)"
    using demo_files [of "flag_opts ?f"] by (auto simp: flag_opts_def demo_flags_def)
  have f: "af_workdir ?f = ''out''" "\<not> af_dry_run ?f" "af_show_env ?f" "af_admin_cidr ?f = ''0.0.0.0/0''"
    "resolve_flags (\<lambda>_. '''') demo_cluster ?f = ?f"
    by (simp_all add: demo_flags_def resolve_flags_def)
  have run: "\<exists>ts. run_tofu demo_cli ?f demo_cluster hash ([], []) =
      ((None, ts), ([(''hpc-q0-state'', None)], [''hpc-q0-lock'']))" for hash
    by (simp add: run_tofu_def tofu_run_def tofu_output_def parse_output_json_def
      demo_cli_def demo_tofu_def demo_flags_def flag_backend_def tofu_init_command_def
      tofu_output_command_def new_executor_def ensure_backend_def ensure_bucket_def
      ensure_lock_table_def account_api_def bucket_input_def table_input_def is_table_missing_def Let_def)
  define hash where "hash = (case content_hash (ce_marshal demo_cli) demo_cluster of Inl _ \<Rightarrow> '''' | Inr h \<Rightarrow> h)"
  obtain ts where ts: "run_tofu demo_cli ?f demo_cluster hash ([], []) =
      ((None, ts), ([(''hpc-q0-state'', None)], [''hpc-q0-lock'']))" using run by blast
  obtain steps where c: "cmd_apply demo_cli ?f ''cluster'' Map.empty ([], []) =
      (None, steps, d, ([(''hpc-q0-state'', None)], [''hpc-q0-lock'']))"
    using files d f ts by (auto simp: cmd_apply_def apply_cluster_def hash_def [symmetric] Let_def)
  from show_env_prints_outputs [OF c f(3,2)] f(4) c show ?thesis by blast
qed

section \<open>From an applied layer to the nodes\<close>

text \<open>The shared EFS mounts of a cluster, with the names their outputs have.\<close>

definition efs_mounts :: "(string \<rightharpoonup> string) \<Rightarrow> cluster \<Rightarrow> mount list" where
  "efs_mounts out c =
     map (\<lambda>(i, s). \<lparr>m_dns = output_value out (efs_dns_key i), m_path = sg_mount_path s\<rparr>)
       (filter (\<lambda>(i, s). sg_kind s = ''efs'') (enumerate 0 (cl_storage c)))"

lemma key_inj:
  "''efs_'' @ show_nat i @ ''_dns'' = ''efs_'' @ show_nat j @ ''_dns'' \<longleftrightarrow> i = j"
  "''efs_'' @ show_nat i @ ''_dns'' \<noteq> ''efs_'' @ show_nat j @ ''_id''"
proof -
  show "''efs_'' @ show_nat i @ ''_dns'' = ''efs_'' @ show_nat j @ ''_dns'' \<longleftrightarrow> i = j"
    using show_nat_inj by auto
  have "last (''efs_'' @ show_nat i @ ''_dns'') \<noteq> last (''efs_'' @ show_nat j @ ''_id'')" by simp
  then show "''efs_'' @ show_nat i @ ''_dns'' \<noteq> ''efs_'' @ show_nat j @ ''_id''" by metis
qed

lemma efs_output_iff:
  assumes "foundation_data (Some c) opts = Inr d"
  shows "efs_dns_key i \<in> set (outputs (foundation_pieces d)) \<longleftrightarrow>
    i < length (cl_storage c) \<and> sg_kind (cl_storage c ! i) = ''efs''"
proof -
  note f = foundation_data_facts [OF assms]
  have "take 4 (efs_dns_key i) = ''efs_''" by (simp add: efs_dns_key_def)
  then have "efs_dns_key i \<notin> set (fixed_outputs d)" using fixed_outputs_plain(2) by blast
  then have "efs_dns_key i \<in> set (outputs (foundation_pieces d)) \<longleftrightarrow>
      (\<exists>t\<in>set (td_storage d). st_kind t = ''efs'' \<and> st_index t = i)"
  proof -
    have "efs_dns_key i \<in> set (outputs (outputs_entry d t)) \<longleftrightarrow> st_kind t = ''efs'' \<and> st_index t = i" for t
      using key_inj [of i "st_index t"] by (auto simp: outputs_entry_def efs_dns_key_def)
    then show ?thesis
      using \<open>efs_dns_key i \<notin> set (fixed_outputs d)\<close> by (simp add: layer_outputs entry_outputs_def)
  qed
  also have "\<dots> \<longleftrightarrow> (\<exists>k<length (td_storage d). st_kind (td_storage d ! k) = ''efs'' \<and> st_index (td_storage d ! k) = i)"
    by (metis in_set_conv_nth)
  also have "\<dots> \<longleftrightarrow> i < length (cl_storage c) \<and> sg_kind (cl_storage c ! i) = ''efs''"
  proof -
    have len: "length (td_storage d) = length (cl_storage c)" using f(5) by (metis length_map)
    have "st_kind (td_storage d ! k) = sg_kind (cl_storage c ! k)" "st_index (td_storage d ! k) = k"
      if "k < length (cl_storage c)" for k
      using f(4,5) that len by (metis nth_map, metis add.left_neutral diff_zero length_upt nth_map nth_upt)
    then show ?thesis using len by auto
  qed
  finally show ?thesis .
qed

lemma zip_mounts_enumerate:
  assumes "\<forall>s\<in>set ss. sg_mount_path s \<noteq> ''''"
    and "\<And>k. k < length ss \<Longrightarrow> output_value out (efs_dns_key (i + k)) \<noteq> '''' \<longleftrightarrow> sg_kind (ss ! k) = ''efs''"
  shows "zip_mounts out i ss =
    map (\<lambda>(i, s). \<lparr>m_dns = output_value out (efs_dns_key i), m_path = sg_mount_path s\<rparr>)
      (filter (\<lambda>(i, s). sg_kind s = ''efs'') (enumerate i ss))"
  using assms
proof (induction ss arbitrary: i)
  case (Cons s ss)
  have "output_value out (efs_dns_key i) \<noteq> '''' \<longleftrightarrow> sg_kind s = ''efs''" using Cons.prems(2) [of 0] by simp
  moreover have "zip_mounts out (Suc i) ss =
    map (\<lambda>(i, s). \<lparr>m_dns = output_value out (efs_dns_key i), m_path = sg_mount_path s\<rparr>)
      (filter (\<lambda>(i, s). sg_kind s = ''efs'') (enumerate (Suc i) ss))"
    using Cons.IH [of "Suc i"] Cons.prems(1) Cons.prems(2) [of "Suc k" for k] by simp
  ultimately show ?case using Cons.prems(1) by (simp add: Let_def)
qed simp

lemma env_mounts_efs:
  assumes "validate_cluster c = None" "foundation_data (Some c) opts = Inr d"
    and "dom out = set (outputs (foundation_pieces d))" "'''' \<notin> ran out"
  shows "env_mounts (Some c) out = efs_mounts out c"
proof -
  have "output_value out k \<noteq> '''' \<longleftrightarrow> k \<in> dom out" for k
    using assms(4) by (auto simp: output_value_def ran_def split: option.splits)
  then have "output_value out (efs_dns_key k) \<noteq> '''' \<longleftrightarrow> sg_kind (cl_storage c ! k) = ''efs''"
    if "k < length (cl_storage c)" for k
    using efs_output_iff [OF assms(2), of k] assms(3) that by simp
  moreover have "\<forall>s\<in>set (cl_storage c). sg_mount_path s \<noteq> ''''"
    using assms(1) by (auto simp: validate_cluster_None_iff cluster_ok_def storage_ok_def list_all_iff)
  ultimately show ?thesis
    using zip_mounts_enumerate [of "cl_storage c" out 0] by (simp add: env_mounts_def efs_mounts_def)
qed


definition demo_outputs :: "string \<rightharpoonup> string" where
  "demo_outputs k =
     (if k \<in> set (outputs (foundation_pieces (demo_layer demo_cluster)))
      then Some (if k = efs_dns_key 0 then ''fs-1.efs'' else ''x'') else None)"


lemma sweep_dry:
  assumes "sweep b dur grace True clk w = (r, w')"
  shows "w' = w"
  using assms sweep_instances_accounts [of b _ dur grace True clk 0 _ empty_sweep w]
  by (auto simp: sweep_def split: option.splits sum.splits if_splits prod.splits)

lemma cmd_sweep_dry: "snd (cmd_sweep wr getenv dur grace True flag clk w) = w"
  using sweep_dry by (fastforce simp: cmd_sweep_def split: sum.splits prod.splits)

text \<open>
  A sweep from the command line is a dry run when it is asked to be one: the instances it would reap
  are printed and the world stays as it was.
\<close>

theorem dry_sweep_changes_nothing:
  "snd (cmd_sweep wr getenv dur grace True flag clk w) = w"
  by (rule cmd_sweep_dry)

text \<open>
  What \<^verbatim>\<open>q0 bootstrap push\<close> prints to pin is the address of what it has stored: the address names the
  digest of the archive, and the object is there or has just been written with the archive as its body.
\<close>

theorem push_pins_what_it_stored:
  assumes "cmd_bootstrap_push getenv archive aws s3_head s3_put bucket region False dir es = ((None, printed), puts)"
  shows "\<exists>b buf digest. pack archive dir es = Inr (buf, digest) \<and>
    b = (if bucket = '''' then getenv env_scripts_bucket else bucket) \<and> b \<noteq> '''' \<and>
    last printed = ''pin it: '' @ env_line env_bootstrap_s3 (''s3://'' @ b @ ''/'' @ script_key digest) \<and>
    (puts = [] \<and> s3_head b (script_key digest) = None \<or>
     puts = [\<lparr>po_bucket = b, po_key = script_key digest, po_body = buf, po_content_type = ''application/gzip''\<rparr>])"
proof -
  define b where "b = (if bucket = '''' then getenv env_scripts_bucket else bucket)"
  obtain buf digest where p: "pack archive dir es = Inr (buf, digest)"
    using assms by (cases "pack archive dir es") (auto simp: cmd_bootstrap_push_def Let_def)
  have b: "b \<noteq> ''''"
    using assms p by (auto simp: cmd_bootstrap_push_def Let_def b_def)
  obtain uri skipped where u: "put_script_set s3_head s3_put b digest buf = (Inr (uri, skipped), puts)"
    and "last printed = ''pin it: '' @ env_line env_bootstrap_s3 uri"
    using assms p b unfolding cmd_bootstrap_push_def b_def [symmetric] Let_def
    by (auto split: if_splits option.splits prod.splits sum.splits)
  moreover have "uri = ''s3://'' @ b @ ''/'' @ script_key digest \<and>
    (puts = [] \<and> s3_head b (script_key digest) = None \<or>
     puts = [\<lparr>po_bucket = b, po_key = script_key digest, po_body = buf, po_content_type = ''application/gzip''\<rparr>])"
    using u by (auto simp: put_script_set_def head_def Let_def split: if_splits option.splits)
  ultimately show ?thesis using p b b_def by blast
qed

lemma push_pins_what_it_stored_witness:
  "\<exists>printed puts digest. cmd_bootstrap_push (\<lambda>_. ''us-east-1'') demo_archive (\<lambda>_. None) (\<lambda>_ _. None) (\<lambda>_. None)
      ''scripts'' '''' False ''d'' demo_scripts = ((None, printed), puts) \<and>
     last printed = ''pin it: '' @ env_line env_bootstrap_s3 (''s3://scripts/'' @ script_key digest) \<and> puts = []"
proof -
  obtain buf sha where pack: "pack demo_archive ''d'' demo_scripts = Inr (buf, sha)"
    using demo_pack by blast
  then obtain printed where run: "cmd_bootstrap_push (\<lambda>_. ''us-east-1'') demo_archive (\<lambda>_. None) (\<lambda>_ _. None)
      (\<lambda>_. None) ''scripts'' '''' False ''d'' demo_scripts = ((None, printed), [])" and
    l: "last printed = ''pin it: '' @ env_line env_bootstrap_s3 (''s3://scripts/'' @ script_key sha)"
    by (simp add: cmd_bootstrap_push_def put_script_set_def head_def)
  from push_pins_what_it_stored [OF run] run show ?thesis by auto
qed

end
