(* ===== verification/Q0_Main.thy ===== *)
theory Q0_Main
  imports Q0_Properties
begin

text \<open>
  The command tree of \<^verbatim>\<open>cmd/q0/main.go\<close>: the flags each command declares with their defaults, the
  number of arguments it accepts, and \<^verbatim>\<open>main\<close>, which runs the selected command and turns its error into
  the message and the exit code. The command line library parses; what it delivers is an
  \<open>invocation\<close>: the selected command, its arguments and its flags, which have their defaults where the
  line does not set them. Its message for a wrong number of arguments is a parameter.
\<close>

section \<open>Flags\<close>

datatype flag_default = StringFlag string | IntFlag int | BoolFlag bool | DurationFlag duration

type_synonym flag_decls = "(string \<times> flag_default) list"

definition apply_flag_decls :: flag_decls where
  "apply_flag_decls =
     [(''file'', StringFlag ''''), (''region'', StringFlag ''''), (''scripts-bucket'', StringFlag ''''),
      (''manifest-bucket'', StringFlag ''''), (''state-bucket'', StringFlag ''''), (''lock-table'', StringFlag ''''),
      (''workdir'', StringFlag ''''), (''az-count'', IntFlag 2), (''admin-cidr'', StringFlag ''0.0.0.0/0''),
      (''approve'', BoolFlag False), (''dry-run'', BoolFlag False), (''show-env'', BoolFlag False)]"

definition preflight_flag_decls :: flag_decls where
  "preflight_flag_decls =
     [(''file'', StringFlag ''''), (''partitions'', StringFlag ''''), (''region'', StringFlag ''''),
      (''no-quota'', BoolFlag False)]"

definition explain_flag_decls :: "environ \<Rightarrow> flag_decls" where
  "explain_flag_decls getenv = [(''records-dir'', StringFlag (default_records_dir getenv))]"

definition sweep_flag_decls :: flag_decls where
  "sweep_flag_decls =
     [(''grace'', DurationFlag (10 * minute)), (''dry-run'', BoolFlag False), (''partition'', StringFlag '''')]"

definition push_flag_decls :: flag_decls where
  "push_flag_decls = [(''bucket'', StringFlag ''''), (''region'', StringFlag ''''), (''dry-run'', BoolFlag False)]"

text \<open>The values of a line's flags: those it sets, and the declared defaults.\<close>

definition flag_values :: "flag_decls \<Rightarrow> (string \<rightharpoonup> flag_default) \<Rightarrow> string \<Rightarrow> flag_default" where
  "flag_values ds set_flags name =
     (case set_flags name of Some v \<Rightarrow> v | None \<Rightarrow> (case map_of ds name of Some v \<Rightarrow> v | None \<Rightarrow> StringFlag ''''))"

fun str_flag :: "flag_default \<Rightarrow> string" where
  "str_flag (StringFlag s) = s"
| "str_flag _ = ''''"

fun int_flag :: "flag_default \<Rightarrow> int" where
  "int_flag (IntFlag n) = n"
| "int_flag _ = 0"

fun bool_flag :: "flag_default \<Rightarrow> bool" where
  "bool_flag (BoolFlag b) = b"
| "bool_flag _ = False"

fun duration_flag :: "flag_default \<Rightarrow> duration" where
  "duration_flag (DurationFlag d) = d"
| "duration_flag _ = 0"

definition apply_flags_of :: "(string \<rightharpoonup> flag_default) \<Rightarrow> apply_flags" where
  "apply_flags_of set_flags =
     (let v = flag_values apply_flag_decls set_flags
      in \<lparr>af_file = str_flag (v ''file''), af_region = str_flag (v ''region''),
          af_scripts_bucket = str_flag (v ''scripts-bucket''), af_manifest_bucket = str_flag (v ''manifest-bucket''),
          af_state_bucket = str_flag (v ''state-bucket''), af_lock_table = str_flag (v ''lock-table''),
          af_workdir = str_flag (v ''workdir''), af_az_count = int_flag (v ''az-count''),
          af_admin_cidr = str_flag (v ''admin-cidr''), af_approve = bool_flag (v ''approve''),
          af_dry_run = bool_flag (v ''dry-run''), af_show_env = bool_flag (v ''show-env'')\<rparr>)"

section \<open>The tree\<close>

datatype arg_rule = ExactArgs nat | NoArgs | MaximumNArgs nat | AnyArgs

datatype q0_command = CmdApply | CmdPreflight | CmdImport | CmdCapture | CmdExplain | CmdSweep | CmdPush

text \<open>A command as it is declared: its usage line, its description, the arguments it accepts.\<close>

record command =
  cm_use :: string
  cm_short :: string
  cm_args :: arg_rule

definition root_command :: command where
  "root_command =
     \<lparr>cm_use = ''q0'', cm_short = ''queuezero '' @ em_dash @ '' spend-governed multi-account cloud cluster provisioner'',
      cm_args = AnyArgs\<rparr>"

definition apply_command :: command where
  "apply_command =
     \<lparr>cm_use = ''apply <layer>'', cm_short = ''apply a composable spec layer (cluster only in this phase)'',
      cm_args = ExactArgs 1\<rparr>"

definition preflight_command :: command where
  "preflight_command =
     \<lparr>cm_use = ''preflight'',
      cm_short = ''verify capacity offerings, AMI, subnets, Service Quotas '' @ em_dash @ '' read-only, no mutation'',
      cm_args = NoArgs\<rparr>"

definition import_command :: command where
  "import_command =
     \<lparr>cm_use = ''parallelcluster [config.yaml]'', cm_short = ''convert a ParallelCluster config into queuezero spec layers'',
      cm_args = AnyArgs\<rparr>"

definition capture_command :: command where
  "capture_command =
     \<lparr>cm_use = ''capture'', cm_short = ''introspect a live on-prem cluster and emit replicating spec files'',
      cm_args = AnyArgs\<rparr>"

definition explain_command :: command where
  "explain_command =
     \<lparr>cm_use = ''explain [entity]'', cm_short = ''show the structured reconciliation trace for an entity'',
      cm_args = MaximumNArgs 1\<rparr>"

definition sweep_command :: command where
  "sweep_command =
     \<lparr>cm_use = ''sweep'', cm_short = ''reap generation-orphaned instances left by missed teardowns'', cm_args = NoArgs\<rparr>"

definition push_command :: command where
  "push_command =
     \<lparr>cm_use = ''push <dir>'', cm_short = ''package a script-set, upload it content-addressed, print the URI to pin'',
      cm_args = ExactArgs 1\<rparr>"

definition command_decl :: "q0_command \<Rightarrow> command" where
  "command_decl c = (case c of
     CmdApply \<Rightarrow> apply_command | CmdPreflight \<Rightarrow> preflight_command | CmdImport \<Rightarrow> import_command
   | CmdCapture \<Rightarrow> capture_command | CmdExplain \<Rightarrow> explain_command | CmdSweep \<Rightarrow> sweep_command | CmdPush \<Rightarrow> push_command)"

text \<open>
  The words that select a command: the first of its usage line, below its group where it has one.
  The commands are those that \<^verbatim>\<open>main\<close> adds to the root and the groups to themselves.
\<close>

definition command_name :: "command \<Rightarrow> string" where
  "command_name c = hd (split_on (CHR '' '') (cm_use c))"

definition command_path :: "q0_command \<Rightarrow> string list" where
  "command_path c =
     (case c of CmdImport \<Rightarrow> [''import''] | CmdPush \<Rightarrow> [''bootstrap''] | _ \<Rightarrow> []) @ [command_name (command_decl c)]"

definition root_commands :: "q0_command list" where
  "root_commands = [CmdApply, CmdPreflight, CmdImport, CmdCapture, CmdExplain, CmdSweep, CmdPush]"

definition select_command :: "string list \<Rightarrow> q0_command option" where
  "select_command words = find (\<lambda>c. command_path c = words) root_commands"

lemma select_command_path: "select_command (command_path c) = Some c"
proof (cases c)
  case CmdApply then show ?thesis by (simp only:) code_simp
next
  case CmdPreflight then show ?thesis by (simp only:) code_simp
next
  case CmdImport then show ?thesis by (simp only:) code_simp
next
  case CmdCapture then show ?thesis by (simp only:) code_simp
next
  case CmdExplain then show ?thesis by (simp only:) code_simp
next
  case CmdSweep then show ?thesis by (simp only:) code_simp
next
  case CmdPush then show ?thesis by (simp only:) code_simp
qed

definition args_fit :: "arg_rule \<Rightarrow> string list \<Rightarrow> bool" where
  "args_fit r args = (case r of
     ExactArgs n \<Rightarrow> length args = n | NoArgs \<Rightarrow> args = [] | MaximumNArgs n \<Rightarrow> length args \<le> n | AnyArgs \<Rightarrow> True)"

record invocation =
  iv_command :: q0_command
  iv_args :: "string list"
  iv_flags :: "string \<rightharpoonup> flag_default"

section \<open>main\<close>

text \<open>What the commands call, and what they can change.\<close>

record ('a, 'w) q0_env =
  qe_cli :: "'a cli_env"
  qe_load_parts :: "string \<Rightarrow> go_error + partitions"
  qe_checker :: "string \<Rightarrow> checker"
  qe_rfc3339 :: "time \<Rightarrow> string"
  qe_records :: "string \<Rightarrow> go_error option \<times> string list \<times> (entity_id \<Rightarrow> go_error + entity_record)"
  qe_wiring :: "'w wiring"
  qe_dur :: "duration \<Rightarrow> string"
  qe_clock :: "nat \<Rightarrow> time"
  qe_archive :: "tar_entry list \<Rightarrow> string"
  qe_walk :: "string \<Rightarrow> walk_entry list"
  qe_head :: "string \<Rightarrow> string \<Rightarrow> go_error option"
  qe_put :: "put_object \<Rightarrow> go_error option"
  qe_arg_error :: "arg_rule \<Rightarrow> string list \<Rightarrow> go_error"

record ('a, 'w) q0_world =
  qw_disk :: disk
  qw_backend :: 'a
  qw_cluster :: 'w
  qw_puts :: "put_object list"

text \<open>What a step of \<^verbatim>\<open>apply\<close> prints itself.\<close>

definition step_lines :: "cli_step list \<Rightarrow> string list" where
  "step_lines steps = concat (map (\<lambda>s. case s of StepLine l \<Rightarrow> [l] | _ \<Rightarrow> []) steps)"

definition run_command ::
  "('a, 'w) q0_env \<Rightarrow> invocation \<Rightarrow> ('a, 'w) q0_world \<Rightarrow> (go_error option \<times> string list) \<times> ('a, 'w) q0_world"
where
  "run_command qe iv w =
     (let args = iv_args iv; ce = qe_cli qe; getenv = ce_getenv ce
      in case iv_command iv of
        CmdApply \<Rightarrow>
          (case cmd_apply ce (apply_flags_of (iv_flags iv)) (args ! 0) (qw_disk w) (qw_backend w) of
             (e, steps, d, a) \<Rightarrow> ((e, step_lines steps), w\<lparr>qw_disk := d, qw_backend := a\<rparr>))
      | CmdPreflight \<Rightarrow>
          (let v = flag_values preflight_flag_decls (iv_flags iv)
           in (cmd_preflight getenv (ce_load_cluster ce) (qe_load_parts qe) (ce_aws_config ce) (qe_checker qe)
                 (str_flag (v ''file'')) (str_flag (v ''partitions'')) (str_flag (v ''region''))
                 (bool_flag (v ''no-quota'')), w))
      | CmdImport \<Rightarrow> ((cmd_import, []), w)
      | CmdCapture \<Rightarrow> ((cmd_capture, []), w)
      | CmdExplain \<Rightarrow>
          (let dir = str_flag (flag_values (explain_flag_decls getenv) (iv_flags iv) ''records-dir'')
           in case qe_records qe dir of
                (mkdir, names, get) \<Rightarrow> (cmd_explain (qe_rfc3339 qe) dir mkdir names get args, w))
      | CmdSweep \<Rightarrow>
          (let v = flag_values sweep_flag_decls (iv_flags iv)
           in case cmd_sweep (qe_wiring qe) getenv (qe_dur qe) (duration_flag (v ''grace'')) (bool_flag (v ''dry-run''))
                     (str_flag (v ''partition'')) (qe_clock qe) (qw_cluster w) of
                (r, x) \<Rightarrow> (r, w\<lparr>qw_cluster := x\<rparr>))
      | CmdPush \<Rightarrow>
          (let v = flag_values push_flag_decls (iv_flags iv)
           in case cmd_bootstrap_push getenv (qe_archive qe) (ce_aws_config ce) (qe_head qe) (qe_put qe)
                     (str_flag (v ''bucket'')) (str_flag (v ''region'')) (bool_flag (v ''dry-run'')) (args ! 0)
                     (qe_walk qe (args ! 0)) of
                (r, puts) \<Rightarrow> (r, w\<lparr>qw_puts := qw_puts w @ puts\<rparr>)))"

text \<open>The exit code, standard output and standard error.\<close>

definition q0_main ::
  "('a, 'w) q0_env \<Rightarrow> invocation \<Rightarrow> ('a, 'w) q0_world \<Rightarrow> (int \<times> string list \<times> string list) \<times> ('a, 'w) q0_world"
where
  "q0_main qe iv w =
     (let rule = cm_args (command_decl (iv_command iv))
      in if \<not> args_fit rule (iv_args iv) then
           ((1, [], [''q0: '' @ error_text (qe_arg_error qe rule (iv_args iv))]), w)
         else (case run_command qe iv w of
           ((Some e, out), w') \<Rightarrow> ((1, out, [''q0: '' @ error_text e]), w')
         | ((None, out), w') \<Rightarrow> ((0, out, []), w')))"

section \<open>What a command may change\<close>

lemma push_dry: "snd (cmd_bootstrap_push getenv archive aws s3_head s3_put bucket region True dir es) = []"
  by (auto simp: cmd_bootstrap_push_def Let_def split: sum.splits)

definition dry_flag :: "invocation \<Rightarrow> bool" where
  "dry_flag iv \<longleftrightarrow> iv_flags iv ''dry-run'' = Some (BoolFlag True)"

definition reads_only :: "invocation \<Rightarrow> bool" where
  "reads_only iv \<longleftrightarrow>
     iv_command iv \<in> {CmdPreflight, CmdImport, CmdCapture, CmdExplain} \<or>
     iv_command iv \<in> {CmdApply, CmdSweep, CmdPush} \<and> dry_flag iv"

lemma dry_values [simp]:
  assumes "dry_flag iv"
  shows "flag_values ds (iv_flags iv) ''dry-run'' = BoolFlag True" "af_dry_run (apply_flags_of (iv_flags iv))"
  using assms by (simp_all add: dry_flag_def flag_values_def apply_flags_of_def Let_def)

lemma run_command_frame:
  assumes "run_command qe iv w = (r, w')"
  shows "iv_command iv \<noteq> CmdApply \<Longrightarrow> qw_disk w' = qw_disk w \<and> qw_backend w' = qw_backend w"
    and "iv_command iv \<noteq> CmdSweep \<Longrightarrow> qw_cluster w' = qw_cluster w"
    and "iv_command iv \<noteq> CmdPush \<Longrightarrow> qw_puts w' = qw_puts w"
  using assms by (auto simp: run_command_def Let_def split: q0_command.splits prod.splits)

lemma run_command_reads_only:
  assumes "run_command qe iv w = (r, w')" "reads_only iv"
  shows "qw_backend w' = qw_backend w \<and> qw_cluster w' = qw_cluster w \<and> qw_puts w' = qw_puts w"
proof (cases "iv_command iv")
  case CmdApply
  obtain e steps d a where c: "cmd_apply (qe_cli qe) (apply_flags_of (iv_flags iv)) (iv_args iv ! 0) (qw_disk w) (qw_backend w) =
      (e, steps, d, a)" by (metis surj_pair)
  have "dry_flag iv" using assms(2) CmdApply by (simp add: reads_only_def)
  then have "a = qw_backend w" using cmd_apply_safe [OF c] by simp
  with CmdApply c assms(1) show ?thesis by (auto simp: run_command_def Let_def)
next
  case CmdSweep
  then have "dry_flag iv" using assms(2) by (simp add: reads_only_def)
  moreover have "qw_cluster (snd (run_command qe iv w)) = snd (cmd_sweep (qe_wiring qe) (ce_getenv (qe_cli qe)) (qe_dur qe)
      (duration_flag (flag_values sweep_flag_decls (iv_flags iv) ''grace''))
      (bool_flag (flag_values sweep_flag_decls (iv_flags iv) ''dry-run''))
      (str_flag (flag_values sweep_flag_decls (iv_flags iv) ''partition'')) (qe_clock qe) (qw_cluster w))"
    using CmdSweep by (simp add: run_command_def Let_def case_prod_beta)
  ultimately have "qw_cluster w' = qw_cluster w"
    using assms(1) cmd_sweep_dry by simp
  then show ?thesis using run_command_frame [OF assms(1)] CmdSweep by simp
next
  case CmdPush
  then have "dry_flag iv" using assms(2) by (simp add: reads_only_def)
  moreover have "qw_puts (snd (run_command qe iv w)) = qw_puts w @ snd (cmd_bootstrap_push (ce_getenv (qe_cli qe)) (qe_archive qe) (ce_aws_config (qe_cli qe)) (qe_head qe)
      (qe_put qe) (str_flag (flag_values push_flag_decls (iv_flags iv) ''bucket''))
      (str_flag (flag_values push_flag_decls (iv_flags iv) ''region''))
      (bool_flag (flag_values push_flag_decls (iv_flags iv) ''dry-run'')) (iv_args iv ! 0) (qe_walk qe (iv_args iv ! 0)))"
    using CmdPush by (simp add: run_command_def Let_def case_prod_beta)
  ultimately have "qw_puts w' = qw_puts w"
    using assms(1) push_dry by simp
  then show ?thesis using run_command_frame [OF assms(1)] CmdPush by simp
qed (use run_command_frame [OF assms(1)] in simp_all)


text \<open>A dry push of the sample script-set.\<close>

definition demo_q0 :: "(account, nat) q0_env" where
  "demo_q0 =
     \<lparr>qe_cli = demo_cli, qe_load_parts = (\<lambda>_. Inl ErrNotExist), qe_checker = (\<lambda>_. demo_checker),
      qe_rfc3339 = (\<lambda>_. ''''), qe_records = (\<lambda>_. (None, [], \<lambda>i. Inl (ErrNotFound i))), qe_wiring = demo_wiring,
      qe_dur = (\<lambda>_. ''''), qe_clock = int, qe_archive = demo_archive, qe_walk = (\<lambda>_. demo_scripts),
      qe_head = (\<lambda>_ _. None), qe_put = (\<lambda>_. None), qe_arg_error = (\<lambda>_ _. ErrText ''accepts 1 arg(s)'')\<rparr>"

definition demo_push :: invocation where
  "demo_push = \<lparr>iv_command = CmdPush, iv_args = [''d''],
     iv_flags = [''dry-run'' \<mapsto> BoolFlag True, ''bucket'' \<mapsto> StringFlag ''scripts'']\<rparr>"


end
