(* ===== verification/Closed_Loop.thy ===== *)
theory Closed_Loop
  imports Provider_Properties Mpi_Domain
begin

text \<open>
  The cohort core driven by the AWS layer, as \<^verbatim>\<open>BuildBridge\<close> of \<^verbatim>\<open>internal/asbx/wire.go\<close> wires them: the
  replies that \<open>Cohort_Reconcile\<close> leaves open are those of the actuator, the observer and the enroller
  over the client, and the client's are computed by its retry loops from the answers of EC2. What is
  left open is EC2 itself (an \<open>ec2_world\<close>: the answers to the calls made for an entity at a time), the
  clock and the interleaving of the goroutines.
\<close>

section \<open>The wired ports\<close>

text \<open>\<^verbatim>\<open>NewReconciler(act, obs, clf, enr, asm, lim)\<close>: only the assembler may be nil.\<close>

definition wired_ports :: "bool \<Rightarrow> ports" where
  "wired_ports asm = \<lparr>port_classify = classify_err, port_enroller = True, port_assembler = asm, port_limiter = True\<rparr>"

record ec2_replies =
  rp_run :: "ec2_instance list env"
  rp_start :: "state_change list env"
  rp_stop :: "unit env"
  rp_terminate :: "unit env"
  rp_describe :: "ec2_instance list list attempt_reply"
  rp_tags :: "(string option \<times> string option) list attempt_reply"

type_synonym ec2_world = "time \<Rightarrow> entity_id \<Rightarrow> ec2_replies"

definition account_client :: "ec2_replies \<Rightarrow> substrate_client" where
  "account_client r = aws_client (rp_run r) (rp_start r) (rp_stop r) (rp_terminate r) (rp_describe r) (rp_tags r)"

definition quiet_event :: "time \<Rightarrow> time \<Rightarrow> rat \<Rightarrow> io_event" where
  "quiet_event tc dn rnd =
     \<lparr>ev_at = tc, ev_done = dn, ev_rand = rnd, ev_launch = Inr zero_observation, ev_observe = Inr [],
      ev_enroll = Inr zero_readiness\<rparr>"

text \<open>
  What the ports answer to the one call of a pass that checks its context at \<open>tc\<close> and has its answer
  at \<open>dn\<close>; a pass with a done context makes no call. \<open>None\<close> is a panic of the client.
\<close>

definition fleet_event ::
  "ec2_world \<Rightarrow> actuator_config \<Rightarrow> ctx_err option \<Rightarrow> entity \<Rightarrow> time \<Rightarrow> time \<Rightarrow> rat \<Rightarrow> io_event option"
where
  "fleet_event w cfg ctx e tc dn rnd =
     (let ev = quiet_event tc dn rnd; m = t_intent (e_tr e); sc = account_client (w tc (i_id m))
      in if ctx \<noteq> None then Some ev
         else (case e_pc e of
           PcLaunch n \<Rightarrow>
             map_option (\<lambda>r. ev\<lparr>ev_launch := r\<rparr>)
               (if r_warm_start (i_rung m) then start sc cfg dn (i_id m) else launch sc cfg dn m)
         | PcRunning n \<Rightarrow> map_option (\<lambda>r. ev\<lparr>ev_observe := r\<rparr>) (observe sc cfg dn [i_id m])
         | PcEnrolled \<Rightarrow>
             map_option (\<lambda>rd. ev\<lparr>ev_enroll := slurm_is_enrolled (Some (\<lambda>_. Inr rd)) (i_id m)\<rparr>)
               (read_readiness sc cfg (i_id m))
         | _ \<Rightarrow> Some ev))"

section \<open>Runs\<close>

datatype fleet_move =
    FleetStart nat time
  | FleetPass nat time time rat
  | FleetFinish nat time
  | FleetParent ctx_err time

definition fleet_to_move :: "ec2_world \<Rightarrow> actuator_config \<Rightarrow> cohort_state \<Rightarrow> fleet_move \<Rightarrow> move option" where
  "fleet_to_move w cfg s fm =
     (case fm of
        FleetStart i t \<Rightarrow> Some (MoveStart i t)
      | FleetPass i tc dn rnd \<Rightarrow>
          (if i < length (s_ents s) then
             (let e = s_ents s ! i
              in map_option (MovePass i) (fleet_event w cfg (phase_ctx (s_fastfail s) (e_deadline e) tc) e tc dn rnd))
           else None)
      | FleetFinish i t \<Rightarrow> Some (MoveFinish i t)
      | FleetParent err t \<Rightarrow> Some (MoveParentDone err t))"

fun fleet_run ::
  "ports \<Rightarrow> ec2_world \<Rightarrow> actuator_config \<Rightarrow> cohort \<Rightarrow> fleet_move list \<Rightarrow> cohort_state \<Rightarrow>
   (move list \<times> cohort_state) option"
where
  "fleet_run P w cfg c [] s = Some ([], s)"
| "fleet_run P w cfg c (fm # fms) s =
     (case fleet_to_move w cfg s fm of
        None \<Rightarrow> None
      | Some mv \<Rightarrow>
          (case exec_move P c mv s of
             None \<Rightarrow> None
           | Some s1 \<Rightarrow> map_option (apfst ((#) mv)) (fleet_run P w cfg c fms s1)))"

text \<open>\<^verbatim>\<open>Terminate\<close> at the end of the run, and the drain's panic where EC2's answer makes one.\<close>

definition fleet_terminate :: "ec2_world \<Rightarrow> actuator_config \<Rightarrow> time \<Rightarrow> entity_id \<Rightarrow> go_error option" where
  "fleet_terminate w cfg t i = Option.bind (terminate (account_client (w t i)) cfg i) id"

definition drain_survives :: "ec2_world \<Rightarrow> actuator_config \<Rightarrow> time \<Rightarrow> effect list \<Rightarrow> bool" where
  "drain_survives w cfg t effs \<longleftrightarrow>
     list_all (\<lambda>x. case x of CallTerminate i \<Rightarrow> terminate (account_client (w t i)) cfg i \<noteq> None | _ \<Rightarrow> True) effs"

definition fleet_reconcile ::
  "(observation list \<Rightarrow> go_error option) option \<Rightarrow> ec2_world \<Rightarrow> actuator_config \<Rightarrow> cohort \<Rightarrow> time \<Rightarrow> fleet_move list \<Rightarrow>
   time \<Rightarrow> (nat \<Rightarrow> time) \<Rightarrow> (outcome \<times> (nat \<times> effect) list \<times> effect list) option"
where
  "fleet_reconcile asm w cfg c t0 fms tf fin =
     (case fleet_run (wired_ports (asm \<noteq> None)) w cfg c fms (init_state t0 c) of
        None \<Rightarrow> None
      | Some (mvs, s) \<Rightarrow>
          Option.bind (reconcile (wired_ports (asm \<noteq> None)) c t0 mvs (case asm of Some f \<Rightarrow> f | None \<Rightarrow> \<lambda>_. None)
                         (fleet_terminate w cfg tf) fin)
            (\<lambda>r. if drain_survives w cfg tf (snd (snd r)) then Some r else None))"

text \<open>A run of the closed loop is a run of the cohort core on the moves it computes.\<close>

lemma fleet_run_exec:
  "fleet_run P w cfg c fms s = Some (mvs, s') \<Longrightarrow> exec_moves P c mvs s = Some s'"
  by (induction fms arbitrary: s mvs) (auto split: option.splits)

lemma fleet_run_induct:
  assumes "fleet_run P w cfg c fms s = Some (mvs, s')" "I s" "reachable P c t0 s"
    and "\<And>fm mv s s'. fm \<in> set fms \<Longrightarrow> I s \<Longrightarrow> reachable P c t0 s \<Longrightarrow> fleet_to_move w cfg s fm = Some mv \<Longrightarrow>
      cohort_step P c s mv s' \<Longrightarrow> I s'"
  shows "I s'"
  using assms
proof (induction fms arbitrary: s mvs)
  case (Cons fm fms)
  obtain mv s1 mvs1 where s1: "fleet_to_move w cfg s fm = Some mv" "cohort_step P c s mv s1"
    "fleet_run P w cfg c fms s1 = Some (mvs1, s')"
    using Cons.prems(1) by (auto simp: exec_move_step split: option.splits)
  have inv: "I s1" using Cons.prems(4) [OF _ Cons.prems(2,3) s1(1,2)] by simp
  have reach: "reachable P c t0 s1" using reach_step [OF Cons.prems(3) s1(2)] .
  show ?case
    by (rule Cons.IH [OF s1(3) inv reach]) (rule Cons.prems(4), simp_all)
qed simp

lemma fleet_reconcile_run:
  assumes "fleet_reconcile asm w cfg c t0 fms tf fin = Some r"
  obtains mvs s where "fleet_run (wired_ports (asm \<noteq> None)) w cfg c fms (init_state t0 c) = Some (mvs, s)"
    "reachable (wired_ports (asm \<noteq> None)) c t0 s"
    "reconcile (wired_ports (asm \<noteq> None)) c t0 mvs (case asm of Some f \<Rightarrow> f | None \<Rightarrow> \<lambda>_. None)
       (fleet_terminate w cfg tf) fin = Some r"
    "fst (snd r) = s_log s"
proof -
  obtain mvs s where run: "fleet_run (wired_ports (asm \<noteq> None)) w cfg c fms (init_state t0 c) = Some (mvs, s)"
    and r: "reconcile (wired_ports (asm \<noteq> None)) c t0 mvs (case asm of Some f \<Rightarrow> f | None \<Rightarrow> \<lambda>_. None)
       (fleet_terminate w cfg tf) fin = Some r"
    using assms by (auto simp: fleet_reconcile_def bind_eq_Some_conv split: option.splits if_splits)
  note ex = fleet_run_exec [OF run]
  have "fst (snd r) = s_log s" using r ex by (auto simp: reconcile_def split: if_splits)
  with run r exec_moves_reachable [OF reach_init ex] show ?thesis by (intro that)
qed

section \<open>One launch per member\<close>

definition launches_of :: "nat \<Rightarrow> (nat \<times> effect) list \<Rightarrow> effect list" where
  "launches_of i calls = map snd (filter (\<lambda>(j, x). j = i \<and> is_launch x) calls)"

lemma launches_of_simps [simp]:
  "launches_of i [] = []"
  "launches_of i (xs @ ys) = launches_of i xs @ launches_of i ys"
  "launches_of i (map (Pair j) effs) = (if i = j then filter is_launch effs else [])"
  by (simp_all add: launches_of_def filter_map o_def)

text \<open>
  An account answers a launch with an instance or with an error that the reconciler's classifier
  takes for an unknown one, as the actuator wraps it: so the launch loop never comes around again.
\<close>

lemma account_launch_unknown:
  "launch (account_client r) cfg now m = Some (Inl err) \<Longrightarrow>
     f_class (classify_err err) = FaultTerminal \<and> f_code (classify_err err) = ''UnknownError''"
  unfolding account_client_def by (rule aws.launch_error_unknown)

definition cold :: "entity_intent \<Rightarrow> bool" where
  "cold m \<longleftrightarrow> \<not> r_warm_start (i_rung m)"

lemma launch_pass:
  assumes "fleet_event w cfg (phase_ctx ff (e_deadline e) tc) e tc dn rnd = Some ev"
    "entity_iter (wired_ports a) b ff ev e = (e', effs)" "e_pc e = PcLaunch n" "cold (t_intent (e_tr e))"
  shows "t_intent (e_tr e') = t_intent (e_tr e) \<and> e_pc e' \<in> {PcReturned, PcRunning 0} \<and>
    filter is_launch effs \<in> {[], [CallLaunch (t_intent (e_tr e))]}"
proof (cases "phase_ctx ff (e_deadline e) tc")
  case (Some err)
  then have ev: "ev = quiet_event tc dn rnd" using assms(1) by (simp add: fleet_event_def Let_def)
  show ?thesis
    using assms(2,3) Some
    by (cases err) (auto simp: ev quiet_event_def entity_iter_def do_launch_iter_def tracker_defs)
next
  case None
  obtain r where r: "launch (account_client (w tc (i_id (t_intent (e_tr e))))) cfg dn (t_intent (e_tr e)) = Some r"
    "ev = (quiet_event tc dn rnd)\<lparr>ev_launch := r\<rparr>"
    using assms(1,3,4) None by (auto simp: fleet_event_def Let_def cold_def)
  have at: "phase_ctx ff (e_deadline e) (ev_at ev) = None" using None r by (simp add: quiet_event_def)
  show ?thesis
  proof (cases r)
    case (Inr obs)
    then show ?thesis
      using assms(2,3,4) at r
      by (auto simp: entity_iter_def do_launch_iter_def Let_def cold_def is_launch_def set_phase_def add_attempt_def)
  next
    case (Inl err)
    have "f_class (classify_err err) = FaultTerminal" using account_launch_unknown r Inl by blast
    then show ?thesis
      using assms(2,3,4) at r Inl
      by (auto simp: entity_iter_def do_launch_iter_def Let_def cold_def is_launch_def launch_fault_def
          wired_ports_def set_terminal_def add_attempt_def)
  qed
qed

lemma later_pass:
  assumes "entity_iter P b ff ev e = (e', effs)" "e_pc e = PcRunning n \<or> e_pc e = PcEnrolled"
  shows "t_intent (e_tr e') = t_intent (e_tr e) \<and> e_pc e' \<in> {PcReturned, PcEnrolled} \<union> range PcRunning \<and>
    filter is_launch effs = []"
  using assms
  by (auto simp: entity_iter_def wait_running_iter_def wait_enrolled_iter_def Let_def is_launch_def tracker_defs
      split: option.splits ctx_err.splits sum.splits list.splits lifecycle_state.splits if_splits)

lemma launch_fault_attempts:
  "launch_fault P ev n t f = (r, t', effs) \<Longrightarrow> set (t_attempts t') \<subseteq> set (t_attempts t) \<union> {x. a_rung x = i_rung (t_intent t)}"
  by (auto simp: launch_fault_def Let_def add_attempt_def set_terminal_def split: fault_class.splits if_splits option.splits)

lemma pass_attempts:
  assumes "entity_iter P b ff ev e = (e', effs)"
  shows "set (t_attempts (e_tr e')) \<subseteq> set (t_attempts (e_tr e)) \<union> {x. a_rung x = i_rung (t_intent (e_tr e))}"
proof (cases "e_pc e")
  case (PcLaunch n)
  with assms show ?thesis
    by (fastforce simp: entity_iter_def do_launch_iter_def Let_def record_deadline_def add_attempt_def
        set_terminal_def set_phase_def
        split: option.splits ctx_err.splits sum.splits prod.splits iter.splits if_splits dest: launch_fault_attempts)
next
  case (PcRunning n)
  with assms show ?thesis
    by (auto simp: entity_iter_def wait_running_iter_def Let_def tracker_defs
        split: option.splits ctx_err.splits sum.splits list.splits lifecycle_state.splits if_splits)
next
  case PcEnrolled
  with assms show ?thesis
    by (auto simp: entity_iter_def wait_enrolled_iter_def Let_def tracker_defs
        split: option.splits ctx_err.splits sum.splits if_splits)
qed (use assms in \<open>simp_all add: entity_iter_def\<close>)

text \<open>
  Before its launch loop has returned an entity is as declared and has launched nothing, and after
  it, it is as declared and has launched at most once.
\<close>

definition launched_once :: "cohort \<Rightarrow> cohort_state \<Rightarrow> nat \<Rightarrow> bool" where
  "launched_once c s i \<longleftrightarrow>
     t_intent (e_tr (s_ents s ! i)) = c_members c ! i \<and>
     set (t_attempts (e_tr (s_ents s ! i))) \<subseteq> {x. a_rung x = i_rung (c_members c ! i)} \<and>
     launches_of i (s_log s) \<in> {[], [CallLaunch (c_members c ! i)]} \<and>
     (e_pc (s_ents s ! i) \<in> insert PcStart (range PcLaunch) \<longrightarrow> launches_of i (s_log s) = [])"

definition once_inv :: "cohort \<Rightarrow> cohort_state \<Rightarrow> bool" where
  "once_inv c s \<longleftrightarrow> length (s_ents s) = length (c_members c) \<and> (\<forall>i<length (c_members c). launched_once c s i)"

lemma once_init: "once_inv c (init_state t0 c)"
  by (simp add: once_inv_def launched_once_def init_state_def new_tracker_def)

lemma once_update:
  assumes "once_inv c s" "j < length (s_ents s)" "s_ents s' = (s_ents s)[j := e']" "launched_once c s' j"
    and "\<And>i. i \<noteq> j \<Longrightarrow> launches_of i (s_log s') = launches_of i (s_log s)"
  shows "once_inv c s'"
proof -
  have "launched_once c s' i" if "i < length (c_members c)" for i
  proof (cases "i = j")
    case False
    with assms that show ?thesis by (simp add: once_inv_def launched_once_def)
  qed (use assms(4) in simp)
  with assms(1,3) show ?thesis by (simp add: once_inv_def)
qed

lemma once_step:
  assumes inv: "once_inv c s" and cold: "list_all cold (c_members c)"
    and mv: "fleet_to_move w cfg s fm = Some mv" and step: "cohort_step (wired_ports a) c s mv s'"
  shows "once_inv c s'"
  using step
proof cases
  case (step_start i now e')
  have "launched_once c s i" using inv step_start by (simp add: once_inv_def)
  then show ?thesis
    using step_start
    by (intro once_update [OF inv, of i s' e']) (auto simp: launched_once_def entity_start_def)
next
  case (step_pass i ev e' effs)
  have i: "i < length (c_members c)" "launched_once c s i" using inv step_pass by (simp_all add: once_inv_def)
  have m: "cold (t_intent (e_tr (s_ents s ! i)))"
    using cold i by (simp add: launched_once_def list_all_length)
  have s': "s_ents s' = (s_ents s)[i := e']" "s_log s' = s_log s @ map (Pair i) effs"
    using step_pass by simp_all
  have att: "set (t_attempts (e_tr e')) \<subseteq> {x. a_rung x = i_rung (c_members c ! i)}"
    using pass_attempts [OF step_pass(6)] i by (auto simp: launched_once_def)
  have "launched_once c s' i"
  proof (cases "e_pc (s_ents s ! i)")
    case (PcLaunch n)
    obtain tc dn rnd where "fm = FleetPass i tc dn rnd"
      "fleet_event w cfg (phase_ctx (s_fastfail s) (e_deadline (s_ents s ! i)) tc) (s_ents s ! i) tc dn rnd = Some ev"
      using mv step_pass(1,2) by (auto simp: fleet_to_move_def Let_def split: fleet_move.splits if_splits)
    from launch_pass [OF this(2) step_pass(6) PcLaunch m] i att s' step_pass(3) PcLaunch
    show ?thesis by (auto simp: launched_once_def)
  next
    case (PcRunning n)
    from later_pass [OF step_pass(6)] i att s' step_pass(3) PcRunning show ?thesis by (auto simp: launched_once_def)
  next
    case PcEnrolled
    from later_pass [OF step_pass(6)] i att s' step_pass(3) PcEnrolled show ?thesis by (auto simp: launched_once_def)
  qed (use step_pass in \<open>simp_all add: in_loop_def\<close>)
  with s' step_pass show ?thesis by (intro once_update [OF inv, of i s' e']) auto
next
  case (step_finish i now e' s1)
  have i: "launched_once c s i" using inv step_finish by (simp add: once_inv_def)
  have s': "s_ents s' = (s_ents s)[i := e']" "s_log s' = s_log s"
    using step_finish by (auto simp: gate_bookkeeping_def Let_def)
  with i step_finish show ?thesis
    by (intro once_update [OF inv, of i s' e']) (auto simp: launched_once_def)
next
  case (step_parent now err)
  with inv show ?thesis by (auto simp: once_inv_def launched_once_def)
qed

lemma marks_attempts: "marks s ready f \<Longrightarrow> t_attempts (f t) = t_attempts t"
  by (auto simp: marks_def mark_parent_def mark_survivor_def mark_terminal_def mark_ready_def tracker_defs
      split: if_splits)

end
