(* ===== verification/Closed_Loop_Properties.thy ===== *)
theory Closed_Loop_Properties
  imports Closed_Loop
begin

text \<open>
  What the cohort core and the AWS layer guarantee together: one launch per member, what can still
  fail against an account that answers, what readiness means in terms of EC2's tags, and that
  readiness is reached; with concrete runs against a sample account.
\<close>

section \<open>One launch per member\<close>

text \<open>
  C7. Against EC2 a member is launched at most once in a run, and only as it was declared: its token and
  its declared rung. The fallback chain and the consistency retries are never used, whatever EC2
  answers, how the goroutines interleave and when the parent context ends.
\<close>

theorem fleet_launches_once:
  assumes "wf_cohort c" "distinct_ids c" "list_all cold (c_members c)"
    and "fleet_reconcile asm w cfg c t0 fms tf fin = Some (out, calls, after)" "i < length (c_members c)"
  shows "launches_of i calls \<in> {[], [CallLaunch (c_members c ! i)]} \<and>
    (\<forall>x\<in>set (er_attempts (member_record out c i)). a_rung x = i_rung (c_members c ! i))"
proof -
  obtain mvs s where s: "fleet_run (wired_ports (asm \<noteq> None)) w cfg c fms (init_state t0 c) = Some (mvs, s)"
    "reconcile (wired_ports (asm \<noteq> None)) c t0 mvs (case asm of Some f \<Rightarrow> f | None \<Rightarrow> \<lambda>_. None)
       (fleet_terminate w cfg tf) fin = Some (out, calls, after)" "calls = s_log s"
    by (rule fleet_reconcile_run [OF assms(4)]) simp
  have "once_inv c s"
    using fleet_run_induct [where I = "once_inv c", OF s(1) once_init reach_init] once_step [OF _ assms(3)] by blast
  then have once: "launched_once c s i" using assms(5) by (simp add: once_inv_def)
  obtain f where f: "ends_in (wired_ports (asm \<noteq> None)) c (case asm of Some f \<Rightarrow> f | None \<Rightarrow> \<lambda>_. None)
       (fleet_terminate w cfg tf) fin out calls after s f"
    using reconcile_member_at [OF assms(1,2) fleet_run_exec [OF s(1)] s(2)] by blast
  then have "er_attempts (member_record out c i) = t_attempts (e_tr (s_ents s ! i))"
    using assms(5) marks_attempts by (auto simp: ends_in_def build_record_def trackers_def)
  with once s(3) show ?thesis by (auto simp: launched_once_def)
qed

section \<open>A healthy account\<close>

text \<open>
  An account that answers: the limiter lets the calls through, a launch is answered with an instance,
  and no listed instance is shutting down.
\<close>

definition standing :: "ec2_instance \<Rightarrow> bool" where
  "standing x \<longleftrightarrow> (case ec_state_name x of None \<Rightarrow> False | Some st \<Rightarrow> lifecycle_from_ec2_state st \<noteq> StateFailed)"

definition healthy_replies :: "ec2_replies \<Rightarrow> bool" where
  "healthy_replies r \<longleftrightarrow>
     at_acquire (rp_run r 0) = None \<and>
     (case at_reply (rp_run r 0) of Inr (x # xs) \<Rightarrow> ec_state_name x \<noteq> None | _ \<Rightarrow> False) \<and>
     at_acquire (rp_describe r) = None \<and>
     (case at_reply (rp_describe r) of Inr rs \<Rightarrow> list_all standing (concat rs) | _ \<Rightarrow> False)"

lemma healthy_launch:
  assumes "healthy_replies r" "launch_request cfg m = Inr req"
  shows "\<exists>obs. launch (account_client r) cfg now m = Some (Inr obs)"
  using assms
  by (auto simp: healthy_replies_def launch_def account_client_def aws_client_def run_instance_def run_attempt_def
      call_with_retry.simps [of _ _ 0] instance_from_ec2_def Let_def split: sum.splits list.splits option.splits)

lemma lifecycle_not_draining: "lifecycle_from_ec2_state st \<noteq> StateDraining"
  by (simp add: lifecycle_from_ec2_state_def)

lemma instance_state: "instance_from_ec2 x = Some v \<Longrightarrow> ec_state_name x = Some (si_state v)"
proof -
  have "si_state (scan_tags ts v) = si_state v" for ts v
    by (induction ts v rule: scan_tags.induct) (auto simp: Let_def)
  then show "instance_from_ec2 x = Some v \<Longrightarrow> ec_state_name x = Some (si_state v)"
    by (auto simp: instance_from_ec2_def Let_def split: option.splits)
qed

lemma standing_views:
  "list_all standing xs \<Longrightarrow> all_views xs = Some vs \<Longrightarrow>
     list_all (\<lambda>v. lifecycle_from_ec2_state (si_state v) \<noteq> StateFailed) vs"
proof (induction xs arbitrary: vs)
  case (Cons x xs)
  then obtain v vs1 where v: "instance_from_ec2 x = Some v" "all_views xs = Some vs1" "vs = v # vs1"
    by (auto split: option.splits)
  then show ?case using Cons instance_state [OF v(1)] by (auto simp: standing_def)
qed simp

lemma healthy_observe:
  assumes "healthy_replies r" "observe (account_client r) cfg now [i] = Some res"
  shows "\<exists>ob. res = Inr [ob] \<and> o_state ob \<notin> {StateFailed, StateDraining}"
proof -
  obtain rs where rs: "at_acquire (rp_describe r) = None" "at_reply (rp_describe r) = Inr rs" "list_all standing (concat rs)"
    using assms(1) by (auto simp: healthy_replies_def split: sum.splits)
  obtain vs where vs: "all_views (concat rs) = Some vs"
    using assms(2) rs
    by (auto simp: observe_one_def account_client_def aws_client_def describe_by_tag_def Let_def split: option.splits)
  have "vs \<noteq> [] \<Longrightarrow> lifecycle_from_ec2_state (si_state (vs ! 0)) \<noteq> StateFailed"
    using standing_views [OF rs(3) vs] by (cases vs) auto
  then show ?thesis
    using assms(2) rs vs lifecycle_not_draining
    by (auto simp: observe_one_def account_client_def aws_client_def describe_by_tag_def Let_def
        split: option.splits if_splits)
qed

definition only_late :: "tracker \<Rightarrow> bool" where
  "only_late t \<longleftrightarrow> (case t_terminal t of None \<Rightarrow> True | Some f \<Rightarrow> f_code f = ''PhaseBudgetExceeded'')"

lemma only_late_simps [simp]:
  "only_late (record_deadline p now t)"
  "only_late (add_attempt r p g now t) = only_late t"
  "only_late (t\<lparr>t_obs := ob\<rparr>) = only_late t"
  "only_late (set_phase p t) = only_late t"
  "only_late (set_enrolled t) = only_late t"
  by (simp_all add: only_late_def tracker_defs)

lemma healthy_pass:
  assumes "healthy_replies (w tc (i_id (t_intent (e_tr e))))" "cold (t_intent (e_tr e))"
    and "launch_request cfg (t_intent (e_tr e)) = Inr req"
    and "fleet_event w cfg (phase_ctx ff (e_deadline e) tc) e tc dn rnd = Some ev"
    and "entity_iter (wired_ports a) b ff ev e = (e', effs)" "only_late (e_tr e)"
  shows "only_late (e_tr e')"
proof (cases "phase_ctx ff (e_deadline e) tc")
  case (Some err)
  then have ev: "ev = quiet_event tc dn rnd" using assms(4) by (simp add: fleet_event_def Let_def)
  show ?thesis
    using assms(5,6) Some
    by (cases err; cases "e_pc e")
      (auto simp: ev quiet_event_def entity_iter_def do_launch_iter_def wait_running_iter_def wait_enrolled_iter_def)
next
  case None
  have at: "phase_ctx ff (e_deadline e) (ev_at ev) = None"
    using None assms(4) by (auto simp: fleet_event_def Let_def quiet_event_def split: pc.splits if_splits)
  show ?thesis
  proof (cases "e_pc e")
    case (PcLaunch n)
    then obtain obs where "ev_launch ev = Inr obs"
      using assms(2,4) None healthy_launch [OF assms(1,3), of dn]
      by (auto simp: fleet_event_def Let_def cold_def)
    then show ?thesis
      using assms(5,6) at PcLaunch by (auto simp: entity_iter_def do_launch_iter_def Let_def)
  next
    case (PcRunning n)
    then obtain res where "observe (account_client (w tc (i_id (t_intent (e_tr e))))) cfg dn [i_id (t_intent (e_tr e))] = Some res"
      "ev_observe ev = res"
      using assms(4) None by (auto simp: fleet_event_def Let_def simp del: observe.simps)
    with healthy_observe [OF assms(1)] obtain ob where "ev_observe ev = Inr [ob]" "o_state ob \<notin> {StateFailed, StateDraining}"
      by metis
    then show ?thesis
      using assms(5,6) at PcRunning
      by (auto simp: entity_iter_def wait_running_iter_def Let_def split: lifecycle_state.splits)
  next
    case PcEnrolled
    then show ?thesis
      using assms(5,6) at
      by (auto simp: entity_iter_def wait_enrolled_iter_def Let_def wired_ports_def split: sum.splits if_splits)
  qed (use assms(5,6) in \<open>auto simp: entity_iter_def\<close>)
qed

definition late_inv :: "cohort \<Rightarrow> cohort_state \<Rightarrow> bool" where
  "late_inv c s \<longleftrightarrow> once_inv c s \<and> (\<forall>e\<in>set (s_ents s). only_late (e_tr e))"

definition launchable :: "actuator_config \<Rightarrow> entity_intent \<Rightarrow> bool" where
  "launchable cfg m \<longleftrightarrow> cold m \<and> (case launch_request cfg m of Inl e \<Rightarrow> False | Inr req \<Rightarrow> True)"

lemma launchable_cold: "list_all (launchable cfg) ms \<Longrightarrow> list_all cold ms"
  by (auto simp: list_all_iff launchable_def)

lemma late_init: "late_inv c (init_state t0 c)"
  using once_init by (auto simp: late_inv_def) (auto simp: init_state_def only_late_def new_tracker_def)

lemma late_step:
  assumes inv: "late_inv c s" and fit: "list_all (launchable cfg) (c_members c)" and healthy: "\<forall>t i. healthy_replies (w t i)"
    and mv: "fleet_to_move w cfg s fm = Some mv" and step: "cohort_step (wired_ports a) c s mv s'"
  shows "late_inv c s'"
proof -
  have once: "once_inv c s'"
    using once_step [OF _ launchable_cold [OF fit] mv step] inv by (simp add: late_inv_def)
  have frame: "late_inv c s'" if "s_ents s' = (s_ents s)[i := e']" "i < length (s_ents s)" "only_late (e_tr e')" for i e'
    using that inv once set_update_subset_insert [of "s_ents s" i e'] by (auto simp: late_inv_def)
  have here: "only_late (e_tr (s_ents s ! i))" if "i < length (s_ents s)" for i
    using inv that by (simp add: late_inv_def)
  from step show ?thesis
  proof cases
    case (step_start i now e')
    then show ?thesis using here by (intro frame [of i e']) (simp_all add: entity_start_def)
  next
    case (step_pass i ev e' effs)
    have "launched_once c s i" "i < length (c_members c)"
      using inv step_pass by (simp_all add: late_inv_def once_inv_def)
    then have m: "launchable cfg (t_intent (e_tr (s_ents s ! i)))"
      using fit by (simp add: launched_once_def list_all_length)
    then obtain req where req: "launch_request cfg (t_intent (e_tr (s_ents s ! i))) = Inr req"
      by (auto simp: launchable_def split: sum.splits)
    obtain tc dn rnd where
      "fleet_event w cfg (phase_ctx (s_fastfail s) (e_deadline (s_ents s ! i)) tc) (s_ents s ! i) tc dn rnd = Some ev"
      using mv step_pass(1,2) by (auto simp: fleet_to_move_def Let_def split: fleet_move.splits if_splits)
    from healthy_pass [OF healthy [rule_format] _ req this step_pass(6) here] m step_pass(3)
    have "only_late (e_tr e')" by (simp add: launchable_def)
    then show ?thesis using step_pass by (intro frame [of i e']) simp_all
  next
    case (step_finish i now e' s1)
    then show ?thesis
      using here by (intro frame [of i e']) (auto simp: gate_bookkeeping_def Let_def)
  next
    case (step_parent now err)
    then show ?thesis using inv once by (simp add: late_inv_def)
  qed
qed

text \<open>The faults a record can blame, by what the classification after \<^verbatim>\<open>Wait\<close> adds.\<close>

lemma classify_trackers:
  assumes "classify_cohort P c asm trm s = (ready, trs, effs)"
  obtains x where "trs = map (mark_parent x) (trackers s)" "\<not> ready" "s_parent s \<noteq> None"
  | "trs = map (mark_survivor (s_culprit s)) (trackers s)" "\<not> ready" "int (enrolled_count s) < effective_min_viable c"
  | "trs = map (mark_terminal PhaseCohortBarrier disallowed_fault) (trackers s)" "\<not> ready" "c_no_assembly c"
      "port_assembler P" "effective_min_viable c \<le> int (enrolled_count s)"
  | e where "trs = map (mark_terminal PhaseCohortAssembly (assembly_fault e)) (trackers s)" "\<not> ready" "is_collective c"
      "port_assembler P" "effective_min_viable c \<le> int (enrolled_count s)"
  | "trs = map mark_ready (trackers s)" "ready"
  using assms by (auto simp: classify_cohort_branches split: option.splits if_splits)

lemma mark_terminal_fault:
  "t_terminal (mark_parent x t) = t_terminal t"
  "t_terminal (mark_survivor cu t) = t_terminal t"
  "t_terminal (mark_ready t) = t_terminal t"
  "t_terminal (mark_terminal p g t) = Some (case t_terminal t of Some f \<Rightarrow> f | None \<Rightarrow> g)"
  by (auto simp: mark_parent_def mark_survivor_def mark_ready_def mark_terminal_def is_terminal_def
      set_parent_cancelled_def set_cohort_cancelled_def set_terminal_def set_phase_def)

lemma map_at: "map f xs = map g xs \<Longrightarrow> x \<in> set xs \<Longrightarrow> f x = g x"
  by simp

lemma classify_terminal:
  assumes cl: "classify_cohort P c asm trm s = (ready, map f (trackers s), effs)" and t: "t \<in> set (trackers s)"
    and g: "t_terminal (f t) = Some g"
  shows "t_terminal t = Some g \<or> \<not> ready \<and> c_no_assembly c \<and> port_assembler P \<or>
    \<not> ready \<and> f_code g = ''AssemblyFailed'' \<and> is_collective c \<and> port_assembler P"
  using cl
proof (cases rule: classify_trackers)
  case (1 x)
  then show ?thesis using g map_at [OF 1(1) t] by (simp add: mark_terminal_fault)
next
  case 2
  then show ?thesis using g map_at [OF 2(1) t] by (simp add: mark_terminal_fault)
next
  case (4 e)
  then show ?thesis using g map_at [OF 4(1) t]
    by (auto simp: mark_terminal_fault assembly_fault_def split: option.splits)
next
  case 5
  then show ?thesis using g map_at [OF 5(1) t] by (simp add: mark_terminal_fault)
qed simp

lemma unready_blames:
  assumes inv: "cohort_inv P c s" "all_done s" "s_parent s = None" and wf: "wf_cohort c"
    and cl: "classify_cohort P c asm trm s = (False, map f (trackers s), effs)"
  shows "\<exists>t\<in>set (trackers s). t_terminal (f t) \<noteq> None"
proof -
  have "1 \<le> effective_min_viable c" using wf by (auto simp: wf_cohort_def effective_min_viable_def)
  then have some: "\<exists>t. t \<in> set (trackers s)" if "effective_min_viable c \<le> int (enrolled_count s)"
    using that by (cases "trackers s") (auto simp: enrolled_count_def)
  from cl show ?thesis
  proof (cases rule: classify_trackers)
    case 2
    then have "culprit_ok c s" using gate_fails [OF inv] inv(1) by (simp add: cohort_inv_def)
    then obtain i where i: "i < length (trackers s)" "is_terminal (trackers s ! i)"
      by (auto simp: culprit_ok_def failed_entity_def trackers_def)
    define t where "t = trackers s ! i"
    have t: "t \<in> set (trackers s)" "is_terminal t" using i by (simp_all add: t_def)
    then have "t_terminal (f t) \<noteq> None"
      using map_at [OF 2(1)] by (simp add: mark_terminal_fault is_terminal_def)
    with t(1) show ?thesis by blast
  next
    case 3
    with some obtain t where t: "t \<in> set (trackers s)" by blast
    then have "t_terminal (f t) \<noteq> None" using map_at [OF 3(1)] by (simp add: mark_terminal_fault)
    with t show ?thesis by blast
  next
    case (4 e)
    with some obtain t where t: "t \<in> set (trackers s)" by blast
    then have "t_terminal (f t) \<noteq> None" using map_at [OF 4(1)] by (simp add: mark_terminal_fault)
    with t show ?thesis by blast
  qed (use inv(3) in simp_all)
qed

definition lasting :: "fleet_move list \<Rightarrow> bool" where
  "lasting fms \<longleftrightarrow> list_all (\<lambda>fm. case fm of FleetParent _ _ \<Rightarrow> False | _ \<Rightarrow> True) fms"


section \<open>Ready means reported ready\<close>

text \<open>The readiness tags of an instance: what \<^verbatim>\<open>q0-spored\<close> writes once all its probes pass.\<close>

definition reports_ready :: "ec2_replies \<Rightarrow> bool" where
  "reports_ready r \<longleftrightarrow>
     (case at_reply (rp_tags r) of
        Inl e \<Rightarrow> False
      | Inr tags \<Rightarrow> (let m = collect_tags tags Map.empty
                    in parse_bool (map_get m tag_ready) \<and> equal_fold (map_get m tag_phase) phase_enrolled))"

lemma parse_bool_empty: "\<not> parse_bool ''''"
  by (simp add: parse_bool_def)

lemma read_readiness_ok:
  "read_readiness (account_client r) cfg i = Some rd \<Longrightarrow> readiness_ok rd \<Longrightarrow> reports_ready r"
  using parse_bool_empty
  by (auto simp: read_readiness_def account_client_def aws_client_def describe_tags_by_id_def readiness_ok_def
      zero_readiness_def reports_ready_def map_get_def Let_def split: option.splits sum.splits if_splits)

lemma says_enrolled_pass:
  assumes "entity_iter P b ff ev e = (e', effs)" "x \<in> set effs" "says_enrolled x"
  shows "e_pc e = PcEnrolled \<and> phase_ctx ff (e_deadline e) (ev_at ev) = None \<and>
    (case ev_enroll ev of Inr rd \<Rightarrow> readiness_ok rd | _ \<Rightarrow> False)"
proof -
  have no: "launch_fault P ev n t f = (r, t', es) \<Longrightarrow> y \<in> set es \<Longrightarrow> \<not> says_enrolled y" for n t f r t' es y
    by (auto simp: launch_fault_def Let_def says_enrolled_def split: fault_class.splits if_splits option.splits)
  show ?thesis
    using assms no
    by (auto simp: entity_iter_def do_launch_iter_def wait_running_iter_def wait_enrolled_iter_def Let_def
        says_enrolled_def [of "CallObserve _"] says_enrolled_def [of "CallLaunch _"] says_enrolled_def [of "CallStart _"]
        says_enrolled_def [of "Sleep _"] says_enrolled_def [of "CallIsEnrolled _ _"]
        split: pc.splits iter.splits prod.splits if_splits option.splits ctx_err.splits sum.splits
          list.splits lifecycle_state.splits)
qed

definition reported_inv :: "ec2_world \<Rightarrow> cohort \<Rightarrow> cohort_state \<Rightarrow> bool" where
  "reported_inv w c s \<longleftrightarrow>
     (\<forall>(i, x)\<in>set (s_log s). says_enrolled x \<longrightarrow> (\<exists>t. reports_ready (w t (i_id (c_members c ! i)))))"

lemma reported_step:
  assumes inv: "reported_inv w c s" and reach: "reachable (wired_ports a) c t0 s" and wf: "wf_cohort c"
    and mv: "fleet_to_move w cfg s fm = Some mv" and step: "cohort_step (wired_ports a) c s mv s'"
  shows "reported_inv w c s'"
  using step
proof cases
  case (step_pass i ev e' effs)
  let ?e = "s_ents s ! i"
  have inv_e: "entity_inv (c_members c ! i) ?e"
    using reachable_inv [OF reach wf] step_pass(3) by (simp add: cohort_inv_def entity_at_def)
  have id: "e_pc ?e = PcEnrolled \<Longrightarrow> i_id (t_intent (e_tr ?e)) = i_id (c_members c ! i)"
    using inv_e by (simp add: entity_inv_def live_at_def on_intent_id)
  obtain tc dn rnd where ev: "fleet_event w cfg (phase_ctx (s_fastfail s) (e_deadline ?e) tc) ?e tc dn rnd = Some ev"
    using mv step_pass(1,2) by (auto simp: fleet_to_move_def Let_def split: fleet_move.splits if_splits)
  have at: "ev_at ev = tc"
    using ev by (auto simp: fleet_event_def Let_def quiet_event_def split: pc.splits if_splits)
  have "\<exists>t. reports_ready (w t (i_id (c_members c ! i)))" if "x \<in> set effs" "says_enrolled x" for x
  proof -
    from says_enrolled_pass [OF step_pass(6) that] at
    have pc: "e_pc ?e = PcEnrolled" "phase_ctx (s_fastfail s) (e_deadline ?e) tc = None"
      and ok: "case ev_enroll ev of Inr rd \<Rightarrow> readiness_ok rd | _ \<Rightarrow> False" by auto
    from ev pc obtain rd where "read_readiness (account_client (w tc (i_id (t_intent (e_tr ?e))))) cfg (i_id (t_intent (e_tr ?e))) = Some rd"
      "ev_enroll ev = Inr rd"
      by (auto simp: fleet_event_def Let_def slurm_is_enrolled_def is_enrolled_def)
    with ok id [OF pc(1)] show ?thesis by (auto dest: read_readiness_ok)
  qed
  with inv step_pass show ?thesis by (auto simp: reported_inv_def)
qed (use inv in \<open>auto simp: reported_inv_def gate_bookkeeping_def Let_def\<close>)


section \<open>A prompt account\<close>

text \<open>
  An account that shows a running instance with the readiness tags as soon as it is asked. The detail
  tag, which \<^verbatim>\<open>q0-spored\<close> always writes, is the address of the member in the peer manifest.
\<close>

definition reported_detail :: "ec2_replies \<Rightarrow> string" where
  "reported_detail r =
     (case at_reply (rp_tags r) of Inl e \<Rightarrow> '''' | Inr tags \<Rightarrow> map_get (collect_tags tags Map.empty) tag_detail)"

definition prompt_replies :: "ec2_replies \<Rightarrow> bool" where
  "prompt_replies r \<longleftrightarrow>
     healthy_replies r \<and> at_acquire (rp_tags r) = None \<and> reports_ready r \<and> reported_detail r \<noteq> '''' \<and>
     (case at_reply (rp_describe r) of
        Inl e \<Rightarrow> False
      | Inr rs \<Rightarrow> (case concat rs of [] \<Rightarrow> False | x # xs \<Rightarrow> ec_state_name x = Some ''running''))"

lemma standing_all_views: "list_all standing xs \<Longrightarrow> \<exists>vs. all_views xs = Some vs \<and> length vs = length xs"
proof (induction xs)
  case (Cons x xs)
  then obtain st where "ec_state_name x = Some st" by (auto simp: standing_def split: option.splits)
  then have "\<exists>v. instance_from_ec2 x = Some v" by (auto simp: instance_from_ec2_def Let_def)
  with Cons show ?case by auto
qed simp

lemma prompt_describe:
  assumes "prompt_replies r"
  obtains v vs where "cl_describe (account_client r) f = Some (Inr (v # vs))" "si_state v = ''running''"
proof -
  obtain rs x xs where rs: "at_acquire (rp_describe r) = None" "at_reply (rp_describe r) = Inr rs"
    "concat rs = x # xs" "ec_state_name x = Some ''running''" "list_all standing (x # xs)"
    using assms by (auto simp: prompt_replies_def healthy_replies_def split: sum.splits list.splits)
  obtain v vs where v: "all_views (x # xs) = Some (v # vs)"
    using standing_all_views [OF rs(5)] by (metis length_Suc_conv list.size(4) add_Suc_right add_0_right)
  then have "instance_from_ec2 x = Some v" by (auto split: option.splits)
  then have "si_state v = ''running''" using instance_state rs(4) by fastforce
  with v rs show ?thesis
    by (intro that [of v vs]) (simp_all add: account_client_def aws_client_def describe_by_tag_def Let_def)
qed

lemma prompt_observe:
  assumes "prompt_replies r"
  shows "\<exists>ob. observe (account_client r) cfg now [i] = Some (Inr [ob]) \<and> o_state ob = StateRunning"
proof -
  obtain v vs where "cl_describe (account_client r) (entity_filter cfg i) = Some (Inr (v # vs))" "si_state v = ''running''"
    by (rule prompt_describe [OF assms])
  then show ?thesis by (simp add: observe_one_def Let_def lifecycle_from_ec2_state_def)
qed

lemma prompt_readiness:
  assumes "prompt_replies r"
  shows "\<exists>rd. read_readiness (account_client r) cfg i = Some rd \<and> readiness_ok rd \<and> rd_detail rd \<noteq> ''''"
proof -
  obtain v vs where d: "cl_describe (account_client r) (entity_filter cfg i) = Some (Inr (v # vs))"
    by (rule prompt_describe [OF assms])
  obtain tags where "at_acquire (rp_tags r) = None" "at_reply (rp_tags r) = Inr tags" "reports_ready r"
    "reported_detail r \<noteq> ''''"
    using assms by (auto simp: prompt_replies_def reports_ready_def split: sum.splits)
  then have "cl_tags (account_client r) (si_provider_id v) = Inr (collect_tags tags Map.empty)"
    by (simp add: account_client_def aws_client_def describe_tags_by_id_def)
  with d \<open>reports_ready r\<close> \<open>at_reply (rp_tags r) = Inr tags\<close> \<open>reported_detail r \<noteq> ''''\<close> show ?thesis
    by (auto simp: read_readiness_def reports_ready_def reported_detail_def readiness_ok_def Let_def)
qed

text \<open>The goroutine of one member, from \<open>t\<close> on, when every call takes \<open>d\<close>.\<close>

definition member_moves :: "duration \<Rightarrow> nat \<Rightarrow> time \<Rightarrow> fleet_move list" where
  "member_moves d i t =
     [FleetStart i t, FleetPass i t (t + d) 0, FleetPass i (t + d) (t + 2 * d) 0,
      FleetPass i (t + 2 * d) (t + 3 * d) 0, FleetFinish i (t + 3 * d)]"

fun fleet_schedule :: "duration \<Rightarrow> nat \<Rightarrow> nat \<Rightarrow> time \<Rightarrow> fleet_move list" where
  "fleet_schedule d k 0 t = []"
| "fleet_schedule d k (Suc n) t = member_moves d k t @ fleet_schedule d (Suc k) n (t + 3 * d)"

lemma fleet_run_append:
  "fleet_run P w cfg c xs s = Some (mvs, s1) \<Longrightarrow> fleet_run P w cfg c ys s1 = Some (mvs', s2) \<Longrightarrow>
   fleet_run P w cfg c (xs @ ys) s = Some (mvs @ mvs', s2)"
  by (induction xs arbitrary: s mvs) (auto split: option.splits)

definition undisturbed :: "time \<Rightarrow> cohort_state \<Rightarrow> bool" where
  "undisturbed t s \<longleftrightarrow> s_fastfail s = None \<and> s_parent s = None \<and> s_now s \<le> t"

definition enrolled_done :: "entity \<Rightarrow> bool" where
  "enrolled_done e \<longleftrightarrow> e_pc e = PcDone \<and> t_enrolled (e_tr e) \<and> t_terminal (e_tr e) = None \<and>
     o_address (t_obs (e_tr e)) \<noteq> ''''"

lemma phase_ctx_live: "phase_ctx None dl now = None \<longleftrightarrow> now < dl"
  by (auto simp: phase_ctx_def)

lemma one_pass:
  assumes "i < length (s_ents s)" "undisturbed tc s" "in_loop (e_pc (s_ents s ! i))"
    and "fleet_event w cfg (phase_ctx None (e_deadline (s_ents s ! i)) tc) (s_ents s ! i) tc dn 0 = Some ev"
    and "entity_iter P (c_budget c) None ev (s_ents s ! i) = (e', effs)"
  shows "\<exists>mvs s'. fleet_run P w cfg c [FleetPass i tc dn 0] s = Some (mvs, s') \<and>
    s_ents s' = (s_ents s)[i := e'] \<and> undisturbed tc s'"
proof -
  have "ev_at ev = tc"
    using assms(4) by (auto simp: fleet_event_def Let_def quiet_event_def split: pc.splits if_splits)
  with assms show ?thesis by (auto simp: fleet_to_move_def exec_move_def undisturbed_def Let_def)
qed

text \<open>Three passes take an entity through its phases.\<close>

definition at_phase :: "actuator_config \<Rightarrow> pc \<Rightarrow> time \<Rightarrow> entity \<Rightarrow> bool" where
  "at_phase cfg p dl e \<longleftrightarrow> e_pc e = p \<and> e_deadline e = dl \<and> launchable cfg (t_intent (e_tr e)) \<and> t_terminal (e_tr e) = None"

lemma prompt_launch_pass:
  assumes "\<forall>t i. prompt_replies (w t i)" "at_phase cfg (PcLaunch n) dl e" "tc < dl"
  shows "\<exists>ev e' effs. fleet_event w cfg (phase_ctx None dl tc) e tc dn 0 = Some ev \<and>
    entity_iter (wired_ports a) b None ev e = (e', effs) \<and> at_phase cfg (PcRunning 0) (dn + b_running b) e'"
proof -
  have e: "e_pc e = PcLaunch n" "e_deadline e = dl" "launchable cfg (t_intent (e_tr e))" "t_terminal (e_tr e) = None"
    using assms(2) by (simp_all add: at_phase_def)
  then obtain req where "cold (t_intent (e_tr e))" "launch_request cfg (t_intent (e_tr e)) = Inr req"
    by (auto simp: launchable_def split: sum.splits)
  then obtain obs where l: "launch (account_client (w tc (i_id (t_intent (e_tr e))))) cfg dn (t_intent (e_tr e)) = Some (Inr obs)"
    using healthy_launch assms(1) unfolding prompt_replies_def by blast
  have "fleet_event w cfg (phase_ctx None dl tc) e tc dn 0 = Some ((quiet_event tc dn 0)\<lparr>ev_launch := Inr obs\<rparr>)"
    using e \<open>cold _\<close> l assms(3) by (simp add: fleet_event_def phase_ctx_def cold_def Let_def)
  then show ?thesis
    using e assms(3)
    by (simp add: entity_iter_def do_launch_iter_def phase_ctx_def quiet_event_def at_phase_def Let_def)
      (simp add: tracker_defs)
qed

lemma prompt_running_pass:
  assumes "\<forall>t i. prompt_replies (w t i)" "at_phase cfg (PcRunning n) dl e" "tc < dl"
  shows "\<exists>ev e' effs. fleet_event w cfg (phase_ctx None dl tc) e tc dn 0 = Some ev \<and>
    entity_iter (wired_ports a) b None ev e = (e', effs) \<and> at_phase cfg PcEnrolled (dn + b_enrolled b) e'"
proof -
  let ?i = "i_id (t_intent (e_tr e))"
  have e: "e_pc e = PcRunning n" "e_deadline e = dl" "launchable cfg (t_intent (e_tr e))" "t_terminal (e_tr e) = None"
    using assms(2) by (simp_all add: at_phase_def)
  obtain ob where ob: "observe (account_client (w tc ?i)) cfg dn [?i] = Some (Inr [ob])" "o_state ob = StateRunning"
    using prompt_observe assms(1) by blast
  have "fleet_event w cfg (phase_ctx None dl tc) e tc dn 0 = Some ((quiet_event tc dn 0)\<lparr>ev_observe := Inr [ob]\<rparr>)"
    using e ob assms(3) by (simp add: fleet_event_def phase_ctx_def Let_def del: observe.simps)
  then show ?thesis
    using e assms(3) ob(2)
    by (simp add: entity_iter_def wait_running_iter_def phase_ctx_def quiet_event_def at_phase_def Let_def)
      (simp add: tracker_defs)
qed

lemma prompt_enrolled_pass:
  assumes "\<forall>t i. prompt_replies (w t i)" "at_phase cfg PcEnrolled dl e" "tc < dl"
  shows "\<exists>ev e' effs. fleet_event w cfg (phase_ctx None dl tc) e tc dn 0 = Some ev \<and>
    entity_iter (wired_ports a) b None ev e = (e', effs) \<and>
    e_pc e' = PcReturned \<and> t_enrolled (e_tr e') \<and> t_terminal (e_tr e') = None \<and> o_address (t_obs (e_tr e')) \<noteq> ''''"
proof -
  let ?i = "i_id (t_intent (e_tr e))"
  have e: "e_pc e = PcEnrolled" "e_deadline e = dl" "t_terminal (e_tr e) = None"
    using assms(2) by (simp_all add: at_phase_def)
  obtain rd where rd: "read_readiness (account_client (w tc ?i)) cfg ?i = Some rd" "readiness_ok rd" "rd_detail rd \<noteq> ''''"
    using prompt_readiness assms(1) by blast
  have "fleet_event w cfg (phase_ctx None dl tc) e tc dn 0 = Some ((quiet_event tc dn 0)\<lparr>ev_enroll := Inr rd\<rparr>)"
    using e rd assms(3)
    by (simp add: fleet_event_def phase_ctx_def slurm_is_enrolled_def is_enrolled_def Let_def)
  then show ?thesis
    using e assms(3) rd(2,3)
    by (simp add: entity_iter_def wait_enrolled_iter_def phase_ctx_def quiet_event_def wired_ports_def Let_def)
      (simp add: tracker_defs)
qed

lemma undisturbed_later: "undisturbed t s \<Longrightarrow> t \<le> t' \<Longrightarrow> undisturbed t' s"
  by (simp add: undisturbed_def)

lemma member_run:
  assumes prompt: "\<forall>t i. prompt_replies (w t i)" and b: "positive_budget (c_budget c)" and d: "0 \<le> d"
    and i: "i < length (s_ents s)" and s: "undisturbed t s"
    and e: "e_pc (s_ents s ! i) = PcStart" "launchable cfg (t_intent (e_tr (s_ents s ! i)))"
      "t_terminal (e_tr (s_ents s ! i)) = None"
  shows "\<exists>mvs s' e'. fleet_run (wired_ports a) w cfg c (member_moves d i t) s = Some (mvs, s') \<and>
    s_ents s' = (s_ents s)[i := e'] \<and> enrolled_done e' \<and> undisturbed (t + 3 * d) s'"
proof -
  let ?P = "wired_ports a"
  let ?b = "c_budget c"
  let ?e0 = "entity_start ?b t (s_ents s ! i)"
  obtain m0 s0 where r0: "fleet_run ?P w cfg c [FleetStart i t] s = Some (m0, s0)"
    and s0: "s_ents s0 = (s_ents s)[i := ?e0]" "undisturbed t s0"
    using i s e(1) by (auto simp: fleet_to_move_def exec_move_def undisturbed_def)
  have e0: "at_phase cfg (PcLaunch 0) (t + b_launch_acked ?b) ?e0"
    using e by (simp add: at_phase_def entity_start_def)
  obtain ev e1 effs where e1: "fleet_event w cfg (phase_ctx None (t + b_launch_acked ?b) t) ?e0 t (t + d) 0 = Some ev"
    "entity_iter ?P ?b None ev ?e0 = (e1, effs)" "at_phase cfg (PcRunning 0) (t + d + b_running ?b) e1"
    using prompt_launch_pass [OF prompt e0] b unfolding positive_budget_def by force
  obtain m1 s1 where r1: "fleet_run ?P w cfg c [FleetPass i t (t + d) 0] s0 = Some (m1, s1)"
    and s1: "s_ents s1 = (s_ents s)[i := e1]" "undisturbed t s1"
    using one_pass [of i s0 t w cfg "t + d" ev ?P c e1 effs] i s0 e0 e1 by (auto simp: at_phase_def in_loop_def)
  have u1: "undisturbed (t + d) s1" using undisturbed_later [OF s1(2)] d by simp
  obtain ev2 e2 effs2 where e2:
    "fleet_event w cfg (phase_ctx None (t + d + b_running ?b) (t + d)) e1 (t + d) (t + 2 * d) 0 = Some ev2"
    "entity_iter ?P ?b None ev2 e1 = (e2, effs2)" "at_phase cfg PcEnrolled (t + 2 * d + b_enrolled ?b) e2"
    using prompt_running_pass [OF prompt e1(3)] b unfolding positive_budget_def by force
  obtain m2 s2 where r2: "fleet_run ?P w cfg c [FleetPass i (t + d) (t + 2 * d) 0] s1 = Some (m2, s2)"
    and s2: "s_ents s2 = (s_ents s)[i := e2]" "undisturbed (t + d) s2"
    using one_pass [of i s1 "t + d" w cfg "t + 2 * d" ev2 ?P c e2 effs2] i s1 u1 e1(3) e2
    by (auto simp: at_phase_def in_loop_def simp del: fleet_run.simps)
  have u2: "undisturbed (t + 2 * d) s2" using undisturbed_later [OF s2(2)] d by simp
  obtain ev3 e3 effs3 where e3:
    "fleet_event w cfg (phase_ctx None (t + 2 * d + b_enrolled ?b) (t + 2 * d)) e2 (t + 2 * d) (t + 3 * d) 0 = Some ev3"
    "entity_iter ?P ?b None ev3 e2 = (e3, effs3)"
    "e_pc e3 = PcReturned" "t_enrolled (e_tr e3)" "t_terminal (e_tr e3) = None" "o_address (t_obs (e_tr e3)) \<noteq> ''''"
    using prompt_enrolled_pass [OF prompt e2(3)] b unfolding positive_budget_def by force
  obtain m3 s3 where r3: "fleet_run ?P w cfg c [FleetPass i (t + 2 * d) (t + 3 * d) 0] s2 = Some (m3, s3)"
    and s3: "s_ents s3 = (s_ents s)[i := e3]" "undisturbed (t + 2 * d) s3"
    using one_pass [of i s2 "t + 2 * d" w cfg "t + 3 * d" ev3 ?P c e3 effs3] i s2 u2 e2(3) e3
    by (auto simp: at_phase_def in_loop_def simp del: fleet_run.simps)
  let ?e4 = "e3\<lparr>e_pc := PcDone\<rparr>"
  obtain m4 s4 where r4: "fleet_run ?P w cfg c [FleetFinish i (t + 3 * d)] s3 = Some (m4, s4)"
    and s4: "s_ents s4 = (s_ents s)[i := ?e4]" "undisturbed (t + 3 * d) s4"
    using i s3 e3 d
    by (auto simp: fleet_to_move_def exec_move_def undisturbed_def gate_bookkeeping_def is_terminal_def Let_def)
  have "fleet_run ?P w cfg c (member_moves d i t) s = Some (m0 @ m1 @ m2 @ m3 @ m4, s4)"
    using fleet_run_append [OF r0 fleet_run_append [OF r1 fleet_run_append [OF r2 fleet_run_append [OF r3 r4]]]]
    by (simp add: member_moves_def)
  with s4 e3 show ?thesis by (auto simp: enrolled_done_def)
qed

definition fresh :: "actuator_config \<Rightarrow> entity \<Rightarrow> bool" where
  "fresh cfg e \<longleftrightarrow> e_pc e = PcStart \<and> launchable cfg (t_intent (e_tr e)) \<and> t_terminal (e_tr e) = None"

lemma schedule_run:
  assumes prompt: "\<forall>t i. prompt_replies (w t i)" and b: "positive_budget (c_budget c)" and d: "0 \<le> d"
  shows "\<lbrakk>undisturbed t s; k + n = length (s_ents s); \<forall>i<k. enrolled_done (s_ents s ! i);
      \<forall>i<length (s_ents s). k \<le> i \<longrightarrow> fresh cfg (s_ents s ! i)\<rbrakk> \<Longrightarrow>
    \<exists>mvs s'. fleet_run (wired_ports a) w cfg c (fleet_schedule d k n t) s = Some (mvs, s') \<and>
      length (s_ents s') = length (s_ents s) \<and> list_all enrolled_done (s_ents s') \<and> s_parent s' = None"
proof (induction n arbitrary: k t s)
  case 0
  then show ?case by (auto simp: list_all_length undisturbed_def)
next
  case (Suc n)
  then have "k < length (s_ents s)" "fresh cfg (s_ents s ! k)" by auto
  then obtain mvs s1 e' where s1: "fleet_run (wired_ports a) w cfg c (member_moves d k t) s = Some (mvs, s1)"
    "s_ents s1 = (s_ents s)[k := e']" "enrolled_done e'" "undisturbed (t + 3 * d) s1"
    using member_run [OF prompt b d _ Suc.prems(1), of k cfg a] by (auto simp: fresh_def)
  have "\<forall>i<Suc k. enrolled_done (s_ents s1 ! i)"
    using Suc.prems(2,3) s1(2,3) by (auto simp: less_Suc_eq nth_list_update)
  moreover have "\<forall>i<length (s_ents s1). Suc k \<le> i \<longrightarrow> fresh cfg (s_ents s1 ! i)"
    using Suc.prems(4) s1(2) by auto
  moreover have "Suc k + n = length (s_ents s1)" using Suc.prems(2) s1(2) by simp
  ultimately obtain mvs2 s2 where
    "fleet_run (wired_ports a) w cfg c (fleet_schedule d (Suc k) n (t + 3 * d)) s1 = Some (mvs2, s2)"
    "length (s_ents s2) = length (s_ents s1)" "list_all enrolled_done (s_ents s2)" "s_parent s2 = None"
    using Suc.IH [OF s1(4)] by blast
  with fleet_run_append [OF s1(1) this(1)] s1(2) show ?case by simp
qed

definition assembles :: "(observation list \<Rightarrow> go_error option) option \<Rightarrow> cohort \<Rightarrow> bool" where
  "assembles asm c \<longleftrightarrow> (case asm of None \<Rightarrow> True | Some f \<Rightarrow> \<not> c_no_assembly c \<and>
     (\<forall>ms. length ms = length (c_members c) \<and> (\<forall>m\<in>set ms. o_address m \<noteq> '''') \<longrightarrow> f ms = None))"

text \<open>The Slurm domain's assembler is one, when the manifest can be serialized and published.\<close>

lemma slurm_assembles:
  assumes "wf_cohort c" "\<not> c_no_assembly c" "\<And>k data. pub k data = None"
  shows "assembles (Some (slurm_assemble (\<lambda>pm. Inr (enc pm)) (Some pub))) c"
proof -
  have "slurm_assemble (\<lambda>pm. Inr (enc pm)) (Some pub) ms = None"
    if "length ms = length (c_members c)" "\<forall>m\<in>set ms. o_address m \<noteq> ''''" for ms
  proof -
    have "ms \<noteq> []" using that(1) assms(1) by (auto simp: wf_cohort_def)
    then have "peer_manifest ms = Inr \<lparr>pm_cohort = cohort_key (sort_key o_id ms), pm_peers = ranks_of 0 (sort_key o_id ms)\<rparr>"
      using assign_ranks_ok [of "sort_key o_id ms" 0] that(2) by (simp add: peer_manifest_def Let_def)
    then show ?thesis using assms(3) by (simp add: slurm_assemble_def assemble_def Let_def)
  qed
  with assms(2) show ?thesis by (simp add: assembles_def)
qed

lemma all_enrolled_ready:
  assumes "wf_cohort c" "assembles asm c" "length (s_ents s) = length (c_members c)"
    "list_all enrolled_done (s_ents s)" "s_parent s = None"
  shows "\<exists>trs effs. classify_cohort (wired_ports (asm \<noteq> None)) c (case asm of Some f \<Rightarrow> f | None \<Rightarrow> \<lambda>_. None) trm s =
    (True, trs, effs) \<and> drain_survives w cfg t effs"
proof -
  have "filter t_enrolled (trackers s) = trackers s"
    using assms(4) by (simp add: trackers_def filter_map o_def list_all_iff enrolled_done_def)
  then have "enrolled_count s = length (c_members c)"
    using assms(3) by (simp add: enrolled_count_def trackers_def)
  moreover have "f (map t_obs (trackers s)) = None" if "asm = Some f" for f
    using assms(2,3,4) that by (auto simp: assembles_def trackers_def list_all_iff enrolled_done_def)
  ultimately show ?thesis
    using assms \<open>filter t_enrolled _ = _\<close>
    by (cases asm) (auto simp: classify_cohort_branches wired_ports_def assembles_def drain_survives_def
        wf_cohort_def effective_min_viable_def)
qed

lemma ready_records_succeed:
  assumes "wf_cohort c" "exec_moves P c mvs (init_state t0 c) = Some s" "list_all enrolled_done (s_ents s)"
    and "reconcile P c t0 mvs asm trm fin = Some (out, calls, after)" "out_ready out" "out_records out x = Some r"
  shows "succeeded r"
proof -
  obtain trs where s: "reachable P c t0 s" "cohort_inv P c s" "all_done s"
    "classify_cohort P c asm trm s = (out_ready out, trs, after)" "calls = s_log s"
    "out_records out = build_records (c_id c) fin 0 trs Map.empty"
    by (rule reconcile_state_at [OF assms(1,2,4)])
  obtain f where f: "marks s True f" "trs = map f (trackers s)"
    using classify_marks [OF s(2,3)] s(4) assms(5) by (metis (full_types))
  obtain j where j: "j < length (trackers s)" "r = build_record (f (trackers s ! j)) (c_id c) (fin j)"
    using build_records_cases [of "c_id c" fin 0 trs Map.empty x r] assms(6) s(6) f(2) by auto
  have "\<not> is_terminal (trackers s ! j)"
    using assms(3) j(1) by (auto simp: list_all_length trackers_def enrolled_done_def is_terminal_def)
  with marked_outcome(2) [OF done_entity(1) [OF s(2,3) j(1)] f(1)] j(2) show ?thesis by simp
qed

lemma prompt_run:
  assumes "wf_cohort c" "positive_budget (c_budget c)" "list_all (launchable cfg) (c_members c)"
    and "\<forall>t i. prompt_replies (w t i)" "assembles asm c" "0 \<le> d"
  shows "\<exists>out calls after. fleet_reconcile asm w cfg c t0 (fleet_schedule d 0 (length (c_members c)) t0) tf fin =
      Some (out, calls, after) \<and> out_ready out \<and> (\<forall>x r. out_records out x = Some r \<longrightarrow> succeeded r)"
proof -
  let ?P = "wired_ports (asm \<noteq> None)"
  let ?s = "init_state t0 c"
  let ?fms = "fleet_schedule d 0 (length (c_members c)) t0"
  have init: "undisturbed t0 ?s" "length (s_ents ?s) = length (c_members c)" "\<forall>i<length (s_ents ?s). fresh cfg (s_ents ?s ! i)"
    using assms(3) by (simp_all add: undisturbed_def init_state_def fresh_def new_tracker_def list_all_length)
  obtain mvs s where run: "fleet_run ?P w cfg c ?fms ?s = Some (mvs, s)"
    and s: "length (s_ents s) = length (c_members c)" "list_all enrolled_done (s_ents s)" "s_parent s = None"
    using schedule_run [OF assms(4,2,6) init(1), of 0 "length (c_members c)" cfg "asm \<noteq> None"] init(2,3) by auto
  obtain trs effs where cl: "classify_cohort ?P c (case asm of Some f \<Rightarrow> f | None \<Rightarrow> \<lambda>_. None) (fleet_terminate w cfg tf) s =
      (True, trs, effs)" "drain_survives w cfg tf effs"
    using all_enrolled_ready [OF assms(1,5) s] by blast
  have "all_done s" using s(2) by (simp add: all_done_def list_all_iff enrolled_done_def)
  then obtain out where out: "reconcile ?P c t0 mvs (case asm of Some f \<Rightarrow> f | None \<Rightarrow> \<lambda>_. None)
      (fleet_terminate w cfg tf) fin = Some (out, s_log s, effs)" "out_ready out"
    using cl fleet_run_exec [OF run] by (simp add: reconcile_def reconcile_outcome_def)
  have "fleet_reconcile asm w cfg c t0 ?fms tf fin = Some (out, s_log s, effs)"
    using run cl(2) out(1) by (simp add: fleet_reconcile_def)
  with out(2) ready_records_succeed [OF assms(1) fleet_run_exec [OF run] s(2) out] show ?thesis by blast
qed


section \<open>Concrete runs\<close>

definition answer :: "'o \<Rightarrow> 'o attempt_reply" where
  "answer out = \<lparr>at_acquire = None, at_reply = Inr out, at_ctx = None, at_rand = 0\<rparr>"

definition fleet_instance :: "string \<Rightarrow> string \<Rightarrow> ec2_instance" where
  "fleet_instance i st = \<lparr>ec_instance_id = Some (''i-'' @ i), ec_state_name = Some st, ec_instance_type = ''a'',
     ec_private_ip = Some ''10.0.0.1'', ec_placement_zone = None, ec_launch_time = None, ec_tags = []\<rparr>"

definition fleet_world :: ec2_world where
  "fleet_world t i =
     \<lparr>rp_run = (\<lambda>_. answer [fleet_instance i ''pending'']), rp_start = (\<lambda>_. answer []), rp_stop = (\<lambda>_. answer ()),
      rp_terminate = (\<lambda>_. answer ()), rp_describe = answer [[fleet_instance i ''running'']],
      rp_tags = answer [(Some tag_ready, Some ''true''), (Some tag_phase, Some phase_enrolled),
                        (Some tag_detail, Some ''all probes ok'')]\<rparr>"

lemma demo_reports: "reports_ready (fleet_world 0 '''') \<and> reported_detail (fleet_world 0 '''') \<noteq> ''''"
  by code_simp

lemma demo_prompt: "prompt_replies (fleet_world t i)"
proof -
  have "rp_tags (fleet_world t i) = rp_tags (fleet_world 0 '''')" by (simp add: fleet_world_def)
  then have "reports_ready (fleet_world t i) = reports_ready (fleet_world 0 '''')"
    "reported_detail (fleet_world t i) = reported_detail (fleet_world 0 '''')"
    by (simp_all only: reports_ready_def reported_detail_def)
  with demo_reports show ?thesis
    by (simp add: prompt_replies_def) (simp add: healthy_replies_def fleet_world_def answer_def fleet_instance_def
        standing_def lifecycle_from_ec2_state_def)
qed

definition demo_assembler :: "observation list \<Rightarrow> go_error option" where
  "demo_assembler = slurm_assemble (\<lambda>_. Inr ''{}'') (Some (\<lambda>_ _. None))"

definition demo_fleet :: "fleet_move list \<Rightarrow> (outcome \<times> (nat \<times> effect) list \<times> effect list) option" where
  "demo_fleet fms = fleet_reconcile (Some demo_assembler) fleet_world demo_config demo_cohort 0 fms 99 (\<lambda>_. 99)"

lemma demo_launchable: "list_all (launchable demo_config) (c_members demo_cohort)"
  by code_simp

lemma demo_assembles: "assembles (Some demo_assembler) demo_cohort"
  unfolding demo_assembler_def using demo_wf by (intro slurm_assembles) (auto simp: demo_cohort_def)

lemma demo_cohort_facts: "length (c_members demo_cohort) = 2" "positive_budget (c_budget demo_cohort)" "\<not> c_no_assembly demo_cohort"
  by (simp_all add: demo_cohort_def positive_budget_def default_budget_def duration_units)


text \<open>Both members at once, and a member whose first pass comes too late.\<close>

definition demo_fleet_moves :: "fleet_move list" where
  "demo_fleet_moves =
     [FleetStart 0 1, FleetStart 1 1, FleetPass 0 2 3 0, FleetPass 1 2 4 0, FleetPass 1 4 5 0, FleetPass 0 5 6 0,
      FleetPass 0 6 7 0, FleetFinish 0 7, FleetPass 1 8 9 0, FleetFinish 1 9]"

definition demo_late_moves :: "fleet_move list" where
  "demo_late_moves =
     [FleetStart 0 1, FleetStart 1 1, FleetPass 0 2 3 0, FleetPass 1 (16 * second) (16 * second) 0,
      FleetFinish 1 (17 * second), FleetPass 0 (18 * second) (18 * second) 0, FleetFinish 0 (19 * second)]"

lemma demo_fleet_ready:
  "case demo_fleet demo_fleet_moves of None \<Rightarrow> False
   | Some (out, calls, after) \<Rightarrow> out_ready out \<and> launches_of 1 calls \<noteq> []"
  by code_simp

lemma demo_fleet_late:
  "case demo_fleet demo_late_moves of None \<Rightarrow> False
   | Some (out, calls, after) \<Rightarrow> \<not> out_ready out \<and> lasting demo_late_moves \<and> after = [CallTerminate ''n0''] \<and>
       er_terminal (member_record out demo_cohort 1) \<noteq> None"
  by code_simp

lemma fleet_launches_once_witness:
  "\<exists>out calls after. demo_fleet demo_fleet_moves = Some (out, calls, after) \<and>
     launches_of 1 calls = [CallLaunch (c_members demo_cohort ! 1)]"
proof -
  obtain out calls after where r: "demo_fleet demo_fleet_moves = Some (out, calls, after)" "launches_of 1 calls \<noteq> []"
    using demo_fleet_ready by (auto split: option.splits)
  from fleet_launches_once [OF _ _ launchable_cold [OF demo_launchable] r(1) [unfolded demo_fleet_def], of 1] r demo_wf
  show ?thesis by (simp add: demo_cohort_facts(1))
qed



end
