(* ===== verification/Resume_Loop.thy ===== *)
theory Resume_Loop
  imports Closed_Loop_Properties Slurm_Properties
begin

text \<open>
  \<^verbatim>\<open>q0-resume\<close> from the hostlist to the marks it leaves at slurmctld: the bridge of \<open>Slurm_World\<close> with
  the closed loop of \<open>Closed_Loop\<close> as its cohort core, so that what remains open is EC2, the budget
  service, the clock and the order in which goroutines run.
\<close>

section \<open>The core of the bridge\<close>

text \<open>
  \<^verbatim>\<open>Reconciler(asm)\<close> of the wired bridge: with the assembler for a collective and without it else,
  along the moves that \<open>sched\<close> gives for a cohort. Where they are not a complete run there is no
  outcome, and this is the empty one.
\<close>

definition wired_core ::
  "(observation list \<Rightarrow> go_error option) \<Rightarrow> ec2_world \<Rightarrow> actuator_config \<Rightarrow> (cohort \<Rightarrow> fleet_move list) \<Rightarrow> time \<Rightarrow> time \<Rightarrow>
   (nat \<Rightarrow> time) \<Rightarrow> bool \<Rightarrow> cohort \<Rightarrow> outcome"
where
  "wired_core f ec acfg sched t0 tf fin a c =
     (case fleet_reconcile (if a then Some f else None) ec acfg c t0 (sched c) tf fin of
        Some (out, calls, after) \<Rightarrow> out
      | None \<Rightarrow> \<lparr>out_cohort = c_id c, out_ready = False, out_records = Map.empty\<rparr>)"

definition node_marks :: "bridge_event list \<Rightarrow> bridge_event list" where
  "node_marks es = filter (\<lambda>e. case e of EvUpdate _ _ _ \<Rightarrow> True | _ \<Rightarrow> False) es"

lemma node_marks_simps [simp]:
  "node_marks [] = []" "node_marks (xs @ ys) = node_marks xs @ node_marks ys"
  "node_marks (EvRecords out # es) = node_marks es" "node_marks (EvReconcile c a # es) = node_marks es"
  "node_marks (EvAdmit rq # es) = node_marks es"
  by (simp_all add: node_marks_def)

lemma persist_holds_log:
  "nw_log (persist_holds (aws_bridge cfg acfg shw run gate closer asm order) now nodes part res w) = nw_log w"
proof (cases "as_transaction_id res = ''''")
  case True
  then show ?thesis by (simp add: persist_holds_def)
next
  case False
  then show ?thesis by (simp add: persist_holds_world)
qed

text \<open>Writing an outcome whose records all succeeded marks no node.\<close>

lemma finish_succeeded:
  assumes "\<forall>x r. out_records out x = Some r \<longrightarrow> succeeded r"
  shows "nw_log (finish (aws_bridge cfg acfg shw run gate closer asm order) out w) = nw_log w @ [EvRecords out]"
proof -
  have "List.map_filter (out_records out) is = List.map_filter (out_records out) is \<and>
      filter (\<lambda>r. \<not> succeeded r) (List.map_filter (out_records out) is) = []" for "is"
    using assms by (induction "is") (auto simp: List.map_filter_def split: option.splits)
  then show ?thesis by (simp add: finish_def Let_def writeback_log note_event_def)
qed

definition gate_lets :: "config \<Rightarrow> (admission_request \<Rightarrow> go_error + admission_result) option \<Rightarrow> bool" where
  "gate_lets cfg gate \<longleftrightarrow> (\<forall>g rq. gate = Some g \<longrightarrow> \<not> fst (admission_verdict cfg (g rq)))"

lemma launch_fleet_ready:
  assumes b: "b = aws_bridge cfg acfg shw run gate closer asm order"
    and c: "build_cohort b part cid intents (cohort_budget part) = Inr (c, a)"
    and gate: "gate_lets cfg gate"
    and ok: "\<forall>x r. out_records (run a c) x = Some r \<longrightarrow> succeeded r"
  shows "\<exists>w'. launch_fleet b now part nodes chain cid intents w = (None, w') \<and>
    node_marks (nw_log w') = node_marks (nw_log w) \<and> EvRecords (run a c) \<in> set (nw_log w')"
proof (cases gate)
  case None
  then show ?thesis
    using c by (simp add: launch_fleet_def b finish_succeeded [OF ok])
next
  case (Some g)
  define rq where "rq = admission_request_for cfg part (hd chain) (length nodes)"
  obtain reason res where v: "admission_verdict cfg (g rq) = (False, reason, res)"
    using gate Some unfolding gate_lets_def by (metis prod.collapse)
  then have "launch_fleet b now part nodes chain cid intents w =
      (None, finish b (run a c) (note_event (EvReconcile c a) (persist_holds b now nodes part res w1)))" and "nw_log w1 = nw_log w @ [EvAdmit rq]"
    if "w1 = snd (check_admission b (\<lambda>req w. (g req, note_event (EvAdmit req) w)) part (hd chain) (length nodes) w)" for w1
    using c Some that by (simp_all add: launch_fleet_def b check_admission_def rq_def split: sum.split)
  then show ?thesis by (simp add: b finish_succeeded [OF ok] persist_holds_log)
qed


text \<open>A resume of two nodes of a validated file.\<close>

definition resume_core :: "bool \<Rightarrow> cohort \<Rightarrow> outcome" where
  "resume_core = wired_core (slurm_assemble (\<lambda>pm. Inr '''') (Some (\<lambda>_ _. None))) fleet_world demo_config
     (\<lambda>c. fleet_schedule 7 0 (length (c_members c)) 0) 0 99 (\<lambda>_. 99)"

lemma cold_launchable: "\<not> r_warm_start (i_rung m) \<longrightarrow> launchable demo_config m"
  by (simp add: launchable_def cold_def launch_request_def demo_config_def Let_def)


end
