(* ===== verification/Test_Vectors.thy ===== *)
theory Test_Vectors
  imports Closed_Loop_Properties Slurm_Hostlist Spec_Partitions Stores Spored Rate_Limit
begin

text \<open>
  The model evaluated on the inputs of the repository's own tests, with the results those tests
  demand: each lemma is named after the test function and is proved by evaluation, so a definition
  that drifts from the code its tests pin down fails here.
\<close>

section \<open>\<^verbatim>\<open>internal/bootstrap/mount_test.go\<close> and \<^verbatim>\<open>cmd/q0-spored/main_test.go\<close>\<close>

definition two_mounts :: "mount list" where
  "two_mounts = [\<lparr>m_dns = ''fs-0.efs.us-east-1.amazonaws.com'', m_path = ''/shared''\<rparr>,
     \<lparr>m_dns = ''fs-1.efs.us-east-1.amazonaws.com'', m_path = ''/scratch''\<rparr>]"

lemma test_mount_spec_round_trip:
  "format_mount_spec two_mounts = ''fs-0.efs.us-east-1.amazonaws.com:/shared,fs-1.efs.us-east-1.amazonaws.com:/scratch'' \<and>
   parse_mount_spec (format_mount_spec two_mounts) = two_mounts"
  by code_simp

lemma test_mount_spec_empty:
  "format_mount_spec [] = '''' \<and> parse_mount_spec '''' = [] \<and> parse_mount_spec ''   '' = []"
  by code_simp

lemma test_format_mount_spec_skips_incomplete:
  "format_mount_spec [\<lparr>m_dns = ''a'', m_path = ''/x''\<rparr>, \<lparr>m_dns = '''', m_path = ''/y''\<rparr>, \<lparr>m_dns = ''b'', m_path = ''''\<rparr>] = ''a:/x''"
  by code_simp

lemma test_parse_mount_spec_skips_malformed:
  "parse_mount_spec ''a:/x, nocolon , :/onlypath, dns:, b:/y'' =
     [\<lparr>m_dns = ''a'', m_path = ''/x''\<rparr>, \<lparr>m_dns = ''b'', m_path = ''/y''\<rparr>]"
  by code_simp

lemma test_mount_paths: "mount_paths two_mounts = ''/shared,/scratch''"
  by code_simp

definition mounts_line :: string where
  "mounts_line = ''Q0_MOUNT_PATHS='' @ [CHR 0x27] @ ''/shared,/scratch'' @ [CHR 0x27, CHR 0x0A]"

lemma test_parse_mount_paths_line:
  "parse_mount_paths_line (''Q0_MOUNT_SPEC=fs-0:/shared'' @ [CHR 0x0A] @ mounts_line) = ''/shared,/scratch'' \<and>
   parse_mount_paths_line (''nothing here'' @ [CHR 0x0A]) = ''''"
  by code_simp

lemma test_mount_paths_env_wins:
  "spored_mount_paths (\<lambda>k. if k = ''Q0_MOUNT_PATHS'' then ''/from-env'' else '''') (\<lambda>_. Some mounts_line) = ''/from-env''"
  by code_simp

lemma test_mount_paths_file_fallback:
  "spored_mount_paths (\<lambda>k. if k = ''Q0_MOUNTS_FILE'' then ''m'' else '''') (\<lambda>f. if f = ''m'' then Some mounts_line else None)
     = ''/shared,/scratch'' \<and>
   spored_mount_paths (\<lambda>_. '''') (\<lambda>_. None) = ''''"
  by code_simp

lemma test_probes_from_env_from_file:
  "probes_from_env (\<lambda>k. if k = ''Q0_CHECK_SLURMD'' then ''false'' else '''') (\<lambda>_. Some mounts_line) =
     [MountProbe ''/shared'', MountProbe ''/scratch'']"
  by code_simp

section \<open>\<^verbatim>\<open>internal/slurm/scontrol_test.go\<close>\<close>

lemma test_expand_hostlist:
  "expand_hostlist ''gpu-[001-004]'' = Some (Inr [''gpu-001'', ''gpu-002'', ''gpu-003'', ''gpu-004'']) \<and>
   expand_hostlist ''gpu-042'' = Some (Inr [''gpu-042'']) \<and>
   expand_hostlist ''n-[7-9]'' = Some (Inr [''n-7'', ''n-8'', ''n-9'']) \<and>
   expand_hostlist ''a,b,c'' = Some (Inr [''a'', ''b'', ''c'']) \<and>
   expand_hostlist ''cpu-[01-03]'' = Some (Inr [''cpu-01'', ''cpu-02'', ''cpu-03''])"
  by code_simp

definition is_error :: "(go_error + 'a) option \<Rightarrow> bool" where
  "is_error r = (case r of Some (Inl e) \<Rightarrow> True | _ \<Rightarrow> False)"

lemma test_expand_hostlist_malformed:
  "is_error (expand_hostlist ''gpu-[abc]'') \<and> is_error (expand_hostlist ''gpu-[001'')"
  by code_simp

section \<open>\<^verbatim>\<open>internal/cohort/backoff_test.go\<close>\<close>

definition test_policy :: backoff_policy where
  "test_policy = \<lparr>p_base = 100 * millisecond, p_cap = 10 * second, p_jitter = 1 / 4\<rparr>"

lemma test_backoff_bounds_and_cap:
  "map (\<lambda>a. backoff_duration test_policy a 0) [0, 1, 3, 7, 99] =
     [100 * millisecond, 200 * millisecond, 800 * millisecond, 10 * second, 10 * second]"
  by code_simp

lemma test_backoff_negative_attempt_clamped:
  "backoff_duration default_backoff_policy (-5) 0 = p_base default_backoff_policy"
  by code_simp

section \<open>\<^verbatim>\<open>internal/substrate/aws/classifier_test.go\<close>\<close>

lemma test_classifier_structured_codes:
  "map (\<lambda>code. f_class (classify_err (ApiErr code ''test message'')))
     [''InvalidInstanceID.NotFound'', ''InvalidParameterValue.IamInstanceProfileNotReady'', ''RequestLimitExceeded'',
      ''RequestExpired'', ''InsufficientInstanceCapacity'', ''Unsupported'', ''UnauthorizedOperation'',
      ''InvalidInstanceType'', ''SomeCompletelyUnknownCode'', ''''] =
     [FaultRetryableConsistency, FaultRetryableConsistency, FaultThrottle, FaultThrottle, FaultCapacityExhausted,
      FaultCapacityExhausted, FaultTerminal, FaultTerminal, FaultTerminal, FaultTerminal]"
  by code_simp

lemma test_classifier_unmapped_code_verbatim:
  "f_code (classify_err (ApiErr ''InvalidFoo.Bar'' ''some message'')) = ''InvalidFoo.Bar''"
  by code_simp

lemma test_classifier_wrapped:
  "f_class (classify_err (ErrWrap ''ec2 operation failed: '' (ApiErr ''InsufficientInstanceCapacity'' ''''))) = FaultCapacityExhausted \<and>
   f_class (classify_err (ErrWrap ''op failed: '' (CtxErr CtxCanceled))) = FaultTerminal \<and>
   f_class (classify_err (ErrWrap ''op failed: '' (CtxErr CtxDeadlineExceeded))) = FaultAmbiguous"
  by code_simp

lemma test_classifier_retryable_flag:
  "map (\<lambda>code. f_retryable (classify_err (ApiErr code '''')))
     [''InvalidInstanceID.NotFound'', ''RequestLimitExceeded'', ''InsufficientInstanceCapacity'', ''SomeUnknown''] =
   [True, True, False, False]"
  by code_simp

lemma test_classifier_typed_transport_errors:
  "map (\<lambda>e. f_class (classify_err e)) [NetErr ''i/o timeout'', UrlErr ''Get'' (ErrText ''conn refused''), ErrText ''i/o timeout''] =
     [FaultAmbiguous, FaultAmbiguous, FaultTerminal]"
  by code_simp

lemma test_classifier_nil_error: "f_class (classify None) = FaultRetryableConsistency"
  by code_simp

section \<open>\<^verbatim>\<open>internal/spec/load_test.go\<close>\<close>

lemma test_leading_prefix:
  "map leading_prefix [''gpu-042'', ''aws-cpu-001'', ''node'', ''x1''] = [''gpu'', ''aws-cpu'', ''node'', ''x'']"
  by code_simp

lemma test_capacity_model_from_string:
  "map capacity_model_from_string [''ondemand'', ''on-demand'', '''', ''SPOT'', ''reserved'', ''odcr'', ''capacity-block''] =
     map Inr [CapacityOnDemand, CapacityOnDemand, CapacityOnDemand, CapacitySpot, CapacityReserved, CapacityReserved, CapacityReserved] \<and>
   is_error (Some (capacity_model_from_string ''nonsense''))"
  by code_simp

definition plain_partition :: "string \<Rightarrow> string \<Rightarrow> spec_rung list \<Rightarrow> partition" where
  "plain_partition name prefix chain =
     zero_partition\<lparr>pa_name := name, pa_node_prefix := prefix, pa_execution_account := ''111122223333'', pa_fallback_chain := chain\<rparr>"

definition spec_rung_of :: "string \<Rightarrow> string \<Rightarrow> spec_rung" where
  "spec_rung_of ty model = \<lparr>sr_instance_type = ty, sr_avail_zone = ''us-east-1a'', sr_capacity_model = model\<rparr>"

definition gpu_test :: partition where
  "gpu_test = plain_partition ''gpu'' '''' [spec_rung_of ''p5.48xlarge'' ''ondemand'', spec_rung_of ''p5.48xlarge'' ''spot'']"

definition serial_test :: partition where
  "serial_test = plain_partition ''serial'' ''cpu'' [spec_rung_of ''m7i.xlarge'' ''ondemand'']"

lemma test_parse_partitions_good:
  "case cohort_fallback_chain gpu_test of
     Inl e \<Rightarrow> False
   | Inr chain \<Rightarrow> map r_capacity_model chain = [CapacityOnDemand, CapacitySpot] \<and>
       list_all (\<lambda>r. r_account_id r = ''111122223333'') chain"
  by code_simp

lemma test_cohort_budget_nil_is_zero: "cohort_budget gpu_test = zero_budget"
  by code_simp

lemma test_resolve_for_node:
  "map (\<lambda>n. map_option pa_name (resolve_for_node [gpu_test, serial_test] n)) [''gpu-042'', ''cpu-001'', ''zzz-9''] =
     [Some ''gpu'', Some ''serial'', None]"
  by code_simp

lemma test_parse_partitions_errors:
  "list_all (\<lambda>ps. validate_partitions \<lparr>ps_stack_hash = ''x'', ps_partitions = ps\<rparr> \<noteq> None)
     [[], [plain_partition '''' '''' [spec_rung_of ''m7i.xlarge'' ''ondemand'']], [plain_partition ''p1'' '''' []],
      [plain_partition ''p1'' '''' [spec_rung_of '''' '''']], [plain_partition ''p1'' '''' [spec_rung_of ''m7i.xlarge'' ''bananas'']],
      [plain_partition ''dup'' '''' [spec_rung_of ''m7i.xlarge'' ''ondemand''], plain_partition ''dup'' '''' [spec_rung_of ''m7i.xlarge'' ''spot'']]]"
  by code_simp

section \<open>\<^verbatim>\<open>internal/cohort/construct_test.go\<close>\<close>

definition test_rung :: rung where
  "test_rung = zero_rung\<lparr>r_instance_type := ''m5.xlarge'', r_avail_zone := ''us-east-1a''\<rparr>"

definition rejects :: "go_error + 'a \<Rightarrow> bool" where
  "rejects r = (case r of Inl e \<Rightarrow> True | Inr x \<Rightarrow> False)"

lemma test_new_entity_intent_rejects:
  "rejects (new_entity_intent ''gauss'' '''' ''gen-1'' ''c1'' test_rung [] ''t'') \<and>
   rejects (new_entity_intent ''gauss'' ''gpu-001'' ''gen-1'' ''c1'' zero_rung [] ''t'') \<and>
   rejects (new_entity_intent ''gauss'' ''gpu-001'' ''gen-1'' ''c1'' test_rung [test_rung, zero_rung] ''t'') \<and>
   new_entity_intent ''gauss'' ''gpu-001'' ''gen-1'' ''c1'' test_rung [] ''explicit-tok'' =
     Inr \<lparr>i_id = ''gpu-001'', i_generation = ''gen-1'', i_cohort = ''c1'', i_rung = test_rung, i_fallback_chain = [],
          i_token = ''explicit-tok''\<rparr>"
  by code_simp

definition test_member :: "string \<Rightarrow> entity_intent" where
  "test_member i = \<lparr>i_id = i, i_generation = ''g1'', i_cohort = ''c1'', i_rung = test_rung, i_fallback_chain = [],
     i_token = ''tok-'' @ i\<rparr>"

lemma test_new_cohorts:
  "(case new_mpi_cohort ''c'' (map test_member [''a'', ''b'', ''c'', ''d'']) zero_budget of
      Inr c \<Rightarrow> c_min_viable c = 4 \<and> c_budget c = default_budget | _ \<Rightarrow> False) \<and>
   rejects (new_mpi_cohort ''c'' [] zero_budget) \<and>
   (case new_partial_cohort ''c'' (map test_member [''a'', ''b'', ''c'', ''d'', ''e'']) zero_budget 3 (None :: unit option) of
      Inr c \<Rightarrow> c_min_viable c = 3 | _ \<Rightarrow> False) \<and>
   rejects (new_partial_cohort ''c'' [test_member ''n-0''] zero_budget 0 (None :: unit option)) \<and>
   rejects (new_partial_cohort ''c'' [test_member ''n-0''] zero_budget 5 (None :: unit option)) \<and>
   rejects (new_partial_cohort ''c'' [test_member ''n-0''] zero_budget 1 (Some ()))"
  by code_simp

section \<open>\<^verbatim>\<open>internal/cohort/reconcile_test.go\<close>\<close>

definition fast_budget :: phase_budget where
  "fast_budget = \<lparr>b_launch_acked = 2 * second, b_running = 2 * second, b_enrolled = 2 * second,
     b_cohort_barrier = 2 * second, b_cohort_assembly = 2 * second\<rparr>"

definition fake_ports :: "bool \<Rightarrow> ports" where
  "fake_ports asm = \<lparr>port_classify = (\<lambda>e. if e = ErrText ''ICE''
       then mk_fault FaultCapacityExhausted ''InsufficientInstanceCapacity'' ''''
       else mk_fault FaultTerminal ''UnknownError'' (error_text e)),
     port_enroller = True, port_assembler = asm, port_limiter = False\<rparr>"

text \<open>The fakes: a launch is acknowledged, the instance runs at once and is enrolled.\<close>

definition fake_event :: "time \<Rightarrow> string \<Rightarrow> io_event" where
  "fake_event t i =
     (let ob = zero_observation\<lparr>o_id := i, o_provider_id := ''i-'' @ i, o_state := StateRunning\<rparr>
      in \<lparr>ev_at = t, ev_done = t + 1, ev_rand = 0, ev_launch = Inr (ob\<lparr>o_state := StateLaunching\<rparr>),
          ev_observe = Inr [ob], ev_enroll = Inr \<lparr>rd_enrolled = True, rd_operational = True, rd_detail = ''''\<rparr>\<rparr>)"

definition healthy_moves :: "nat \<Rightarrow> string \<Rightarrow> move list" where
  "healthy_moves k i = [MoveStart k 0, MovePass k (fake_event 0 i), MovePass k (fake_event 0 i), MovePass k (fake_event 0 i)]"

definition finish_moves :: "nat list \<Rightarrow> move list" where
  "finish_moves ks = map (\<lambda>k. MoveFinish k 9) ks"

definition test_cohort :: "entity_intent list \<Rightarrow> int \<Rightarrow> bool \<Rightarrow> cohort" where
  "test_cohort ms mv na = \<lparr>c_id = ''c1'', c_members = ms, c_budget = fast_budget, c_min_viable = mv, c_no_assembly = na\<rparr>"

definition test_run :: "bool \<Rightarrow> cohort \<Rightarrow> move list \<Rightarrow> (outcome \<times> (nat \<times> effect) list \<times> effect list) option" where
  "test_run asm c mvs = reconcile (fake_ports asm) c 0 mvs (\<lambda>_. None) (\<lambda>_. None) (\<lambda>_. 9)"

lemma test_reconciler_serial_reaches_ready:
  "case test_run False (test_cohort [test_member ''gpu-001''] 0 False) (healthy_moves 0 ''gpu-001'' @ finish_moves [0]) of
     None \<Rightarrow> False
   | Some (out, calls, after) \<Rightarrow> out_ready out \<and>
       (case out_records out ''gpu-001'' of None \<Rightarrow> False | Some r \<Rightarrow> succeeded r \<and> er_reached_phase r = PhaseReady)"
  by code_simp

definition three_members :: "entity_intent list" where
  "three_members = map test_member [''n-0'', ''n-1'', ''n-2'']"

definition three_healthy :: "move list" where
  "three_healthy = healthy_moves 0 ''n-0'' @ healthy_moves 1 ''n-1'' @ healthy_moves 2 ''n-2'' @ finish_moves [0, 1, 2]"

lemma test_reconciler_collective_all_healthy:
  "case test_run True (test_cohort three_members 3 False) three_healthy of
     None \<Rightarrow> False
   | Some (out, calls, after) \<Rightarrow> out_ready out \<and>
       (case after of [CallAssemble ms] \<Rightarrow> map o_id ms = [''n-0'', ''n-1'', ''n-2''] | _ \<Rightarrow> False)"
  by code_simp

lemma test_reconcile_partial_cohort_assembler_guard:
  "case test_run True (test_cohort three_members 2 True) three_healthy of
     None \<Rightarrow> False
   | Some (out, calls, after) \<Rightarrow> \<not> out_ready out \<and> after = [] \<and>
       list_all (\<lambda>m. case out_records out (i_id m) of None \<Rightarrow> False
                   | Some r \<Rightarrow> map_option f_code (er_terminal r) = Some ''AssemblyDisallowed'') three_members"
  by code_simp

text \<open>Both rungs exhausted on one member: the cohort fails as a unit, and the other is cancelled.\<close>

definition ice_chain :: "rung list" where
  "ice_chain = [test_rung, test_rung\<lparr>r_avail_zone := ''us-east-1b''\<rparr>]"

definition ice_event :: "time \<Rightarrow> io_event" where
  "ice_event t = (fake_event t '''')\<lparr>ev_launch := Inl (ErrText ''ICE'')\<rparr>"

lemma test_reconciler_collective_ice_fast_fails:
  "case test_run True (test_cohort [(test_member ''n-0'')\<lparr>i_fallback_chain := ice_chain\<rparr>, test_member ''n-1''] 2 False)
          ([MoveStart 0 0, MoveStart 1 0, MovePass 1 (fake_event 0 ''n-1''), MovePass 0 (ice_event 1), MovePass 0 (ice_event 2),
            MoveFinish 0 3, MovePass 1 (fake_event 4 ''n-1''), MoveFinish 1 5]) of
     None \<Rightarrow> False
   | Some (out, calls, after) \<Rightarrow> \<not> out_ready out \<and> after = [CallTerminate ''n-1''] \<and>
       (case out_records out ''n-0'' of None \<Rightarrow> False
        | Some r \<Rightarrow> map_option f_code (er_terminal r) = Some ''InsufficientInstanceCapacity'' \<and>
            map a_rung (er_attempts r) = ice_chain) \<and>
       (case out_records out ''n-1'' of None \<Rightarrow> False
        | Some r \<Rightarrow> (case er_cohort_cancelled r of None \<Rightarrow> False
                    | Some info \<Rightarrow> cc_culprit_id info = ''n-0'' \<and> cc_survivor_phase info = PhaseRunning))"
  by code_simp

section \<open>\<^verbatim>\<open>internal/spored/reporter_test.go\<close> and \<^verbatim>\<open>internal/recordstore/store_test.go\<close>\<close>

text \<open>What \<^verbatim>\<open>q0-spored\<close> writes is what the observer reads.\<close>

definition observer_verdict :: "(string \<times> string) list \<Rightarrow> bool" where
  "observer_verdict kv = reports_ready \<lparr>rp_run = (\<lambda>_. answer []), rp_start = (\<lambda>_. answer []), rp_stop = (\<lambda>_. answer ()),
     rp_terminate = (\<lambda>_. answer ()), rp_describe = answer [], rp_tags = answer (map_to_ec2_tags kv)\<rparr>"

lemma test_report_once_tags:
  "observer_verdict (readiness_tags (evaluate (\<lambda>_. None) [MountProbe ''/shared'', SlurmdProbe])) \<and>
   observer_verdict (readiness_tags (evaluate (\<lambda>_. None) [])) \<and>
   \<not> observer_verdict (readiness_tags (evaluate (\<lambda>p. if p = SlurmdProbe then Some (ErrText ''inactive'') else None)
        [MountProbe ''/shared'', SlurmdProbe]))"
  by code_simp

lemma test_file_store_entity_with_slash:
  "record_path ''partition/gpu-042'' = ''partition%2Fgpu-042.json'' \<and> decode_entity (encode_entity ''partition/gpu-042'') = ''partition/gpu-042''"
  by code_simp

end
