(* ===== verification/Spec2Isabelle.thy ===== *)
theory Spec2Isabelle
  imports Cohort_Properties Cohort_Timing Cohort_Protocol Entity_Properties Provider_Properties Rate_Limit
    Slurm_Properties Node_Mounts Q0_Main Resume_Loop Test_Vectors
begin

text \<open>
  Queuezero is a cluster provisioner with a Slurm front end. An operator describes a cluster and its
  partitions in YAML files, \<^verbatim>\<open>q0 apply\<close> generates and applies the static substrate with OpenTofu, and
  Slurm forks \<^verbatim>\<open>q0-resume\<close> and \<^verbatim>\<open>q0-suspend\<close> to launch and tear down nodes. A resume makes a cohort of
  the nodes it is given, asks a budget service whether it may launch them, and drives every node
  through three phases (launch, running, enrolled) against EC2; \<^verbatim>\<open>q0-spored\<close> on the node reports
  readiness by tags; every entity leaves a record that \<^verbatim>\<open>q0 explain\<close> prints, and \<^verbatim>\<open>q0 sweep\<close> reaps what a
  missed teardown has left. This library models the Go code of these parts and proves what it promises.

  The theories follow the packages.

  \<^item> \<open>Q0_Prelude\<close>: Go's strings (byte lists), times and durations (nanoseconds as \<open>int\<close>), the used parts of
    \<^verbatim>\<open>strings\<close>, \<^verbatim>\<open>strconv\<close> and \<^verbatim>\<open>fmt\<close>; \<open>Go_Library\<close>: paths and CIDR addresses; \<open>Sha256\<close>: the digest on 32-bit
    words, its constants computed from the roots of the primes (40 fractional bits are more than the
    32 that are used).
  \<^item> \<open>Cohort_State\<close>, \<open>Cohort_Entity\<close>, \<open>Cohort_Explain\<close> (\<^verbatim>\<open>internal/cohort\<close>): states, faults, errors with their
    chains, entities and their capacity rungs, cohorts with validating constructors, tokens, records.
  \<^item> \<open>Cohort_Tracker\<close>, \<open>Cohort_Loop\<close>: one entity's goroutine. A phase loop is one definition per pass, whose
    argument is the reply of the ports (\<open>io_event\<close>); \<open>Cohort_Loop\<close> has its invariant and its measure.
  \<^item> \<open>Cohort_Reconcile\<close>, \<open>Cohort_Outcome\<close>: the goroutines of \<^verbatim>\<open>Reconcile\<close> as a step relation over the shared
    fast-fail state, in every interleaving, and the classification after \<^verbatim>\<open>Wait\<close>. \<open>Cohort_Timing\<close> adds
    \<^verbatim>\<open>sleep\<close> and the moments at which goroutines wake; \<open>Cohort_Protocol\<close> is the abstract specification,
    seven rules and a verdict with no loops, contexts or clocks.
  \<^item> \<open>Rate_Limit\<close>, \<open>Aws_Client\<close>, \<open>Aws_Actuator\<close> (\<^verbatim>\<open>internal/substrate\<close>): the token bucket, the fault table,
    the retrying EC2 client, the actuator and observer, the S3 writers. \<open>Bootstrap\<close>, \<open>Mpi_Domain\<close>, \<open>Spored\<close>,
    \<open>Node_Mounts\<close>: the shim and the script-set, rank assignment, the on-node reporter, and what the one
    delivers to the other.
  \<^item> \<open>Stores\<close>: the record store and the hold store, over a directory with temporary files.
  \<^item> \<open>Spec_Partitions\<close>, \<open>Spec_Cluster\<close> (\<^verbatim>\<open>internal/spec\<close>): both files after YAML decoding, validation, lookup.
  \<^item> \<open>Slurm_Hostlist\<close>, \<open>Slurm_Bridge\<close>, \<open>Slurm_World\<close> (\<^verbatim>\<open>internal/slurm\<close>): hostlists, resume with admission and
    holds, suspend, sweep, on a state of the world; \<open>Slurm_World\<close> states what the bridge relies on and
    discharges it for the AWS actuator over a cloud of tagged instances.
  \<^item> \<open>Asbb_Client\<close>, \<open>Asbx_Wire\<close>: the budget client, the wiring from the environment, and the two forked
    programs with their exit codes.
  \<^item> \<open>Tofu_Hcl\<close>, \<open>Tofu_Pieces\<close>, \<open>Tofu_Generate\<close>, \<open>Tofu_Run\<close> (\<^verbatim>\<open>internal/tofu\<close>): every generated file as a list of
    pieces that renders to its text, the generation, the state backend and the runs of the binary.
  \<^item> \<open>Preflight\<close> (\<^verbatim>\<open>internal/preflight\<close>): the checks of a run and the quota checker with its caches.
  \<^item> \<open>Q0_Cli\<close>, \<open>Q0_Commands\<close> (\<^verbatim>\<open>cmd/q0\<close>): the commands as functions of flags, environment and replies, with
    the steps they take and the lines they print; \<open>Q0_Main\<close>: the command tree, every command's flags with
    their defaults, and \<^verbatim>\<open>main\<close> with its exit code.
  \<^item> \<open>Closed_Loop\<close>: the cohort core wired to the AWS layer, where the replies of the ports are computed by
    the actuator, the observer and the enroller from what EC2 answers; \<open>Resume_Loop\<close>: the bridge over that
    core, from the hostlist to the marks at slurmctld. EC2, the clock and the interleaving stay open.
  \<^item> \<open>Test_Vectors\<close>: the definitions evaluated on the inputs of the repository's tests.

  What the lemmas show. \<open>Cohort_Properties\<close> and \<open>Entity_Properties\<close>: every run of a cohort gives each entity
  one record, a cohort is ready only if its entities are, an MPI cohort is all or nothing, survivors
  of a failed cohort are drained, launches stay within the approved rungs, and all loops end.
  \<open>Cohort_Protocol\<close>: every run is a run of the protocol, and what \<^verbatim>\<open>Reconcile\<close> reports is the verdict of
  the protocol state it ends in. \<open>Cohort_Timing\<close>: whatever the ports reply, a run takes no more passes
  than a number computed from the phase budgets and the chains, and as long as a goroutine is left there is
  a next pass, so \<^verbatim>\<open>Reconcile\<close> returns. \<open>Provider_Properties\<close>: what the AWS layer makes of errors and what
  reaches the node. \<open>Slurm_Properties\<close>: a refused fleet launches nothing, a hold is charged once over
  the nodes of its fleet, a sweep reaps stale instances only. \<open>Spec_Cluster\<close>: validation accepts exactly
  the clusters of a reference predicate. \<open>Tofu_Properties\<close>: the generated configuration refers only to
  what it declares, declares nothing twice, and exists for every valid cluster. \<open>Preflight\<close>: the verdict
  against a reference predicate, and caches that cannot be observed. \<open>Asbx_Wire\<close>, \<open>Node_Mounts\<close> and
  \<open>Q0_Properties\<close> compose components: from the settings to the gates of a fleet, from an applied layer to
  the mounts of the nodes, from the mounts file to the probes, from the flags to what changes.
  \<open>Closed_Loop_Properties\<close> and \<open>Resume_Loop\<close> close the loop with EC2: a member is launched at most once
  and as declared, against an account that answers it fails only by being late, it is reported ready only
  if a description has shown its tags, and where instances come up in time the cohort becomes ready and
  the resume marks no node. \<open>Q0_Main\<close>: the invocations that change nothing, read off the command line.
  Where the code falls short of its purpose, the theorem says what it does instead.

  Interfaces are locales, interpreted on the code's models: \<open>rate_limiter\<close>, \<open>surfacing_client\<close>,
  \<open>keyed_store\<close> with \<open>record_store\<close> and \<open>hold_store\<close>, \<open>bridge_world\<close>, \<open>state_backend\<close>.

  Conventions and bounds. An error is a value of \<open>go_error\<close>; a result that may fail is a sum, an effect is
  the state returned. What is not under the repository's control is an argument: replies of EC2, S3,
  DynamoDB, the budget service and the binaries, codecs of JSON, YAML, tar and gzip, the clock, random
  draws, and the order in which Go visits a map. Floats of rates and costs are exact rationals. The
  hostlist loop counts in 64 bits and may run forever; it is a partial function and \<open>None\<close> means that it
  does not return. Loops over replies recurse on the retry bounds of the code; an address in IPv6 has
  at most eight groups, which bounds the passes of its parser. No other fuel is used in a definition.

  Not modelled: the parsing and the help text of the command line library, signal registration,
  construction of the AWS SDK clients, the process handling behind \<^verbatim>\<open>exec\<close>, the codecs named above,
  Slurm's and the shell's reading of what is printed for them, and the quota library behind preflight.
\<close>

end
